(* ===== verification/Prelude.thy ===== *)
theory Prelude
  imports Main "HOL-Library.Signed_Division" "HOL-Library.Char_ord" "HOL-Library.List_Lexorder"
begin

text \<open>
  Shared base of the development: Rust's \<open>i64\<close> arithmetic, the string operations of
  its standard library that the program uses, the JSON values the handlers answer with,
  instants of time, list lookups and updates, and the locale of transition systems with
  an invariant.  Nothing here models a file of the program.
\<close>

named_theorems arith64 \<open>facts on wrapped and truncating i64 arithmetic\<close>
named_theorems row_simps \<open>lookups in and updates of lists of rows\<close>
named_theorems eval_defs \<open>definitions unfolded to evaluate the model on concrete data\<close>
named_theorems answer_simps \<open>reading the fields of a JSON answer\<close>


section \<open>Rust's i64: wrap-around (release build) and truncating division\<close>

definition i64_min :: int where "i64_min = - (2 ^ 63)"
definition i64_max :: int where "i64_max = 2 ^ 63 - 1"

definition fits64 :: "int \<Rightarrow> bool" where
  "fits64 x \<longleftrightarrow> i64_min \<le> x \<and> x \<le> i64_max"

definition wrap64 :: "int \<Rightarrow> int" where
  "wrap64 x = (x + 2 ^ 63) mod 2 ^ 64 - 2 ^ 63"

definition add64 :: "int \<Rightarrow> int \<Rightarrow> int" where "add64 a b = wrap64 (a + b)"
definition sub64 :: "int \<Rightarrow> int \<Rightarrow> int" where "sub64 a b = wrap64 (a - b)"
definition mul64 :: "int \<Rightarrow> int \<Rightarrow> int" where "mul64 a b = wrap64 (a * b)"

text \<open>Rust's \<open>/\<close> and \<open>%\<close> round towards zero.\<close>

definition quot :: "int \<Rightarrow> int \<Rightarrow> int" where "quot a b = a sdiv b"
definition rmd :: "int \<Rightarrow> int \<Rightarrow> int" where "rmd a b = a smod b"

lemma fits64_wrap [arith64, simp]: "fits64 (wrap64 x)"
  using pos_mod_bound [of "2 ^ 64" "x + 2 ^ 63"] pos_mod_sign [of "2 ^ 64" "x + 2 ^ 63"]
  by (simp add: fits64_def i64_min_def i64_max_def wrap64_def)

lemma wrap64_id [arith64]: "fits64 x \<Longrightarrow> wrap64 x = x"
  by (simp add: fits64_def i64_min_def i64_max_def wrap64_def)

lemma wrap64_cong: "wrap64 x mod 2 ^ 64 = x mod 2 ^ 64"
  by (simp add: wrap64_def mod_diff_left_eq)

lemma fits64_between [arith64]: "fits64 a \<Longrightarrow> fits64 b \<Longrightarrow> a \<le> x \<Longrightarrow> x \<le> b \<Longrightarrow> fits64 x"
  by (simp add: fits64_def)

lemma fits64_small [arith64]: "0 \<le> x \<Longrightarrow> x < 2 ^ 63 \<Longrightarrow> fits64 x"
  by (simp add: fits64_def i64_min_def i64_max_def)

lemma sub64_nonneg [arith64]: "0 \<le> b \<Longrightarrow> b \<le> a \<Longrightarrow> a < 2 ^ 63 \<Longrightarrow> sub64 a b = a - b"
  by (simp add: sub64_def wrap64_id fits64_small)

lemma add64_nonneg [arith64]: "0 \<le> a \<Longrightarrow> 0 \<le> b \<Longrightarrow> a + b < 2 ^ 63 \<Longrightarrow> add64 a b = a + b"
  by (simp add: add64_def wrap64_id fits64_small)

lemma quot_nonneg [arith64]: "0 \<le> a \<Longrightarrow> 0 < b \<Longrightarrow> quot a b = a div b"
  by (cases "a = 0") (simp_all add: quot_def signed_divide_int_def)

lemma rmd_nonneg [arith64]: "0 \<le> a \<Longrightarrow> 0 < b \<Longrightarrow> rmd a b = a mod b"
  using quot_nonneg [of a b]
  by (cases "a = 0") (simp_all add: rmd_def signed_modulo_int_def quot_def [symmetric] minus_div_mult_eq_mod)


section \<open>Strings of bytes\<close>

text \<open>A Rust string is its UTF-8 bytes; a \<^typ>\<open>char\<close> is one byte.\<close>

definition byte :: "char \<Rightarrow> nat" where "byte c = of_char c"

definition chr :: "nat \<Rightarrow> char" where "chr n = char_of n"

definition digit :: "nat \<Rightarrow> char" where "digit n = chr (48 + n)"

function string_of_nat :: "nat \<Rightarrow> string" where
  "string_of_nat n = (if n < 10 then [digit n] else string_of_nat (n div 10) @ [digit (n mod 10)])"
  by auto
termination by (relation "measure id") auto

declare string_of_nat.simps [simp del]

definition string_of_int :: "int \<Rightarrow> string" where
  "string_of_int i = (if i < 0 then ''-'' @ string_of_nat (nat (- i)) else string_of_nat (nat i))"

text \<open>\<open>str::parse\<close> of a signed integer: an optional sign, then at least one digit.\<close>

fun parse_digits :: "string \<Rightarrow> nat \<Rightarrow> nat option" where
  "parse_digits [] acc = Some acc"
| "parse_digits (c # cs) acc =
    (if 48 \<le> byte c \<and> byte c \<le> 57 then parse_digits cs (10 * acc + (byte c - 48)) else None)"

definition parse_nat :: "string \<Rightarrow> nat option" where
  "parse_nat s = (if s = [] then None else parse_digits s 0)"

definition parse_int :: "string \<Rightarrow> int option" where
  "parse_int s =
     (case s of
        c # cs \<Rightarrow>
          if c = CHR ''-'' then map_option (\<lambda>n. - int n) (parse_nat cs)
          else if c = CHR ''+'' then map_option int (parse_nat cs)
          else map_option int (parse_nat s)
      | [] \<Rightarrow> None)"

definition parse_i64 :: "string \<Rightarrow> int option" where
  "parse_i64 s = (case parse_int s of None \<Rightarrow> None | Some i \<Rightarrow> if fits64 i then Some i else None)"

lemma byte_digit [simp]: "n < 10 \<Longrightarrow> byte (digit n) = 48 + n"
  by (simp add: byte_def digit_def chr_def of_char_of)

lemma parse_digits_append: "parse_digits (xs @ ys) acc =
   (case parse_digits xs acc of None \<Rightarrow> None | Some a \<Rightarrow> parse_digits ys a)"
  by (induction xs arbitrary: acc) auto

lemma parse_digits_string_of_nat:
  "\<exists>k. \<forall>acc. parse_digits (string_of_nat n) acc = Some (k * acc + n)"
proof (induction n rule: string_of_nat.induct)
  case (1 n)
  show ?case
  proof (cases "n < 10")
    case True
    then show ?thesis by (intro exI [of _ 10]) (simp add: string_of_nat.simps)
  next
    case False
    with 1 obtain k where k: "\<And>acc. parse_digits (string_of_nat (n div 10)) acc = Some (k * acc + n div 10)"
      by auto
    show ?thesis
    proof (intro exI [of _ "10 * k"] allI)
      fix acc
      have "string_of_nat n = string_of_nat (n div 10) @ [digit (n mod 10)]"
        using False by (subst string_of_nat.simps) simp
      then show "parse_digits (string_of_nat n) acc = Some (10 * k * acc + n)"
        by (simp add: parse_digits_append k add_mult_distrib2)
    qed
  qed
qed

lemma string_of_nat_digits: "c \<in> set (string_of_nat n) \<Longrightarrow> 48 \<le> byte c \<and> byte c \<le> 57"
proof (induction n rule: string_of_nat.induct)
  case (1 n)
  show ?case
  proof (cases "n < 10")
    case True
    with 1 show ?thesis by (auto simp: string_of_nat.simps [of n])
  next
    case False
    then have "string_of_nat n = string_of_nat (n div 10) @ [digit (n mod 10)]"
      by (subst string_of_nat.simps) simp
    with 1 False show ?thesis by auto
  qed
qed

lemma string_of_nat_neq_Nil [simp]: "string_of_nat n \<noteq> []"
  by (subst string_of_nat.simps) simp

lemma parse_nat_string_of_nat [simp]: "parse_nat (string_of_nat n) = Some n"
  using parse_digits_string_of_nat [of n] by (auto simp: parse_nat_def)

lemma parse_int_string_of_int [simp]: "parse_int (string_of_int i) = Some i"
proof (cases "i < 0")
  case True
  then show ?thesis by (simp add: string_of_int_def parse_int_def)
next
  case False
  obtain c cs where s: "string_of_nat (nat i) = c # cs" by (cases "string_of_nat (nat i)") auto
  then have "48 \<le> byte c \<and> byte c \<le> 57" using string_of_nat_digits [of c "nat i"] by simp
  then have "c \<noteq> CHR ''-''" "c \<noteq> CHR ''+''" by (auto simp: byte_def)
  with False s parse_nat_string_of_nat [of "nat i"] show ?thesis
    by (simp add: string_of_int_def parse_int_def)
qed

text \<open>\<open>{:02}\<close> of an unsigned number.\<close>

definition pad2 :: "nat \<Rightarrow> string" where
  "pad2 n = (if n < 10 then ''0'' @ string_of_nat n else string_of_nat n)"

text \<open>
  \<open>str::trim\<close> strips the code points of Unicode's \<open>White_Space\<close>.  \<open>ws_front\<close> is the number
  of bytes of a white-space code point at the front of the bytes, 0 when there is none;
  \<open>ws_back\<close> the same at the end, on the reversed bytes.
\<close>

fun ws_front :: "nat list \<Rightarrow> nat" where
  "ws_front [] = 0"
| "ws_front (a # bs) =
    (if (9 \<le> a \<and> a \<le> 13) \<or> a = 32 then 1
     else (case bs of
       [] \<Rightarrow> 0
     | b # cs \<Rightarrow>
         if a = 194 \<and> (b = 133 \<or> b = 160) then 2
         else (case cs of
           [] \<Rightarrow> 0
         | c # _ \<Rightarrow>
             if (a = 225 \<and> b = 154 \<and> c = 128)
              \<or> (a = 226 \<and> b = 128 \<and> ((128 \<le> c \<and> c \<le> 138) \<or> c = 168 \<or> c = 169 \<or> c = 175))
              \<or> (a = 226 \<and> b = 129 \<and> c = 159)
              \<or> (a = 227 \<and> b = 128 \<and> c = 128) then 3 else 0)))"

fun ws_back :: "nat list \<Rightarrow> nat" where
  "ws_back [] = 0"
| "ws_back (c # bs) =
    (if (9 \<le> c \<and> c \<le> 13) \<or> c = 32 then 1
     else (case bs of
       [] \<Rightarrow> 0
     | b # as \<Rightarrow>
         if b = 194 \<and> (c = 133 \<or> c = 160) then 2
         else (case as of
           [] \<Rightarrow> 0
         | a # _ \<Rightarrow> if ws_front [a, b, c] = 3 then 3 else 0)))"

function trim_start :: "string \<Rightarrow> string" where
  "trim_start s = (let n = ws_front (map byte s) in if n = 0 then s else trim_start (drop n s))"
  by auto
termination
proof (relation "measure length", simp)
  fix s :: string and n
  assume "n = ws_front (map byte s)" "n \<noteq> 0"
  then show "(drop n s, s) \<in> measure length" by (cases s) auto
qed

function trim_rev :: "string \<Rightarrow> string" where
  "trim_rev s = (let n = ws_back (map byte s) in if n = 0 then s else trim_rev (drop n s))"
  by auto
termination
proof (relation "measure length", simp)
  fix s :: string and n
  assume "n = ws_back (map byte s)" "n \<noteq> 0"
  then show "(drop n s, s) \<in> measure length" by (cases s) auto
qed

declare trim_start.simps [simp del] trim_rev.simps [simp del]

definition trim :: "string \<Rightarrow> string" where
  "trim s = rev (trim_rev (rev (trim_start s)))"

text \<open>Whether a text has white space anywhere.\<close>

definition has_space :: "string \<Rightarrow> bool" where
  "has_space s \<longleftrightarrow> (\<exists>i\<in>set [0..<length s]. ws_front (map byte (drop i s)) \<noteq> 0)"

definition ascii_lower_char :: "char \<Rightarrow> char" where
  "ascii_lower_char c = (if 65 \<le> byte c \<and> byte c \<le> 90 then chr (byte c + 32) else c)"

definition ascii_lower :: "string \<Rightarrow> string" where
  "ascii_lower s = map ascii_lower_char s"

fun strip_prefix :: "string \<Rightarrow> string \<Rightarrow> string option" where
  "strip_prefix [] s = Some s"
| "strip_prefix (p # ps) (c # cs) = (if p = c then strip_prefix ps cs else None)"
| "strip_prefix (p # ps) [] = None"

definition starts_with :: "string \<Rightarrow> string \<Rightarrow> bool" where
  "starts_with p s \<longleftrightarrow> strip_prefix p s \<noteq> None"

fun split_once :: "char \<Rightarrow> string \<Rightarrow> (string \<times> string) option" where
  "split_once d [] = None"
| "split_once d (c # cs) =
    (if c = d then Some ([], cs)
     else case split_once d cs of None \<Rightarrow> None | Some (a, b) \<Rightarrow> Some (c # a, b))"

fun join :: "string \<Rightarrow> string list \<Rightarrow> string" where
  "join sep [] = []"
| "join sep [x] = x"
| "join sep (x # y # zs) = x @ sep @ join sep (y # zs)"

text \<open>\<open>split_whitespace\<close>: the words between white space.\<close>

fun word_length :: "string \<Rightarrow> nat" where
  "word_length [] = 0"
| "word_length (c # cs) = (if ws_front (map byte (c # cs)) \<noteq> 0 then 0 else Suc (word_length cs))"

lemma trim_start_length: "length (trim_start s) \<le> length s"
proof (induction s rule: trim_start.induct)
  case (1 s)
  then show ?case
    by (subst trim_start.simps) (auto simp: Let_def dest: order_trans)
qed

text \<open>After \<open>trim_start\<close> a word has at least one byte.\<close>

function words :: "string \<Rightarrow> string list" where
  "words s = (let t = trim_start s; n = max 1 (word_length t) in
     if t = [] then [] else take n t # words (drop n t))"
  by auto
termination
proof (relation "measure length", simp)
  fix s t :: string and n :: nat
  assume "t = trim_start s" "n = max 1 (word_length t)" "t \<noteq> []"
  then have "1 \<le> n" "0 < length t" "length t \<le> length s" using trim_start_length [of s] by auto
  then have "length t - n < length s" by linarith
  then show "(drop n t, s) \<in> measure length" by simp
qed

declare words.simps [simp del]

text \<open>\<open>String::from_utf8\<close> accepts exactly these bytes (RFC 3629).\<close>

definition cont_byte :: "nat \<Rightarrow> bool" where "cont_byte b \<longleftrightarrow> 128 \<le> b \<and> b \<le> 191"

fun utf8_bytes :: "nat list \<Rightarrow> bool" where
  "utf8_bytes [] = True"
| "utf8_bytes (a # bs) =
    (if a \<le> 127 then utf8_bytes bs
     else (case bs of
       [] \<Rightarrow> False
     | b # cs \<Rightarrow>
         if 194 \<le> a \<and> a \<le> 223 then cont_byte b \<and> utf8_bytes cs
         else (case cs of
           [] \<Rightarrow> False
         | c # ds \<Rightarrow>
             if 224 \<le> a \<and> a \<le> 239
             then cont_byte b \<and> cont_byte c \<and> (a = 224 \<longrightarrow> 160 \<le> b) \<and> (a = 237 \<longrightarrow> b \<le> 159)
                  \<and> utf8_bytes ds
             else (case ds of
               [] \<Rightarrow> False
             | d # es \<Rightarrow>
                 240 \<le> a \<and> a \<le> 244 \<and> cont_byte b \<and> cont_byte c \<and> cont_byte d
                 \<and> (a = 240 \<longrightarrow> 144 \<le> b) \<and> (a = 244 \<longrightarrow> b \<le> 143) \<and> utf8_bytes es))))"

definition valid_utf8 :: "string \<Rightarrow> bool" where
  "valid_utf8 s \<longleftrightarrow> utf8_bytes (map byte s)"

lemma split_once_append: "d \<notin> set a \<Longrightarrow> split_once d (a @ d # b) = Some (a, b)"
  by (induction a) auto

lemma split_once_Some: "split_once d s = Some (a, b) \<Longrightarrow> s = a @ d # b \<and> d \<notin> set a"
  by (induction s arbitrary: a b) (auto split: if_splits option.splits)

lemma strip_prefix_Some: "strip_prefix p s = Some r \<longleftrightarrow> s = p @ r"
  by (induction p s rule: strip_prefix.induct) auto

lemma strip_prefix_append [simp]: "strip_prefix p (p @ r) = Some r"
  by (simp add: strip_prefix_Some)

lemma utf8_ascii: "(\<And>b. b \<in> set bs \<Longrightarrow> b \<le> 127) \<Longrightarrow> utf8_bytes bs"
  by (induction bs) auto

lemma ascii_lower_length [simp]: "length (ascii_lower s) = length s"
  by (simp add: ascii_lower_def)


text \<open>\<open>trim_end_matches\<close> of a slash.\<close>

definition trim_end_slashes :: "string \<Rightarrow> string" where
  "trim_end_slashes s = rev (dropWhile (\<lambda>c. c = CHR ''/'') (rev s))"

section \<open>JSON answers\<close>

datatype json = JNull | JBool bool | JNum int | JStr string | JArr "json list"
  | JObj "(string \<times> json) list"

fun jget :: "string \<Rightarrow> json \<Rightarrow> json option" where
  "jget k (JObj fs) = map_of fs k"
| "jget k _ = None"

definition jerr :: "string \<Rightarrow> json" where
  "jerr msg = JObj [(''ok'', JBool False), (''error'', JStr msg)]"

definition jok :: "(string \<times> json) list \<Rightarrow> json" where
  "jok fs = JObj ((''ok'', JBool True) # fs)"

definition answer_ok :: "json \<Rightarrow> bool" where
  "answer_ok j \<longleftrightarrow> jget ''ok'' j = Some (JBool True)"

fun jopt :: "string option \<Rightarrow> json" where
  "jopt None = JNull"
| "jopt (Some s) = JStr s"

lemma answer_ok_jok [answer_simps, simp]: "answer_ok (jok fs)"
  by (simp add: answer_ok_def jok_def)

lemma jget_jok [answer_simps]:
  "jget k (jok fs) = (if k = ''ok'' then Some (JBool True) else map_of fs k)"
  by (simp add: jok_def)

lemma answer_ok_jerr [answer_simps, simp]: "\<not> answer_ok (jerr msg)"
  by (simp add: answer_ok_def jerr_def)

lemma jok_neq_jerr [answer_simps, simp]: "jok fs \<noteq> jerr msg" "jerr msg \<noteq> jok fs"
  by (auto simp: jok_def jerr_def)

lemma jerr_inject [answer_simps, simp]: "jerr a = jerr b \<longleftrightarrow> a = b"
  by (simp add: jerr_def)


section \<open>Instants\<close>

text \<open>\<open>DateTime<Utc>\<close>: nanoseconds since the epoch, ordered by time.\<close>

datatype instant = Instant (nanos: int)

instantiation instant :: linorder
begin

definition less_eq_instant :: "instant \<Rightarrow> instant \<Rightarrow> bool" where
  "less_eq_instant a b \<longleftrightarrow> nanos a \<le> nanos b"

definition less_instant :: "instant \<Rightarrow> instant \<Rightarrow> bool" where
  "less_instant a b \<longleftrightarrow> nanos a < nanos b"

instance
  by standard (auto simp: less_eq_instant_def less_instant_def instant.expand)

end

definition plus_secs :: "instant \<Rightarrow> int \<Rightarrow> instant" where
  "plus_secs t s = Instant (nanos t + s * 1000000000)"

lemma Instant_le [simp]: "Instant a \<le> Instant b \<longleftrightarrow> a \<le> b"
  by (simp add: less_eq_instant_def)

lemma Instant_less [simp]: "Instant a < Instant b \<longleftrightarrow> a < b"
  by (simp add: less_instant_def)

lemma plus_secs_less [simp]: "plus_secs t s < t \<longleftrightarrow> s < 0"
  by (cases t) (simp add: plus_secs_def)


text \<open>Whole seconds since the epoch, rounded down.\<close>

definition unix_secs :: "instant \<Rightarrow> int" where
  "unix_secs t = nanos t div 1000000000"

section \<open>Rows: the first match, update where\<close>

definition upd_where :: "('r \<Rightarrow> bool) \<Rightarrow> ('r \<Rightarrow> 'r) \<Rightarrow> 'r list \<Rightarrow> 'r list" where
  "upd_where P f rows = map (\<lambda>r. if P r then f r else r) rows"

definition count_where :: "('r \<Rightarrow> bool) \<Rightarrow> 'r list \<Rightarrow> int" where
  "count_where P rows = int (length (filter P rows))"

lemma find_in: "find P xs = Some x \<Longrightarrow> x \<in> set xs \<and> P x"
  by (induction xs) (auto split: if_splits)

lemma find_None_set: "find P xs = None \<longleftrightarrow> (\<forall>x\<in>set xs. \<not> P x)"
  by (induction xs) auto

lemma find_unique:
  "distinct (map k xs) \<Longrightarrow> x \<in> set xs \<Longrightarrow> find (\<lambda>y. k y = k x) xs = Some x"
  by (induction xs) force+

lemma find_append [row_simps]:
  "find P (xs @ ys) = (case find P xs of None \<Rightarrow> find P ys | Some x \<Rightarrow> Some x)"
  by (induction xs) auto

lemma find_upd_where [row_simps]:
  "(\<And>r. P r \<Longrightarrow> Q (f r) = Q r) \<Longrightarrow>
   find Q (upd_where P f rows) = map_option (\<lambda>r. if P r then f r else r) (find Q rows)"
  by (induction rows) (auto simp: upd_where_def)

lemma map_upd_where [row_simps]:
  "(\<And>r. P r \<Longrightarrow> g (f r) = g r) \<Longrightarrow> map g (upd_where P f rows) = map g rows"
  by (auto simp: upd_where_def)

lemma set_upd_where: "set (upd_where P f rows) = (\<lambda>r. if P r then f r else r) ` set rows"
  by (simp add: upd_where_def)

lemma upd_where_Nil [row_simps, simp]: "upd_where P f [] = []"
  by (simp add: upd_where_def)

lemma upd_where_Cons [row_simps]:
  "upd_where P f (r # rows) = (if P r then f r else r) # upd_where P f rows"
  by (simp add: upd_where_def)

lemma upd_where_append [row_simps]:
  "upd_where P f (xs @ ys) = upd_where P f xs @ upd_where P f ys"
  by (simp add: upd_where_def)

lemma length_upd_where [row_simps, simp]: "length (upd_where P f rows) = length rows"
  by (simp add: upd_where_def)

lemma upd_where_none: "(\<And>r. r \<in> set rows \<Longrightarrow> \<not> P r) \<Longrightarrow> upd_where P f rows = rows"
  by (induction rows) (auto simp: upd_where_Cons)

lemma count_where_pos: "0 < count_where P rows \<longleftrightarrow> (\<exists>r\<in>set rows. P r)"
  by (simp add: count_where_def filter_empty_conv)

lemma count_where_zero: "count_where P rows = 0 \<longleftrightarrow> (\<forall>r\<in>set rows. \<not> P r)"
  by (simp add: count_where_def filter_empty_conv)

lemma count_where_nonneg [simp]: "0 \<le> count_where P rows"
  by (simp add: count_where_def)

text \<open>
  \<open>ORDER BY c\<close> on a text column is bytewise here (the \<open>C\<close> collation); rows with equal keys,
  whose order SQL leaves open, keep theirs.
\<close>

definition order_by :: "('r \<Rightarrow> 'k::linorder) \<Rightarrow> 'r list \<Rightarrow> 'r list" where
  "order_by k rows = sort_key k rows"

definition order_by_desc :: "('r \<Rightarrow> 'k::linorder) \<Rightarrow> 'r list \<Rightarrow> 'r list" where
  "order_by_desc k rows = rev (sort_key k (rev rows))"

lemma set_order_by [simp]: "set (order_by k rows) = set rows" "set (order_by_desc k rows) = set rows"
  by (simp_all add: order_by_def order_by_desc_def)

lemma sorted_order_by_desc: "sorted (rev (map k (order_by_desc k rows)))"
  by (simp add: order_by_desc_def rev_map)

text \<open>The sum of a column after one row, found by its key, has changed.\<close>

lemma sum_upd_key:
  fixes v :: "'r \<Rightarrow> int"
  assumes "distinct (map k rows)" "find (\<lambda>r. k r = x) rows = Some r0"
  shows "(\<Sum>r\<leftarrow>upd_where (\<lambda>r. k r = x) f rows. v r) = (\<Sum>r\<leftarrow>rows. v r) - v r0 + v (f r0)"
  using assms
proof (induction rows)
  case (Cons a rows)
  show ?case
  proof (cases "k a = x")
    case True
    with Cons.prems(1) have "upd_where (\<lambda>r. k r = x) f rows = rows"
      by (intro upd_where_none) (auto simp: image_iff)
    with True Cons.prems show ?thesis by (simp add: upd_where_Cons)
  next
    case False
    with Cons show ?thesis by (simp add: upd_where_Cons)
  qed
qed simp


text \<open>The rows of a table from which none is deleted, with their serial keys.\<close>

definition numbered :: "'r list \<Rightarrow> (int \<times> 'r) list" where
  "numbered rows = zip (map int [1..<Suc (length rows)]) rows"

section \<open>Transition systems with an invariant\<close>

inductive reach :: "('s \<Rightarrow> bool) \<Rightarrow> ('s \<Rightarrow> 's \<Rightarrow> bool) \<Rightarrow> 's \<Rightarrow> bool"
  for init and step where
  reach_init: "init s \<Longrightarrow> reach init step s"
| reach_step: "reach init step s \<Longrightarrow> step s s' \<Longrightarrow> reach init step s'"

locale inv_system =
  fixes init :: "'s \<Rightarrow> bool"
    and step :: "'s \<Rightarrow> 's \<Rightarrow> bool"
    and inv :: "'s \<Rightarrow> bool"
  assumes init_inv: "init s \<Longrightarrow> inv s"
    and step_inv: "inv s \<Longrightarrow> step s s' \<Longrightarrow> inv s'"
begin

lemma reach_inv: "reach init step s \<Longrightarrow> inv s"
  by (induction rule: reach.induct) (auto intro: init_inv step_inv)

lemma reach_preserved:
  assumes "reach init step s" "step s s'" shows "inv s \<and> inv s'"
  using assms reach_inv step_inv by blast

end

end
