(* ===== verification/FedTables.thy ===== *)
theory FedTables
  imports Prelude
begin

text \<open>
  The tables of the federation subsystem (\<open>src/migrations/040_federation_index_only.sql\<close>,
  \<open>src/sql/041_federation_revenue.sql\<close>): one record per table with the columns the program reads, and \<open>fed_db\<close>, the lists of their rows.
\<close>

record fed_instance =
  fi_domain :: string
  fi_shared_inbox :: "string option"

record fed_actor =
  fa_id :: string
  fa_user :: "string option"
  fa_uri :: string
  fa_username :: string
  fa_domain :: string
  fa_inbox :: string
  fa_shared_inbox :: "string option"
  fa_key_id :: "string option"
  fa_key_pem :: "string option"
  fa_key_encrypted :: "string option"
  fa_local :: bool
  fa_fetched :: "instant option"

record fed_follow =
  ff_id :: string
  ff_follower :: string
  ff_following :: string
  ff_uri :: string
  ff_status :: string
  ff_created :: instant

record fed_activity =
  fx_id :: string
  fx_uri :: string
  fx_type :: string
  fx_actor :: string
  fx_object :: "string option"
  fx_direction :: string
  fx_payload :: json
  fx_status :: string
  fx_error :: "string option"
  fx_received :: "instant option"
  fx_processed :: "instant option"
  fx_created :: instant

record delivery_job =
  dj_id :: string
  dj_activity :: string
  dj_inbox :: string
  dj_attempts :: int
  dj_max :: int
  dj_next :: instant
  dj_status :: string
  dj_http :: "int option"
  dj_error :: "string option"
  dj_delivered :: "instant option"

text \<open>\<open>price_amount\<close> is bound from an \<open>f64\<close> and never read back: it is kept as the text it came from.\<close>

record remote_video =
  rv_id :: string
  rv_uri :: string
  rv_actor :: string
  rv_domain :: string
  rv_title :: string
  rv_description :: "string option"
  rv_thumbnail :: "string option"
  rv_canonical :: string
  rv_checkout :: "string option"
  rv_price :: "string option"
  rv_currency :: "string option"
  rv_rating :: "string option"
  rv_availability :: string
  rv_published :: "instant option"
  rv_raw :: json
  rv_deleted :: bool
  rv_updated :: instant

record domain_rule =
  dr_domain :: string
  dr_action :: string
  dr_reason :: "string option"
  dr_created_by :: "string option"
  dr_created :: instant

record fed_referral =
  rf_id :: string
  rf_domain :: string
  rf_payload :: string
  rf_nonce :: "string option"
  rf_verified :: bool

record share_policy =
  sp_domain :: string
  sp_bp :: int
  sp_active :: bool
  sp_created_by :: "string option"
  sp_created :: instant

record revenue_share =
  rs_id :: string
  rs_invoice :: string
  rs_type :: string
  rs_referral :: "string option"
  rs_domain :: "string option"
  rs_gross :: int
  rs_bp :: int
  rs_cents :: int
  rs_status :: string

record revenue_entry =
  re_id :: string
  re_share :: string
  re_type :: string
  re_amount :: int
  re_description :: "string option"

record fed_db =
  instances :: "fed_instance list"
  actors :: "fed_actor list"
  follows :: "fed_follow list"
  activities :: "fed_activity list"
  deliveries :: "delivery_job list"
  remote_videos :: "remote_video list"
  domain_rules :: "domain_rule list"
  referrals :: "fed_referral list"
  policies :: "share_policy list"
  shares :: "revenue_share list"
  entries :: "revenue_entry list"

definition empty_fed :: fed_db where
  "empty_fed = \<lparr> instances = [], actors = [], follows = [], activities = [], deliveries = [], remote_videos = [],
     domain_rules = [], referrals = [], policies = [], shares = [], entries = [] \<rparr>"

end
