(* ===== verification/MediaTables.thy ===== *)
theory MediaTables
  imports Prelude
begin

text \<open>
  The tables of the chat (\<open>src/sql/20260616_create_chat.sql\<close>), of playback
  (\<open>src/sql/20260615_create_playback_sessions.sql\<close>), of password resets, of the mail settings and of
  the storage settings and migrations (\<open>src/migrations/027\<close>, \<open>031\<close> to \<open>034\<close>), with the columns the statements use.
\<close>

record conversation =
  cv_id :: string
  cv_type :: string
  cv_user_a :: "string option"
  cv_user_b :: "string option"
  cv_support :: "string option"
  cv_created_by :: "string option"
  cv_created :: string
  cv_updated :: string
  cv_last :: string

record chat_message =
  cm_id :: string
  cm_conversation :: string
  cm_sender :: string
  cm_body :: string
  cm_created :: string

record playback =
  pb_id :: string
  pb_user :: string
  pb_video :: string
  pb_dir :: string
  pb_status :: string
  pb_error :: "string option"
  pb_expires :: instant

record reset_row =
  pr_user :: string
  pr_token :: string
  pr_expires :: string
  pr_used :: int
  pr_created :: string

record smtp_row =
  sm_host :: string
  sm_port :: int
  sm_username :: string
  sm_password :: string
  sm_from_email :: string
  sm_from_name :: string
  sm_use_tls :: bool
  sm_enabled :: bool

record storage_row =
  so_backend :: string
  so_bucket :: string
  so_region :: string
  so_access :: string
  so_secret :: string
  so_endpoint :: string
  so_public_url :: string
  so_path_style :: bool

record mig_job =
  mj_id :: string
  mj_status :: string
  mj_backend :: string
  mj_bucket :: string
  mj_endpoint :: string
  mj_uploads :: bool
  mj_media :: bool
  mj_total :: int
  mj_copied :: int
  mj_failed :: int
  mj_retries :: int
  mj_skipped :: int
  mj_error :: "string option"
  mj_started_by :: "string option"
  mj_resumed :: "string option"
  mj_created :: instant
  mj_started :: "instant option"
  mj_completed :: "instant option"

record mig_item =
  mi_id :: string
  mi_job :: string
  mi_scope :: string
  mi_source :: string
  mi_key :: string
  mi_status :: string
  mi_retries :: int
  mi_error :: "string option"
  mi_created :: instant

record media_db =
  conversations :: "conversation list"
  messages :: "chat_message list"
  playbacks :: "playback list"
  resets :: "reset_row list"
  smtp :: "smtp_row option"
  storage :: "storage_row option"
  mig_jobs :: "mig_job list"
  mig_items :: "mig_item list"

definition empty_media :: media_db where
  "empty_media = \<lparr> conversations = [], messages = [], playbacks = [], resets = [], smtp = None, storage = None,
     mig_jobs = [], mig_items = [] \<rparr>"

end
