(* ===== verification/Config.thy ===== *)
theory Config
  imports Prelude
begin

text \<open>
  \<open>src/src/config.rs\<close>: the configuration read from the environment.  \<open>env\<close> is the environment,
  \<open>tmp\<close> the directory the operating system offers for temporary files, \<open>root\<close> the crate's
  directory, and \<open>parse_f64\<close> Rust's parser of a float, whose value is kept as canonical text.
\<close>

record config =
  database_url :: string
  bind_addr :: string
  base_url :: string
  trust_proxy_headers :: bool
  upload_dir :: string
  media_dir :: string
  tmp_dir :: string
  public_dir :: string
  storage_dir :: string
  hls_root :: string
  hls_segment_seconds :: int
  watermark_font :: string
  session_token_ttl :: int
  hmac_secret :: string
  hwaccel :: string
  max_upload_bytes :: int
  allow_exts :: "string list"
  dollar_usd_to_rupiah :: string
  x402_contract :: string
  x402_admin_wallet :: string
  x402_rpc_wss :: string
  x402_chain_id :: int
  x402_deadline_secs :: int
  creator_split_bp :: int

text \<open>\<open>str::parse\<close> of an unsigned integer below \<open>2 ^ w\<close>: an optional plus, then digits.\<close>

definition parse_uint :: "nat \<Rightarrow> string \<Rightarrow> int option" where
  "parse_uint w s =
     (case (case s of c # cs \<Rightarrow> if c = CHR ''+'' then parse_nat cs else parse_nat s | [] \<Rightarrow> None) of
        Some n \<Rightarrow> if n < 2 ^ w then Some (int n) else None
      | None \<Rightarrow> None)"

fun split_on :: "char \<Rightarrow> string \<Rightarrow> string list" where
  "split_on d [] = [[]]"
| "split_on d (c # cs) =
    (if c = d then [] # split_on d cs
     else (case split_on d cs of w # ws \<Rightarrow> (c # w) # ws | [] \<Rightarrow> [[c]]))"

definition trim_matches :: "(char \<Rightarrow> bool) \<Rightarrow> string \<Rightarrow> string" where
  "trim_matches p s = rev (dropWhile p (rev (dropWhile p s)))"

definition parse_csv_list :: "string \<Rightarrow> string list" where
  "parse_csv_list s = filter (\<lambda>x. x \<noteq> [])
     (map (\<lambda>x. ascii_lower (trim_matches (\<lambda>c. c \<in> set '' .;'') (trim x))) (split_on (CHR '','') s))"

definition default_tmp :: "bool \<Rightarrow> bool \<Rightarrow> string \<Rightarrow> string" where
  "default_tmp linux shm_parent os_tmp =
     (if linux \<and> shm_parent then ''/dev/shm/ppv_tmp'' else os_tmp @ ''/ppv_tmp'')"

text \<open>Without \<open>DATABASE_URL\<close> or \<open>HMAC_SECRET\<close> the program stops: \<open>None\<close>.\<close>

definition from_env ::
  "(string \<Rightarrow> string option) \<Rightarrow> string \<Rightarrow> string \<Rightarrow> (string \<Rightarrow> string option) \<Rightarrow> config option" where
  "from_env env tmp root parse_f64 =
     (let get = (\<lambda>k dflt. case env k of Some v \<Rightarrow> v | None \<Rightarrow> dflt);
          num = (\<lambda>k w dflt. case Option.bind (env k) (parse_uint w) of Some n \<Rightarrow> n | None \<Rightarrow> dflt);
          storage = get ''STORAGE_DIR'' ''storage''
      in case (env ''DATABASE_URL'', env ''HMAC_SECRET'') of
           (Some url, Some secret) \<Rightarrow> Some \<lparr>
             database_url = url,
             bind_addr = get ''BIND'' ''0.0.0.0:8080'',
             base_url = get ''BASE_URL'' ''http://localhost:8080'',
             trust_proxy_headers = (case env ''TRUST_PROXY_HEADERS'' of
                 Some v \<Rightarrow> ascii_lower (trim v) \<in> {''1'', ''true'', ''yes''} | None \<Rightarrow> False),
             upload_dir = get ''UPLOAD_DIR'' storage,
             media_dir = get ''MEDIA_DIR'' ''media'',
             tmp_dir = get ''TMP_DIR'' tmp,
             public_dir = get ''PUBLIC_DIR'' (root @ ''/public''),
             storage_dir = storage,
             hls_root = get ''HLS_ROOT'' ''hls_tmp'',
             hls_segment_seconds = num ''HLS_SEGMENT_SECONDS'' 32 2,
             watermark_font = get ''WATERMARK_FONT'' ''/usr/share/fonts/truetype/dejavu/DejaVuSans.ttf'',
             session_token_ttl = num ''SESSION_TOKEN_TTL'' 64 3600,
             hmac_secret = secret,
             hwaccel = get ''HWACCEL'' ''none'',
             max_upload_bytes = num ''MAX_UPLOAD_BYTES'' 64 (1024 * 1024 * 1024),
             allow_exts = parse_csv_list (get ''ALLOW_EXTS'' ''mp4,mkv,mov,webm''),
             dollar_usd_to_rupiah = (case Option.bind (env ''DOLLAR_USD_TO_RUPIAH'') parse_f64 of
                 Some x \<Rightarrow> x | None \<Rightarrow> ''17000''),
             x402_contract = get ''X402_CONTRACT_ADDRESS'' [],
             x402_admin_wallet = get ''X402_ADMIN_WALLET'' [],
             x402_rpc_wss = get ''X402_RPC_WSS'' [],
             x402_chain_id = num ''X402_CHAIN_ID'' 64 0,
             x402_deadline_secs = num ''X402_DEADLINE_SECS'' 64 900,
             creator_split_bp = min (num ''CREATOR_SPLIT_BP'' 16 9000) 10000 \<rparr>
         | _ \<Rightarrow> None)"

text \<open>The directories that \<open>ensure_dirs\<close> creates, in order.\<close>

definition config_dirs :: "config \<Rightarrow> string list" where
  "config_dirs c = [upload_dir c, media_dir c, tmp_dir c, public_dir c, hls_root c]"

text \<open>\<open>PathBuf::push\<close>: an absolute path replaces the base.\<close>

definition path_push :: "string \<Rightarrow> string \<Rightarrow> string" where
  "path_push p q =
     (if starts_with ''/'' q then q
      else if p = [] then q
      else if last p = CHR ''/'' then p @ q else p @ ''/'' @ q)"

definition video_hls_dir :: "config \<Rightarrow> string \<Rightarrow> string" where
  "video_hls_dir c video_id = path_push (media_dir c) video_id"

fun find_str :: "string \<Rightarrow> string \<Rightarrow> (string \<times> string) option" where
  "find_str p [] = (if p = [] then Some ([], []) else None)"
| "find_str p (c # cs) =
    (if starts_with p (c # cs) then Some ([], c # cs)
     else case find_str p cs of None \<Rightarrow> None | Some (a, b) \<Rightarrow> Some (c # a, b))"

definition redacted :: "string \<Rightarrow> string" where
  "redacted s =
     (case find_str ''://'' s of
        None \<Rightarrow> s
      | Some (pre, post) \<Rightarrow>
          let scheme = pre @ ''://''; rest = drop 3 post in
          case split_once (CHR ''@'') rest of
            None \<Rightarrow> s
          | Some (cred, host) \<Rightarrow>
              (case split_once (CHR '':'') cred of
                 None \<Rightarrow> s
               | Some (user, _) \<Rightarrow> scheme @ user @ '':***'' @ ''@'' @ host))"


section \<open>Facts\<close>

lemma parse_uint_bounds: "parse_uint w s = Some n \<Longrightarrow> 0 \<le> n \<and> n < 2 ^ w"
  by (auto simp: parse_uint_def split: option.splits if_splits)

lemma from_env_split_bp:
  assumes "from_env env tmp root pf = Some c"
  shows "creator_split_bp c = min (case Option.bind (env ''CREATOR_SPLIT_BP'') (parse_uint 16) of
      Some n \<Rightarrow> n | None \<Rightarrow> 9000) 10000"
  using assms unfolding from_env_def Let_def
  by (cases "env ''DATABASE_URL''"; cases "env ''HMAC_SECRET''") auto

lemma from_env_split:
  assumes "from_env env tmp root pf = Some c"
  shows "0 \<le> creator_split_bp c" "creator_split_bp c \<le> 10000"
  unfolding from_env_split_bp [OF assms]
  by (cases "env ''CREATOR_SPLIT_BP''"; auto dest: parse_uint_bounds split: option.splits)+

lemma find_str_first: "find_str p s = Some (a, b) \<Longrightarrow> s = a @ b \<and> starts_with p b"
  by (induction s arbitrary: a) (auto simp: starts_with_def split: if_splits option.splits)

end
