(* ===== verification/Database.thy ===== *)
theory Database
  imports FedTables MediaTables Config
begin

text \<open>
  The PostgreSQL database as the program's SQL uses it.  The rows are the columns the
  statements read or write, a table is the list of its rows in insertion order, and \<open>db\<close>
  is all of them.  The constraints of the schema (\<open>src/sql\<close>, \<open>src/migrations\<close>) are checked by
  the \<open>ins_\<close> functions.  The second half says how a statement runs, alone or in a
  transaction, when the server or the connection can fail at any of them.
\<close>

named_theorems db_simps \<open>reads of the database after its writes\<close>
named_theorems run_simps \<open>running statements and transactions\<close>


section \<open>Tables\<close>

record user =
  u_id :: string
  u_username :: string
  u_email :: string
  u_pwhash :: "string option"
  u_is_admin :: int
  u_created :: string
  u_bank :: "string option"
  u_wallet :: "string option"
  u_whatsapp :: "string option"
  u_profile :: string
  u_balance :: int
  u_chain :: "int option"
  u_actor :: "string option"
  u_federated :: bool
  u_discoverable :: bool

record video =
  v_id :: string
  v_owner :: string
  v_title :: string
  v_description :: string
  v_price :: int
  v_filename :: string
  v_created :: string
  v_visibility :: string
  v_object :: "string option"
  v_hls_ready :: bool
  v_hls_master :: "string option"
  v_state :: "string option"
  v_error :: "string option"

record wtxn =
  wt_id :: int
  wt_user :: string
  wt_type :: string
  wt_amount :: int
  wt_after :: int
  wt_status :: string
  wt_ref :: "string option"
  wt_note :: "string option"
  wt_admin_note :: "string option"
  wt_created :: instant
  wt_updated :: instant

record purchase =
  pu_id :: int
  pu_user :: string
  pu_video :: string
  pu_created :: string

record allow =
  al_video :: string
  al_username :: string

record aff_setting =
  as_video :: string
  as_owner :: string
  as_pct :: int
  as_enabled :: bool

record aff_commission =
  ac_video :: string
  ac_affiliate :: string
  ac_buyer :: string
  ac_owner :: string
  ac_price :: int
  ac_commission :: int
  ac_method :: string
  ac_invoice :: "string option"
  ac_created :: instant

record session_row =
  s_id :: string
  s_user :: string
  s_is_admin :: int
  s_created :: string
  s_expires :: string

record pay_settings_row =
  ps_wallet_payment :: bool
  ps_wallet_transfer :: bool
  ps_paypal :: bool
  ps_stripe :: bool
  ps_xendit :: bool
  ps_midtrans :: bool
  ps_x402 :: bool
  ps_default :: "string option"

record block_row =
  cb_creator :: string
  cb_blocked :: string
  cb_ban_type :: string
  cb_reason :: "string option"
  cb_expires :: "instant option"
  cb_created :: instant

record fiat_invoice =
  fi_uid :: string
  fi_provider :: string
  fi_provider_ref :: "string option"
  fi_user :: string
  fi_video :: string
  fi_creator :: string
  fi_amount :: int
  fi_currency :: string
  fi_status :: string
  fi_pay_url :: "string option"
  fi_email :: "string option"
  fi_meta :: "string option"
  fi_created :: instant
  fi_aff_ref :: "string option"
  fi_paid_at :: "instant option"
  fi_disbursed_at :: "instant option"
  fi_disburse_ref :: "string option"

record pay_token =
  pt_chain :: string
  pt_chain_id :: int
  pt_symbol :: string
  pt_decimals :: int
  pt_address :: "string option"
  pt_legacy :: "string option"
  pt_active :: bool

record x402_invoice =
  xi_id :: int
  xi_uid :: string
  xi_hash :: "string option"
  xi_user :: string
  xi_video :: string
  xi_creator :: string
  xi_chain :: int
  xi_symbol :: string
  xi_token :: "string option"
  xi_required :: "int option"
  xi_paid :: "int option"
  xi_token_amount :: int
  xi_price :: int
  xi_status :: string
  xi_payer :: "string option"
  xi_tx :: "string option"
  xi_aff_ref :: "string option"
  xi_expires :: "instant option"
  xi_paid_at :: "instant option"

record db =
  users :: "user list"
  videos :: "video list"
  wtxns :: "wtxn list"
  wtxn_seq :: int
  purchases :: "purchase list"
  purchase_seq :: int
  allowlist :: "allow list"
  aff_settings :: "aff_setting list"
  aff_commissions :: "aff_commission list"
  sessions :: "session_row list"
  pay_settings :: "pay_settings_row option"
  blocks :: "block_row list"
  fiat_invoices :: "fiat_invoice list"
  x402_invoices :: "x402_invoice list"
  x402_seq :: int
  pay_tokens :: "pay_token list"
  fed :: fed_db
  media :: media_db

definition empty_db :: db where
  "empty_db = \<lparr> users = [], videos = [], wtxns = [], wtxn_seq = 0, purchases = [], purchase_seq = 0,
     allowlist = [], aff_settings = [], aff_commissions = [], sessions = [], pay_settings = None,
     blocks = [], fiat_invoices = [], x402_invoices = [], x402_seq = 0, pay_tokens = [],
     fed = empty_fed, media = empty_media \<rparr>"

definition find_user :: "string \<Rightarrow> db \<Rightarrow> user option" where
  "find_user i d = find (\<lambda>u. u_id u = i) (users d)"

definition find_username :: "string \<Rightarrow> db \<Rightarrow> user option" where
  "find_username n d = find (\<lambda>u. u_username u = n) (users d)"

definition find_video :: "string \<Rightarrow> db \<Rightarrow> video option" where
  "find_video i d = find (\<lambda>v. v_id v = i) (videos d)"

definition find_wtxn :: "int \<Rightarrow> db \<Rightarrow> wtxn option" where
  "find_wtxn i d = find (\<lambda>t. wt_id t = i) (wtxns d)"

definition find_session :: "string \<Rightarrow> db \<Rightarrow> session_row option" where
  "find_session i d = find (\<lambda>s. s_id s = i) (sessions d)"

definition find_aff_setting :: "string \<Rightarrow> db \<Rightarrow> aff_setting option" where
  "find_aff_setting v d = find (\<lambda>a. as_video a = v) (aff_settings d)"

definition balance_of :: "string \<Rightarrow> db \<Rightarrow> int option" where
  "balance_of i d = map_option u_balance (find_user i d)"

definition user_exists :: "string \<Rightarrow> db \<Rightarrow> bool" where
  "user_exists i d \<longleftrightarrow> find_user i d \<noteq> None"

definition video_exists :: "string \<Rightarrow> db \<Rightarrow> bool" where
  "video_exists i d \<longleftrightarrow> find_video i d \<noteq> None"

definition has_purchase :: "string \<Rightarrow> string \<Rightarrow> db \<Rightarrow> bool" where
  "has_purchase uid vid d \<longleftrightarrow> (\<exists>p\<in>set (purchases d). pu_user p = uid \<and> pu_video p = vid)"

definition allowed :: "string \<Rightarrow> string \<Rightarrow> db \<Rightarrow> bool" where
  "allowed vid name d \<longleftrightarrow> (\<exists>a\<in>set (allowlist d). al_video a = vid \<and> al_username a = name)"

text \<open>The condition of the block check: \<open>expires_at IS NULL OR expires_at > NOW()\<close>.\<close>

definition block_active :: "instant \<Rightarrow> block_row \<Rightarrow> bool" where
  "block_active now b \<longleftrightarrow> (case cb_expires b of None \<Rightarrow> True | Some t \<Rightarrow> now < t)"

definition blocked_in :: "instant \<Rightarrow> string \<Rightarrow> string \<Rightarrow> db \<Rightarrow> bool" where
  "blocked_in now creator buyer d \<longleftrightarrow>
     (\<exists>b\<in>set (blocks d). cb_creator b = creator \<and> cb_blocked b = buyer \<and> block_active now b)"


section \<open>Writes, with the constraints of the schema\<close>

text \<open>A write gives the violated constraint, or its result and the changed database.\<close>

type_synonym 'a stmt = "db \<Rightarrow> string + 'a \<times> db"

definition put_balance :: "string \<Rightarrow> int \<Rightarrow> db \<Rightarrow> db" where
  "put_balance i b d = d\<lparr>users := upd_where (\<lambda>u. u_id u = i) (\<lambda>u. u\<lparr>u_balance := b\<rparr>) (users d)\<rparr>"

definition set_balance :: "string \<Rightarrow> int \<Rightarrow> unit stmt" where
  "set_balance i b d = Inr ((), put_balance i b d)"

text \<open>\<open>SET balance_cents = balance_cents + $1\<close>: PostgreSQL refuses a sum out of range.\<close>

definition inc_balance :: "string \<Rightarrow> int \<Rightarrow> int option stmt" where
  "inc_balance i a d =
     (case balance_of i d of
        None \<Rightarrow> Inr (None, d)
      | Some b \<Rightarrow>
          if fits64 (b + a) then Inr (Some (b + a), put_balance i (b + a) d)
          else Inl ''bigint out of range'')"

definition add_wtxn :: "wtxn \<Rightarrow> db \<Rightarrow> db" where
  "add_wtxn t d = d\<lparr>wtxn_seq := wt_id t, wtxns := wtxns d @ [t]\<rparr>"

definition new_wtxn ::
  "instant \<Rightarrow> string \<Rightarrow> string \<Rightarrow> int \<Rightarrow> int \<Rightarrow> string \<Rightarrow> string option \<Rightarrow> string option \<Rightarrow> db \<Rightarrow> wtxn" where
  "new_wtxn now uid ty amt after st rf nt d =
     \<lparr> wt_id = wtxn_seq d + 1, wt_user = uid, wt_type = ty, wt_amount = amt, wt_after = after,
       wt_status = st, wt_ref = rf, wt_note = nt, wt_admin_note = None,
       wt_created = now, wt_updated = now \<rparr>"

text \<open>The checks of \<open>028_wallet.sql\<close>: a positive amount, two foreign keys.\<close>

definition ins_wtxn ::
  "instant \<Rightarrow> string \<Rightarrow> string \<Rightarrow> int \<Rightarrow> int \<Rightarrow> string \<Rightarrow> string option \<Rightarrow> string option \<Rightarrow> int stmt" where
  "ins_wtxn now uid ty amt after st rf nt d =
     (if amt \<le> 0 then Inl ''wallet_transactions_amount_cents_check''
      else if \<not> user_exists uid d then Inl ''wallet_transactions_user_id_fkey''
      else if (case rf of None \<Rightarrow> False | Some r \<Rightarrow> \<not> user_exists r d)
        then Inl ''wallet_transactions_ref_user_id_fkey''
      else (let t = new_wtxn now uid ty amt after st rf nt d in Inr (wt_id t, add_wtxn t d)))"

definition put_wtxn :: "int \<Rightarrow> (wtxn \<Rightarrow> wtxn) \<Rightarrow> db \<Rightarrow> db" where
  "put_wtxn i f d = d\<lparr>wtxns := upd_where (\<lambda>t. wt_id t = i) f (wtxns d)\<rparr>"

definition upd_wtxn :: "int \<Rightarrow> (wtxn \<Rightarrow> wtxn) \<Rightarrow> unit stmt" where
  "upd_wtxn i f d = Inr ((), put_wtxn i f d)"

text \<open>
  \<open>INSERT INTO purchases ... ON CONFLICT DO NOTHING\<close>: the table has no unique constraint
  but its serial key, so the row is always added; the trigger of
  \<open>035_creator_blocked_users.sql\<close> refuses a buyer the video's owner has blocked.
\<close>

definition ins_purchase :: "instant \<Rightarrow> string \<Rightarrow> string \<Rightarrow> string \<Rightarrow> unit stmt" where
  "ins_purchase now created uid vid d =
     (if (case find_video vid d of None \<Rightarrow> False | Some v \<Rightarrow> blocked_in now (v_owner v) uid d)
        then Inl ''buyer is blocked by this creator''
      else if \<not> user_exists uid d then Inl ''purchases_user_id_fkey''
      else if \<not> video_exists vid d then Inl ''purchases_video_fk''
      else (let i = purchase_seq d + 1 in
        Inr ((), d\<lparr>purchase_seq := i, purchases := purchases d @
          [\<lparr> pu_id = i, pu_user = uid, pu_video = vid, pu_created = created \<rparr>]\<rparr>)))"

text \<open>\<open>ON CONFLICT (video_id, username) DO NOTHING\<close>; the result is \<open>rows_affected\<close>.\<close>

definition ins_allow :: "string \<Rightarrow> string \<Rightarrow> int stmt" where
  "ins_allow vid name d =
     (if allowed vid name d then Inr (0, d)
      else Inr (1, d\<lparr>allowlist := allowlist d @ [\<lparr> al_video = vid, al_username = name \<rparr>]\<rparr>))"

definition ins_aff_commission :: "aff_commission \<Rightarrow> unit stmt" where
  "ins_aff_commission c d =
     (if \<not> video_exists (ac_video c) d then Inl ''affiliate_commissions_video_id_fkey''
      else if \<not> user_exists (ac_affiliate c) d then Inl ''affiliate_commissions_affiliate_id_fkey''
      else if \<not> user_exists (ac_buyer c) d then Inl ''affiliate_commissions_buyer_id_fkey''
      else if \<not> user_exists (ac_owner c) d then Inl ''affiliate_commissions_owner_id_fkey''
      else Inr ((), d\<lparr>aff_commissions := aff_commissions d @ [c]\<rparr>))"

definition ins_session :: "session_row \<Rightarrow> unit stmt" where
  "ins_session s d =
     (if find_session (s_id s) d \<noteq> None then Inl ''sessions_pkey''
      else if \<not> user_exists (s_user s) d then Inl ''sessions_user_id_fkey''
      else Inr ((), d\<lparr>sessions := sessions d @ [s]\<rparr>))"

definition del_session :: "string \<Rightarrow> unit stmt" where
  "del_session i d = Inr ((), d\<lparr>sessions := filter (\<lambda>s. s_id s \<noteq> i) (sessions d)\<rparr>)"


section \<open>Reads after writes\<close>

lemma find_user_id: "find_user i d = Some u \<Longrightarrow> u_id u = i"
  by (auto simp: find_user_def dest: find_in)

lemma find_user_in: "find_user i d = Some u \<Longrightarrow> u \<in> set (users d)"
  by (auto simp: find_user_def dest: find_in)

lemma find_username_in: "find_username n d = Some u \<Longrightarrow> u \<in> set (users d) \<and> u_username u = n"
  by (auto simp: find_username_def dest: find_in)

lemma find_video_id: "find_video i d = Some v \<Longrightarrow> v_id v = i"
  by (auto simp: find_video_def dest: find_in)

lemma user_in_exists: "u \<in> set (users d) \<Longrightarrow> user_exists (u_id u) d"
  by (auto simp: user_exists_def find_user_def find_None_set)

lemma put_balance_fields [db_simps]:
  "wtxns (put_balance i b d) = wtxns d" "wtxn_seq (put_balance i b d) = wtxn_seq d"
  "videos (put_balance i b d) = videos d" "purchases (put_balance i b d) = purchases d"
  "purchase_seq (put_balance i b d) = purchase_seq d" "allowlist (put_balance i b d) = allowlist d"
  "aff_settings (put_balance i b d) = aff_settings d" "sessions (put_balance i b d) = sessions d"
  "aff_commissions (put_balance i b d) = aff_commissions d" "blocks (put_balance i b d) = blocks d"
  "fiat_invoices (put_balance i b d) = fiat_invoices d"
  "x402_invoices (put_balance i b d) = x402_invoices d"
  "pay_settings (put_balance i b d) = pay_settings d"
  by (simp_all add: put_balance_def)

lemma add_wtxn_fields [db_simps]:
  "wtxns (add_wtxn t d) = wtxns d @ [t]" "wtxn_seq (add_wtxn t d) = wt_id t"
  "users (add_wtxn t d) = users d" "videos (add_wtxn t d) = videos d"
  "purchases (add_wtxn t d) = purchases d" "purchase_seq (add_wtxn t d) = purchase_seq d"
  "allowlist (add_wtxn t d) = allowlist d" "aff_settings (add_wtxn t d) = aff_settings d"
  "sessions (add_wtxn t d) = sessions d" "aff_commissions (add_wtxn t d) = aff_commissions d"
  "blocks (add_wtxn t d) = blocks d" "fiat_invoices (add_wtxn t d) = fiat_invoices d"
  "x402_invoices (add_wtxn t d) = x402_invoices d" "pay_settings (add_wtxn t d) = pay_settings d"
  by (simp_all add: add_wtxn_def)

lemma put_wtxn_fields [db_simps]:
  "wtxns (put_wtxn i f d) = upd_where (\<lambda>t. wt_id t = i) f (wtxns d)"
  "wtxn_seq (put_wtxn i f d) = wtxn_seq d" "users (put_wtxn i f d) = users d"
  "videos (put_wtxn i f d) = videos d" "purchases (put_wtxn i f d) = purchases d"
  "purchase_seq (put_wtxn i f d) = purchase_seq d" "allowlist (put_wtxn i f d) = allowlist d"
  "aff_settings (put_wtxn i f d) = aff_settings d" "sessions (put_wtxn i f d) = sessions d"
  "aff_commissions (put_wtxn i f d) = aff_commissions d" "blocks (put_wtxn i f d) = blocks d"
  "fiat_invoices (put_wtxn i f d) = fiat_invoices d"
  "x402_invoices (put_wtxn i f d) = x402_invoices d" "pay_settings (put_wtxn i f d) = pay_settings d"
  by (simp_all add: put_wtxn_def)

lemma find_user_put [db_simps]:
  "find_user j (put_balance i b d) =
   map_option (\<lambda>u. if u_id u = i then u\<lparr>u_balance := b\<rparr> else u) (find_user j d)"
  by (simp add: find_user_def put_balance_def find_upd_where)

lemma balance_put [db_simps]:
  "balance_of j (put_balance i b d) =
   (if j = i then map_option (\<lambda>_. b) (balance_of i d) else balance_of j d)"
  by (auto simp: balance_of_def find_user_put option.map_comp o_def dest: find_user_id
      intro!: map_option_cong)

lemma user_exists_balance: "user_exists i d \<longleftrightarrow> (\<exists>b. balance_of i d = Some b)"
  by (auto simp: user_exists_def balance_of_def)

lemma user_exists_put [db_simps]: "user_exists j (put_balance i b d) = user_exists j d"
  by (simp add: user_exists_def find_user_put)

lemma video_put [db_simps]: "find_video j (put_balance i b d) = find_video j d"
  by (simp add: find_video_def db_simps)

lemma finds_add_wtxn [db_simps]:
  "find_user j (add_wtxn t d) = find_user j d" "balance_of j (add_wtxn t d) = balance_of j d"
  "user_exists j (add_wtxn t d) = user_exists j d" "find_video j (add_wtxn t d) = find_video j d"
  by (simp_all add: find_user_def balance_of_def user_exists_def find_video_def db_simps)

lemma finds_put_wtxn [db_simps]:
  "find_user j (put_wtxn i f d) = find_user j d" "balance_of j (put_wtxn i f d) = balance_of j d"
  "user_exists j (put_wtxn i f d) = user_exists j d" "find_video j (put_wtxn i f d) = find_video j d"
  by (simp_all add: find_user_def balance_of_def user_exists_def find_video_def db_simps)

text \<open>Reads of a table see through the updates of the others.\<close>

lemma find_user_other [db_simps]:
  "find_user i (d\<lparr>wtxns := x0\<rparr>) = find_user i d"
  "find_user i (d\<lparr>wtxn_seq := x1\<rparr>) = find_user i d"
  "find_user i (d\<lparr>purchases := x2\<rparr>) = find_user i d"
  "find_user i (d\<lparr>purchase_seq := x3\<rparr>) = find_user i d"
  "find_user i (d\<lparr>allowlist := x4\<rparr>) = find_user i d"
  "find_user i (d\<lparr>sessions := x5\<rparr>) = find_user i d"
  "find_user i (d\<lparr>aff_commissions := x6\<rparr>) = find_user i d"
  by (simp_all add: find_user_def)

lemma balance_other [db_simps]:
  "balance_of i (d\<lparr>wtxns := x0\<rparr>) = balance_of i d"
  "balance_of i (d\<lparr>wtxn_seq := x1\<rparr>) = balance_of i d"
  "balance_of i (d\<lparr>purchases := x2\<rparr>) = balance_of i d"
  "balance_of i (d\<lparr>purchase_seq := x3\<rparr>) = balance_of i d"
  "balance_of i (d\<lparr>allowlist := x4\<rparr>) = balance_of i d"
  "balance_of i (d\<lparr>sessions := x5\<rparr>) = balance_of i d"
  "balance_of i (d\<lparr>aff_commissions := x6\<rparr>) = balance_of i d"
  by (simp_all add: balance_of_def db_simps)

lemma user_exists_other [db_simps]:
  "user_exists i (d\<lparr>wtxns := x0\<rparr>) = user_exists i d"
  "user_exists i (d\<lparr>wtxn_seq := x1\<rparr>) = user_exists i d"
  "user_exists i (d\<lparr>purchases := x2\<rparr>) = user_exists i d"
  "user_exists i (d\<lparr>purchase_seq := x3\<rparr>) = user_exists i d"
  "user_exists i (d\<lparr>allowlist := x4\<rparr>) = user_exists i d"
  "user_exists i (d\<lparr>sessions := x5\<rparr>) = user_exists i d"
  "user_exists i (d\<lparr>aff_commissions := x6\<rparr>) = user_exists i d"
  by (simp_all add: user_exists_def db_simps)

lemma find_video_other [db_simps]:
  "find_video i (d\<lparr>wtxns := x0\<rparr>) = find_video i d"
  "find_video i (d\<lparr>wtxn_seq := x1\<rparr>) = find_video i d"
  "find_video i (d\<lparr>purchases := x2\<rparr>) = find_video i d"
  "find_video i (d\<lparr>purchase_seq := x3\<rparr>) = find_video i d"
  "find_video i (d\<lparr>allowlist := x4\<rparr>) = find_video i d"
  "find_video i (d\<lparr>sessions := x5\<rparr>) = find_video i d"
  "find_video i (d\<lparr>aff_commissions := x6\<rparr>) = find_video i d"
  by (simp_all add: find_video_def)

lemma set_balance_Inr [run_simps]: "set_balance i b d = Inr (x, d') \<longleftrightarrow> d' = put_balance i b d"
  by (auto simp: set_balance_def)

lemma ins_purchase_Inr [run_simps]:
  "ins_purchase nw cr uid vid d = Inr (x, d') \<longleftrightarrow>
   (\<exists>v. find_video vid d = Some v \<and> \<not> blocked_in nw (v_owner v) uid d) \<and> user_exists uid d
   \<and> d' = d\<lparr>purchase_seq := purchase_seq d + 1, purchases := purchases d @
         [\<lparr> pu_id = purchase_seq d + 1, pu_user = uid, pu_video = vid, pu_created = cr \<rparr>]\<rparr>"
  by (auto simp: ins_purchase_def Let_def video_exists_def split: option.splits)

lemma upd_wtxn_Inr [run_simps]: "upd_wtxn i f d = Inr (x, d') \<longleftrightarrow> d' = put_wtxn i f d"
  by (auto simp: upd_wtxn_def)

lemma inc_balance_Inr [run_simps]:
  "inc_balance i a d = Inr (Some b, d') \<longleftrightarrow>
   (\<exists>b0. balance_of i d = Some b0 \<and> b = b0 + a \<and> fits64 b \<and> d' = put_balance i b d)"
  by (auto simp: inc_balance_def split: option.splits)

lemma ins_wtxn_Inr [run_simps]:
  "ins_wtxn nw uid ty amt aft st rf nt d = Inr (i, d') \<longleftrightarrow>
   0 < amt \<and> user_exists uid d \<and> (\<forall>r. rf = Some r \<longrightarrow> user_exists r d) \<and> i = wtxn_seq d + 1
   \<and> d' = add_wtxn (new_wtxn nw uid ty amt aft st rf nt d) d"
  by (auto simp: ins_wtxn_def Let_def new_wtxn_def split: option.splits)


section \<open>Running a statement\<close>

text \<open>
  At every statement the server may refuse it, or apply it and lose the connection before
  the answer arrives.  Which of the two happens where, the text of the errors, the clock,
  the random identifiers and the third-party functions are fixed by the context of the
  request; a statement is named by its site in the code.
\<close>

datatype fault = Refused string | AckLost string

fun fault_text :: "fault \<Rightarrow> string" where
  "fault_text (Refused m) = m"
| "fault_text (AckLost m) = m"

record ctx =
  cfg :: config
  cookie :: "string option"
  now :: instant
  fresh_uuid :: "string \<Rightarrow> string"
  fault :: "string \<Rightarrow> fault option"
  viol :: "string \<Rightarrow> string"
  env_var :: "string \<Rightarrow> string option"
  b64enc :: "string \<Rightarrow> string"
  b64dec :: "string \<Rightarrow> string option"
  hmac_tag :: "string \<Rightarrow> string \<Rightarrow> string"
  rfc3339 :: "instant \<Rightarrow> string"
  rfc3339_parse :: "string \<Rightarrow> instant option"
  pg_text :: "instant \<Rightarrow> string"
  pg_ilike :: "string \<Rightarrow> string \<Rightarrow> bool"
  pg_month :: "instant \<Rightarrow> instant"
  num64 :: "int \<Rightarrow> int option"
  int4_i64 :: "int \<Rightarrow> int option"
  bigint_i32 :: "int \<Rightarrow> int option"
  bigint_string :: "int \<Rightarrow> string option"
  timestamptz_string :: "instant \<Rightarrow> string option"
  uni_lower :: "string \<Rightarrow> string"

text \<open>
  \<open>pg_month\<close> is \<open>date_trunc('month', _)\<close>; \<open>num64\<close> what sqlx makes of a \<open>NUMERIC\<close> value (the type of
  a \<open>SUM\<close> over \<open>BIGINT\<close>) that the code asks for as \<open>i64\<close>: it documents that \<open>i64\<close> is read from
  \<open>BIGINT\<close> only; \<open>int4_i64\<close> the same for an \<open>INTEGER\<close> value, and the next
  three for a \<open>BIGINT\<close> read as \<open>i32\<close> or as text and a \<open>TIMESTAMPTZ\<close> read as text.
   \<open>str::to_lowercase\<close> is exact on ASCII; \<open>uni_lower\<close> is Unicode's table.
\<close>

definition to_lowercase :: "ctx \<Rightarrow> string \<Rightarrow> string" where
  "to_lowercase C s = (if \<forall>c\<in>set s. byte c < 128 then ascii_lower s else uni_lower C s)"

definition run_read :: "ctx \<Rightarrow> string \<Rightarrow> ('s \<Rightarrow> 'a) \<Rightarrow> 's \<Rightarrow> string + 'a" where
  "run_read C site q d = (case fault C site of Some f \<Rightarrow> Inl (fault_text f) | None \<Rightarrow> Inr (q d))"

definition run_write ::
  "ctx \<Rightarrow> string \<Rightarrow> ('s \<Rightarrow> string + 'a \<times> 's) \<Rightarrow> 's \<Rightarrow> (string + 'a) \<times> 's" where
  "run_write C site q d =
     (case fault C site of
        Some (Refused m) \<Rightarrow> (Inl m, d)
      | f \<Rightarrow>
          (case q d of
             Inl c \<Rightarrow> (Inl (viol C c), d)
           | Inr (v, d') \<Rightarrow>
               (case f of Some (AckLost m) \<Rightarrow> (Inl m, d') | _ \<Rightarrow> (Inr v, d'))))"

text \<open>
  A transaction: the database at \<open>BEGIN\<close>, the one its statements see, and whether
  PostgreSQL still accepts statements.  A failed statement aborts the transaction: the
  later ones fail, and \<open>COMMIT\<close> then rolls back (and reports no error).
\<close>

record tx =
  tx_start :: db
  tx_db :: db
  tx_live :: bool

definition aborted_msg :: string where
  "aborted_msg = ''current transaction is aborted, commands ignored until end of transaction block''"

definition tx_begin :: "ctx \<Rightarrow> string \<Rightarrow> db \<Rightarrow> string + tx" where
  "tx_begin C site d =
     (case fault C site of
        Some f \<Rightarrow> Inl (fault_text f)
      | None \<Rightarrow> Inr \<lparr> tx_start = d, tx_db = d, tx_live = True \<rparr>)"

definition tx_read :: "ctx \<Rightarrow> string \<Rightarrow> (db \<Rightarrow> 'a) \<Rightarrow> tx \<Rightarrow> (string + 'a) \<times> tx" where
  "tx_read C site q t =
     (if \<not> tx_live t then (Inl aborted_msg, t)
      else (case fault C site of
              Some f \<Rightarrow> (Inl (fault_text f), t\<lparr>tx_live := False\<rparr>)
            | None \<Rightarrow> (Inr (q (tx_db t)), t)))"

definition tx_write :: "ctx \<Rightarrow> string \<Rightarrow> 'a stmt \<Rightarrow> tx \<Rightarrow> (string + 'a) \<times> tx" where
  "tx_write C site q t =
     (if \<not> tx_live t then (Inl aborted_msg, t)
      else (case fault C site of
              Some f \<Rightarrow> (Inl (fault_text f), t\<lparr>tx_live := False\<rparr>)
            | None \<Rightarrow>
                (case q (tx_db t) of
                   Inl c \<Rightarrow> (Inl (viol C c), t\<lparr>tx_live := False\<rparr>)
                 | Inr (v, d') \<Rightarrow> (Inr v, t\<lparr>tx_db := d'\<rparr>))))"

definition tx_result :: "tx \<Rightarrow> db" where
  "tx_result t = (if tx_live t then tx_db t else tx_start t)"

definition tx_commit :: "ctx \<Rightarrow> string \<Rightarrow> tx \<Rightarrow> (string + unit) \<times> db" where
  "tx_commit C site t =
     (case fault C site of
        Some (Refused m) \<Rightarrow> (Inl m, tx_start t)
      | Some (AckLost m) \<Rightarrow> (Inl m, tx_result t)
      | None \<Rightarrow> (Inr (), tx_result t))"

text \<open>
  An explicit \<open>rollback\<close>, or dropping the transaction, ends at the database of \<open>BEGIN\<close>.
  The values a serial column drew are given back here; PostgreSQL leaves a gap.
\<close>

definition tx_rollback :: "tx \<Rightarrow> db" where
  "tx_rollback t = tx_start t"


text \<open>
  The code's three ways on: \<open>if let Err(e) = stmt { rollback; return err(e) }\<close>, a read whose
  failure is turned into a default, and the answer of \<open>commit\<close>.
\<close>

definition tx_then ::
  "(string + 'a) \<times> tx \<Rightarrow> (string \<Rightarrow> 'r) \<Rightarrow> ('a \<Rightarrow> tx \<Rightarrow> 'r \<times> db) \<Rightarrow> 'r \<times> db" where
  "tx_then st err k =
     (case st of (Inl e, t) \<Rightarrow> (err e, tx_rollback t) | (Inr v, t) \<Rightarrow> k v t)"

definition tx_look :: "(string + 'a) \<times> tx \<Rightarrow> (string + 'a \<Rightarrow> tx \<Rightarrow> 'r \<times> db) \<Rightarrow> 'r \<times> db" where
  "tx_look st k = (case st of (r, t) \<Rightarrow> k r t)"

definition tx_end :: "(string + unit) \<times> db \<Rightarrow> (string \<Rightarrow> 'r) \<Rightarrow> (db \<Rightarrow> 'r \<times> db) \<Rightarrow> 'r \<times> db" where
  "tx_end st err k = (case st of (Inl e, d') \<Rightarrow> (err e, d') | (Inr _, d') \<Rightarrow> k d')"


subsection \<open>What a statement can do\<close>

lemma run_read_Inr [run_simps]: "run_read C s q d = Inr x \<longleftrightarrow> fault C s = None \<and> x = q d"
  by (auto simp: run_read_def split: option.splits)

lemma tx_begin_Inr [run_simps]:
  "tx_begin C s d = Inr t \<longleftrightarrow> fault C s = None \<and> t = \<lparr> tx_start = d, tx_db = d, tx_live = True \<rparr>"
  by (auto simp: tx_begin_def split: option.splits)

lemma tx_read_start: "tx_read C s q t = (r, t') \<Longrightarrow> tx_start t' = tx_start t"
  by (auto simp: tx_read_def split: if_splits option.splits)

lemma tx_write_start: "tx_write C s q t = (r, t') \<Longrightarrow> tx_start t' = tx_start t"
  by (auto simp: tx_write_def split: if_splits option.splits sum.splits)

lemma tx_read_Inr:
  "tx_read C s q t = (Inr x, t') \<longleftrightarrow> tx_live t \<and> fault C s = None \<and> t' = t \<and> x = q (tx_db t)"
  unfolding tx_read_def by (cases "tx_live t"; cases "fault C s") auto

lemma tx_read_Inl: "tx_read C s q t = (Inl e, t') \<Longrightarrow> \<not> tx_live t'"
  unfolding tx_read_def by (cases "tx_live t"; cases "fault C s") auto

lemma tx_write_Inr:
  "tx_write C s q t = (Inr x, t') \<longleftrightarrow>
     tx_live t \<and> fault C s = None \<and> (\<exists>d'. q (tx_db t) = Inr (x, d') \<and> t' = t\<lparr>tx_db := d'\<rparr>)"
  unfolding tx_write_def by (cases "tx_live t"; cases "fault C s"; cases "q (tx_db t)") auto

lemma tx_dead_read: "\<not> tx_live t \<Longrightarrow> tx_read C s q t = (Inl aborted_msg, t)"
  by (simp add: tx_read_def)

lemma tx_dead_write: "\<not> tx_live t \<Longrightarrow> tx_write C s q t = (Inl aborted_msg, t)"
  by (simp add: tx_write_def)

lemma tx_read_cases:
  assumes "tx_read C s q t = (r, t')"
  obtains (answer) "tx_live t" "fault C s = None" "r = Inr (q (tx_db t))" "t' = t"
  | (failed) e where "r = Inl e" "\<not> tx_live t'" "tx_start t' = tx_start t"
proof (cases "tx_live t \<and> fault C s = None")
  case True
  with assms have "r = Inr (q (tx_db t))" "t' = t" by (auto simp: tx_read_def)
  with True answer show thesis by blast
next
  case False
  then have "\<exists>e. fst (tx_read C s q t) = Inl e \<and> \<not> tx_live (snd (tx_read C s q t))
      \<and> tx_start (snd (tx_read C s q t)) = tx_start t"
    by (cases "tx_live t"; cases "fault C s") (simp_all add: tx_read_def)
  with assms failed show thesis by auto
qed

lemma tx_commit_cases:
  assumes "tx_commit C s t = (r, d')"
  shows "d' = tx_start t \<or> d' = tx_result t" and "r = Inr () \<Longrightarrow> d' = tx_result t"
  using assms by (auto simp: tx_commit_def split: option.splits fault.splits)

lemma run_write_cases:
  assumes "run_write C s q d = (r, d')"
  shows "d' = d \<or> (\<exists>x. q d = Inr (x, d'))"
    and "r = Inr x \<Longrightarrow> q d = Inr (x, d')"
  using assms by (auto simp: run_write_def split: option.splits fault.splits sum.splits)

lemmas tx_facts = tx_read_Inr tx_write_Inr tx_dead_read tx_dead_write


subsection \<open>Rules for what a handler may answer and leave behind\<close>

text \<open>
  \<open>post Q x\<close> says that the answer and database \<open>x\<close> satisfy \<open>Q\<close>; the rules follow the shape of
  the code, so that applying them leaves one goal for each way the handler can end.
\<close>

named_theorems post_rules \<open>one rule per construct a handler is written with\<close>

definition post :: "('r \<times> 's \<Rightarrow> bool) \<Rightarrow> 'r \<times> 's \<Rightarrow> bool" where
  "post Q x \<longleftrightarrow> Q x"

lemma postI: "Q x \<Longrightarrow> post Q x" by (simp add: post_def)

lemma post_mono: "post P x \<Longrightarrow> (\<And>r d. P (r, d) \<Longrightarrow> Q (r, d)) \<Longrightarrow> post Q x"
  by (cases x) (simp add: post_def)

lemma postD: "post (case_prod Q) x \<Longrightarrow> x = (r, d') \<Longrightarrow> Q r d'" by (simp add: post_def)

lemma post_if [post_rules]:
  "(b \<Longrightarrow> post Q x) \<Longrightarrow> (\<not> b \<Longrightarrow> post Q y) \<Longrightarrow> post Q (if b then x else y)"
  by simp

lemma post_let [post_rules]: "(\<And>x. x = e \<Longrightarrow> post Q (f x)) \<Longrightarrow> post Q (Let e f)"
  by simp

lemma post_option [post_rules]:
  "(x = None \<Longrightarrow> post Q n) \<Longrightarrow> (\<And>v. x = Some v \<Longrightarrow> post Q (f v)) \<Longrightarrow> post Q (case_option n f x)"
  by (cases x) simp_all

lemma post_begin [post_rules]:
  assumes "\<And>e. fault C s \<noteq> None \<Longrightarrow> post Q (f e)"
    and "fault C s = None \<Longrightarrow> post Q (g \<lparr> tx_start = d, tx_db = d, tx_live = True \<rparr>)"
  shows "post Q (case_sum f g (tx_begin C s d))"
  using assms by (auto simp: tx_begin_def split: option.splits)

lemma post_then [post_rules]:
  assumes "\<And>e. post Q (err e, tx_start t)"
    and "\<And>v d2. tx_live t \<Longrightarrow> fault C s = None \<Longrightarrow> q (tx_db t) = Inr (v, d2) \<Longrightarrow>
      post Q (k v (t\<lparr>tx_db := d2\<rparr>))"
  shows "post Q (tx_then (tx_write C s q t) err k)"
proof (cases "\<exists>v t'. tx_write C s q t = (Inr v, t')")
  case True
  then obtain v t' where w: "tx_write C s q t = (Inr v, t')" by blast
  then obtain d2 where "tx_live t" "fault C s = None" "q (tx_db t) = Inr (v, d2)" "t' = t\<lparr>tx_db := d2\<rparr>"
    by (auto simp: tx_write_Inr)
  with assms(2) w show ?thesis by (simp add: tx_then_def)
next
  case False
  then obtain e t' where w: "tx_write C s q t = (Inl e, t')"
    by (metis old.prod.exhaust old.sum.exhaust)
  with tx_write_start [OF w] assms(1) show ?thesis
    by (simp add: tx_then_def tx_rollback_def)
qed

text \<open>The same for a read on which the code returns at an error.\<close>

lemma post_read_then [post_rules]:
  assumes "\<And>e. post Q (err e, tx_start t)"
    and "tx_live t \<Longrightarrow> fault C s = None \<Longrightarrow> post Q (k (q (tx_db t)) t)"
  shows "post Q (tx_then (tx_read C s q t) err k)"
proof -
  obtain r t' where w: "tx_read C s q t = (r, t')" by force
  show ?thesis
    by (cases rule: tx_read_cases [OF w]) (use assms w in \<open>auto simp: tx_then_def tx_rollback_def\<close>)
qed

lemma post_look [post_rules]:
  assumes "tx_live t \<Longrightarrow> fault C s = None \<Longrightarrow> post Q (k (Inr (q (tx_db t))) t)"
    and "\<And>e. post Q (k (Inl e) (t\<lparr>tx_live := False\<rparr>))"
  shows "post Q (tx_look (tx_read C s q t) k)"
proof (cases "tx_live t")
  case True
  with assms show ?thesis
    by (cases "fault C s") (simp_all add: tx_look_def tx_read_def)
next
  case False
  then have "t\<lparr>tx_live := False\<rparr> = t" by simp
  with False assms(2) [of aborted_msg] show ?thesis by (simp add: tx_look_def tx_read_def)
qed

lemma post_end [post_rules]:
  assumes "\<And>e. fault C s \<noteq> None \<Longrightarrow> post Q (err e, tx_start t)"
    and "\<And>e. fault C s \<noteq> None \<Longrightarrow> post Q (err e, tx_result t)"
    and "fault C s = None \<Longrightarrow> post Q (k (tx_result t))"
  shows "post Q (tx_end (tx_commit C s t) err k)"
  using assms
  by (auto simp: tx_end_def tx_commit_def split: option.splits fault.splits)

lemma post_write [post_rules]:
  assumes "\<And>e. post Q (f (Inl e) d)"
    and "\<And>v d'. q d = Inr (v, d') \<Longrightarrow> post Q (f (Inr v) d')"
    and "\<And>e v d'. fault C s \<noteq> None \<Longrightarrow> q d = Inr (v, d') \<Longrightarrow> post Q (f (Inl e) d')"
  shows "post Q (case_prod f (run_write C s q d))"
  using assms
  by (auto simp: run_write_def split: option.splits fault.splits sum.splits)

lemma post_read [post_rules]:
  assumes "\<And>e. fault C s \<noteq> None \<Longrightarrow> post Q (f e)" "fault C s = None \<Longrightarrow> post Q (g (q d))"
  shows "post Q (case_sum f g (run_read C s q d))"
  using assms by (auto simp: run_read_def split: option.splits)

lemma post_sum:
  "(\<And>e. x = Inl e \<Longrightarrow> post Q (f e)) \<Longrightarrow> (\<And>v. x = Inr v \<Longrightarrow> post Q (g v)) \<Longrightarrow> post Q (case_sum f g x)"
  by (cases x) simp_all

lemma post_prod:
  "(\<And>a b. x = (a, b) \<Longrightarrow> post Q (f a b)) \<Longrightarrow> post Q (case_prod f x)"
  by (cases x) simp

lemma post_then_if [post_rules]:
  "(b \<Longrightarrow> post Q (tx_then x err k)) \<Longrightarrow> (\<not> b \<Longrightarrow> post Q (tx_then y err k)) \<Longrightarrow>
   post Q (tx_then (if b then x else y) err k)"
  by simp

lemma post_then_Inr [post_rules]: "post Q (k v t) \<Longrightarrow> post Q (tx_then (Inr v, t) err k)"
  by (simp add: tx_then_def)

text \<open>A commit whose result the code drops.\<close>

lemma post_commit_dropped [post_rules]:
  assumes "fault C s \<noteq> None \<Longrightarrow> Q (r, tx_start t)" "Q (r, tx_result t)"
  shows "post Q (r, snd (tx_commit C s t))"
  using assms by (auto simp: post_def tx_commit_def split: option.splits fault.splits)

lemma post_answer: "Q (r, d) \<Longrightarrow> post Q (r, d)" by (simp add: post_def)

lemmas tx_ends = tx_rollback_def tx_result_def

lemmas post_intros = post_rules post_sum post_prod post_answer

end
