(* ===== verification/Ledger.thy ===== *)
theory Ledger
  imports Database
begin

text \<open>
  What the wallet promises, whatever the handler: every balance is the opening balance
  plus the effects of the user's ledger rows, no balance is negative, and money is only
  created by approving a deposit.  \<open>books\<close> is that invariant; the lemmas say what a
  posting (balances moved, rows appended) does to it, once for all handlers.
\<close>

section \<open>The invariant\<close>

text \<open>
  What one row of \<open>wallet_transactions\<close> contributes to its user's balance: a deposit from
  its approval on, a withdrawal from its request until it is rejected.
\<close>

definition wt_effect :: "wtxn \<Rightarrow> int" where
  "wt_effect t =
     (if wt_type t = ''deposit'' then (if wt_status t = ''approved'' then wt_amount t else 0)
      else if wt_type t = ''withdrawal'' then (if wt_status t = ''rejected'' then 0 else - wt_amount t)
      else if wt_type t = ''transfer_in'' then (if wt_status t = ''rejected'' then 0 else wt_amount t)
      else if wt_type t \<in> {''transfer_out'', ''payment''}
        then (if wt_status t = ''rejected'' then 0 else - wt_amount t)
      else 0)"

definition ledger_of :: "string \<Rightarrow> db \<Rightarrow> int" where
  "ledger_of uid d = (\<Sum>t\<leftarrow>wtxns d. if wt_user t = uid then wt_effect t else 0)"

definition reconciled :: "(string \<Rightarrow> int) \<Rightarrow> db \<Rightarrow> bool" where
  "reconciled ob d \<longleftrightarrow>
     (\<forall>u\<in>set (users d). u_balance u = ob (u_id u) + ledger_of (u_id u) d)"

definition solvent :: "db \<Rightarrow> bool" where
  "solvent d \<longleftrightarrow> (\<forall>u\<in>set (users d). 0 \<le> u_balance u)"

text \<open>The money in the system: the balances and what pending withdrawals hold.\<close>

definition total_balance :: "db \<Rightarrow> int" where
  "total_balance d = (\<Sum>u\<leftarrow>users d. u_balance u)"

definition wt_held :: "wtxn \<Rightarrow> int" where
  "wt_held t = (if wt_type t = ''withdrawal'' \<and> wt_status t = ''pending'' then wt_amount t else 0)"

definition held :: "db \<Rightarrow> int" where
  "held d = (\<Sum>t\<leftarrow>wtxns d. wt_held t)"

definition money_supply :: "db \<Rightarrow> int" where
  "money_supply d = total_balance d + held d"

definition wf_users :: "db \<Rightarrow> bool" where
  "wf_users d \<longleftrightarrow> distinct (map u_id (users d))"

text \<open>
  Rows that move money between users are inserted as \<open>completed\<close> and no handler changes
  them: only deposits and withdrawals are ever pending.
\<close>

definition wf_row :: "db \<Rightarrow> wtxn \<Rightarrow> bool" where
  "wf_row d t \<longleftrightarrow> wt_id t \<le> wtxn_seq d \<and> 0 < wt_amount t \<and> user_exists (wt_user t) d
     \<and> (wt_status t = ''pending'' \<longrightarrow> wt_type t \<in> {''deposit'', ''withdrawal''})"

definition wf_wtxns :: "db \<Rightarrow> bool" where
  "wf_wtxns d \<longleftrightarrow> distinct (map wt_id (wtxns d)) \<and> (\<forall>t\<in>set (wtxns d). wf_row d t)"

definition books :: "(string \<Rightarrow> int) \<Rightarrow> db \<Rightarrow> bool" where
  "books ob d \<longleftrightarrow>
     wf_users d \<and> wf_wtxns d \<and> reconciled ob d \<and> solvent d \<and> money_supply d < 2 ^ 63"

text \<open>Only the balances and the ledger matter to \<open>books\<close>.\<close>

definition same_money :: "db \<Rightarrow> db \<Rightarrow> bool" where
  "same_money d d' \<longleftrightarrow> users d' = users d \<and> wtxns d' = wtxns d \<and> wtxn_seq d' = wtxn_seq d"

lemma same_money_balance: "same_money d d' \<Longrightarrow> balance_of i d' = balance_of i d"
  by (simp add: same_money_def balance_of_def find_user_def)

lemma same_money_books:
  assumes "same_money d d'"
  shows "books ob d' \<longleftrightarrow> books ob d" "money_supply d' = money_supply d"
proof -
  have "user_exists i d' = user_exists i d" for i
    using assms by (simp add: user_exists_def find_user_def same_money_def)
  with assms show "books ob d' \<longleftrightarrow> books ob d" "money_supply d' = money_supply d"
    by (simp_all add: same_money_def books_def wf_users_def wf_wtxns_def reconciled_def solvent_def
        money_supply_def total_balance_def held_def ledger_of_def wf_row_def)
qed

lemma balance_row:
  assumes "balance_of i d = Some b"
  obtains u where "u \<in> set (users d)" "u_id u = i" "u_balance u = b" "find_user i d = Some u"
  using assms by (auto simp: balance_of_def dest: find_user_in find_user_id)

lemma reconciled_balance:
  "reconciled ob d \<Longrightarrow> balance_of i d = Some b \<Longrightarrow> b = ob i + ledger_of i d"
  by (auto simp: reconciled_def elim!: balance_row)

lemma solvent_balance: "solvent d \<Longrightarrow> balance_of i d = Some b \<Longrightarrow> 0 \<le> b"
  by (auto simp: solvent_def elim!: balance_row)

lemma held_nonneg: "wf_wtxns d \<Longrightarrow> 0 \<le> held d"
  unfolding held_def wf_wtxns_def by (intro sum_list_nonneg) (force simp: wt_held_def wf_row_def)

lemma sum_list_ge_elem:
  fixes f :: "'a \<Rightarrow> int"
  shows "(\<And>x. x \<in> set xs \<Longrightarrow> 0 \<le> f x) \<Longrightarrow> x \<in> set xs \<Longrightarrow> f x \<le> (\<Sum>x\<leftarrow>xs. f x)"
proof (induction xs)
  case (Cons a xs)
  then have "0 \<le> (\<Sum>x\<leftarrow>xs. f x)" by (auto intro!: sum_list_nonneg)
  moreover have "0 \<le> f a" using Cons.prems by simp
  moreover have "f x \<le> (\<Sum>x\<leftarrow>xs. f x)" if "x \<in> set xs" using Cons that by auto
  ultimately show ?case using Cons.prems(2) by (auto intro: add_increasing)
qed simp

lemma balance_le_total:
  "solvent d \<Longrightarrow> balance_of i d = Some b \<Longrightarrow> b \<le> total_balance d"
  unfolding total_balance_def solvent_def
  by (elim balance_row) (metis sum_list_ge_elem)


section \<open>Accounts: an interface with a lookup, an assignment and a total\<close>

locale account_store =
  fixes bal :: "'k \<Rightarrow> 'd \<Rightarrow> int option"
    and put :: "'k \<Rightarrow> int \<Rightarrow> 'd \<Rightarrow> 'd"
    and total :: "'d \<Rightarrow> int"
    and valid :: "'d \<Rightarrow> bool"
  assumes bal_put: "bal j (put i b d) = (if j = i then map_option (\<lambda>_. b) (bal i d) else bal j d)"
    and total_put: "valid d \<Longrightarrow> bal i d = Some b0 \<Longrightarrow> total (put i b d) = total d - b0 + b"
    and valid_put: "valid d \<Longrightarrow> valid (put i b d)"
begin

lemma bal_move:
  assumes "a \<noteq> b" "bal a d = Some x" "bal b d = Some y"
  shows "bal j (put b y' (put a x' d)) = (if j = a then Some x' else if j = b then Some y' else bal j d)"
  using assms by (simp add: bal_put)

lemma total_move:
  assumes "valid d" "a \<noteq> b" "bal a d = Some x" "bal b d = Some y"
  shows "total (put b y' (put a x' d)) = total d - x + x' - y + y'"
proof -
  have "bal b (put a x' d) = Some y" using assms by (simp add: bal_put)
  then show ?thesis using assms by (simp add: total_put valid_put)
qed

lemma transfer_total:
  assumes "valid d" "a \<noteq> b" "bal a d = Some x" "bal b d = Some y"
  shows "total (put b (y + m) (put a (x - m) d)) = total d"
  using total_move [OF assms] by simp

end

interpretation acct: account_store balance_of put_balance total_balance wf_users
proof (unfold_locales, goal_cases)
  case (1 j i b d)
  then show ?case by (rule balance_put)
next
  case (2 d i b0 b)
  then obtain u where "find_user i d = Some u" "u_balance u = b0" by (auto simp: balance_of_def)
  with 2 show ?case
    by (simp add: wf_users_def total_balance_def put_balance_def find_user_def
        sum_upd_key [of u_id "users d" i u])
next
  case (3 d i b)
  then show ?case by (simp add: wf_users_def put_balance_def map_upd_where)
qed


section \<open>Postings\<close>

lemma user_balance: "wf_users d \<Longrightarrow> u \<in> set (users d) \<Longrightarrow> balance_of (u_id u) d = Some (u_balance u)"
  by (simp add: wf_users_def balance_of_def find_user_def find_unique)

lemma reconciled_iff:
  "wf_users d \<Longrightarrow>
   reconciled ob d \<longleftrightarrow> (\<forall>i b. balance_of i d = Some b \<longrightarrow> b = ob i + ledger_of i d)"
  by (auto simp: reconciled_def user_balance elim!: balance_row)

lemma solvent_iff:
  assumes "wf_users d"
  shows "solvent d \<longleftrightarrow> (\<forall>i b. balance_of i d = Some b \<longrightarrow> 0 \<le> b)"
proof
  show "solvent d \<Longrightarrow> \<forall>i b. balance_of i d = Some b \<longrightarrow> 0 \<le> b"
    by (simp add: solvent_balance)
  assume "\<forall>i b. balance_of i d = Some b \<longrightarrow> 0 \<le> b"
  then show "solvent d" unfolding solvent_def by (blast dest: user_balance [OF assms])
qed

lemma ledger_add [simp]:
  "ledger_of i (add_wtxn t d) = ledger_of i d + (if wt_user t = i then wt_effect t else 0)"
  by (simp add: ledger_of_def db_simps)

lemma ledger_put_balance [simp]: "ledger_of i (put_balance j b d) = ledger_of i d"
  by (simp add: ledger_of_def db_simps)

lemma held_add [simp]: "held (add_wtxn t d) = held d + wt_held t"
  by (simp add: held_def db_simps)

lemma held_put_balance [simp]: "held (put_balance j b d) = held d"
  by (simp add: held_def db_simps)

lemma total_add [simp]: "total_balance (add_wtxn t d) = total_balance d"
  by (simp add: total_balance_def db_simps)

lemma total_put_wtxn [simp]: "total_balance (put_wtxn i f d) = total_balance d"
  by (simp add: total_balance_def db_simps)

lemma wf_users_add [simp]: "wf_users (add_wtxn t d) = wf_users d" "wf_users (put_wtxn i f d) = wf_users d"
  by (simp_all add: wf_users_def db_simps)

lemma ledger_put_wtxn:
  assumes "distinct (map wt_id (wtxns d))" "find_wtxn i d = Some t" "wt_user (f t) = wt_user t"
  shows "ledger_of j (put_wtxn i f d) =
    ledger_of j d + (if wt_user t = j then wt_effect (f t) - wt_effect t else 0)"
  using assms
  by (simp add: ledger_of_def db_simps find_wtxn_def sum_upd_key [of wt_id "wtxns d" i t])

lemma held_put_wtxn:
  assumes "distinct (map wt_id (wtxns d))" "find_wtxn i d = Some t"
  shows "held (put_wtxn i f d) = held d + wt_held (f t) - wt_held t"
  using assms by (simp add: held_def db_simps find_wtxn_def sum_upd_key [of wt_id "wtxns d" i t])

lemma find_wtxn_in: "find_wtxn i d = Some t \<Longrightarrow> t \<in> set (wtxns d) \<and> wt_id t = i"
  by (auto simp: find_wtxn_def dest: find_in)

lemma wf_row_put_balance [simp]: "wf_row (put_balance i b d) t \<longleftrightarrow> wf_row d t"
  by (simp add: wf_row_def db_simps)

lemma wf_wtxns_put_balance [simp]: "wf_wtxns (put_balance i b d) \<longleftrightarrow> wf_wtxns d"
  by (simp add: wf_wtxns_def db_simps)

lemma wf_wtxns_add:
  assumes "wf_wtxns d" "wt_id t = wtxn_seq d + 1" "0 < wt_amount t" "user_exists (wt_user t) d"
    and "wt_status t = ''pending'' \<longrightarrow> wt_type t \<in> {''deposit'', ''withdrawal''}"
  shows "wf_wtxns (add_wtxn t d)"
proof -
  have "wt_id t \<notin> wt_id ` set (wtxns d)"
    using assms by (force simp: wf_wtxns_def wf_row_def)
  then show ?thesis
    using assms by (auto simp: wf_wtxns_def wf_row_def db_simps)
qed

lemma wf_wtxns_put:
  assumes "wf_wtxns d"
    and "\<And>t. wt_id (f t) = wt_id t" "\<And>t. wt_user (f t) = wt_user t"
      "\<And>t. wt_amount (f t) = wt_amount t" "\<And>t. wt_status (f t) \<noteq> ''pending''"
  shows "wf_wtxns (put_wtxn i f d)"
  using assms by (auto simp: wf_wtxns_def wf_row_def db_simps map_upd_where set_upd_where)

lemma new_wtxn_fields [simp]:
  "wt_id (new_wtxn n u ty a af st rf nt d) = wtxn_seq d + 1"
  "wt_user (new_wtxn n u ty a af st rf nt d) = u"
  "wt_type (new_wtxn n u ty a af st rf nt d) = ty"
  "wt_amount (new_wtxn n u ty a af st rf nt d) = a"
  "wt_status (new_wtxn n u ty a af st rf nt d) = st"
  "wt_after (new_wtxn n u ty a af st rf nt d) = af"
  "wt_ref (new_wtxn n u ty a af st rf nt d) = rf"
  by (simp_all add: new_wtxn_def)

lemma books_facts:
  assumes "books ob d" "balance_of i d = Some b"
  shows "0 \<le> b" "b = ob i + ledger_of i d" "b \<le> total_balance d" "b < 2 ^ 63"
    "b \<le> money_supply d" "user_exists i d"
proof -
  from assms have w: "wf_wtxns d" "solvent d" "reconciled ob d" "money_supply d < 2 ^ 63"
    by (simp_all add: books_def)
  show "0 \<le> b" using w assms by (simp add: solvent_balance)
  show "b = ob i + ledger_of i d" using w assms by (simp add: reconciled_balance)
  show t: "b \<le> total_balance d" using w assms by (simp add: balance_le_total)
  with held_nonneg [OF w(1)] w(4) show "b < 2 ^ 63" "b \<le> money_supply d"
    by (simp_all add: money_supply_def)
  show "user_exists i d" using assms by (simp add: user_exists_balance)
qed

text \<open>Two balances moved, with the row of each: transfers, sales, commissions.\<close>

definition post_pair ::
  "instant \<Rightarrow> string \<Rightarrow> string \<Rightarrow> int \<Rightarrow> int \<Rightarrow> string option \<Rightarrow> string \<Rightarrow> int \<Rightarrow> int \<Rightarrow> string option \<Rightarrow> db \<Rightarrow> db" where
  "post_pair nw a ta xa a_new na b xb b_new nb d =
     (let d1 = put_balance b b_new (put_balance a a_new d);
          d2 = add_wtxn (new_wtxn nw a ta xa a_new ''completed'' (Some b) na d1) d1
      in add_wtxn (new_wtxn nw b ''transfer_in'' xb b_new ''completed'' (Some a) nb d2) d2)"

lemma post_pair_balance:
  assumes "a \<noteq> b" "balance_of a d = Some x" "balance_of b d = Some y"
  shows "balance_of j (post_pair nw a ta xa a_new na b xb b_new nb d) =
    (if j = a then Some a_new else if j = b then Some b_new else balance_of j d)"
  using acct.bal_move [OF assms] by (simp add: post_pair_def Let_def db_simps)

lemma post_pair_fields:
  "purchases (post_pair nw a ta xa a_new na b xb b_new nb d) = purchases d"
  "allowlist (post_pair nw a ta xa a_new na b xb b_new nb d) = allowlist d"
  "videos (post_pair nw a ta xa a_new na b xb b_new nb d) = videos d"
  "aff_commissions (post_pair nw a ta xa a_new na b xb b_new nb d) = aff_commissions d"
  "aff_settings (post_pair nw a ta xa a_new na b xb b_new nb d) = aff_settings d"
  "map u_id (users (post_pair nw a ta xa a_new na b xb b_new nb d)) = map u_id (users d)"
  by (simp_all add: post_pair_def Let_def db_simps put_balance_def map_upd_where)

lemma post_pair_books:
  fixes nw na nb
  assumes "books ob d" "a \<noteq> b" "balance_of a d = Some x" "balance_of b d = Some y"
    and "0 < xa" "xa \<le> x" "0 < xb" "xb \<le> xa" "ta \<in> {''transfer_out'', ''payment''}"
  defines "d' \<equiv> post_pair nw a ta xa (x - xa) na b xb (y + xb) nb d"
  shows "books ob d'" "money_supply d' = money_supply d - xa + xb"
proof -
  have w: "wf_users d" "wf_wtxns d" "reconciled ob d" "solvent d" "money_supply d < 2 ^ 63"
    using assms(1) by (simp_all add: books_def)
  have bal: "balance_of j d' = (if j = a then Some (x - xa) else if j = b then Some (y + xb)
      else balance_of j d)" for j
    unfolding d'_def by (rule post_pair_balance [OF assms(2-4)])
  have wu: "wf_users d'"
    using w(1) by (simp add: d'_def wf_users_def post_pair_fields)
  have t: "total_balance d' = total_balance d - xa + xb"
    using acct.total_move [OF w(1) assms(2-4)] by (simp add: d'_def post_pair_def Let_def)
  have "held d' = held d"
    using assms(9) by (auto simp: d'_def post_pair_def Let_def wt_held_def)
  with t show s: "money_supply d' = money_supply d - xa + xb" by (simp add: money_supply_def)
  have ex: "user_exists a d" "user_exists b d" using assms by (auto simp: user_exists_balance)
  have ww: "wf_wtxns d'"
    unfolding d'_def post_pair_def Let_def
    using w(2) assms(5,7) ex by (intro wf_wtxns_add) (simp_all add: db_simps)
  have l: "ledger_of j d' = ledger_of j d + (if j = a then - xa else if j = b then xb else 0)" for j
    using assms(2,9) by (auto simp: d'_def post_pair_def Let_def wt_effect_def)
  have r: "reconciled ob d'"
    using w(3) assms(2-4) unfolding reconciled_iff [OF wu] reconciled_iff [OF w(1)]
    by (auto simp: l bal)
  have so: "solvent d'"
    using w(4) assms(2-7) unfolding solvent_iff [OF wu] solvent_iff [OF w(1)]
    by (auto simp: bal)
  show "books ob d'" using wu ww r so s w(5) assms(8) by (simp add: books_def)
qed

text \<open>Two users' balances together are part of the total, so moving money never overflows.\<close>

lemma balance_pair_le_total:
  assumes "books ob d" "a \<noteq> b" "balance_of a d = Some x" "balance_of b d = Some y"
  shows "x + y \<le> total_balance d" "x + y < 2 ^ 63"
proof -
  have w: "wf_users d" "wf_wtxns d" "money_supply d < 2 ^ 63" "solvent d"
    using assms(1) by (simp_all add: books_def)
  let ?d = "put_balance a 0 d"
  have "balance_of b ?d = Some y" using assms by (simp add: db_simps)
  moreover have "solvent ?d"
    using w(4) unfolding solvent_iff [OF acct.valid_put [OF w(1)]] solvent_iff [OF w(1)]
    by (auto simp: db_simps)
  ultimately have "y \<le> total_balance ?d" by (rule balance_le_total [rotated])
  also have "\<dots> = total_balance d - x" using acct.total_put [OF w(1) assms(3)] by simp
  finally show "x + y \<le> total_balance d" by simp
  with held_nonneg [OF w(2)] w(3) show "x + y < 2 ^ 63" by (simp add: money_supply_def)
qed

lemma post_pair_books64:
  assumes "books ob d" "a \<noteq> b" "balance_of a d = Some x" "balance_of b d = Some y"
    and "0 < xa" "xa \<le> x" "0 < xb" "xb \<le> xa" "ta \<in> {''transfer_out'', ''payment''}"
    and "d' = post_pair nw a ta xa (sub64 x xa) na b xb (add64 y xb) nb d"
  shows "books ob d'" "money_supply d' = money_supply d - xa + xb"
    "sub64 x xa = x - xa" "add64 y xb = y + xb"
proof -
  note b = books_facts [OF assms(1,3)] books_facts [OF assms(1,4)]
    balance_pair_le_total [OF assms(1-4)]
  show s: "sub64 x xa = x - xa" using b assms by (simp add: sub64_nonneg)
  show t: "add64 y xb = y + xb" using b assms by (simp add: add64_nonneg)
  show "books ob d'" "money_supply d' = money_supply d - xa + xb"
    using post_pair_books [OF assms(1-9), of nw na nb] assms(10) by (simp_all add: s t)
qed

text \<open>A single row and at most one balance: requests, approvals, refunds.\<close>

lemma books_add_request:
  assumes "books ob d" "user_exists (wt_user t) d" "0 < wt_amount t" "wt_id t = wtxn_seq d + 1"
    and "wt_type t = ''deposit''" "wt_status t = ''pending''"
  shows "books ob (add_wtxn t d)" "money_supply (add_wtxn t d) = money_supply d"
proof -
  have w: "wf_users d" "wf_wtxns d" "reconciled ob d" "solvent d" "money_supply d < 2 ^ 63"
    using assms(1) by (simp_all add: books_def)
  have m: "money_supply (add_wtxn t d) = money_supply d"
    using assms(5) by (simp add: money_supply_def wt_held_def)
  moreover have "reconciled ob (add_wtxn t d)"
    using w(3) assms(5,6) by (simp add: reconciled_def db_simps wt_effect_def)
  moreover have "solvent (add_wtxn t d)" using w(4) by (simp add: solvent_def db_simps)
  moreover have "wf_wtxns (add_wtxn t d)" using w(2) assms by (intro wf_wtxns_add) simp_all
  ultimately show "books ob (add_wtxn t d)" using w by (simp add: books_def)
  show "money_supply (add_wtxn t d) = money_supply d" by (rule m)
qed

lemma books_add_withdrawal:
  assumes "books ob d" "balance_of i d = Some b" "wt_user t = i" "0 < wt_amount t" "wt_amount t \<le> b"
    and "wt_id t = wtxn_seq d + 1" "wt_type t = ''withdrawal''" "wt_status t = ''pending''"
  defines "d' \<equiv> add_wtxn t (put_balance i (b - wt_amount t) d)"
  shows "books ob d'" "money_supply d' = money_supply d"
proof -
  have w: "wf_users d" "wf_wtxns d" "reconciled ob d" "solvent d" "money_supply d < 2 ^ 63"
    using assms(1) by (simp_all add: books_def)
  have wu: "wf_users d'" using w(1) by (simp add: d'_def acct.valid_put)
  have bal: "balance_of j d' = (if j = i then Some (b - wt_amount t) else balance_of j d)" for j
    using assms(2) by (simp add: d'_def db_simps)
  have l: "ledger_of j d' = ledger_of j d - (if j = i then wt_amount t else 0)" for j
    using assms(3,7,8) by (simp add: d'_def wt_effect_def)
  show m: "money_supply d' = money_supply d"
    using assms(7,8) acct.total_put [OF w(1) assms(2)]
    by (simp add: d'_def money_supply_def wt_held_def)
  have "reconciled ob d'"
    using w(3) assms(2) unfolding reconciled_iff [OF wu] reconciled_iff [OF w(1)]
    by (auto simp: bal l)
  moreover have "solvent d'"
    using w(4) assms(5) unfolding solvent_iff [OF wu] solvent_iff [OF w(1)] by (auto simp: bal)
  moreover have "wf_wtxns d'"
    unfolding d'_def using w(2) assms(2-8)
    by (intro wf_wtxns_add) (auto simp: db_simps user_exists_balance)
  ultimately show "books ob d'" using wu w(5) m by (simp add: books_def)
qed

text \<open>
  A pending row changes its status to a final one and the balance of its user by \<open>c\<close>, the
  change of the row's effect.
\<close>

lemma books_settle:
  assumes "books ob d" "find_wtxn i d = Some t" "wt_status t = ''pending''"
    and "balance_of (wt_user t) d = Some b"
    and f: "\<And>t. wt_id (f t) = wt_id t" "\<And>t. wt_user (f t) = wt_user t" "\<And>t. wt_type (f t) = wt_type t"
      "\<And>t. wt_amount (f t) = wt_amount t" "\<And>t. wt_status (f t) = st"
    and "st \<noteq> ''pending''" "c = wt_effect (f t) - wt_effect t" "0 \<le> c"
    and "money_supply d + c - wt_held t < 2 ^ 63"
    and "d' = put_wtxn i f (if c = 0 then d else put_balance (wt_user t) (b + c) d)"
  shows "books ob d'" "money_supply d' = money_supply d + c - wt_held t"
proof -
  let ?d = "put_balance (wt_user t) (b + c) d"
  have w: "wf_users d" "wf_wtxns d" "reconciled ob d" "solvent d" "money_supply d < 2 ^ 63"
    using assms(1) by (simp_all add: books_def)
  have dist: "distinct (map wt_id (wtxns d))" using w(2) by (simp add: wf_wtxns_def)
  have d': "d' = put_wtxn i f ?d \<or> (c = 0 \<and> d' = put_wtxn i f d)" using assms by auto
  have wu: "wf_users d'" using w(1) d' by (auto simp: acct.valid_put)
  have bal: "balance_of j d' = (if j = wt_user t then Some (b + c) else balance_of j d)" for j
    using d' assms(4) by (auto simp: db_simps)
  have l: "ledger_of j d' = ledger_of j d + (if j = wt_user t then c else 0)" for j
  proof -
    have "ledger_of j (put_wtxn i f d) = ledger_of j d + (if j = wt_user t then c else 0)"
      using ledger_put_wtxn [OF dist assms(2), of f j] f(2) assms(11) by auto
    moreover have "ledger_of j (put_wtxn i f ?d) = ledger_of j (put_wtxn i f d)"
      by (simp add: ledger_of_def db_simps)
    ultimately show ?thesis using d' by auto
  qed
  have "held (put_wtxn i f d) = held d - wt_held t"
    using held_put_wtxn [OF dist assms(2), of f] f(5) assms(10) by (simp add: wt_held_def)
  moreover have "held (put_wtxn i f ?d) = held (put_wtxn i f d)" by (simp add: held_def db_simps)
  moreover have "total_balance ?d = total_balance d + c"
    using acct.total_put [OF w(1) assms(4)] by simp
  ultimately show m: "money_supply d' = money_supply d + c - wt_held t"
    using d' by (auto simp: money_supply_def)
  have "reconciled ob d'"
    using w(3) assms(4) unfolding reconciled_iff [OF wu] reconciled_iff [OF w(1)]
    by (auto simp: bal l)
  moreover have "solvent d'"
    using w(4) assms(4,12) unfolding solvent_iff [OF wu] solvent_iff [OF w(1)] by (auto simp: bal)
  moreover have "wf_wtxns d'"
    using d' w(2) f assms(10) by (auto intro!: wf_wtxns_put)
  ultimately show "books ob d'" using wu assms(13) m by (simp add: books_def)
qed

end
