(* ===== verification/Commission.thy ===== *)
theory Commission
  imports Ledger
begin

text \<open>
  \<open>src/src/commission.rs\<close>: the affiliate's share of a purchase, moved from the creator's
  balance to the affiliate's in a transaction of its own.  \<open>Inl\<close> is the code's \<open>Err\<close>.
\<close>

section \<open>The function\<close>

text \<open>
  \<open>.ok().flatten().map(..).unwrap_or(0)\<close> on a balance query.
\<close>

definition balance_or_0 :: "string + int option \<Rightarrow> int" where
  "balance_or_0 r = (case r of Inr (Some b) \<Rightarrow> b | _ \<Rightarrow> 0)"

text \<open>\<open>((price as i128) * (pct as i128) / 100).max(0) as i64\<close>\<close>

definition commission_cents :: "int \<Rightarrow> int \<Rightarrow> int" where
  "commission_cents price pct = wrap64 (max 0 (quot (price * pct) 100))"

definition commission_tx ::
  "ctx \<Rightarrow> string \<Rightarrow> string \<Rightarrow> string \<Rightarrow> int \<Rightarrow> string \<Rightarrow> string \<Rightarrow> string option \<Rightarrow> int \<Rightarrow> db
    \<Rightarrow> (string + int) \<times> db" where
  "commission_tx C vid buyer owner price aff meth invc commission d =
     (case tx_begin C ''commission.begin'' d of
        Inl e \<Rightarrow> (Inl (''begin tx: '' @ e), d)
      | Inr t0 \<Rightarrow>
     tx_look (tx_read C ''commission.lock'' (\<lambda>_. ()) t0) (\<lambda>_ t1.
     tx_look (tx_read C ''commission.creator_bal'' (balance_of owner) t1) (\<lambda>r2 t2.
     let creator_bal = balance_or_0 r2 in
     if creator_bal < commission then (Inr 0, tx_rollback t2) else
     tx_look (tx_read C ''commission.aff_bal'' (balance_of aff) t2) (\<lambda>r3 t3.
     let aff_bal = balance_or_0 r3;
         creator_new = sub64 creator_bal commission;
         aff_new = add64 aff_bal commission in
     tx_then (tx_write C ''commission.deduct'' (set_balance owner creator_new) t3)
       (\<lambda>e. Inl (''deduct creator: '' @ e)) (\<lambda>_ t4.
     tx_then (tx_write C ''commission.credit'' (set_balance aff aff_new) t4)
       (\<lambda>e. Inl (''credit affiliate: '' @ e)) (\<lambda>_ t5.
     tx_then (tx_write C ''commission.ledger_creator''
         (ins_wtxn (now C) owner ''transfer_out'' commission creator_new ''completed'' (Some aff)
           (Some (''Affiliate commission: '' @ vid))) t5)
       (\<lambda>e. Inl (''ledger creator: '' @ e)) (\<lambda>_ t6.
     tx_then (tx_write C ''commission.ledger_affiliate''
         (ins_wtxn (now C) aff ''transfer_in'' commission aff_new ''completed'' (Some owner)
           (Some (''Commission earned: '' @ vid))) t6)
       (\<lambda>e. Inl (''ledger affiliate: '' @ e)) (\<lambda>_ t7.
     tx_then (tx_write C ''commission.row''
         (ins_aff_commission \<lparr> ac_video = vid, ac_affiliate = aff, ac_buyer = buyer,
            ac_owner = owner, ac_price = price, ac_commission = commission, ac_method = meth,
            ac_invoice = invc, ac_created = now C \<rparr>) t7)
       (\<lambda>e. Inl (''commissions row: '' @ e)) (\<lambda>_ t8.
     tx_end (tx_commit C ''commission.commit'' t8)
       (\<lambda>e. Inl (''commit: '' @ e)) (\<lambda>d'. (Inr commission, d')))))))))))"

definition process_affiliate_commission ::
  "ctx \<Rightarrow> string \<Rightarrow> string \<Rightarrow> string \<Rightarrow> int \<Rightarrow> string \<Rightarrow> string \<Rightarrow> string option \<Rightarrow> db
    \<Rightarrow> (string + int) \<times> db" where
  "process_affiliate_commission C vid buyer owner price affiliate_username meth invc d =
     (let aff_username = trim affiliate_username in
      if aff_username = [] then (Inr 0, d) else
     (case run_read C ''commission.settings'' (find_aff_setting vid) d of
        Inl e \<Rightarrow> (Inl (''affiliate settings: '' @ e), d)
      | Inr None \<Rightarrow> (Inr 0, d)
      | Inr (Some s) \<Rightarrow>
      if \<not> as_enabled s \<or> as_pct s \<le> 0 then (Inr 0, d) else
     (case run_read C ''commission.user'' (find_username aff_username) d of
        Inl e \<Rightarrow> (Inl (''affiliate user lookup: '' @ e), d)
      | Inr None \<Rightarrow> (Inr 0, d)
      | Inr (Some u) \<Rightarrow>
      let aff = u_id u in
      if aff = [] \<or> aff = buyer \<or> aff = owner then (Inr 0, d) else
      let commission = commission_cents price (as_pct s) in
      if commission = 0 then (Inr 0, d)
      else commission_tx C vid buyer owner price aff meth invc commission d)))"


section \<open>The amount\<close>

lemma commission_cents_eq:
  assumes "0 \<le> price" "price < 2 ^ 63" "0 \<le> pct" "pct \<le> 90"
  shows "commission_cents price pct = price * pct div 100"
proof -
  have "price * pct div 100 \<le> price * 100 div 100"
    using assms by (intro zdiv_mono1 mult_left_mono) auto
  then have "price * pct div 100 < 2 ^ 63" using assms by simp
  moreover have "0 \<le> price * pct div 100" using assms by (simp add: pos_imp_zdiv_nonneg_iff)
  ultimately show ?thesis
    using assms by (simp add: commission_cents_def quot_nonneg wrap64_id fits64_small max_def)
qed

lemma commission_cents_bounds:
  assumes "0 \<le> price" "price < 2 ^ 63" "0 \<le> pct" "pct \<le> 90"
  shows "0 \<le> commission_cents price pct" "100 * commission_cents price pct \<le> 90 * price"
    "commission_cents price pct \<le> price"
proof -
  have "100 * (price * pct div 100) \<le> price * pct" using pos_mod_sign [of 100 "price * pct"]
    by (simp add: mult_div_mod_eq [symmetric] minus_mod_eq_mult_div [symmetric])
  also have "\<dots> \<le> price * 90" using assms by (intro mult_left_mono) auto
  finally show le: "100 * commission_cents price pct \<le> 90 * price"
    using commission_cents_eq [OF assms] by (simp add: mult.commute)
  show "0 \<le> commission_cents price pct"
    using commission_cents_eq [OF assms] assms by (simp add: pos_imp_zdiv_nonneg_iff)
  show "commission_cents price pct \<le> price" using le assms(1) by simp
qed


section \<open>What the transaction does\<close>

definition commission_posted ::
  "ctx \<Rightarrow> string \<Rightarrow> string \<Rightarrow> string \<Rightarrow> int \<Rightarrow> string \<Rightarrow> string \<Rightarrow> string option \<Rightarrow> int \<Rightarrow> int \<Rightarrow> int \<Rightarrow> db
    \<Rightarrow> db" where
  "commission_posted C vid buyer owner price aff meth invc commission x y d =
     (let d1 = post_pair (now C) owner ''transfer_out'' commission (sub64 x commission)
                 (Some (''Affiliate commission: '' @ vid)) aff commission (add64 y commission)
                 (Some (''Commission earned: '' @ vid)) d
      in d1\<lparr>aff_commissions := aff_commissions d1 @
            [\<lparr> ac_video = vid, ac_affiliate = aff, ac_buyer = buyer, ac_owner = owner,
               ac_price = price, ac_commission = commission, ac_method = meth, ac_invoice = invc,
               ac_created = now C \<rparr>]\<rparr>)"

lemma balance_or_0_simps [simp]:
  "balance_or_0 (Inr (Some b)) = b" "balance_or_0 (Inr None) = 0" "balance_or_0 (Inl e) = 0"
  by (simp_all add: balance_or_0_def)

lemma ins_aff_commission_Inr [run_simps]:
  "ins_aff_commission c d = Inr (x, d') \<longleftrightarrow>
   video_exists (ac_video c) d \<and> user_exists (ac_affiliate c) d \<and> user_exists (ac_buyer c) d
   \<and> user_exists (ac_owner c) d \<and> d' = d\<lparr>aff_commissions := aff_commissions d @ [c]\<rparr>"
  by (auto simp: ins_aff_commission_def)

lemma commission_tx_post:
  assumes "owner \<noteq> aff" "cm \<noteq> 0"
  shows "post (\<lambda>(r, d'). d' = d \<and> (r = Inr 0 \<or> (\<exists>e. r = Inl e)) \<or>
    (\<exists>x y. balance_of owner d = Some x \<and> balance_of aff d = Some y \<and> cm \<le> x \<and> 0 < cm
       \<and> d' = commission_posted C vid buyer owner price aff meth invc cm x y d
       \<and> (r = Inr cm \<or> (\<exists>e. r = Inl e))))
   (commission_tx C vid buyer owner price aff meth invc cm d)"
  using assms
  unfolding commission_tx_def Let_def
  apply (intro post_intros; (simp (no_asm) add: tx_ends run_simps; fail)?)
  apply (auto simp: tx_ends run_simps db_simps commission_posted_def post_pair_def Let_def
      user_exists_balance)
  done

text \<open>What the function answers, and what it did when it left another database behind.\<close>

definition commission_paid ::
  "ctx \<Rightarrow> string \<Rightarrow> string \<Rightarrow> string \<Rightarrow> int \<Rightarrow> string \<Rightarrow> string \<Rightarrow> string option \<Rightarrow> db \<Rightarrow> int \<Rightarrow> db \<Rightarrow> bool" where
  "commission_paid C vid buyer owner price name meth invc d cm d' \<longleftrightarrow>
     (\<exists>s u x y. find_aff_setting vid d = Some s \<and> as_enabled s \<and> 0 < as_pct s
       \<and> find_username (trim name) d = Some u \<and> u_id u \<noteq> buyer \<and> u_id u \<noteq> owner
       \<and> cm = commission_cents price (as_pct s) \<and> 0 < cm \<and> cm \<le> x
       \<and> balance_of owner d = Some x \<and> balance_of (u_id u) d = Some y
       \<and> d' = commission_posted C vid buyer owner price (u_id u) meth invc cm x y d)"

lemma process_post:
  "post (\<lambda>(r, d'). d' = d \<and> (r = Inr 0 \<or> (\<exists>e. r = Inl e)) \<or>
     (\<exists>cm. commission_paid C vid buyer owner price name meth invc d cm d'
        \<and> (r = Inr cm \<or> (\<exists>e. r = Inl e))))
   (process_affiliate_commission C vid buyer owner price name meth invc d)"
  unfolding process_affiliate_commission_def Let_def
  apply (intro post_intros; (auto simp: run_simps; fail)?)
  apply (rule post_mono [OF commission_tx_post])
    apply (auto simp: run_simps commission_paid_def)
  done

lemmas process_cases = process_post [THEN postD]


section \<open>What it does to the books\<close>

lemma same_money_refl [simp, intro]: "same_money d d"
  by (simp add: same_money_def)

lemma commission_posted_same_money:
  "same_money (post_pair (now C) owner ''transfer_out'' cm (sub64 x cm)
       (Some (''Affiliate commission: '' @ vid)) aff cm (add64 y cm)
       (Some (''Commission earned: '' @ vid)) d)
     (commission_posted C vid buyer owner price aff meth invc cm x y d)"
  by (simp add: commission_posted_def Let_def same_money_def)

lemma commission_posted_books:
  assumes "books ob d" "owner \<noteq> aff" "balance_of owner d = Some x" "balance_of aff d = Some y"
    and "0 < cm" "cm \<le> x"
    and "d' = commission_posted C vid buyer owner price aff meth invc cm x y d"
  shows "books ob d'" "money_supply d' = money_supply d"
    "balance_of owner d' = Some (x - cm)" "balance_of aff d' = Some (y + cm)"
    "j \<noteq> owner \<Longrightarrow> j \<noteq> aff \<Longrightarrow> balance_of j d' = balance_of j d"
proof -
  let ?d = "post_pair (now C) owner ''transfer_out'' cm (sub64 x cm)
       (Some (''Affiliate commission: '' @ vid)) aff cm (add64 y cm)
       (Some (''Commission earned: '' @ vid)) d"
  have s: "same_money ?d d'" unfolding assms(7) by (rule commission_posted_same_money)
  note p = post_pair_books64 [OF assms(1-4) assms(5,6) assms(5) order_refl insertI1 refl]
  show "books ob d'" "money_supply d' = money_supply d"
    using p by (simp_all add: same_money_books [OF s])
  show "balance_of owner d' = Some (x - cm)" "balance_of aff d' = Some (y + cm)"
    "j \<noteq> owner \<Longrightarrow> j \<noteq> aff \<Longrightarrow> balance_of j d' = balance_of j d"
    using p(3,4) assms(2)
    by (simp_all add: same_money_balance [OF s] post_pair_balance [OF assms(2-4)])
qed

text \<open>Whatever happens inside, the books stay right and the amount of money the same.\<close>

lemma process_books:
  assumes "books ob d" "process_affiliate_commission C vid buyer owner price name meth invc d = (r, d')"
  shows "books ob d' \<and> money_supply d' = money_supply d"
proof -
  have "books ob d' \<and> money_supply d' = money_supply d"
    if "commission_paid C vid buyer owner price name meth invc d cm d'" for cm
    using that commission_posted_books [OF assms(1)] unfolding commission_paid_def by metis
  with process_cases [OF assms(2)] assms(1) show ?thesis by blast
qed

end
