(* ===== verification/Settings.thy ===== *)
theory Settings
  imports Database
begin

text \<open>
  \<open>src/src/payment_settings.rs\<close>: which means of payment the administrators have enabled.
\<close>

record payment_settings =
  wallet_payment_enabled :: bool
  wallet_transfer_enabled :: bool
  paypal_enabled :: bool
  stripe_enabled :: bool
  xendit_enabled :: bool
  midtrans_enabled :: bool
  x402_enabled :: bool
  default_provider :: "string option"

definition default_payment_settings :: payment_settings where
  "default_payment_settings =
     \<lparr> wallet_payment_enabled = True, wallet_transfer_enabled = True, paypal_enabled = True,
       stripe_enabled = True, xendit_enabled = True, midtrans_enabled = True, x402_enabled = True,
       default_provider = None \<rparr>"

definition is_provider_enabled :: "payment_settings \<Rightarrow> string \<Rightarrow> bool" where
  "is_provider_enabled s provider =
     (let p = ascii_lower (trim provider) in
      if p = ''paypal'' then paypal_enabled s
      else if p = ''stripe'' then stripe_enabled s
      else if p = ''xendit'' then xendit_enabled s
      else if p = ''midtrans'' then midtrans_enabled s
      else if p = ''x402'' then x402_enabled s
      else False)"

definition clean_provider :: "string option \<Rightarrow> string option" where
  "clean_provider p =
     (case p of
        None \<Rightarrow> None
      | Some v \<Rightarrow> (let w = ascii_lower (trim v) in if w = [] then None else Some w))"

text \<open>A failed query, or no row, enables everything.\<close>

definition load_payment_settings :: "ctx \<Rightarrow> db \<Rightarrow> payment_settings" where
  "load_payment_settings C d =
     (case run_read C ''payment_settings'' pay_settings d of
        Inr (Some r) \<Rightarrow>
          \<lparr> wallet_payment_enabled = ps_wallet_payment r,
            wallet_transfer_enabled = ps_wallet_transfer r,
            paypal_enabled = ps_paypal r, stripe_enabled = ps_stripe r,
            xendit_enabled = ps_xendit r, midtrans_enabled = ps_midtrans r,
            x402_enabled = ps_x402 r, default_provider = clean_provider (ps_default r) \<rparr>
      | _ \<Rightarrow> default_payment_settings)"

lemma is_provider_enabled_known:
  "is_provider_enabled s p \<Longrightarrow>
   ascii_lower (trim p) \<in> {''paypal'', ''stripe'', ''xendit'', ''midtrans'', ''x402''}"
  by (auto simp: is_provider_enabled_def Let_def split: if_splits)

lemma default_enables:
  "ascii_lower (trim p) \<in> {''paypal'', ''stripe'', ''xendit'', ''midtrans'', ''x402''} \<Longrightarrow>
   is_provider_enabled default_payment_settings p"
  by (auto simp: is_provider_enabled_def default_payment_settings_def Let_def)

end
