(* ===== verification/Sessions.thy ===== *)
theory Sessions
  imports Database
begin

text \<open>
  \<open>src/src/sessions.rs\<close>: the signed session cookie, the rows of \<open>sessions\<close>, and the guard of
  the admin handlers.  Base64, HMAC-SHA256 and RFC 3339 are third-party functions of the
  context; the lemmas name the documented laws they use.
\<close>

section \<open>The cookie\<close>

definition b64 :: "ctx \<Rightarrow> string \<Rightarrow> string" where
  "b64 C s = b64enc C s"

definition b64_bytes :: "ctx \<Rightarrow> string \<Rightarrow> string" where
  "b64_bytes C bs = b64enc C bs"

definition b64_decode_to_string :: "ctx \<Rightarrow> string \<Rightarrow> string option" where
  "b64_decode_to_string C s =
     (case b64dec C s of
        None \<Rightarrow> None
      | Some bytes \<Rightarrow> if valid_utf8 bytes then Some bytes else None)"

definition sign_sid :: "ctx \<Rightarrow> string \<Rightarrow> string \<Rightarrow> string" where
  "sign_sid C sid secret = b64_bytes C (hmac_tag C secret sid)"

definition build_cookie_value :: "ctx \<Rightarrow> string \<Rightarrow> string \<Rightarrow> string" where
  "build_cookie_value C sid secret = b64 C sid @ ''.'' @ sign_sid C sid secret"

definition parse_and_verify_cookie :: "ctx \<Rightarrow> string \<Rightarrow> string \<Rightarrow> string option" where
  "parse_and_verify_cookie C val secret =
     (case split_once (CHR ''.'') val of
        None \<Rightarrow> None
      | Some (sid_b64, sig_b64) \<Rightarrow>
          (case b64_decode_to_string C sid_b64 of
             None \<Rightarrow> None
           | Some sid \<Rightarrow>
               (case b64dec C sig_b64 of
                  None \<Rightarrow> None
                | Some provided \<Rightarrow>
                    if provided = hmac_tag C secret sid then Some sid else None)))"


section \<open>Session rows\<close>

record set_cookie =
  ck_value :: string
  ck_http_only :: bool
  ck_path :: string
  ck_same_site :: string
  ck_secure :: bool

definition secure_cookie :: "ctx \<Rightarrow> bool" where
  "secure_cookie C =
     (case env_var C ''SESSION_COOKIE_SECURE'' of
        Some value \<Rightarrow> ascii_lower (trim value) \<in> {''1'', ''true'', ''yes''}
      | None \<Rightarrow>
          (case env_var C ''BASE_URL'' of
             Some url \<Rightarrow> starts_with ''https://'' (ascii_lower (trim url))
           | None \<Rightarrow> False))"

definition session_ttl :: "ctx \<Rightarrow> int" where
  "session_ttl C = max (wrap64 (session_token_ttl (cfg C))) 60"

text \<open>The cookie is set only when the row was inserted (the \<open>?\<close> of the code).\<close>

definition create_session ::
  "ctx \<Rightarrow> string \<Rightarrow> bool \<Rightarrow> db \<Rightarrow> (string + set_cookie) \<times> db" where
  "create_session C user_id is_admin d =
     (let sid = fresh_uuid C ''session'';
          exp = plus_secs (now C) (session_ttl C)
      in case run_write C ''session.insert''
           (ins_session \<lparr> s_id = sid, s_user = user_id, s_is_admin = (if is_admin then 1 else 0),
              s_created = rfc3339 C (now C), s_expires = rfc3339 C exp \<rparr>) d of
           (Inl e, d') \<Rightarrow> (Inl e, d')
         | (Inr _, d') \<Rightarrow>
             (Inr \<lparr> ck_value = build_cookie_value C sid (hmac_secret (cfg C)), ck_http_only = True,
                ck_path = ''/'', ck_same_site = ''Lax'', ck_secure = secure_cookie C \<rparr>, d'))"

text \<open>The result is whether the cookie is removed, and the database.\<close>

definition destroy_session :: "ctx \<Rightarrow> db \<Rightarrow> bool \<times> db" where
  "destroy_session C d =
     (case cookie C of
        None \<Rightarrow> (False, d)
      | Some raw \<Rightarrow>
          (case parse_and_verify_cookie C raw (hmac_secret (cfg C)) of
             Some sid \<Rightarrow> (True, snd (run_write C ''session.delete'' (del_session sid) d))
           | None \<Rightarrow> (True, d)))"

definition current_user_id :: "ctx \<Rightarrow> db \<Rightarrow> (string \<times> bool) option \<times> db" where
  "current_user_id C d =
     (case cookie C of
        None \<Rightarrow> (None, d)
      | Some raw \<Rightarrow>
          (case parse_and_verify_cookie C raw (hmac_secret (cfg C)) of
             None \<Rightarrow> (None, d)
           | Some sid \<Rightarrow>
               (case run_read C ''session.select'' (find_session sid) d of
                  Inr (Some row) \<Rightarrow>
                    (case rfc3339_parse C (s_expires row) of
                       None \<Rightarrow> (None, d)
                     | Some exp \<Rightarrow>
                         if exp < now C
                         then (None, snd (run_write C ''session.expire'' (del_session sid) d))
                         else (Some (s_user row, s_is_admin row \<noteq> 0), d))
                | _ \<Rightarrow> (None, d))))"

text \<open>\<open>handlers/admin.rs\<close>: the guard every admin handler starts with.\<close>

definition ensure_admin_session :: "ctx \<Rightarrow> db \<Rightarrow> (json + string) \<times> db" where
  "ensure_admin_session C d =
     (case current_user_id C d of
        (Some (user_id, True), d') \<Rightarrow> (Inr user_id, d')
      | (Some (_, False), d') \<Rightarrow> (Inl (jerr ''admin only''), d')
      | (None, d') \<Rightarrow> (Inl (jerr ''not logged in''), d'))"


section \<open>What the lookups do to the database\<close>

text \<open>\<open>pruned d d'\<close>: the databases differ at most in sessions that are gone.\<close>

definition pruned :: "db \<Rightarrow> db \<Rightarrow> bool" where
  "pruned d d' \<longleftrightarrow> (\<exists>ss. d' = d\<lparr>sessions := ss\<rparr> \<and> set ss \<subseteq> set (sessions d))"

lemma pruned_refl [simp, intro]: "pruned d d"
  unfolding pruned_def by (rule exI [of _ "sessions d"]) simp

lemma pruned_del: "del_session i d = Inr (x, d') \<Longrightarrow> pruned d d'"
  by (auto simp: del_session_def pruned_def)

lemma pruned_fields [db_simps]:
  assumes "pruned d d'"
  shows "users d' = users d" "videos d' = videos d" "wtxns d' = wtxns d" "wtxn_seq d' = wtxn_seq d"
    "purchases d' = purchases d" "allowlist d' = allowlist d" "aff_settings d' = aff_settings d"
    "aff_commissions d' = aff_commissions d" "pay_settings d' = pay_settings d" "blocks d' = blocks d"
    "fiat_invoices d' = fiat_invoices d" "x402_invoices d' = x402_invoices d"
    "purchase_seq d' = purchase_seq d"
  using assms by (auto simp: pruned_def)

lemma pruned_write: "pruned d (snd (run_write C s (del_session i) d))"
proof -
  obtain r d' where r: "run_write C s (del_session i) d = (r, d')" by force
  from run_write_cases(1) [OF r] pruned_del show ?thesis unfolding r by auto
qed

lemma current_user_pruned: "current_user_id C d = (r, d') \<Longrightarrow> pruned d d'"
  unfolding current_user_id_def
  by (auto split: option.splits sum.splits if_splits intro: pruned_write)

lemma current_user_Some: "current_user_id C d = (Some v, d') \<Longrightarrow> d' = d"
  unfolding current_user_id_def
  by (auto split: option.splits sum.splits if_splits)

lemma ensure_admin_pruned: "ensure_admin_session C d = (r, d') \<Longrightarrow> pruned d d'"
  unfolding ensure_admin_session_def
  by (auto split: option.splits prod.splits bool.splits dest: current_user_pruned)

lemma ensure_admin_Inr: "ensure_admin_session C d = (Inr a, d') \<Longrightarrow> d' = d"
  unfolding ensure_admin_session_def
  by (auto split: option.splits prod.splits bool.splits dest: current_user_Some)

lemma ensure_admin_user:
  "ensure_admin_session C d = (Inr a, d') \<longleftrightarrow> current_user_id C d = (Some (a, True), d')"
  unfolding ensure_admin_session_def by (auto split: option.splits prod.splits bool.splits)

lemma ensure_admin_Inl: "ensure_admin_session C d = (Inl j, d') \<Longrightarrow> \<not> answer_ok j"
  unfolding ensure_admin_session_def by (auto split: option.splits prod.splits bool.splits)

end
