(* ===== verification/Wallet.thy ===== *)
theory Wallet
  imports Commission Settings Sessions
begin

text \<open>
  \<open>src/src/handlers/wallet.rs\<close>: balance, history, deposit and withdrawal requests, transfers
  between users and buying a video from the balance.  A handler takes the context of the
  request and the database and gives the JSON answer and the database afterwards.
\<close>

definition MIN_DEPOSIT_CENTS :: int where "MIN_DEPOSIT_CENTS = 1000"
definition MIN_WITHDRAWAL_CENTS :: int where "MIN_WITHDRAWAL_CENTS = 5000"
definition MIN_TRANSFER_CENTS :: int where "MIN_TRANSFER_CENTS = 100"

definition cents_to_display :: "int \<Rightarrow> string" where
  "cents_to_display c =
     ''$'' @ string_of_int (quot c 100) @ ''.'' @ pad2 (nat \<bar>rmd c 100\<bar>)"

definition not_logged_in :: json where
  "not_logged_in = jerr ''not logged in''"


section \<open>Balance and history\<close>

definition wallet_balance :: "ctx \<Rightarrow> db \<Rightarrow> json \<times> db" where
  "wallet_balance C d0 =
     (case current_user_id C d0 of
        (None, d) \<Rightarrow> (not_logged_in, d)
      | (Some (uid, _), d) \<Rightarrow>
          let bal = balance_or_0 (run_read C ''wallet.balance'' (balance_of uid) d) in
          (jok [(''balance_cents'', JNum bal), (''balance_display'', JStr (cents_to_display bal))], d))"

definition txn_row_json :: "ctx \<Rightarrow> db \<Rightarrow> wtxn \<Rightarrow> json" where
  "txn_row_json C d t = JObj
     [(''id'', JNum (wt_id t)), (''txn_type'', JStr (wt_type t)), (''amount_cents'', JNum (wt_amount t)),
      (''balance_after'', JNum (wt_after t)), (''status'', JStr (wt_status t)),
      (''ref_username'', jopt (case wt_ref t of None \<Rightarrow> None
          | Some r \<Rightarrow> map_option u_username (find_user r d))),
      (''note'', jopt (wt_note t)), (''admin_note'', jopt (wt_admin_note t)),
      (''created_at'', JStr (pg_text C (wt_created t)))]"

text \<open>PostgreSQL refuses a negative limit.\<close>

definition sql_limit :: "int \<Rightarrow> 'r list \<Rightarrow> string + 'r list" where
  "sql_limit n rows = (if n < 0 then Inl ''LIMIT must not be negative'' else Inr (take (nat n) rows))"

definition wallet_transactions :: "ctx \<Rightarrow> int option \<Rightarrow> db \<Rightarrow> json \<times> db" where
  "wallet_transactions C q_limit d0 =
     (case current_user_id C d0 of
        (None, d) \<Rightarrow> (not_logged_in, d)
      | (Some (uid, _), d) \<Rightarrow>
          let limit = min (case q_limit of None \<Rightarrow> 50 | Some l \<Rightarrow> l) 200 in
          (case run_read C ''wallet.transactions''
                  (\<lambda>d. sql_limit limit (order_by_desc wt_created (filter (\<lambda>t. wt_user t = uid) (wtxns d)))) d of
             Inl e \<Rightarrow> (jerr (''db: '' @ e), d)
           | Inr (Inl c) \<Rightarrow> (jerr (''db: '' @ viol C c), d)
           | Inr (Inr rows) \<Rightarrow> (jok [(''items'', JArr (map (txn_row_json C d) rows))], d)))"


section \<open>Requests\<close>

definition wallet_deposit :: "ctx \<Rightarrow> int \<Rightarrow> string option \<Rightarrow> db \<Rightarrow> json \<times> db" where
  "wallet_deposit C amount note d0 =
     (case current_user_id C d0 of
        (None, d) \<Rightarrow> (not_logged_in, d)
      | (Some (uid, _), d) \<Rightarrow>
          if amount < MIN_DEPOSIT_CENTS
          then (jerr (''minimum deposit is '' @ cents_to_display MIN_DEPOSIT_CENTS), d)
          else
          let cur_bal = balance_or_0 (run_read C ''deposit.balance'' (balance_of uid) d) in
          (case run_write C ''deposit.insert''
                  (ins_wtxn (now C) uid ''deposit'' amount cur_bal ''pending'' None note) d of
             (Inr i, d') \<Rightarrow>
               (jok [(''txn_id'', JNum i),
                     (''message'', JStr ''Deposit request submitted. Awaiting admin approval.'')], d')
           | (Inl e, d') \<Rightarrow> (jerr (''db: '' @ e), d')))"

text \<open>The result of \<open>commit\<close> is dropped (\<open>let _ = tx.commit().await\<close>): the answer is \<open>ok\<close>.\<close>

definition wallet_withdraw :: "ctx \<Rightarrow> int \<Rightarrow> string option \<Rightarrow> db \<Rightarrow> json \<times> db" where
  "wallet_withdraw C amount note d0 =
     (case current_user_id C d0 of
        (None, d) \<Rightarrow> (not_logged_in, d)
      | (Some (uid, _), d) \<Rightarrow>
          if amount < MIN_WITHDRAWAL_CENTS
          then (jerr (''minimum withdrawal is '' @ cents_to_display MIN_WITHDRAWAL_CENTS), d)
          else
     (case tx_begin C ''withdraw.begin'' d of
        Inl e \<Rightarrow> (jerr (''begin tx: '' @ e), d)
      | Inr t0 \<Rightarrow>
     tx_then (tx_read C ''withdraw.balance'' (balance_of uid) t0) (\<lambda>_. jerr ''user not found'') (\<lambda>r t1.
     (case r of
        None \<Rightarrow> (jerr ''user not found'', tx_rollback t1)
      | Some bal \<Rightarrow>
     if bal < amount
     then (jerr (''insufficient balance ('' @ cents_to_display bal @ '')''), tx_rollback t1)
     else
     let new_bal = sub64 bal amount in
     tx_then (tx_write C ''withdraw.update'' (set_balance uid new_bal) t1)
       (\<lambda>e. jerr (''db update: '' @ e)) (\<lambda>_ t2.
     tx_then (tx_write C ''withdraw.insert''
         (ins_wtxn (now C) uid ''withdrawal'' amount new_bal ''pending'' None note) t2)
       (\<lambda>e. jerr (''db insert: '' @ e)) (\<lambda>i t3.
     (jok [(''txn_id'', JNum i), (''balance_cents'', JNum new_bal),
           (''balance_display'', JStr (cents_to_display new_bal)),
           (''message'', JStr ''Withdrawal request submitted. Admin will process your payout.'')],
      snd (tx_commit C ''withdraw.commit'' t3))))))))"


section \<open>Transfers\<close>

definition transfer_tx ::
  "ctx \<Rightarrow> string \<Rightarrow> string \<Rightarrow> string \<Rightarrow> int \<Rightarrow> string option \<Rightarrow> db \<Rightarrow> json \<times> db" where
  "transfer_tx C uid recip_id recip_name amount note d =
     (case tx_begin C ''transfer.begin'' d of
        Inl e \<Rightarrow> (jerr (''begin tx: '' @ e), d)
      | Inr t0 \<Rightarrow>
     tx_look (tx_read C ''transfer.lock'' (\<lambda>_. ()) t0) (\<lambda>_ t1.
     tx_look (tx_read C ''transfer.sender_bal'' (balance_of uid) t1) (\<lambda>r2 t2.
     let sender_bal = balance_or_0 r2 in
     if sender_bal < amount
     then (jerr (''insufficient balance ('' @ cents_to_display sender_bal @ '')''), tx_rollback t2)
     else
     tx_look (tx_read C ''transfer.recip_bal'' (balance_of recip_id) t2) (\<lambda>r3 t3.
     let recip_bal = balance_or_0 r3;
         sender_new = sub64 sender_bal amount;
         recip_new = add64 recip_bal amount in
     tx_then (tx_write C ''transfer.sender'' (set_balance uid sender_new) t3)
       (\<lambda>e. jerr (''db sender: '' @ e)) (\<lambda>_ t4.
     tx_then (tx_write C ''transfer.recipient'' (set_balance recip_id recip_new) t4)
       (\<lambda>e. jerr (''db recipient: '' @ e)) (\<lambda>_ t5.
     tx_then (tx_write C ''transfer.ledger_out''
         (ins_wtxn (now C) uid ''transfer_out'' amount sender_new ''completed'' (Some recip_id) note) t5)
       (\<lambda>e. jerr (''ledger out: '' @ e)) (\<lambda>_ t6.
     tx_then (tx_write C ''transfer.ledger_in''
         (ins_wtxn (now C) recip_id ''transfer_in'' amount recip_new ''completed'' (Some uid) note) t6)
       (\<lambda>e. jerr (''ledger in: '' @ e)) (\<lambda>_ t7.
     tx_end (tx_commit C ''transfer.commit'' t7) (\<lambda>e. jerr (''commit: '' @ e)) (\<lambda>d'.
     (jok [(''balance_cents'', JNum sender_new),
           (''balance_display'', JStr (cents_to_display sender_new)),
           (''transferred_to'', JStr recip_name),
           (''amount_display'', JStr (cents_to_display amount))], d'))))))))))"

definition wallet_transfer ::
  "ctx \<Rightarrow> string \<Rightarrow> int \<Rightarrow> string option \<Rightarrow> db \<Rightarrow> json \<times> db" where
  "wallet_transfer C to_username amount note d0 =
     (if \<not> wallet_transfer_enabled (load_payment_settings C d0)
      then (jerr ''wallet transfer is currently disabled by admin'', d0)
      else
     (case current_user_id C d0 of
        (None, d) \<Rightarrow> (not_logged_in, d)
      | (Some (uid, _), d) \<Rightarrow>
     if amount < MIN_TRANSFER_CENTS
     then (jerr (''minimum transfer is '' @ cents_to_display MIN_TRANSFER_CENTS), d)
     else
     (case run_read C ''transfer.recipient_row'' (find_username (trim to_username)) d of
        Inl e \<Rightarrow> (jerr (''db: '' @ e), d)
      | Inr None \<Rightarrow> (jerr ''recipient not found'', d)
      | Inr (Some u) \<Rightarrow>
          if u_id u = uid then (jerr ''cannot transfer to yourself'', d)
          else transfer_tx C uid (u_id u) (u_username u) amount note d)))"


section \<open>Buying a video from the balance\<close>

text \<open>What \<open>wallet_pay_video\<close> has computed when it begins its transaction.\<close>

record pay_plan =
  pp_buyer :: string
  pp_buyer_name :: string
  pp_video :: string
  pp_owner :: string
  pp_owner_name :: string
  pp_price :: int
  pp_cut :: int

definition creator_cut :: "int \<Rightarrow> int \<Rightarrow> int" where
  "creator_cut price split_bp = wrap64 (quot (price * split_bp) 10000)"

definition wallet_pay_check :: "ctx \<Rightarrow> string \<Rightarrow> db \<Rightarrow> (json + pay_plan) \<times> db" where
  "wallet_pay_check C vid d0 =
     (if \<not> wallet_payment_enabled (load_payment_settings C d0)
      then (Inl (jerr ''wallet payment is currently disabled by admin''), d0)
      else
     (case current_user_id C d0 of
        (None, d) \<Rightarrow> (Inl not_logged_in, d)
      | (Some (uid, _), d) \<Rightarrow>
     if vid = [] then (Inl (jerr ''video_id required''), d)
     else
     (case run_read C ''pay.video'' (\<lambda>d. case find_video vid d of None \<Rightarrow> None
             | Some v \<Rightarrow> map_option (\<lambda>u. (v, u)) (find_user (v_owner v) d)) d of
        Inl e \<Rightarrow> (Inl (jerr (''db: '' @ e)), d)
      | Inr None \<Rightarrow> (Inl (jerr ''video not found''), d)
      | Inr (Some (v, u)) \<Rightarrow>
     if v_owner v = uid then (Inl (jerr ''you own this video''), d)
     else if v_price v \<le> 0 then (Inl (jerr ''video has no price set''), d)
     else
     let already = (case run_read C ''pay.already''
             (\<lambda>d. count_where (\<lambda>p. pu_user p = uid \<and> pu_video p = vid) (purchases d)) d of
           Inr n \<Rightarrow> n | Inl _ \<Rightarrow> 0) in
     if already > 0 then (Inl (jerr ''already purchased''), d)
     else
     let buyer_name = (case run_read C ''pay.buyer_name'' (find_user uid) d of
           Inr (Some b) \<Rightarrow> u_username b | _ \<Rightarrow> []) in
     (Inr \<lparr> pp_buyer = uid, pp_buyer_name = buyer_name, pp_video = vid, pp_owner = v_owner v,
        pp_owner_name = u_username u, pp_price = v_price v,
        pp_cut = creator_cut (v_price v) (creator_split_bp (cfg C)) \<rparr>, d))))"

text \<open>The transaction; \<open>Inr\<close> is a successful commit with the buyer's new balance.\<close>

definition wallet_pay_tx :: "ctx \<Rightarrow> pay_plan \<Rightarrow> db \<Rightarrow> (json + int) \<times> db" where
  "wallet_pay_tx C p d =
     (case tx_begin C ''pay.begin'' d of
        Inl e \<Rightarrow> (Inl (jerr (''begin tx: '' @ e)), d)
      | Inr t0 \<Rightarrow>
     tx_look (tx_read C ''pay.lock'' (\<lambda>_. ()) t0) (\<lambda>_ t1.
     tx_look (tx_read C ''pay.buyer_bal'' (balance_of (pp_buyer p)) t1) (\<lambda>r2 t2.
     let buyer_bal = balance_or_0 r2 in
     if buyer_bal < pp_price p
     then (Inl (jerr (''insufficient balance (have '' @ cents_to_display buyer_bal @ '', need ''
             @ cents_to_display (pp_price p) @ '')'')), tx_rollback t2)
     else
     tx_look (tx_read C ''pay.creator_bal'' (balance_of (pp_owner p)) t2) (\<lambda>r3 t3.
     let creator_bal = balance_or_0 r3;
         buyer_new = sub64 buyer_bal (pp_price p);
         creator_new = add64 creator_bal (pp_cut p) in
     tx_then (tx_write C ''pay.deduct'' (set_balance (pp_buyer p) buyer_new) t3)
       (\<lambda>e. Inl (jerr (''db buyer: '' @ e))) (\<lambda>_ t4.
     tx_then (tx_write C ''pay.credit'' (set_balance (pp_owner p) creator_new) t4)
       (\<lambda>e. Inl (jerr (''db creator: '' @ e))) (\<lambda>_ t5.
     tx_then (tx_write C ''pay.ledger_buyer''
         (ins_wtxn (now C) (pp_buyer p) ''payment'' (pp_price p) buyer_new ''completed''
           (Some (pp_owner p)) (Some (''Video purchase: '' @ pp_video p))) t5)
       (\<lambda>e. Inl (jerr (''ledger buyer: '' @ e))) (\<lambda>_ t6.
     tx_then (tx_write C ''pay.ledger_creator''
         (ins_wtxn (now C) (pp_owner p) ''transfer_in'' (pp_cut p) creator_new ''completed''
           (Some (pp_buyer p)) (Some (''Video sale: '' @ pp_video p))) t6)
       (\<lambda>e. Inl (jerr (''ledger creator: '' @ e))) (\<lambda>_ t7.
     tx_then (tx_write C ''pay.purchase''
         (ins_purchase (now C) (pg_text C (now C)) (pp_buyer p) (pp_video p)) t7)
       (\<lambda>e. Inl (jerr (''purchase: '' @ e))) (\<lambda>_ t8.
     tx_then (if pp_buyer_name p = [] then (Inr 0, t8)
              else tx_write C ''pay.allowlist'' (ins_allow (pp_video p) (pp_buyer_name p)) t8)
       (\<lambda>e. Inl (jerr (''allowlist: '' @ e))) (\<lambda>_ t9.
     tx_end (tx_commit C ''pay.commit'' t9) (\<lambda>e. Inl (jerr (''commit: '' @ e)))
       (\<lambda>d'. (Inr buyer_new, d'))))))))))))"

definition pay_answer :: "pay_plan \<Rightarrow> int \<Rightarrow> json" where
  "pay_answer p buyer_new =
     jok [(''balance_cents'', JNum buyer_new),
          (''balance_display'', JStr (cents_to_display buyer_new)),
          (''creator_received_display'', JStr (cents_to_display (pp_cut p))),
          (''paid_display'', JStr (cents_to_display (pp_price p))),
          (''message'', JStr (''Access granted. '' @ cents_to_display (pp_cut p) @ '' sent to @''
             @ pp_owner_name p @ ''.''))]"

text \<open>
  The whole handler: the checks, the transaction, then the affiliate's commission as its
  own transaction, whose result is only logged.
\<close>

definition wallet_pay_video :: "ctx \<Rightarrow> string \<Rightarrow> string option \<Rightarrow> db \<Rightarrow> json \<times> db" where
  "wallet_pay_video C vid ref_code d0 =
     (case wallet_pay_check C vid d0 of
        (Inl j, d) \<Rightarrow> (j, d)
      | (Inr p, d) \<Rightarrow>
     (case wallet_pay_tx C p d of
        (Inl j, d') \<Rightarrow> (j, d')
      | (Inr buyer_new, d') \<Rightarrow>
     (case ref_code of
        None \<Rightarrow> (pay_answer p buyer_new, d')
      | Some ref \<Rightarrow>
          if ref = [] then (pay_answer p buyer_new, d')
          else (pay_answer p buyer_new,
                snd (process_affiliate_commission C (pp_video p) (pp_buyer p) (pp_owner p) (pp_price p)
                  ref ''wallet'' None d')))))"


section \<open>What each operation can leave behind\<close>

text \<open>
  \<open>kept d d'\<close>: nothing but an expired session is gone.  Every early return and every
  failure of an operation ends in such a database.
\<close>

lemmas kept_intros = pruned_refl current_user_pruned

lemma pruned_money: "pruned d d' \<Longrightarrow> same_money d d'"
  by (simp add: same_money_def db_simps)

lemma pruned_books:
  assumes "pruned d d'"
  shows "books ob d \<Longrightarrow> books ob d'" "money_supply d' = money_supply d"
  using same_money_books [OF pruned_money [OF assms]] by simp_all

lemma deposit_post:
  "post (\<lambda>(j, d'). pruned d d' \<and> \<not> answer_ok j \<or>
     (\<exists>uid adm aft. current_user_id C d = (Some (uid, adm), d) \<and> MIN_DEPOSIT_CENTS \<le> amount
        \<and> user_exists uid d \<and> (answer_ok j \<or> fault C ''deposit.insert'' \<noteq> None)
        \<and> d' = add_wtxn (new_wtxn (now C) uid ''deposit'' amount aft ''pending'' None note d) d))
   (wallet_deposit C amount note d)"
  unfolding wallet_deposit_def Let_def not_logged_in_def
  apply (intro post_intros; (simp (no_asm) add: tx_ends run_simps; fail)?)
       apply (auto simp: run_simps dest: current_user_pruned current_user_Some)
  done

lemmas deposit_cases = deposit_post [THEN postD]

lemma withdraw_post:
  "post (\<lambda>(j, d'). pruned d d' \<and> (\<not> answer_ok j \<or> fault C ''withdraw.commit'' \<noteq> None) \<or>
     (\<exists>uid adm bal. current_user_id C d = (Some (uid, adm), d) \<and> MIN_WITHDRAWAL_CENTS \<le> amount
        \<and> balance_of uid d = Some bal \<and> amount \<le> bal \<and> answer_ok j
        \<and> d' = (let d1 = put_balance uid (sub64 bal amount) d
                in add_wtxn (new_wtxn (now C) uid ''withdrawal'' amount (sub64 bal amount) ''pending'' None
                               note d1) d1)))
   (wallet_withdraw C amount note d)"
  unfolding wallet_withdraw_def Let_def not_logged_in_def
  apply (intro post_intros; (simp (no_asm) add: tx_ends run_simps; fail)?)
  apply (auto simp: run_simps tx_ends db_simps dest: current_user_pruned current_user_Some)
  done

lemmas withdraw_cases = withdraw_post [THEN postD]

definition transferred ::
  "ctx \<Rightarrow> string \<Rightarrow> string \<Rightarrow> int \<Rightarrow> string option \<Rightarrow> int \<Rightarrow> int \<Rightarrow> db \<Rightarrow> db" where
  "transferred C a b amount note x y d =
     post_pair (now C) a ''transfer_out'' amount (sub64 x amount) note b amount (add64 y amount) note d"

lemma transfer_tx_post:
  assumes "a \<noteq> b" "0 < amount"
  shows "post (\<lambda>(j, d'). d' = d \<and> \<not> answer_ok j \<or>
     (\<exists>x y. balance_of a d = Some x \<and> balance_of b d = Some y \<and> amount \<le> x
        \<and> d' = transferred C a b amount note x y d
        \<and> (answer_ok j \<and> jget ''balance_cents'' j = Some (JNum (sub64 x amount))
           \<or> \<not> answer_ok j \<and> fault C ''transfer.commit'' \<noteq> None)))
   (transfer_tx C a b name amount note d)"
  using assms
  unfolding transfer_tx_def Let_def
  apply (intro post_intros; (simp (no_asm) add: tx_ends run_simps; fail)?)
  apply (auto simp: tx_ends run_simps db_simps transferred_def post_pair_def Let_def
      user_exists_balance jget_jok)
  done

definition transfer_done :: "ctx \<Rightarrow> string \<Rightarrow> int \<Rightarrow> string option \<Rightarrow> db \<Rightarrow> db \<Rightarrow> bool" where
  "transfer_done C to_username amount note d d' \<longleftrightarrow>
     (\<exists>uid adm u x y. current_user_id C d = (Some (uid, adm), d) \<and> MIN_TRANSFER_CENTS \<le> amount
        \<and> wallet_transfer_enabled (load_payment_settings C d)
        \<and> find_username (trim to_username) d = Some u \<and> u_id u \<noteq> uid
        \<and> balance_of uid d = Some x \<and> balance_of (u_id u) d = Some y \<and> amount \<le> x
        \<and> d' = transferred C uid (u_id u) amount note x y d)"

lemma transfer_post:
  "post (\<lambda>(j, d'). pruned d d' \<and> \<not> answer_ok j \<or>
     transfer_done C to_username amount note d d' \<and>
     (answer_ok j \<or> fault C ''transfer.commit'' \<noteq> None))
   (wallet_transfer C to_username amount note d)"
  unfolding wallet_transfer_def Let_def not_logged_in_def
  apply (intro post_intros;
      (auto simp: run_simps dest: current_user_pruned current_user_Some; fail)?)
  apply (rule post_mono [OF transfer_tx_post])
  apply (auto simp: run_simps transfer_done_def MIN_TRANSFER_CENTS_def dest: current_user_Some)
  done

lemmas transfer_cases = transfer_post [THEN postD]

text \<open>A sale: the two balances and rows, then the purchase and the allowlist entry.\<close>

definition add_purchase :: "string \<Rightarrow> string \<Rightarrow> string \<Rightarrow> db \<Rightarrow> db" where
  "add_purchase created uid vid d = d\<lparr>purchase_seq := purchase_seq d + 1, purchases := purchases d @
     [\<lparr> pu_id = purchase_seq d + 1, pu_user = uid, pu_video = vid, pu_created = created \<rparr>]\<rparr>"

definition put_allow :: "string \<Rightarrow> string \<Rightarrow> db \<Rightarrow> db" where
  "put_allow vid name d =
     (if name = [] \<or> allowed vid name d then d
      else d\<lparr>allowlist := allowlist d @ [\<lparr> al_video = vid, al_username = name \<rparr>]\<rparr>)"

definition sale_pair :: "ctx \<Rightarrow> pay_plan \<Rightarrow> int \<Rightarrow> int \<Rightarrow> db \<Rightarrow> db" where
  "sale_pair C p x y d =
     post_pair (now C) (pp_buyer p) ''payment'' (pp_price p) (sub64 x (pp_price p))
       (Some (''Video purchase: '' @ pp_video p)) (pp_owner p) (pp_cut p) (add64 y (pp_cut p))
       (Some (''Video sale: '' @ pp_video p)) d"

definition sold :: "ctx \<Rightarrow> pay_plan \<Rightarrow> int \<Rightarrow> int \<Rightarrow> db \<Rightarrow> db" where
  "sold C p x y d =
     put_allow (pp_video p) (pp_buyer_name p)
       (add_purchase (pg_text C (now C)) (pp_buyer p) (pp_video p) (sale_pair C p x y d))"

definition sale_done :: "ctx \<Rightarrow> pay_plan \<Rightarrow> db \<Rightarrow> int \<Rightarrow> db \<Rightarrow> bool" where
  "sale_done C p d x d' \<longleftrightarrow>
     (\<exists>v y. balance_of (pp_buyer p) d = Some x \<and> balance_of (pp_owner p) d = Some y
        \<and> pp_price p \<le> x \<and> 0 < pp_price p \<and> 0 < pp_cut p
        \<and> find_video (pp_video p) d = Some v \<and> \<not> blocked_in (now C) (v_owner v) (pp_buyer p) d
        \<and> d' = sold C p x y d)"

lemma blocked_in_money [db_simps]:
  "blocked_in t c b (add_wtxn w d) = blocked_in t c b d"
  "blocked_in t c b (put_balance i x d) = blocked_in t c b d"
  by (simp_all add: blocked_in_def db_simps)

lemma allowed_purchases [db_simps]:
  "allowed v n (d\<lparr>purchases := ps\<rparr>) = allowed v n d" "allowed v n (d\<lparr>purchase_seq := k\<rparr>) = allowed v n d"
  "allowed v n (put_balance i x d) = allowed v n d" "allowed v n (add_wtxn w d) = allowed v n d"
  by (simp_all add: allowed_def db_simps)

lemma pay_tx_post:
  assumes "pp_buyer p \<noteq> pp_owner p" "0 < pp_price p"
  shows "post (\<lambda>(r, d'). d' = d \<and> (\<exists>j. r = Inl j \<and> \<not> answer_ok j) \<or>
     (\<exists>x. sale_done C p d x d' \<and> (r = Inr (sub64 x (pp_price p))
        \<or> (\<exists>j. r = Inl j \<and> \<not> answer_ok j) \<and> fault C ''pay.commit'' \<noteq> None)))
   (wallet_pay_tx C p d)"
  using assms
  unfolding wallet_pay_tx_def Let_def
  apply (intro post_intros; (simp (no_asm) add: tx_ends run_simps; fail)?)
  apply (simp_all add: tx_ends run_simps db_simps)
  apply (auto simp: db_simps sale_done_def sold_def sale_pair_def post_pair_def Let_def
      user_exists_balance add_purchase_def put_allow_def ins_allow_def split: if_splits)
  done

lemmas pay_tx_cases = pay_tx_post [THEN postD]

text \<open>A plan that passed the checks, against the database they were made on.\<close>

definition plan_checked :: "ctx \<Rightarrow> string \<Rightarrow> db \<Rightarrow> pay_plan \<Rightarrow> bool" where
  "plan_checked C vid d p \<longleftrightarrow>
     (\<exists>adm v u. current_user_id C d = (Some (pp_buyer p, adm), d) \<and> pp_video p = vid \<and> vid \<noteq> []
        \<and> wallet_payment_enabled (load_payment_settings C d)
        \<and> find_video vid d = Some v \<and> find_user (v_owner v) d = Some u
        \<and> pp_owner p = v_owner v \<and> pp_owner_name p = u_username u \<and> pp_price p = v_price v
        \<and> pp_buyer p \<noteq> pp_owner p \<and> 0 < pp_price p
        \<and> pp_cut p = creator_cut (pp_price p) (creator_split_bp (cfg C))
        \<and> (fault C ''pay.already'' = None \<longrightarrow> \<not> has_purchase (pp_buyer p) vid d)
        \<and> (fault C ''pay.buyer_name'' = None \<longrightarrow>
             (\<forall>b. find_user (pp_buyer p) d = Some b \<longrightarrow> pp_buyer_name p = u_username b)))"

lemma pay_check_post:
  "post (\<lambda>(r, d'). pruned d d' \<and> (\<exists>j. r = Inl j \<and> \<not> answer_ok j) \<or>
     d' = d \<and> (\<exists>p. r = Inr p \<and> plan_checked C vid d p))
   (wallet_pay_check C vid d)"
  unfolding wallet_pay_check_def Let_def not_logged_in_def
  apply (intro post_intros;
      (auto simp: run_simps dest: current_user_pruned current_user_Some; fail)?)
  apply (auto simp: run_simps plan_checked_def has_purchase_def count_where_pos run_read_def
      dest!: current_user_Some split: option.splits)
  done

lemmas pay_check_cases = pay_check_post [THEN postD]

text \<open>The end of a purchase that went through: perhaps a commission, which cannot fail it.\<close>

definition pay_end :: "ctx \<Rightarrow> pay_plan \<Rightarrow> string option \<Rightarrow> db \<Rightarrow> db \<Rightarrow> bool" where
  "pay_end C p ref_code d1 d' \<longleftrightarrow>
     d' = d1 \<or>
     (\<exists>ref. ref_code = Some ref \<and>
        d' = snd (process_affiliate_commission C (pp_video p) (pp_buyer p) (pp_owner p) (pp_price p)
               ref ''wallet'' None d1))"

lemma pay_video_cases:
  assumes w: "wallet_pay_video C vid ref_code d = (j, d')"
  obtains (refused) "pruned d d'" "\<not> answer_ok j"
  | (unsure) p x where "plan_checked C vid d p" "sale_done C p d x d'" "\<not> answer_ok j"
      "fault C ''pay.commit'' \<noteq> None"
  | (bought) p x d1 where "plan_checked C vid d p" "sale_done C p d x d1"
      "j = pay_answer p (sub64 x (pp_price p))" "pay_end C p ref_code d1 d'"
proof -
  obtain r1 d1 where c: "wallet_pay_check C vid d = (r1, d1)" by force
  consider (no) j1 where "r1 = Inl j1" "pruned d d1" "\<not> answer_ok j1"
    | (yes) p where "r1 = Inr p" "d1 = d" "plan_checked C vid d p"
    using pay_check_cases [OF c] by blast
  then show thesis
  proof cases
    case no
    with w c show thesis by (intro refused) (simp_all add: wallet_pay_video_def)
  next
    case yes
    obtain r2 d2 where t: "wallet_pay_tx C p d = (r2, d2)" by force
    have "pp_buyer p \<noteq> pp_owner p" "0 < pp_price p" using yes(3) by (auto simp: plan_checked_def)
    note tc = pay_tx_cases [OF this t]
    show thesis
    proof (cases r2)
      case (Inl j2)
      with w c yes t have "j = j2" "d' = d2" by (simp_all add: wallet_pay_video_def)
      with tc Inl yes refused unsure show thesis by (auto simp: pruned_refl)
    next
      case (Inr b)
      with tc obtain x where x: "sale_done C p d x d2" "b = sub64 x (pp_price p)" by auto
      have "j = pay_answer p b \<and> pay_end C p ref_code d2 d'"
        using w c yes t Inr
        by (auto simp: wallet_pay_video_def pay_end_def split: option.splits if_splits)
      with x yes bought show thesis by blast
    qed
  qed
qed


section \<open>The operations keep the books\<close>

definition split_ok :: "ctx \<Rightarrow> bool" where
  "split_ok C \<longleftrightarrow> 0 \<le> creator_split_bp (cfg C) \<and> creator_split_bp (cfg C) \<le> 10000"

lemma creator_cut_eq:
  assumes "0 \<le> price" "price < 2 ^ 63" "0 \<le> bp" "bp \<le> 10000"
  shows "creator_cut price bp = price * bp div 10000"
proof -
  have "price * bp div 10000 \<le> price * 10000 div 10000"
    using assms by (intro zdiv_mono1 mult_left_mono) auto
  then have "price * bp div 10000 < 2 ^ 63" using assms by simp
  moreover have "0 \<le> price * bp div 10000" using assms by (simp add: pos_imp_zdiv_nonneg_iff)
  ultimately show ?thesis
    using assms by (simp add: creator_cut_def quot_nonneg wrap64_id fits64_small)
qed

lemma creator_cut_le:
  assumes "0 \<le> price" "price < 2 ^ 63" "0 \<le> bp" "bp \<le> 10000"
  shows "0 \<le> creator_cut price bp" "creator_cut price bp \<le> price"
proof -
  have "price * bp div 10000 \<le> price * 10000 div 10000"
    using assms by (intro zdiv_mono1 mult_left_mono) auto
  then show "creator_cut price bp \<le> price" using creator_cut_eq [OF assms] by simp
  show "0 \<le> creator_cut price bp"
    using creator_cut_eq [OF assms] assms by (simp add: pos_imp_zdiv_nonneg_iff)
qed

lemma deposit_books:
  assumes "books ob d" "wallet_deposit C amount note d = (j, d')"
  shows "books ob d' \<and> money_supply d' = money_supply d"
  using deposit_cases [OF assms(2)] assms(1)
  by (auto simp: MIN_DEPOSIT_CENTS_def same_money_books [OF pruned_money]
      intro!: books_add_request)

lemma withdraw_books:
  assumes "books ob d" "wallet_withdraw C amount note d = (j, d')"
  shows "books ob d' \<and> money_supply d' = money_supply d"
  using withdraw_cases [OF assms(2)]
proof (elim disjE exE conjE)
  fix uid bal
  assume b: "balance_of uid d = Some bal" "MIN_WITHDRAWAL_CENTS \<le> amount" "amount \<le> bal"
    and d': "d' = (let d1 = put_balance uid (sub64 bal amount) d
                in add_wtxn (new_wtxn (now C) uid ''withdrawal'' amount (sub64 bal amount) ''pending'' None
                               note d1) d1)"
  have "sub64 bal amount = bal - amount"
    using b books_facts [OF assms(1) b(1)] by (simp add: sub64_nonneg MIN_WITHDRAWAL_CENTS_def)
  with d' b books_add_withdrawal [OF assms(1) b(1),
      of "new_wtxn (now C) uid ''withdrawal'' amount (bal - amount) ''pending'' None note
            (put_balance uid (bal - amount) d)"]
  show ?thesis by (simp add: Let_def db_simps MIN_WITHDRAWAL_CENTS_def)
qed (use assms(1) in \<open>simp_all add: same_money_books [OF pruned_money]\<close>)

lemma transferred_books:
  assumes "books ob d" "a \<noteq> b" "balance_of a d = Some x" "balance_of b d = Some y"
    and "0 < amount" "amount \<le> x" "d' = transferred C a b amount note x y d"
  shows "books ob d'" "money_supply d' = money_supply d"
    "balance_of j d' = (if j = a then Some (x - amount) else if j = b then Some (y + amount)
       else balance_of j d)"
  using post_pair_books64 [OF assms(1-4) assms(5,6) assms(5) order_refl insertI1
      assms(7) [unfolded transferred_def]] assms(7)
    post_pair_balance [OF assms(2-4)]
  by (simp_all add: transferred_def)

lemma transfer_books:
  assumes "books ob d" "wallet_transfer C name amount note d = (j, d')"
  shows "books ob d' \<and> money_supply d' = money_supply d"
proof -
  have "books ob d' \<and> money_supply d' = money_supply d" if t: "transfer_done C name amount note d d'"
  proof -
    from t obtain uid x y and u :: user where u: "u_id u \<noteq> uid" "balance_of uid d = Some x"
      "balance_of (u_id u) d = Some y" "MIN_TRANSFER_CENTS \<le> amount" "amount \<le> x"
      "d' = transferred C uid (u_id u) amount note x y d"
      unfolding transfer_done_def by blast
    from u(4) have "0 < amount" by (simp add: MIN_TRANSFER_CENTS_def)
    from transferred_books(1,2) [OF assms(1) u(1) [symmetric] u(2,3) this u(5,6)]
    show ?thesis by simp
  qed
  with transfer_cases [OF assms(2)] assms(1) show ?thesis
    by (auto simp: same_money_books [OF pruned_money])
qed

lemma sold_same_money: "same_money (sale_pair C p x y d) (sold C p x y d)"
  by (simp add: sold_def put_allow_def add_purchase_def same_money_def)

text \<open>A sale takes the price from the buyer, gives the creator the cut and keeps the rest.\<close>

lemma sale_books:
  assumes "books ob d" "sale_done C p d x d'" "pp_buyer p \<noteq> pp_owner p"
    and "pp_cut p = creator_cut (pp_price p) bp" "0 \<le> bp" "bp \<le> 10000"
  shows "books ob d'" "money_supply d' = money_supply d - pp_price p + pp_cut p"
    "0 < pp_cut p" "pp_cut p \<le> pp_price p"
    "balance_of (pp_buyer p) d = Some x" "balance_of (pp_buyer p) d' = Some (x - pp_price p)"
    "balance_of (pp_owner p) d' = map_option (\<lambda>y. y + pp_cut p) (balance_of (pp_owner p) d)"
    "j \<noteq> pp_buyer p \<Longrightarrow> j \<noteq> pp_owner p \<Longrightarrow> balance_of j d' = balance_of j d"
proof -
  obtain y where s: "balance_of (pp_buyer p) d = Some x" "balance_of (pp_owner p) d = Some y"
    "pp_price p \<le> x" "0 < pp_price p" "0 < pp_cut p" "d' = sold C p x y d"
    using assms(2) unfolding sale_done_def by blast
  have "pp_price p < 2 ^ 63" using books_facts(4) [OF assms(1) s(1)] s(3) by simp
  then show c: "0 < pp_cut p" "pp_cut p \<le> pp_price p"
    using s assms(4-6) creator_cut_le by auto
  note m = same_money_books [OF sold_same_money] same_money_balance [OF sold_same_money]
  note b = post_pair_books64 [OF assms(1,3) s(1,2) s(4,3) c insertI2 [OF insertI1] refl]
  note bal = post_pair_balance [OF assms(3) s(1,2)]
  show "books ob d'" "money_supply d' = money_supply d - pp_price p + pp_cut p"
    "balance_of (pp_buyer p) d = Some x" "balance_of (pp_buyer p) d' = Some (x - pp_price p)"
    "balance_of (pp_owner p) d' = map_option (\<lambda>y. y + pp_cut p) (balance_of (pp_owner p) d)"
    "j \<noteq> pp_buyer p \<Longrightarrow> j \<noteq> pp_owner p \<Longrightarrow> balance_of j d' = balance_of j d"
    using b bal s assms(3) by (simp_all add: m sale_pair_def)
qed

lemma pay_end_books:
  assumes "books ob d" "pay_end C p ref_code d d'"
  shows "books ob d' \<and> money_supply d' = money_supply d"
  using assms process_books [OF assms(1)] unfolding pay_end_def
  by (metis prod.collapse)

lemma pay_books:
  assumes "books ob d" "split_ok C" "wallet_pay_video C vid ref_code d = (j, d')"
  shows "books ob d' \<and> money_supply d' \<le> money_supply d"
proof -
  have sale: "books ob d1 \<and> money_supply d1 \<le> money_supply d"
    if "plan_checked C vid d p" "sale_done C p d x d1" for p x d1
  proof -
    have "pp_buyer p \<noteq> pp_owner p" "pp_cut p = creator_cut (pp_price p) (creator_split_bp (cfg C))"
      using that(1) by (auto simp: plan_checked_def)
    with sale_books [OF assms(1) that(2)] assms(2) show ?thesis by (simp add: split_ok_def)
  qed
  from assms(3) show ?thesis
  proof (cases rule: pay_video_cases)
    case refused
    with assms(1) show ?thesis by (simp add: same_money_books [OF pruned_money])
  next
    case (unsure p x)
    with sale show ?thesis by blast
  next
    case (bought p x d1)
    with sale pay_end_books [of ob d1 C p ref_code d'] show ?thesis by simp
  qed
qed

end
