(* ===== verification/AdminWallet.thy ===== *)
theory AdminWallet
  imports Wallet
begin

text \<open>
  The wallet part of \<open>src/src/handlers/admin.rs\<close>: the administrators list the ledger, approve
  deposits, mark withdrawals as paid out and reject either.
\<close>

section \<open>The handlers\<close>

definition admin_txn_json :: "ctx \<Rightarrow> db \<Rightarrow> wtxn \<Rightarrow> json option" where
  "admin_txn_json C d t =
     (case find_user (wt_user t) d of
        None \<Rightarrow> None
      | Some u \<Rightarrow> Some (JObj
     [(''id'', JNum (wt_id t)), (''txn_type'', JStr (wt_type t)), (''amount_cents'', JNum (wt_amount t)),
      (''balance_after'', JNum (wt_after t)), (''status'', JStr (wt_status t)),
      (''note'', jopt (wt_note t)), (''admin_note'', jopt (wt_admin_note t)),
      (''created_at'', JStr (pg_text C (wt_created t))), (''username'', JStr (u_username u)),
      (''ref_username'', jopt (case wt_ref t of None \<Rightarrow> None
          | Some r \<Rightarrow> map_option u_username (find_user r d)))]))"

text \<open>The rows the filters leave, joined with their user; a failed query lists nothing.\<close>

definition admin_wallet_transactions ::
  "ctx \<Rightarrow> string option \<Rightarrow> string option \<Rightarrow> int option \<Rightarrow> db \<Rightarrow> json \<times> db" where
  "admin_wallet_transactions C q_type q_status q_limit d0 =
     (case ensure_admin_session C d0 of
        (Inl resp, d) \<Rightarrow> (resp, d)
      | (Inr _, d) \<Rightarrow>
     let limit = min (case q_limit of None \<Rightarrow> 100 | Some l \<Rightarrow> l) 1000;
         ttype = (case q_type of None \<Rightarrow> [] | Some s \<Rightarrow> s);
         status = (case q_status of None \<Rightarrow> [] | Some s \<Rightarrow> s);
         rows = (case run_read C ''admin.transactions'' (\<lambda>d. sql_limit limit (List.map_filter (admin_txn_json C d)
             (order_by_desc wt_created (filter (\<lambda>t. (ttype = [] \<or> wt_type t = ttype)
                \<and> (status = [] \<or> wt_status t = status)) (wtxns d))))) d of
             Inr (Inr items) \<Rightarrow> items | _ \<Rightarrow> []);
         total = (case run_read C ''admin.total'' (\<lambda>d. int (length (wtxns d))) d of
             Inr n \<Rightarrow> n | Inl _ \<Rightarrow> 0);
         pending = (case run_read C ''admin.pending''
             (\<lambda>d. count_where (\<lambda>t. wt_status t = ''pending'') (wtxns d)) d of
             Inr n \<Rightarrow> n | Inl _ \<Rightarrow> 0)
     in (jok [(''totals'', JObj [(''all'', JNum total), (''pending'', JNum pending)]),
              (''items'', JArr rows)], d))"

definition admin_wallet_approve :: "ctx \<Rightarrow> int \<Rightarrow> string option \<Rightarrow> db \<Rightarrow> json \<times> db" where
  "admin_wallet_approve C txn_id admin_note d0 =
     (case ensure_admin_session C d0 of
        (Inl resp, d) \<Rightarrow> (resp, d)
      | (Inr _, d) \<Rightarrow>
     (case tx_begin C ''approve.begin'' d of
        Inl e \<Rightarrow> (jerr (''db: '' @ e), d)
      | Inr t0 \<Rightarrow>
     tx_then (tx_read C ''approve.row'' (find_wtxn txn_id) t0) (\<lambda>e. jerr (''db: '' @ e)) (\<lambda>r t1.
     (case r of
        None \<Rightarrow> (jerr ''transaction not found'', tx_rollback t1)
      | Some row \<Rightarrow>
     if wt_status row \<noteq> ''pending''
     then (jerr (''cannot approve: status is '' @ [CHR 0x27] @ wt_status row @ [CHR 0x27]), tx_rollback t1)
     else if wt_type row \<noteq> ''deposit''
     then (jerr ''only deposits can be approved via this endpoint'', tx_rollback t1)
     else
     tx_then (tx_write C ''approve.credit'' (inc_balance (wt_user row) (wt_amount row)) t1)
       (\<lambda>e. jerr (''db credit: '' @ e)) (\<lambda>nb t2.
     (case nb of
        None \<Rightarrow> (jerr ''db credit: no rows returned by a query that expected to return at least one row'',
                 tx_rollback t2)
      | Some new_bal \<Rightarrow>
     tx_then (tx_write C ''approve.update''
         (upd_wtxn txn_id (\<lambda>t. t\<lparr>wt_status := ''approved'', wt_after := new_bal,
                                 wt_admin_note := admin_note, wt_updated := now C\<rparr>)) t2)
       (\<lambda>e. jerr (''db update: '' @ e)) (\<lambda>_ t3.
     tx_end (tx_commit C ''approve.commit'' t3) (\<lambda>e. jerr (''commit: '' @ e)) (\<lambda>d'.
     (jok [(''new_balance_cents'', JNum new_bal)], d')))))))))"

text \<open>
  Marking a withdrawal as paid is two statements outside a transaction: the row is read and
  checked, then updated by its id alone.
\<close>

definition admin_complete_check :: "ctx \<Rightarrow> int \<Rightarrow> db \<Rightarrow> (json + unit) \<times> db" where
  "admin_complete_check C txn_id d0 =
     (case ensure_admin_session C d0 of
        (Inl resp, d) \<Rightarrow> (Inl resp, d)
      | (Inr _, d) \<Rightarrow>
     (case run_read C ''complete.row'' (find_wtxn txn_id) d of
        Inl e \<Rightarrow> (Inl (jerr (''db: '' @ e)), d)
      | Inr None \<Rightarrow> (Inl (jerr ''transaction not found''), d)
      | Inr (Some row) \<Rightarrow>
     if wt_status row \<noteq> ''pending''
     then (Inl (jerr (''status is '' @ [CHR 0x27] @ wt_status row @ [CHR 0x27] @ '', not pending'')), d)
     else if wt_type row \<noteq> ''withdrawal''
     then (Inl (jerr ''only withdrawals can be completed via this endpoint''), d)
     else (Inr (), d)))"

definition admin_complete_update :: "ctx \<Rightarrow> int \<Rightarrow> string option \<Rightarrow> db \<Rightarrow> json \<times> db" where
  "admin_complete_update C txn_id admin_note d =
     (case run_write C ''complete.update''
             (upd_wtxn txn_id (\<lambda>t. t\<lparr>wt_status := ''completed'', wt_admin_note := admin_note,
                                     wt_updated := now C\<rparr>)) d of
        (Inr _, d') \<Rightarrow> (jok [], d')
      | (Inl e, d') \<Rightarrow> (jerr (''db: '' @ e), d'))"

definition admin_wallet_complete :: "ctx \<Rightarrow> int \<Rightarrow> string option \<Rightarrow> db \<Rightarrow> json \<times> db" where
  "admin_wallet_complete C txn_id admin_note d0 =
     (case admin_complete_check C txn_id d0 of
        (Inl resp, d) \<Rightarrow> (resp, d)
      | (Inr _, d) \<Rightarrow> admin_complete_update C txn_id admin_note d)"

definition admin_wallet_reject :: "ctx \<Rightarrow> int \<Rightarrow> string option \<Rightarrow> db \<Rightarrow> json \<times> db" where
  "admin_wallet_reject C txn_id admin_note d0 =
     (case ensure_admin_session C d0 of
        (Inl resp, d) \<Rightarrow> (resp, d)
      | (Inr _, d) \<Rightarrow>
     (case tx_begin C ''reject.begin'' d of
        Inl e \<Rightarrow> (jerr (''db: '' @ e), d)
      | Inr t0 \<Rightarrow>
     tx_then (tx_read C ''reject.row'' (find_wtxn txn_id) t0) (\<lambda>e. jerr (''db: '' @ e)) (\<lambda>r t1.
     (case r of
        None \<Rightarrow> (jerr ''transaction not found'', tx_rollback t1)
      | Some row \<Rightarrow>
     if wt_status row \<noteq> ''pending''
     then (jerr (''status is '' @ [CHR 0x27] @ wt_status row @ [CHR 0x27] @ '', cannot reject''), tx_rollback t1)
     else
     let is_withdrawal = (wt_type row = ''withdrawal'') in
     tx_then (if is_withdrawal
              then tx_write C ''reject.refund'' (inc_balance (wt_user row) (wt_amount row)) t1
              else (Inr None, t1))
       (\<lambda>e. jerr (''db refund: '' @ e)) (\<lambda>_ t2.
     tx_then (tx_write C ''reject.update''
         (upd_wtxn txn_id (\<lambda>t. t\<lparr>wt_status := ''rejected'', wt_admin_note := admin_note,
                                 wt_updated := now C\<rparr>)) t2)
       (\<lambda>e. jerr (''db: '' @ e)) (\<lambda>_ t3.
     tx_end (tx_commit C ''reject.commit'' t3) (\<lambda>e. jerr (''commit: '' @ e)) (\<lambda>d'.
     (jok [(''refunded'', JBool is_withdrawal)], d'))))))))"


section \<open>What they leave behind\<close>

definition approved_db :: "ctx \<Rightarrow> int \<Rightarrow> string option \<Rightarrow> wtxn \<Rightarrow> int \<Rightarrow> db \<Rightarrow> db" where
  "approved_db C i note t b d =
     put_wtxn i (\<lambda>t. t\<lparr>wt_status := ''approved'', wt_after := b, wt_admin_note := note,
                     wt_updated := now C\<rparr>) (put_balance (wt_user t) b d)"

definition rejected_db :: "ctx \<Rightarrow> int \<Rightarrow> string option \<Rightarrow> db \<Rightarrow> db" where
  "rejected_db C i note d =
     put_wtxn i (\<lambda>t. t\<lparr>wt_status := ''rejected'', wt_admin_note := note, wt_updated := now C\<rparr>) d"

definition completed_db :: "ctx \<Rightarrow> int \<Rightarrow> string option \<Rightarrow> db \<Rightarrow> db" where
  "completed_db C i note d =
     put_wtxn i (\<lambda>t. t\<lparr>wt_status := ''completed'', wt_admin_note := note, wt_updated := now C\<rparr>) d"

definition is_admin_request :: "ctx \<Rightarrow> db \<Rightarrow> bool" where
  "is_admin_request C d \<longleftrightarrow> (\<exists>a. current_user_id C d = (Some (a, True), d))"

lemma approve_post:
  "post (\<lambda>(j, d'). pruned d d' \<and> \<not> answer_ok j \<or>
     (\<exists>t b. is_admin_request C d \<and> find_wtxn i d = Some t \<and> wt_status t = ''pending''
        \<and> wt_type t = ''deposit'' \<and> balance_of (wt_user t) d = Some b \<and> fits64 (b + wt_amount t)
        \<and> d' = approved_db C i note t (b + wt_amount t) d
        \<and> (answer_ok j \<or> fault C ''approve.commit'' \<noteq> None)))
   (admin_wallet_approve C i note d)"
  unfolding admin_wallet_approve_def Let_def
  apply (intro post_intros; (simp (no_asm) add: tx_ends run_simps; fail)?)
  apply (auto simp: tx_ends run_simps db_simps approved_db_def is_admin_request_def ensure_admin_user
      dest: ensure_admin_pruned ensure_admin_Inl current_user_pruned current_user_Some)
  done

lemmas approve_cases = approve_post [THEN postD]

lemma inc_balance_cases:
  "inc_balance u a d = Inr (x, d') \<Longrightarrow>
   (balance_of u d = None \<and> d' = d) \<or>
   (\<exists>b. balance_of u d = Some b \<and> fits64 (b + a) \<and> d' = put_balance u (b + a) d)"
  by (auto simp: inc_balance_def split: option.splits if_splits)

lemma reject_post:
  "post (\<lambda>(j, d'). pruned d d' \<and> \<not> answer_ok j \<or>
     (\<exists>t. is_admin_request C d \<and> find_wtxn i d = Some t \<and> wt_status t = ''pending''
        \<and> (answer_ok j \<or> fault C ''reject.commit'' \<noteq> None)
        \<and> (wt_type t \<noteq> ''withdrawal'' \<and> d' = rejected_db C i note d \<or>
           wt_type t = ''withdrawal'' \<and>
           ((\<exists>b. balance_of (wt_user t) d = Some b \<and> fits64 (b + wt_amount t)
              \<and> d' = rejected_db C i note (put_balance (wt_user t) (b + wt_amount t) d))
            \<or> balance_of (wt_user t) d = None \<and> d' = rejected_db C i note d))))
   (admin_wallet_reject C i note d)"
  unfolding admin_wallet_reject_def Let_def
  apply (intro post_intros; (simp (no_asm) add: tx_ends run_simps; fail)?)
  apply (auto simp: tx_ends run_simps db_simps rejected_db_def is_admin_request_def ensure_admin_user
      dest!: inc_balance_cases
      dest: ensure_admin_pruned ensure_admin_Inl current_user_pruned current_user_Some)
  done

lemmas reject_cases = reject_post [THEN postD]

lemma complete_check_post:
  "post (\<lambda>(r, d'). pruned d d' \<and> (\<exists>j. r = Inl j \<and> \<not> answer_ok j) \<or>
     d' = d \<and> r = Inr () \<and> is_admin_request C d \<and>
     (\<exists>t. find_wtxn i d = Some t \<and> wt_status t = ''pending'' \<and> wt_type t = ''withdrawal''))
   (admin_complete_check C i d)"
  unfolding admin_complete_check_def
  apply (intro post_intros; (simp (no_asm) add: tx_ends run_simps; fail)?)
  apply (auto simp: run_simps is_admin_request_def ensure_admin_user
      dest: ensure_admin_pruned ensure_admin_Inl current_user_pruned current_user_Some)
  done

lemmas complete_check_cases = complete_check_post [THEN postD]

lemma complete_update_post:
  "post (\<lambda>(j, d'). d' = d \<and> \<not> answer_ok j \<or> d' = completed_db C i note d)
   (admin_complete_update C i note d)"
  unfolding admin_complete_update_def
  apply (intro post_intros; (simp (no_asm) add: tx_ends run_simps; fail)?)
  apply (auto simp: run_simps completed_db_def)
  done

lemmas complete_update_cases = complete_update_post [THEN postD]

lemma complete_post:
  "post (\<lambda>(j, d'). pruned d d' \<and> \<not> answer_ok j \<or>
     (\<exists>t. is_admin_request C d \<and> find_wtxn i d = Some t \<and> wt_status t = ''pending''
        \<and> wt_type t = ''withdrawal'' \<and> d' = completed_db C i note d))
   (admin_wallet_complete C i note d)"
  unfolding admin_wallet_complete_def
  apply (intro post_intros; (simp (no_asm) add: tx_ends run_simps; fail)?)
   apply (auto dest!: complete_check_cases intro!: postI dest: complete_update_cases)
  done

lemmas complete_cases = complete_post [THEN postD]


section \<open>The books\<close>

lemma row_user_balance:
  assumes "books ob d" "find_wtxn i d = Some t"
  obtains b where "balance_of (wt_user t) d = Some b"
  using assms by (auto simp: books_def wf_wtxns_def wf_row_def user_exists_balance dest!: find_wtxn_in)

lemma row_amount_pos: "books ob d \<Longrightarrow> find_wtxn i d = Some t \<Longrightarrow> 0 < wt_amount t"
  by (auto simp: books_def wf_wtxns_def wf_row_def dest!: find_wtxn_in)

lemma books_supply: "books ob d \<Longrightarrow> money_supply d < 2 ^ 63"
  by (simp add: books_def)

lemma approved_books:
  assumes "books ob d" "find_wtxn i d = Some t" "wt_status t = ''pending''" "wt_type t = ''deposit''"
    and "balance_of (wt_user t) d = Some b" "money_supply d + wt_amount t < 2 ^ 63"
    and "d' = approved_db C i note t (b + wt_amount t) d"
  shows "books ob d'" "money_supply d' = money_supply d + wt_amount t"
  using books_settle [OF assms(1-3,5), of "\<lambda>t'. t'\<lparr>wt_status := ''approved'',
      wt_after := b + wt_amount t, wt_admin_note := note, wt_updated := now C\<rparr>" "''approved''"
      "wt_amount t" d'] row_amount_pos [OF assms(1,2)] assms
  by (simp_all add: approved_db_def wt_effect_def wt_held_def)

lemma rejected_withdrawal_books:
  assumes "books ob d" "find_wtxn i d = Some t" "wt_status t = ''pending''" "wt_type t = ''withdrawal''"
    and "balance_of (wt_user t) d = Some b"
    and "d' = rejected_db C i note (put_balance (wt_user t) (b + wt_amount t) d)"
  shows "books ob d'" "money_supply d' = money_supply d"
  using books_settle [OF assms(1-3,5), of "\<lambda>t'. t'\<lparr>wt_status := ''rejected'',
      wt_admin_note := note, wt_updated := now C\<rparr>" "''rejected''" "wt_amount t" d']
    row_amount_pos [OF assms(1,2)] books_supply [OF assms(1)] assms
  by (simp_all add: rejected_db_def wt_effect_def wt_held_def)

lemma rejected_deposit_books:
  assumes "books ob d" "find_wtxn i d = Some t" "wt_status t = ''pending''" "wt_type t = ''deposit''"
    and "d' = rejected_db C i note d"
  shows "books ob d'" "money_supply d' = money_supply d"
proof -
  obtain b where "balance_of (wt_user t) d = Some b" using row_user_balance [OF assms(1,2)] .
  with books_settle [OF assms(1-3) this, of "\<lambda>t'. t'\<lparr>wt_status := ''rejected'',
      wt_admin_note := note, wt_updated := now C\<rparr>" "''rejected''" 0 d']
    books_supply [OF assms(1)] assms
  show "books ob d'" "money_supply d' = money_supply d"
    by (simp_all add: rejected_db_def wt_effect_def wt_held_def)
qed

lemma completed_books:
  assumes "books ob d" "find_wtxn i d = Some t" "wt_status t = ''pending''" "wt_type t = ''withdrawal''"
    and "d' = completed_db C i note d"
  shows "books ob d'" "money_supply d' = money_supply d - wt_amount t"
proof -
  obtain b where "balance_of (wt_user t) d = Some b" using row_user_balance [OF assms(1,2)] .
  with books_settle [OF assms(1-3) this, of "\<lambda>t'. t'\<lparr>wt_status := ''completed'',
      wt_admin_note := note, wt_updated := now C\<rparr>" "''completed''" 0 d']
    books_supply [OF assms(1)] row_amount_pos [OF assms(1,2)] assms
  show "books ob d'" "money_supply d' = money_supply d - wt_amount t"
    by (simp_all add: completed_db_def wt_effect_def wt_held_def)
qed

lemma pending_type:
  "books ob d \<Longrightarrow> find_wtxn i d = Some t \<Longrightarrow> wt_status t = ''pending'' \<Longrightarrow>
   wt_type t = ''deposit'' \<or> wt_type t = ''withdrawal''"
  by (auto simp: books_def wf_wtxns_def wf_row_def dest!: find_wtxn_in)

lemma approve_books:
  assumes "books ob d" "admin_wallet_approve C i note d = (j, d')"
    and "\<And>t. find_wtxn i d = Some t \<Longrightarrow> money_supply d + wt_amount t < 2 ^ 63"
  shows "books ob d'"
proof (rule disjE [OF approve_cases [OF assms(2)]], goal_cases)
  case 1
  with assms(1) pruned_books show ?case by blast
next
  case 2
  then show ?case using approved_books(1) [OF assms(1)] assms(3) by blast
qed

lemma reject_books:
  assumes "books ob d" "admin_wallet_reject C i note d = (j, d')"
  shows "books ob d' \<and> money_supply d' = money_supply d"
  using reject_cases [OF assms(2)]
proof
  show "pruned d d' \<and> \<not> answer_ok j \<Longrightarrow> ?thesis"
    using assms(1) pruned_books by metis
next
  assume "\<exists>t. is_admin_request C d \<and> find_wtxn i d = Some t \<and> wt_status t = ''pending''
        \<and> (answer_ok j \<or> fault C ''reject.commit'' \<noteq> None)
        \<and> (wt_type t \<noteq> ''withdrawal'' \<and> d' = rejected_db C i note d \<or>
           wt_type t = ''withdrawal'' \<and>
           ((\<exists>b. balance_of (wt_user t) d = Some b \<and> fits64 (b + wt_amount t)
              \<and> d' = rejected_db C i note (put_balance (wt_user t) (b + wt_amount t) d))
            \<or> balance_of (wt_user t) d = None \<and> d' = rejected_db C i note d))"
  then obtain t where t: "find_wtxn i d = Some t" "wt_status t = ''pending''"
    and c: "wt_type t \<noteq> ''withdrawal'' \<and> d' = rejected_db C i note d \<or>
           wt_type t = ''withdrawal'' \<and>
           ((\<exists>b. balance_of (wt_user t) d = Some b
              \<and> d' = rejected_db C i note (put_balance (wt_user t) (b + wt_amount t) d))
            \<or> balance_of (wt_user t) d = None)"
    by blast
  obtain b where b: "balance_of (wt_user t) d = Some b" using row_user_balance [OF assms(1) t(1)] .
  from pending_type [OF assms(1) t] show ?thesis
  proof
    assume ty: "wt_type t = ''deposit''"
    with c have "d' = rejected_db C i note d" by auto
    from rejected_deposit_books [OF assms(1) t ty this] show ?thesis by simp
  next
    assume ty: "wt_type t = ''withdrawal''"
    with c b have "d' = rejected_db C i note (put_balance (wt_user t) (b + wt_amount t) d)" by auto
    from rejected_withdrawal_books [OF assms(1) t ty b this] show ?thesis by simp
  qed
qed

lemma complete_books:
  assumes "books ob d" "admin_wallet_complete C i note d = (j, d')"
  shows "books ob d' \<and> money_supply d' \<le> money_supply d"
proof (rule disjE [OF complete_cases [OF assms(2)]], goal_cases)
  case 1
  with assms(1) pruned_books show ?case by (metis order_refl)
next
  case 2
  then obtain t where t: "find_wtxn i d = Some t" "wt_status t = ''pending''"
    "wt_type t = ''withdrawal''" "d' = completed_db C i note d" by blast
  from completed_books [OF assms(1) t] row_amount_pos [OF assms(1) t(1)] show ?case by simp
qed

end
