(* ===== verification/Demo.thy ===== *)
theory Demo
  imports AdminWallet
begin

text \<open>
  A concrete context and database on which the properties are instantiated: simple
  functions with the documented laws of the third-party ones, three users with a session
  each, a video with an affiliate program, and no failing statement.
\<close>

text \<open>An encoding without a dot that can be undone, in the place of base64.\<close>

fun esc :: "string \<Rightarrow> string" where
  "esc [] = []"
| "esc (c # cs) =
    (if c = CHR ''.'' then ''-a'' @ esc cs
     else if c = CHR ''-'' then ''-b'' @ esc cs
     else c # esc cs)"

fun unesc :: "string \<Rightarrow> string option" where
  "unesc [] = Some []"
| "unesc (c # cs) =
    (if c = CHR ''-'' then
       (case cs of
          [] \<Rightarrow> None
        | e # es \<Rightarrow>
            if e = CHR ''a'' then map_option ((#) (CHR ''.'')) (unesc es)
            else if e = CHR ''b'' then map_option ((#) (CHR ''-'')) (unesc es)
            else None)
     else map_option ((#) c) (unesc cs))"

lemma unesc_esc: "unesc (esc s) = Some s"
  by (induction s) auto

lemma esc_no_dot: "CHR ''.'' \<notin> set (esc s)"
  by (induction s) auto

definition demo_config :: config where
  "demo_config = \<lparr> database_url = ''db'', bind_addr = ''b'', base_url = ''https://ppv.example'',
     trust_proxy_headers = False, upload_dir = ''up'', media_dir = ''media'', tmp_dir = ''tmp'',
     public_dir = ''public'', storage_dir = ''storage'', hls_root = ''hls'', hls_segment_seconds = 2,
     watermark_font = ''font'', session_token_ttl = 3600, hmac_secret = ''k'', hwaccel = ''none'',
     max_upload_bytes = 1000, allow_exts = [''mp4''], dollar_usd_to_rupiah = ''17000'',
     x402_contract = ''0xc0'', x402_admin_wallet = [], x402_rpc_wss = [], x402_chain_id = 137,
     x402_deadline_secs = 900, creator_split_bp = 9000 \<rparr>"

definition demo_ctx :: ctx where
  "demo_ctx = \<lparr>
     cfg = demo_config,
     cookie = None, now = Instant 5000, fresh_uuid = (\<lambda>site. ''s-new''), fault = (\<lambda>site. None),
     viol = (\<lambda>c. c), env_var = (\<lambda>v. None), b64enc = esc, b64dec = unesc,
     hmac_tag = (\<lambda>key m. key @ m), rfc3339 = (\<lambda>t. string_of_int (nanos t)),
     rfc3339_parse = (\<lambda>s. map_option Instant (parse_int s)),
     pg_text = (\<lambda>t. string_of_int (nanos t)), pg_ilike = (\<lambda>s p. s = p),
     pg_month = (\<lambda>t. Instant 0), num64 = (\<lambda>_. None), int4_i64 = (\<lambda>_. None),
     bigint_i32 = (\<lambda>_. None), bigint_string = (\<lambda>_. None), timestamptz_string = (\<lambda>_. None), uni_lower = (\<lambda>s. s) \<rparr>"

text \<open>The request of the user whose session is \<open>sid\<close>.\<close>

definition as_session :: "string \<Rightarrow> ctx \<Rightarrow> ctx" where
  "as_session sid C = C\<lparr>cookie := Some (build_cookie_value C sid (hmac_secret (cfg C)))\<rparr>"

definition failing :: "string \<Rightarrow> fault \<Rightarrow> ctx \<Rightarrow> ctx" where
  "failing site f C = C\<lparr>fault := (fault C)(site := Some f)\<rparr>"

definition demo_user :: "string \<Rightarrow> string \<Rightarrow> int \<Rightarrow> int \<Rightarrow> user" where
  "demo_user i name adm bal =
     \<lparr> u_id = i, u_username = name, u_email = name @ ''@x.org'', u_pwhash = None, u_is_admin = adm,
       u_created = ''t0'', u_bank = None, u_wallet = None, u_whatsapp = None, u_profile = [],
       u_balance = bal, u_chain = None, u_actor = None,
       u_federated = True, u_discoverable = True \<rparr>"

definition demo_session :: "string \<Rightarrow> string \<Rightarrow> int \<Rightarrow> session_row" where
  "demo_session sid uid adm =
     \<lparr> s_id = sid, s_user = uid, s_is_admin = adm, s_created = ''0'', s_expires = ''9000'' \<rparr>"

definition demo_video :: "string \<Rightarrow> string \<Rightarrow> int \<Rightarrow> video" where
  "demo_video i own price =
     \<lparr> v_id = i, v_owner = own, v_title = ''T'', v_description = [], v_price = price,
       v_filename = ''f.mp4'', v_created = ''t0'', v_visibility = ''local_only'', v_object = None,
       v_hls_ready = True, v_hls_master = None, v_state = Some ''ready'', v_error = None \<rparr>"

definition demo_db :: db where
  "demo_db = empty_db\<lparr>
     users := [demo_user ''u1'' ''alice'' 0 20000, demo_user ''u2'' ''bob'' 0 300,
               demo_user ''u3'' ''carol'' 0 0, demo_user ''ad'' ''root'' 1 0],
     videos := [demo_video ''v1'' ''u2'' 1000],
     aff_settings := [\<lparr> as_video = ''v1'', as_owner = ''u2'', as_pct = 10, as_enabled = True \<rparr>],
     sessions := [demo_session ''sa'' ''u1'' 0, demo_session ''sb'' ''u2'' 0,
                  demo_session ''sr'' ''ad'' 1]\<rparr>"

definition demo_start :: "string \<Rightarrow> int" where
  "demo_start i = (if i = ''u1'' then 20000 else if i = ''u2'' then 300 else 0)"

definition alice :: ctx where "alice = as_session ''sa'' demo_ctx"
definition bob :: ctx where "bob = as_session ''sb'' demo_ctx"
definition root_admin :: ctx where "root_admin = as_session ''sr'' demo_ctx"

text \<open>The definitions a witness unfolds to evaluate the model on this data.\<close>

lemmas demo_eval =
  fits64_def wrap64_def add64_def sub64_def mul64_def quot_def rmd_def byte_def chr_def digit_def
  string_of_int_def parse_nat_def parse_int_def parse_i64_def pad2_def trim_def ascii_lower_char_def
  ascii_lower_def starts_with_def cont_byte_def valid_utf8_def jerr_def jok_def answer_ok_def
  less_eq_instant_def less_instant_def plus_secs_def count_where_def empty_db_def empty_fed_def empty_media_def find_user_def
  find_username_def find_video_def find_wtxn_def find_session_def find_aff_setting_def
  balance_of_def user_exists_def video_exists_def has_purchase_def allowed_def block_active_def
  blocked_in_def put_balance_def set_balance_def inc_balance_def add_wtxn_def new_wtxn_def
  ins_wtxn_def put_wtxn_def upd_wtxn_def ins_purchase_def ins_allow_def ins_aff_commission_def
  ins_session_def del_session_def to_lowercase_def run_read_def run_write_def aborted_msg_def tx_begin_def
  tx_read_def tx_write_def tx_result_def tx_commit_def tx_rollback_def tx_then_def tx_look_def
  tx_end_def default_payment_settings_def is_provider_enabled_def clean_provider_def
  load_payment_settings_def b64_def b64_bytes_def b64_decode_to_string_def sign_sid_def
  build_cookie_value_def parse_and_verify_cookie_def secure_cookie_def session_ttl_def
  create_session_def destroy_session_def current_user_id_def ensure_admin_session_def wt_effect_def
  ledger_of_def reconciled_def solvent_def total_balance_def wt_held_def held_def money_supply_def
  wf_users_def wf_wtxns_def books_def same_money_def balance_or_0_def commission_cents_def
  commission_tx_def process_affiliate_commission_def MIN_DEPOSIT_CENTS_def MIN_WITHDRAWAL_CENTS_def
  MIN_TRANSFER_CENTS_def cents_to_display_def not_logged_in_def wallet_balance_def txn_row_json_def
  order_by_def order_by_desc_def sql_limit_def wallet_transactions_def wallet_deposit_def wallet_withdraw_def
  transfer_tx_def wallet_transfer_def creator_cut_def wallet_pay_check_def wallet_pay_tx_def
  pay_answer_def wallet_pay_video_def split_ok_def admin_txn_json_def admin_wallet_transactions_def
  admin_wallet_approve_def admin_complete_check_def admin_complete_update_def
  admin_wallet_complete_def admin_wallet_reject_def is_admin_request_def demo_ctx_def demo_config_def as_session_def
  failing_def demo_user_def demo_session_def demo_video_def demo_db_def demo_start_def alice_def
  bob_def root_admin_def i64_min_def i64_max_def string_of_nat.simps trim_start.simps trim_rev.simps
  upd_where_Cons upd_where_append Let_def wf_row_def

lemma demo_books: "books demo_start demo_db"
  by (simp add: demo_eval)

end
