(* ===== verification/WalletSystem.thy ===== *)
theory WalletSystem
  imports Demo
begin

text \<open>
  The wallet as a transition system: any request, with any failures, may come at any time.
  Buying a video is two steps, because its checks run before its transaction and other
  requests can come between them.  The row locks of the code make each transaction one step.
\<close>

record wallet_sys =
  w_db :: db
  w_plans :: "pay_plan list"

inductive wallet_step :: "wallet_sys \<Rightarrow> wallet_sys \<Rightarrow> bool" where
  step_deposit:
    "wallet_deposit C amount note (w_db s) = (j, d') \<Longrightarrow> wallet_step s (s\<lparr>w_db := d'\<rparr>)"
| step_withdraw:
    "wallet_withdraw C amount note (w_db s) = (j, d') \<Longrightarrow> wallet_step s (s\<lparr>w_db := d'\<rparr>)"
| step_transfer:
    "wallet_transfer C name amount note (w_db s) = (j, d') \<Longrightarrow> wallet_step s (s\<lparr>w_db := d'\<rparr>)"
| step_pay_refused:
    "wallet_pay_check C vid (w_db s) = (Inl j, d') \<Longrightarrow> wallet_step s (s\<lparr>w_db := d'\<rparr>)"
| step_pay_checked:
    "split_ok C \<Longrightarrow> wallet_pay_check C vid (w_db s) = (Inr p, d') \<Longrightarrow>
     wallet_step s (s\<lparr>w_db := d', w_plans := p # w_plans s\<rparr>)"
| step_pay_tx:
    "p \<in> set (w_plans s) \<Longrightarrow> wallet_pay_tx C p (w_db s) = (r, d') \<Longrightarrow>
     wallet_step s (s\<lparr>w_db := d', w_plans := remove1 p (w_plans s)\<rparr>)"
| step_commission:
    "process_affiliate_commission C vid buyer owner price name meth invc (w_db s) = (r, d') \<Longrightarrow>
     wallet_step s (s\<lparr>w_db := d'\<rparr>)"
| step_approve:
    "admin_wallet_approve C i note (w_db s) = (j, d') \<Longrightarrow>
     (\<And>t. find_wtxn i (w_db s) = Some t \<Longrightarrow> money_supply (w_db s) + wt_amount t < 2 ^ 63) \<Longrightarrow>
     wallet_step s (s\<lparr>w_db := d'\<rparr>)"
| step_complete:
    "admin_wallet_complete C i note (w_db s) = (j, d') \<Longrightarrow> wallet_step s (s\<lparr>w_db := d'\<rparr>)"
| step_reject:
    "admin_wallet_reject C i note (w_db s) = (j, d') \<Longrightarrow> wallet_step s (s\<lparr>w_db := d'\<rparr>)"
| step_elsewhere:
    "same_money (w_db s) d' \<Longrightarrow> wallet_step s (s\<lparr>w_db := d'\<rparr>)"

inductive_cases wallet_stepE: "wallet_step s s'"

definition plan_ok :: "pay_plan \<Rightarrow> bool" where
  "plan_ok p \<longleftrightarrow> pp_buyer p \<noteq> pp_owner p \<and> 0 < pp_price p
     \<and> (\<exists>bp. 0 \<le> bp \<and> bp \<le> 10000 \<and> pp_cut p = creator_cut (pp_price p) bp)"

definition wallet_inv :: "(string \<Rightarrow> int) \<Rightarrow> wallet_sys \<Rightarrow> bool" where
  "wallet_inv ob s \<longleftrightarrow> books ob (w_db s) \<and> (\<forall>p\<in>set (w_plans s). plan_ok p)"

definition wallet_init :: "(string \<Rightarrow> int) \<Rightarrow> wallet_sys \<Rightarrow> bool" where
  "wallet_init ob s \<longleftrightarrow> books ob (w_db s) \<and> w_plans s = []"

lemma plan_checked_ok: "plan_checked C vid d p \<Longrightarrow> split_ok C \<Longrightarrow> plan_ok p"
  unfolding plan_checked_def plan_ok_def split_ok_def by blast

lemma pay_tx_books:
  assumes "books ob d" "plan_ok p" "wallet_pay_tx C p d = (r, d')"
  shows "books ob d'" "money_supply d' \<le> money_supply d"
proof -
  obtain bp where p: "pp_buyer p \<noteq> pp_owner p" "0 < pp_price p"
    "pp_cut p = creator_cut (pp_price p) bp" "0 \<le> bp" "bp \<le> 10000"
    using assms(2) unfolding plan_ok_def by blast
  consider "d' = d" | x where "sale_done C p d x d'"
    using pay_tx_cases [OF p(1,2) assms(3)] by blast
  then have "books ob d' \<and> money_supply d' \<le> money_supply d"
  proof cases
    case 1
    with assms(1) show ?thesis by simp
  next
    case (2 x)
    note b = sale_books [OF assms(1) 2 p(1,3,4,5)]
    then show ?thesis by simp
  qed
  then show "books ob d'" "money_supply d' \<le> money_supply d" by simp_all
qed

lemma pay_check_books:
  assumes "books ob d" "wallet_pay_check C vid d = (r, d')"
  shows "books ob d'"
  using pay_check_cases [OF assms(2)] assms(1) pruned_books by blast

lemma wallet_inv_db:
  "wallet_inv ob s \<Longrightarrow> books ob d' \<Longrightarrow> wallet_inv ob (s\<lparr>w_db := d'\<rparr>)"
  by (simp add: wallet_inv_def)

lemma wallet_inv_step:
  assumes "wallet_inv ob s" "wallet_step s s'"
  shows "wallet_inv ob s'"
proof -
  have b: "books ob (w_db s)" and p: "\<And>p. p \<in> set (w_plans s) \<Longrightarrow> plan_ok p"
    using assms(1) by (simp_all add: wallet_inv_def)
  note keep = wallet_inv_db [OF assms(1)]
  from assms(2) show ?thesis
  proof (cases rule: wallet_step.cases)
    case step_deposit
    then show ?thesis using keep deposit_books [OF b] by blast
  next
    case step_withdraw
    then show ?thesis using keep withdraw_books [OF b] by blast
  next
    case step_transfer
    then show ?thesis using keep transfer_books [OF b] by blast
  next
    case step_pay_refused
    then show ?thesis using keep pay_check_books [OF b] by blast
  next
    case (step_pay_checked C vid p d')
    then have "plan_ok p" using pay_check_cases plan_checked_ok by blast
    with step_pay_checked pay_check_books [OF b] assms(1) show ?thesis
      by (simp add: wallet_inv_def)
  next
    case (step_pay_tx q C r d')
    with pay_tx_books(1) [OF b p] have "books ob d'" by blast
    with step_pay_tx(1) assms(1) show ?thesis
      by (auto simp: wallet_inv_def dest: notin_set_remove1)
  next
    case step_commission
    then show ?thesis using keep process_books [OF b] by blast
  next
    case step_approve
    then show ?thesis using keep approve_books [OF b] by blast
  next
    case step_complete
    then show ?thesis using keep complete_books [OF b] by blast
  next
    case step_reject
    then show ?thesis using keep reject_books [OF b] by blast
  next
    case step_elsewhere
    then show ?thesis using keep b same_money_books(1) by blast
  qed
qed

interpretation wallet: inv_system "wallet_init ob" wallet_step "wallet_inv ob" for ob
proof (unfold_locales, goal_cases)
  case 1
  then show ?case by (simp add: wallet_init_def wallet_inv_def)
next
  case 2
  then show ?case by (rule wallet_inv_step)
qed

end
