(* ===== verification/WalletProperties.thy ===== *)
theory WalletProperties
  imports WalletSystem
begin

text \<open>
  The properties of the wallet, the affiliate commission and the administrators' part of
  the ledger, each with a witness on the data of \<open>Demo\<close>.
\<close>

section \<open>Books and transfers\<close>


lemma reach_demo: "reach (wallet_init demo_start) wallet_step \<lparr>w_db = demo_db, w_plans = []\<rparr>"
  by (rule reach_init) (simp add: wallet_init_def demo_books)

lemma reach_demo_transfer:
  "reach (wallet_init demo_start) wallet_step
     \<lparr>w_db = snd (wallet_transfer alice ''bob'' 1500 None demo_db), w_plans = []\<rparr>"
proof (rule reach_step [OF reach_demo])
  show "wallet_step \<lparr>w_db = demo_db, w_plans = []\<rparr>
      \<lparr>w_db = snd (wallet_transfer alice ''bob'' 1500 None demo_db), w_plans = []\<rparr>"
    using step_transfer [of alice "''bob''" 1500 None "\<lparr>w_db = demo_db, w_plans = []\<rparr>"]
    by (metis prod.collapse select_convs(1) update_convs(1))
qed


text \<open>C2. A transfer that answers \<open>ok\<close> has moved exactly the amount from the logged-in user to
  the named one, keeps the sum of all balances, changes nobody else, and has appended the
  two completed ledger rows.\<close>

theorem transfer_correct:
  assumes "books ob d" "wallet_transfer C to_username amount note d = (j, d')" "answer_ok j"
  shows "\<exists>uid adm u x y.
    current_user_id C d = (Some (uid, adm), d) \<and> find_username (trim to_username) d = Some u
    \<and> u_id u \<noteq> uid \<and> 100 \<le> amount
    \<and> balance_of uid d = Some x \<and> balance_of uid d' = Some (x - amount) \<and> 0 \<le> x - amount
    \<and> balance_of (u_id u) d = Some y \<and> balance_of (u_id u) d' = Some (y + amount)
    \<and> (\<forall>i. i \<noteq> uid \<longrightarrow> i \<noteq> u_id u \<longrightarrow> balance_of i d' = balance_of i d)
    \<and> total_balance d' = total_balance d
    \<and> (\<exists>r1 r2. wtxns d' = wtxns d @ [r1, r2]
        \<and> wt_user r1 = uid \<and> wt_type r1 = ''transfer_out'' \<and> wt_amount r1 = amount
        \<and> wt_after r1 = x - amount \<and> wt_status r1 = ''completed'' \<and> wt_ref r1 = Some (u_id u)
        \<and> wt_user r2 = u_id u \<and> wt_type r2 = ''transfer_in'' \<and> wt_amount r2 = amount
        \<and> wt_after r2 = y + amount \<and> wt_status r2 = ''completed'' \<and> wt_ref r2 = Some uid)"
proof -
  have "transfer_done C to_username amount note d d'"
    using transfer_cases [OF assms(2)] assms(3) by blast
  then obtain uid adm x y and u :: user where t:
    "current_user_id C d = (Some (uid, adm), d)" "find_username (trim to_username) d = Some u"
    "u_id u \<noteq> uid" "MIN_TRANSFER_CENTS \<le> amount" "balance_of uid d = Some x"
    "balance_of (u_id u) d = Some y" "amount \<le> x"
    "d' = transferred C uid (u_id u) amount note x y d"
    unfolding transfer_done_def by blast
  have pos: "0 < amount" using t(4) by (simp add: MIN_TRANSFER_CENTS_def)
  note b = transferred_books [OF assms(1) t(3) [symmetric] t(5,6) pos t(7,8)]
  have s: "sub64 x amount = x - amount" "add64 y amount = y + amount"
    using post_pair_books64(3,4) [OF assms(1) t(3) [symmetric] t(5,6) pos t(7) pos order_refl insertI1 refl]
    by simp_all
  have "total_balance d' = total_balance d"
    using acct.transfer_total [OF _ t(3) [symmetric] t(5,6)] assms(1)
    by (simp add: t(8) transferred_def post_pair_def Let_def s books_def)
  moreover have "\<exists>r1 r2. wtxns d' = wtxns d @ [r1, r2]
        \<and> wt_user r1 = uid \<and> wt_type r1 = ''transfer_out'' \<and> wt_amount r1 = amount
        \<and> wt_after r1 = x - amount \<and> wt_status r1 = ''completed'' \<and> wt_ref r1 = Some (u_id u)
        \<and> wt_user r2 = u_id u \<and> wt_type r2 = ''transfer_in'' \<and> wt_amount r2 = amount
        \<and> wt_after r2 = y + amount \<and> wt_status r2 = ''completed'' \<and> wt_ref r2 = Some uid"
    by (simp add: t(8) transferred_def post_pair_def Let_def s db_simps)
  ultimately show ?thesis
    using t b(3) by (intro exI [of _ uid] exI [of _ adm] exI [of _ u] exI [of _ x] exI [of _ y])
      (simp add: MIN_TRANSFER_CENTS_def)
qed

theorem transfer_correct_witness:
  "\<exists>x y. balance_of ''u1'' (snd (wallet_transfer alice '' bob '' 1500 None demo_db)) = Some x
     \<and> balance_of ''u2'' (snd (wallet_transfer alice '' bob '' 1500 None demo_db)) = Some y
     \<and> total_balance (snd (wallet_transfer alice '' bob '' 1500 None demo_db)) = total_balance demo_db"
proof -
  have "answer_ok (fst (wallet_transfer alice '' bob '' 1500 None demo_db))" by (simp add: demo_eval)
  from transfer_correct [OF demo_books surjective_pairing this]
  have "total_balance (snd (wallet_transfer alice '' bob '' 1500 None demo_db)) = total_balance demo_db"
    by blast
  moreover have "balance_of ''u1'' (snd (wallet_transfer alice '' bob '' 1500 None demo_db)) = Some 18500"
    "balance_of ''u2'' (snd (wallet_transfer alice '' bob '' 1500 None demo_db)) = Some 1800"
    by (simp_all add: demo_eval)
  ultimately show ?thesis by simp
qed

text \<open>C3. A transfer is all or nothing: under any failure of any statement, either nothing but
  an expired session has changed and the answer is an error, or the whole transfer was done;
  the two can disagree with the answer only when the answer to \<open>COMMIT\<close> was lost.\<close>

theorem transfer_atomic:
  assumes "wallet_transfer C to_username amount note d = (j, d')"
  shows "pruned d d' \<and> \<not> answer_ok j \<or>
    transfer_done C to_username amount note d d' \<and> (answer_ok j \<or> fault C ''transfer.commit'' \<noteq> None)"
  by (rule transfer_cases [OF assms])

theorem transfer_atomic_witness:
  "pruned demo_db (snd (wallet_transfer (failing ''transfer.recip_bal'' (Refused ''gone'') alice)
       ''bob'' 1500 None demo_db))"
proof -
  let ?C = "failing ''transfer.recip_bal'' (Refused ''gone'') alice"
  have "fault ?C ''transfer.commit'' = None" by (simp add: failing_def alice_def as_session_def demo_ctx_def)
  moreover have "\<not> answer_ok (fst (wallet_transfer ?C ''bob'' 1500 None demo_db))" by (simp add: demo_eval)
  ultimately show ?thesis using transfer_atomic [OF surjective_pairing] by blast
qed


section \<open>Deposits and withdrawals\<close>

lemma settled_approve:
  assumes "find_wtxn i d = Some t" "wt_status t \<noteq> ''pending''" "admin_wallet_approve C i n d = (j, d')"
  shows "pruned d d' \<and> \<not> answer_ok j"
  using approve_cases [OF assms(3)] assms(1,2) by auto

lemma settled_reject:
  assumes "find_wtxn i d = Some t" "wt_status t \<noteq> ''pending''" "admin_wallet_reject C i n d = (j, d')"
  shows "pruned d d' \<and> \<not> answer_ok j"
  using reject_cases [OF assms(3)] assms(1,2) by auto

lemma settled_complete:
  assumes "find_wtxn i d = Some t" "wt_status t \<noteq> ''pending''" "admin_wallet_complete C i n d = (j, d')"
  shows "pruned d d' \<and> \<not> answer_ok j"
  using complete_cases [OF assms(3)] assms(1,2) by auto

lemma find_put_wtxn:
  "(\<And>t. wt_id (f t) = wt_id t) \<Longrightarrow> find_wtxn i (put_wtxn i f d) = map_option f (find_wtxn i d)"
  by (auto simp: find_wtxn_def db_simps find_upd_where dest!: find_in intro!: map_option_cong)

lemma find_wtxn_put_balance [simp]: "find_wtxn i (put_balance u b d) = find_wtxn i d"
  by (simp add: find_wtxn_def db_simps)

lemma pruned_balance: "pruned d d' \<Longrightarrow> balance_of i d' = balance_of i d"
  by (rule same_money_balance [OF pruned_money])

text \<open>C4. Approving credits a pending deposit once: the balance of its user grows by the amount,
  nobody else's changes, and afterwards every further approval, rejection or completion of
  the same row is refused and leaves every balance as it is.\<close>

theorem deposit_approved_once:
  assumes "admin_wallet_approve C i note d = (j, d1)" "answer_ok j"
  shows "\<exists>t b. find_wtxn i d = Some t \<and> wt_type t = ''deposit'' \<and> wt_status t = ''pending''
    \<and> balance_of (wt_user t) d = Some b \<and> balance_of (wt_user t) d1 = Some (b + wt_amount t)
    \<and> (\<forall>u. u \<noteq> wt_user t \<longrightarrow> balance_of u d1 = balance_of u d)
    \<and> (\<forall>C2 n2 j2 d2. admin_wallet_approve C2 i n2 d1 = (j2, d2)
         \<or> admin_wallet_reject C2 i n2 d1 = (j2, d2) \<or> admin_wallet_complete C2 i n2 d1 = (j2, d2)
         \<longrightarrow> \<not> answer_ok j2 \<and> (\<forall>u. balance_of u d2 = balance_of u d1))"
proof -
  obtain t b where t: "find_wtxn i d = Some t" "wt_status t = ''pending''" "wt_type t = ''deposit''"
    "balance_of (wt_user t) d = Some b" "d1 = approved_db C i note t (b + wt_amount t) d"
    using approve_cases [OF assms(1)] assms(2) by blast
  have bal: "balance_of u d1 = (if u = wt_user t then Some (b + wt_amount t) else balance_of u d)" for u
    using t(4) by (simp add: t(5) approved_db_def db_simps)
  have "\<exists>t1. find_wtxn i d1 = Some t1 \<and> wt_status t1 = ''approved''"
    by (simp add: t(5) approved_db_def find_put_wtxn t(1))
  then obtain t1 where t1: "find_wtxn i d1 = Some t1" "wt_status t1 \<noteq> ''pending''" by auto
  have again: "\<not> answer_ok j2 \<and> (\<forall>u. balance_of u d2 = balance_of u d1)"
    if "admin_wallet_approve C2 i n2 d1 = (j2, d2) \<or> admin_wallet_reject C2 i n2 d1 = (j2, d2)
        \<or> admin_wallet_complete C2 i n2 d1 = (j2, d2)" for C2 n2 j2 d2
    using that settled_approve [OF t1] settled_reject [OF t1] settled_complete [OF t1] pruned_balance
    by blast
  show ?thesis
    by (intro exI [of _ t] exI [of _ b]) (use t bal again in simp)
qed

text \<open>The database of the witnesses: alice asked for a deposit and a withdrawal.\<close>

definition requests_db :: db where
  "requests_db = snd (wallet_withdraw alice 6000 None (snd (wallet_deposit alice 2500 None demo_db)))"

theorem deposit_approved_once_witness:
  "\<exists>t b. find_wtxn 1 requests_db = Some t \<and> balance_of (wt_user t) requests_db = Some b
     \<and> balance_of (wt_user t) (snd (admin_wallet_approve root_admin 1 None requests_db)) = Some (b + wt_amount t)"
proof -
  have "answer_ok (fst (admin_wallet_approve root_admin 1 None requests_db))" by (simp add: requests_db_def demo_eval)
  from deposit_approved_once [OF surjective_pairing this] show ?thesis by blast
qed

text \<open>C5. A withdrawal request takes the amount from the balance at once, and rejecting it gives
  it back: request followed by rejection restores every balance, and the row says
  \<open>rejected\<close>.\<close>

theorem withdraw_reject_roundtrip:
  assumes "books ob d" "wallet_withdraw C amount note d = (j1, d1)" "answer_ok j1"
    and "fault C ''withdraw.commit'' = None"
    and "admin_wallet_reject C2 (wtxn_seq d + 1) n2 d1 = (j2, d2)" "answer_ok j2"
  shows "(\<forall>u. balance_of u d2 = balance_of u d)
    \<and> (\<exists>uid bal. balance_of uid d = Some bal \<and> balance_of uid d1 = Some (bal - amount)
         \<and> 5000 \<le> amount \<and> amount \<le> bal)
    \<and> (\<exists>t. find_wtxn (wtxn_seq d + 1) d2 = Some t \<and> wt_status t = ''rejected'' \<and> wt_amount t = amount)"
proof -
  let ?i = "wtxn_seq d + 1"
  obtain uid bal where w: "MIN_WITHDRAWAL_CENTS \<le> amount" "balance_of uid d = Some bal" "amount \<le> bal"
    and d1: "d1 = (let d1 = put_balance uid (sub64 bal amount) d
                in add_wtxn (new_wtxn (now C) uid ''withdrawal'' amount (sub64 bal amount) ''pending'' None
                               note d1) d1)"
    using withdraw_cases [OF assms(2)] assms(3,4) by blast
  have s: "sub64 bal amount = bal - amount"
    using w books_facts [OF assms(1) w(2)] by (simp add: sub64_nonneg MIN_WITHDRAWAL_CENTS_def)
  have fresh: "find (\<lambda>t. wt_id t = ?i) (wtxns d) = None"
    using assms(1) by (force simp: find_None_set books_def wf_wtxns_def wf_row_def)
  let ?t = "new_wtxn (now C) uid ''withdrawal'' amount (bal - amount) ''pending'' None note
              (put_balance uid (bal - amount) d)"
  have t: "find_wtxn ?i d1 = Some ?t"
    using fresh by (simp add: d1 s Let_def find_wtxn_def db_simps find_append)
  have b1: "balance_of u d1 = (if u = uid then Some (bal - amount) else balance_of u d)" for u
    using w(2) by (simp add: d1 s Let_def db_simps)
  have d2: "d2 = rejected_db C2 ?i n2 (put_balance uid (bal - amount + amount) d1)"
    using reject_cases [OF assms(5)] assms(6) t b1 [of uid] by auto
  have "balance_of u d2 = balance_of u d" for u
    using b1 w(2) by (simp add: d2 rejected_db_def db_simps)
  moreover have "find_wtxn ?i d2 = Some (?t\<lparr>wt_status := ''rejected'', wt_admin_note := n2, wt_updated := now C2\<rparr>)"
    by (simp add: d2 rejected_db_def find_put_wtxn t)
  ultimately show ?thesis
    using w b1 [of uid] by (auto simp: MIN_WITHDRAWAL_CENTS_def)
qed

theorem withdraw_reject_roundtrip_witness:
  "balance_of ''u1'' (snd (admin_wallet_reject root_admin 1 None (snd (wallet_withdraw alice 6000 None demo_db))))
   = balance_of ''u1'' demo_db"
proof -
  have "answer_ok (fst (wallet_withdraw alice 6000 None demo_db))" by (simp add: demo_eval)
  moreover have "fault alice ''withdraw.commit'' = None" by (simp add: demo_eval)
  moreover have "answer_ok (fst (admin_wallet_reject root_admin (wtxn_seq demo_db + 1) None
      (snd (wallet_withdraw alice 6000 None demo_db))))" by (simp add: demo_eval)
  moreover have "wtxn_seq demo_db + 1 = 1" by (simp add: demo_eval)
  ultimately show ?thesis
    using withdraw_reject_roundtrip [OF demo_books surjective_pairing _ _ surjective_pairing] by metis
qed

text \<open>C6. The check and the update of \<open>admin_wallet_complete\<close> are not one transaction: when a
  rejection commits between them, the user has the money back and the row still ends as
  \<open>completed\<close>, so the ledger no longer explains the balance.\<close>

theorem complete_reject_race:
  assumes "books ob d" "find_wtxn i d = Some t" "wt_type t = ''withdrawal''"
    and "admin_complete_check C i d = (Inr (), d0)"
    and "admin_wallet_reject C2 i n2 d0 = (j2, d2)" "answer_ok j2"
    and "admin_complete_update C i n d2 = (j3, d3)" "answer_ok j3"
  shows "\<exists>b. balance_of (wt_user t) d = Some b \<and> balance_of (wt_user t) d3 = Some (b + wt_amount t)
    \<and> (\<exists>t3. find_wtxn i d3 = Some t3 \<and> wt_status t3 = ''completed'')
    \<and> \<not> reconciled ob d3"
proof -
  have d0: "d0 = d" using complete_check_cases [OF assms(4)] by blast
  obtain b where b: "balance_of (wt_user t) d = Some b" using row_user_balance [OF assms(1,2)] .
  have d2: "d2 = rejected_db C2 i n2 (put_balance (wt_user t) (b + wt_amount t) d)"
    using reject_cases [OF assms(5)] assms(2,3,6) b by (auto simp: d0)
  have d3: "d3 = completed_db C i n d2" using complete_update_cases [OF assms(7)] assms(8) by blast
  have st: "wt_status t = ''pending''"
    using complete_check_cases [OF assms(4)] assms(2) by auto
  have books2: "books ob d2" using reject_books [OF assms(1)] assms(5) by (simp add: d0)
  obtain t2 where t2: "find_wtxn i d2 = Some t2" "wt_user t2 = wt_user t" "wt_type t2 = ''withdrawal''"
      "wt_status t2 = ''rejected''" "wt_amount t2 = wt_amount t"
    by (simp add: d2 rejected_db_def find_put_wtxn assms(2,3))
  have dist: "distinct (map wt_id (wtxns d2))" using books2 by (simp add: books_def wf_wtxns_def)
  have l: "ledger_of (wt_user t) d3 = ledger_of (wt_user t) d2 - wt_amount t"
    unfolding d3 completed_db_def by (subst ledger_put_wtxn [OF dist t2(1)]) (simp_all add: t2 wt_effect_def)
  have bal2: "balance_of (wt_user t) d2 = Some (b + wt_amount t)"
    by (simp add: d2 rejected_db_def db_simps b)
  have bal3: "balance_of (wt_user t) d3 = Some (b + wt_amount t)"
    by (simp add: d3 completed_db_def db_simps bal2)
  have "\<not> reconciled ob d3"
    using reconciled_balance [of ob d3] bal3 l books_facts(2) [OF books2 bal2]
      row_amount_pos [OF assms(1,2)] by force
  moreover have "\<exists>t3. find_wtxn i d3 = Some t3 \<and> wt_status t3 = ''completed''"
    by (simp add: d3 completed_db_def find_put_wtxn t2(1))
  ultimately show ?thesis using b bal3 by blast
qed

definition race_db :: db where
  "race_db = snd (wallet_withdraw alice 6000 None demo_db)"

lemma race_db_books: "books demo_start race_db"
  using withdraw_books [OF demo_books] unfolding race_db_def by (metis prod.collapse)

theorem complete_reject_race_witness:
  "\<not> reconciled demo_start (snd (admin_complete_update root_admin 1 None
        (snd (admin_wallet_reject root_admin 1 None race_db))))"
proof -
  obtain t where t: "find_wtxn 1 race_db = Some t" "wt_type t = ''withdrawal''"
  proof
    show "find_wtxn 1 race_db = Some (the (find_wtxn 1 race_db))" by (simp add: race_db_def demo_eval)
    show "wt_type (the (find_wtxn 1 race_db)) = ''withdrawal''" by (simp add: race_db_def demo_eval)
  qed
  have "admin_complete_check root_admin 1 race_db = (Inr (), race_db)"
  proof -
    have "fst (admin_complete_check root_admin 1 race_db) = Inr ()" by (simp add: race_db_def demo_eval)
    then show ?thesis using complete_check_cases by (metis prod.collapse sum.distinct(1))
  qed
  moreover have "answer_ok (fst (admin_wallet_reject root_admin 1 None race_db))" by (simp add: race_db_def demo_eval)
  moreover have "answer_ok (fst (admin_complete_update root_admin 1 None
        (snd (admin_wallet_reject root_admin 1 None race_db))))" by (simp add: race_db_def demo_eval)
  ultimately show ?thesis
    using complete_reject_race [OF race_db_books t _ surjective_pairing _ surjective_pairing] by blast
qed

text \<open>\<open>wallet_withdraw\<close> drops the result of its commit: when the server refuses it, nothing
  has changed and the user is still told that the request was submitted.\<close>

theorem withdraw_commit_dropped:
  assumes "current_user_id C d = (Some (uid, adm), d)" "balance_of uid d = Some bal"
    and "5000 \<le> amount" "amount \<le> bal"
    and "fault C = (\<lambda>_. None)(''withdraw.commit'' := Some (Refused m))"
  shows "\<exists>j. wallet_withdraw C amount note d = (j, d) \<and> answer_ok j"
  using assms
  by (simp add: wallet_withdraw_def MIN_WITHDRAWAL_CENTS_def tx_begin_def tx_then_def tx_read_def
      tx_write_def set_balance_def ins_wtxn_def user_exists_balance db_simps tx_commit_def Let_def)

theorem withdraw_commit_dropped_witness:
  "\<exists>j. wallet_withdraw (failing ''withdraw.commit'' (Refused ''down'') alice) 6000 None demo_db = (j, demo_db)
     \<and> answer_ok j"
proof (rule withdraw_commit_dropped [where uid = "''u1''" and bal = 20000 and m = "''down''"])
  let ?C = "failing ''withdraw.commit'' (Refused ''down'') alice"
  have "fst (current_user_id ?C demo_db) = Some (''u1'', False)" by (simp add: demo_eval)
  then show "current_user_id ?C demo_db = (Some (''u1'', False), demo_db)"
    by (metis current_user_Some prod.collapse)
  show "balance_of ''u1'' demo_db = Some 20000" by (simp add: demo_eval)
  show "fault ?C = (\<lambda>_. None)(''withdraw.commit'' := Some (Refused ''down''))"
    by (simp add: failing_def alice_def as_session_def demo_ctx_def)
qed simp_all


section \<open>Buying a video\<close>

lemma sold_access:
  "has_purchase (pp_buyer p) (pp_video p) (sold C p x y d)"
  "pp_buyer_name p \<noteq> [] \<Longrightarrow> allowed (pp_video p) (pp_buyer_name p) (sold C p x y d)"
  by (auto simp: sold_def put_allow_def add_purchase_def has_purchase_def allowed_def)

lemma pay_video_no_ref:
  assumes "wallet_pay_video C vid None d = (j, d')" "answer_ok j"
  obtains p x where "plan_checked C vid d p" "sale_done C p d x d'" "j = pay_answer p (sub64 x (pp_price p))"
  using assms by (cases rule: pay_video_cases) (auto simp: pay_end_def)


lemma alice_split_ok: "split_ok alice"
  by (simp add: split_ok_def alice_def as_session_def demo_ctx_def demo_config_def)


text \<open>A buyer whom the video's owner has blocked cannot buy it from the balance: the answer
  is an error and no balance, purchase or allowlist entry changes.\<close>

theorem blocked_buyer_cannot_pay:
  assumes "current_user_id C d = (Some (uid, adm), d)" "find_video vid d = Some v"
    and "blocked_in (now C) (v_owner v) uid d" "wallet_pay_video C vid ref_code d = (j, d')"
  shows "\<not> answer_ok j \<and> pruned d d'"
  using assms(4)
proof (cases rule: pay_video_cases)
  case (unsure p x)
  then show ?thesis using assms(1-3) by (auto simp: plan_checked_def sale_done_def)
next
  case (bought p x d1)
  then show ?thesis using assms(1-3) by (auto simp: plan_checked_def sale_done_def)
qed simp

definition blocked_db :: db where
  "blocked_db = demo_db\<lparr>blocks := [\<lparr> cb_creator = ''u2'', cb_blocked = ''u1'', cb_ban_type = ''soft'',
     cb_reason = None, cb_expires = None, cb_created = Instant 0 \<rparr>]\<rparr>"

theorem blocked_buyer_cannot_pay_witness:
  "\<not> answer_ok (fst (wallet_pay_video alice ''v1'' None blocked_db))"
proof -
  have "fst (current_user_id alice blocked_db) = Some (''u1'', False)" by (simp add: blocked_db_def demo_eval)
  then have "current_user_id alice blocked_db = (Some (''u1'', False), blocked_db)"
    by (metis current_user_Some prod.collapse)
  moreover have "find_video ''v1'' blocked_db = Some (demo_video ''v1'' ''u2'' 1000)"
    "blocked_in (now alice) (v_owner (demo_video ''v1'' ''u2'' 1000)) ''u1'' blocked_db" by (simp_all add: blocked_db_def demo_eval)
  ultimately show ?thesis using blocked_buyer_cannot_pay [OF _ _ _ surjective_pairing] by blast
qed

text \<open>A video whose creator share rounds to zero can never be bought from the balance,
  because the ledger refuses an amount of zero: with a split below 100\<open>%\<close> that is every
  video of one cent.\<close>

theorem zero_share_never_sells:
  assumes "find_video vid d = Some v" "creator_cut (v_price v) (creator_split_bp (cfg C)) = 0"
    and "wallet_pay_video C vid ref_code d = (j, d')"
  shows "\<not> answer_ok j \<and> pruned d d'"
  using assms(3)
proof (cases rule: pay_video_cases)
  case (unsure p x)
  then show ?thesis using assms(1,2) by (auto simp: plan_checked_def sale_done_def)
next
  case (bought p x d1)
  then show ?thesis using assms(1,2) by (auto simp: plan_checked_def sale_done_def)
qed simp

theorem zero_share_never_sells_witness:
  "\<not> answer_ok (fst (wallet_pay_video alice ''v9'' None (demo_db\<lparr>videos := [demo_video ''v9'' ''u2'' 1]\<rparr>)))"
proof -
  have "find_video ''v9'' (demo_db\<lparr>videos := [demo_video ''v9'' ''u2'' 1]\<rparr>) = Some (demo_video ''v9'' ''u2'' 1)"
    "creator_cut (v_price (demo_video ''v9'' ''u2'' 1)) (creator_split_bp (cfg alice)) = 0" by (simp_all add: demo_eval)
  from zero_share_never_sells [OF this surjective_pairing] show ?thesis by blast
qed

text \<open>C8. The check for an earlier purchase runs outside the transaction, so two requests of the
  same buyer that both pass it are both charged: the buyer pays twice and the database holds
  two purchases of the video.\<close>

theorem double_charge:
  assumes "books ob d" "split_ok C1" "split_ok C2"
    and "wallet_pay_check C1 vid d = (Inr p1, d)" "wallet_pay_check C2 vid d = (Inr p2, d)"
    and "pp_buyer p2 = pp_buyer p1"
    and "wallet_pay_tx C1 p1 d = (Inr b1, d1)" "wallet_pay_tx C2 p2 d1 = (Inr b2, d2)"
  shows "\<exists>x. balance_of (pp_buyer p1) d = Some x
    \<and> balance_of (pp_buyer p1) d2 = Some (x - 2 * pp_price p1)
    \<and> count_where (\<lambda>q. pu_user q = pp_buyer p1 \<and> pu_video q = vid) (purchases d2) =
      count_where (\<lambda>q. pu_user q = pp_buyer p1 \<and> pu_video q = vid) (purchases d) + 2"
proof -
  have c1: "plan_checked C1 vid d p1" and c2: "plan_checked C2 vid d p2"
    using pay_check_cases [OF assms(4)] pay_check_cases [OF assms(5)] by blast+
  have k: "plan_ok p1" "plan_ok p2"
    using plan_checked_ok [OF c1 assms(2)] plan_checked_ok [OF c2 assms(3)] by simp_all
  have pr: "pp_price p2 = pp_price p1" "pp_video p1 = vid" "pp_video p2 = vid"
    using c1 c2 by (auto simp: plan_checked_def)
  have ne: "pp_buyer p1 \<noteq> pp_owner p1" "0 < pp_price p1" "pp_buyer p2 \<noteq> pp_owner p2" "0 < pp_price p2"
    using k by (simp_all add: plan_ok_def)
  obtain x1 where s1: "sale_done C1 p1 d x1 d1"
    using pay_tx_cases [OF ne(1,2) assms(7)] by blast
  obtain x2 where s2: "sale_done C2 p2 d1 x2 d2"
    using pay_tx_cases [OF ne(3,4) assms(8)] by blast
  obtain bp1 where b1: "pp_cut p1 = creator_cut (pp_price p1) bp1" "0 \<le> bp1" "bp1 \<le> 10000"
    using k(1) unfolding plan_ok_def by blast
  obtain bp2 where b2: "pp_cut p2 = creator_cut (pp_price p2) bp2" "0 \<le> bp2" "bp2 \<le> 10000"
    using k(2) unfolding plan_ok_def by blast
  note f1 = sale_books [OF assms(1) s1 ne(1) b1]
  note f2 = sale_books [OF f1(1) s2 ne(3) b2]
  have cnt: "count_where (\<lambda>q. pu_user q = pp_buyer p \<and> pu_video q = pp_video p) (purchases e') =
      count_where (\<lambda>q. pu_user q = pp_buyer p \<and> pu_video q = pp_video p) (purchases e) + 1"
    if "sale_done C p e x e'" for C p e x e'
    using that by (auto simp: sale_done_def sold_def put_allow_def add_purchase_def sale_pair_def
        post_pair_fields count_where_def)
  have "x2 = x1 - pp_price p1" using f1(6) f2(5) assms(6) by simp
  then show ?thesis
    using f1(5) f2(6) cnt [OF s1] cnt [OF s2] assms(6) pr by simp
qed

theorem double_charge_witness:
  "\<exists>p x. fst (wallet_pay_check alice ''v1'' demo_db) = Inr p \<and> balance_of ''u1'' demo_db = Some x
    \<and> balance_of ''u1'' (snd (wallet_pay_tx alice p (snd (wallet_pay_tx alice p demo_db)))) = Some (x - 2 * 1000)"
proof -
  define p where "p = \<lparr> pp_buyer = ''u1'', pp_buyer_name = ''alice'', pp_video = ''v1'', pp_owner = ''u2'',
     pp_owner_name = ''bob'', pp_price = 1000, pp_cut = 900 \<rparr>"
  have f: "fst (wallet_pay_check alice ''v1'' demo_db) = Inr p" by (simp add: p_def demo_eval)
  then have c: "wallet_pay_check alice ''v1'' demo_db = (Inr p, demo_db)"
    using pay_check_cases by (metis prod.collapse sum.distinct(1))
  obtain b1 where t1: "wallet_pay_tx alice p demo_db = (Inr b1, snd (wallet_pay_tx alice p demo_db))"
  proof
    have "fst (wallet_pay_tx alice p demo_db) = Inr 19000" by (simp add: p_def demo_eval)
    then show "wallet_pay_tx alice p demo_db = (Inr 19000, snd (wallet_pay_tx alice p demo_db))"
      by (metis prod.collapse)
  qed
  obtain b2 where t2: "wallet_pay_tx alice p (snd (wallet_pay_tx alice p demo_db)) =
      (Inr b2, snd (wallet_pay_tx alice p (snd (wallet_pay_tx alice p demo_db))))"
  proof
    have "fst (wallet_pay_tx alice p (snd (wallet_pay_tx alice p demo_db))) = Inr 18000"
      by (simp add: p_def demo_eval)
    then show "wallet_pay_tx alice p (snd (wallet_pay_tx alice p demo_db)) =
      (Inr 18000, snd (wallet_pay_tx alice p (snd (wallet_pay_tx alice p demo_db))))"
      by (metis prod.collapse)
  qed
  from double_charge [OF demo_books alice_split_ok alice_split_ok c c refl t1 t2] f
  show ?thesis by (auto simp: p_def)
qed


section \<open>Affiliate commissions\<close>

text \<open>C9. A commission that was paid is the configured percentage of the price, rounded down
  and never above the price; it went from the creator, whose balance covered it, to an
  affiliate who is neither the buyer nor the creator; every other balance and the money in
  the system are unchanged, and an audit row records it.\<close>

theorem commission_correct:
  assumes "books ob d" "\<forall>s\<in>set (aff_settings d). as_pct s \<le> 90" "0 \<le> price" "price < 2 ^ 63"
    and "process_affiliate_commission C vid buyer owner price name meth invc d = (Inr cm, d')" "cm \<noteq> 0"
  shows "\<exists>s u x y. find_aff_setting vid d = Some s \<and> as_enabled s
    \<and> find_username (trim name) d = Some u \<and> u_id u \<noteq> buyer \<and> u_id u \<noteq> owner
    \<and> cm = price * as_pct s div 100 \<and> 0 < cm \<and> cm \<le> price
    \<and> balance_of owner d = Some x \<and> balance_of owner d' = Some (x - cm) \<and> cm \<le> x
    \<and> balance_of (u_id u) d = Some y \<and> balance_of (u_id u) d' = Some (y + cm)
    \<and> (\<forall>i. i \<noteq> owner \<longrightarrow> i \<noteq> u_id u \<longrightarrow> balance_of i d' = balance_of i d)
    \<and> money_supply d' = money_supply d
    \<and> (\<exists>r. aff_commissions d' = aff_commissions d @ [r] \<and> ac_commission r = cm
         \<and> ac_affiliate r = u_id u \<and> ac_buyer r = buyer \<and> ac_owner r = owner \<and> ac_price r = price)"
proof -
  have "commission_paid C vid buyer owner price name meth invc d cm d'"
    using process_cases [OF assms(5)] assms(6) by auto
  then obtain s x y and u :: user where c: "find_aff_setting vid d = Some s" "as_enabled s" "0 < as_pct s"
    "find_username (trim name) d = Some u" "u_id u \<noteq> buyer" "u_id u \<noteq> owner"
    "cm = commission_cents price (as_pct s)" "0 < cm" "cm \<le> x"
    "balance_of owner d = Some x" "balance_of (u_id u) d = Some y"
    "d' = commission_posted C vid buyer owner price (u_id u) meth invc cm x y d"
    unfolding commission_paid_def by blast
  have pct: "0 \<le> as_pct s" "as_pct s \<le> 90"
    using c(1,3) assms(2) by (auto simp: find_aff_setting_def dest: find_in)
  note b = commission_posted_books [OF assms(1) c(6) [symmetric] c(10,11,8,9,12)]
  have "aff_commissions d' = aff_commissions d @ [\<lparr> ac_video = vid, ac_affiliate = u_id u, ac_buyer = buyer,
      ac_owner = owner, ac_price = price, ac_commission = cm, ac_method = meth, ac_invoice = invc,
      ac_created = now C \<rparr>]"
    by (simp add: c(12) commission_posted_def Let_def post_pair_fields)
  with c b commission_cents_eq [OF assms(3,4) pct] commission_cents_bounds [OF assms(3,4) pct] show ?thesis
    by (intro exI [of _ s] exI [of _ u] exI [of _ x] exI [of _ y]) auto
qed

theorem commission_correct_witness:
  "balance_of ''u3'' (snd (process_affiliate_commission demo_ctx ''v1'' ''u1'' ''u2'' 1000 ''carol'' ''wallet'' None
     demo_db)) = Some 100"
proof -
  let ?r = "process_affiliate_commission demo_ctx ''v1'' ''u1'' ''u2'' 1000 ''carol'' ''wallet'' None demo_db"
  have "fst ?r = Inr 100" by (simp add: demo_eval)
  then have r: "?r = (Inr 100, snd ?r)" by (metis prod.collapse)
  have p: "\<forall>s\<in>set (aff_settings demo_db). as_pct s \<le> 90" by (simp add: demo_eval)
  have "find_username (trim ''carol'') demo_db = Some (demo_user ''u3'' ''carol'' 0 0)"
    "balance_of ''u3'' demo_db = Some 0" by (simp_all add: demo_eval)
  with commission_correct [OF demo_books p _ _ r] show ?thesis by (auto simp: demo_user_def)
qed

text \<open>Referring oneself pays nothing: when the referral name is the buyer's or the creator's,
  the database is unchanged and no commission is reported.\<close>

theorem no_self_commission:
  assumes "find_username (trim name) d = Some u" "u_id u = buyer \<or> u_id u = owner"
    and "process_affiliate_commission C vid buyer owner price name meth invc d = (r, d')"
  shows "d' = d \<and> (r = Inr 0 \<or> (\<exists>e. r = Inl e))"
  using process_cases [OF assms(3)] assms(1,2) by (auto simp: commission_paid_def)

theorem no_self_commission_witness:
  "snd (process_affiliate_commission demo_ctx ''v1'' ''u1'' ''u2'' 1000 ''alice'' ''wallet'' None demo_db) = demo_db"
proof -
  have "find_username (trim ''alice'') demo_db = Some (demo_user ''u1'' ''alice'' 0 20000)"
    "u_id (demo_user ''u1'' ''alice'' 0 20000) = ''u1''" by (simp_all add: demo_eval)
  from no_self_commission [OF this(1) _ surjective_pairing] this(2) show ?thesis by blast
qed

end
