(* ===== verification/SessionProperties.thy ===== *)
theory SessionProperties
  imports Demo
begin

text \<open>
  The properties of the signed session cookie and of the administrators' guard.  The laws
  of the third-party functions are hypotheses: decoding base64 undoes encoding and its
  alphabet has no dot, parsing RFC 3339 undoes printing it.
\<close>

definition b64_laws :: "ctx \<Rightarrow> bool" where
  "b64_laws C \<longleftrightarrow> (\<forall>s. b64dec C (b64enc C s) = Some s \<and> CHR ''.'' \<notin> set (b64enc C s))"

definition rfc3339_law :: "ctx \<Rightarrow> bool" where
  "rfc3339_law C \<longleftrightarrow> (\<forall>t. rfc3339_parse C (rfc3339 C t) = Some t)"

text \<open>Another request to the same server: its own cookie, time and failures.\<close>

definition later :: "ctx \<Rightarrow> string \<Rightarrow> instant \<Rightarrow> (string \<Rightarrow> fault option) \<Rightarrow> ctx" where
  "later C ck t flt = C\<lparr>cookie := Some ck, now := t, fault := flt\<rparr>"

lemma parse_build:
  assumes "b64_laws C" "valid_utf8 sid"
  shows "parse_and_verify_cookie C (build_cookie_value C sid key) key = Some sid"
proof -
  have "split_once (CHR ''.'') (build_cookie_value C sid key) =
      Some (b64enc C sid, b64enc C (hmac_tag C key sid))"
    using assms(1) split_once_append [of "CHR ''.''" "b64enc C sid"]
    by (simp add: build_cookie_value_def b64_def sign_sid_def b64_bytes_def b64_laws_def)
  then show ?thesis
    using assms by (simp add: parse_and_verify_cookie_def b64_decode_to_string_def b64_laws_def)
qed

lemma parse_later [simp]: "parse_and_verify_cookie (later C ck t flt) v k = parse_and_verify_cookie C v k"
  by (simp add: parse_and_verify_cookie_def later_def b64_decode_to_string_def
      split: option.splits prod.splits)

lemma create_session_row:
  assumes "create_session C uid adm d = (Inr ck, d')"
  shows "ck_value ck = build_cookie_value C (fresh_uuid C ''session'') (hmac_secret (cfg C))"
    "find_session (fresh_uuid C ''session'') d' =
       Some \<lparr> s_id = fresh_uuid C ''session'', s_user = uid, s_is_admin = (if adm then 1 else 0),
              s_created = rfc3339 C (now C), s_expires = rfc3339 C (plus_secs (now C) (session_ttl C)) \<rparr>"
proof -
  let ?row = "\<lparr> s_id = fresh_uuid C ''session'', s_user = uid, s_is_admin = (if adm then 1 else 0) :: int,
              s_created = rfc3339 C (now C), s_expires = rfc3339 C (plus_secs (now C) (session_ttl C)) \<rparr>"
  obtain r d1 where w: "run_write C ''session.insert'' (ins_session ?row) d = (r, d1)" by force
  with assms have "r = Inr ()" "d1 = d'"
    and ck: "ck_value ck = build_cookie_value C (fresh_uuid C ''session'') (hmac_secret (cfg C))"
    by (auto simp: create_session_def Let_def split: sum.splits)
  then have "ins_session ?row d = Inr ((), d')" using run_write_cases(2) [OF w] by simp
  then show "find_session (fresh_uuid C ''session'') d' = Some ?row"
    by (auto simp: ins_session_def find_session_def find_append split: if_splits)
  show "ck_value ck = build_cookie_value C (fresh_uuid C ''session'') (hmac_secret (cfg C))" by (rule ck)
qed

text \<open>C10. Login round trip: the cookie \<open>create_session\<close> sets identifies the same user with the
  same admin flag in every later request until the session expires.\<close>

theorem login_roundtrip:
  assumes "b64_laws C" "rfc3339_law C" "valid_utf8 (fresh_uuid C ''session'')"
    and "create_session C uid adm d = (Inr ck, d')"
    and "t \<le> plus_secs (now C) (session_ttl C)" "flt ''session.select'' = None"
  shows "current_user_id (later C (ck_value ck) t flt) d' = (Some (uid, adm), d')"
proof -
  let ?L = "later C (ck_value ck) t flt"
  note row = create_session_row [OF assms(4)]
  have "parse_and_verify_cookie ?L (ck_value ck) (hmac_secret (cfg C)) = Some (fresh_uuid C ''session'')"
    using parse_build [OF assms(1,3)] row(1) by simp
  with row(2) assms(2,5,6) show ?thesis
    by (auto simp: current_user_id_def run_read_def later_def rfc3339_law_def)
qed

lemma demo_laws: "b64_laws demo_ctx" "rfc3339_law demo_ctx"
  by (simp_all add: b64_laws_def rfc3339_law_def demo_ctx_def unesc_esc esc_no_dot)

lemma demo_uuid: "valid_utf8 (fresh_uuid demo_ctx ''session'')"
  by (simp add: demo_ctx_def valid_utf8_def byte_def)

lemma demo_login: "create_session demo_ctx ''u1'' False demo_db =
    (Inr (projr (fst (create_session demo_ctx ''u1'' False demo_db))), snd (create_session demo_ctx ''u1'' False demo_db))"
  by (simp add: demo_eval create_session_def ins_session_def session_ttl_def)

theorem login_roundtrip_witness:
  "fst (current_user_id (later demo_ctx ''s-bnew.ks-bnew'' (Instant 9000) (\<lambda>_. None))
     (snd (create_session demo_ctx ''u1'' False demo_db))) = Some (''u1'', False)"
proof -
  have "Instant 9000 \<le> plus_secs (now demo_ctx) (session_ttl demo_ctx)"
    by (simp add: demo_eval session_ttl_def plus_secs_def)
  moreover have "ck_value (projr (fst (create_session demo_ctx ''u1'' False demo_db))) = ''s-bnew.ks-bnew''"
    by (simp add: demo_eval create_session_def ins_session_def session_ttl_def)
  ultimately show ?thesis
    using login_roundtrip [OF demo_laws demo_uuid demo_login, of "Instant 9000" "\<lambda>_. None"] by simp
qed

text \<open>Past the expiry instant the cookie identifies nobody, and unless that statement fails
  the session row is deleted.\<close>

theorem session_expires:
  assumes "b64_laws C" "rfc3339_law C" "valid_utf8 (fresh_uuid C ''session'')"
    and "create_session C uid adm d = (Inr ck, d')"
    and "plus_secs (now C) (session_ttl C) < t"
    and "current_user_id (later C (ck_value ck) t flt) d' = (r, d'')"
  shows "r = None \<and> (flt ''session.select'' = None \<longrightarrow> flt ''session.expire'' = None \<longrightarrow>
    find_session (fresh_uuid C ''session'') d'' = None)"
proof -
  let ?L = "later C (ck_value ck) t flt"
  note row = create_session_row [OF assms(4)]
  have "parse_and_verify_cookie ?L (ck_value ck) (hmac_secret (cfg C)) = Some (fresh_uuid C ''session'')"
    using parse_build [OF assms(1,3)] row(1) by simp
  with row(2) assms(2,5,6) show ?thesis
    by (auto simp: current_user_id_def run_read_def later_def rfc3339_law_def run_write_def del_session_def
        find_session_def find_None_set split: option.splits if_splits)
qed

theorem session_expires_witness:
  "fst (current_user_id (later demo_ctx (ck_value (projr (fst (create_session demo_ctx ''u1'' False demo_db))))
     (Instant 4000000000000) (\<lambda>_. None)) (snd (create_session demo_ctx ''u1'' False demo_db))) = None"
proof -
  have "plus_secs (now demo_ctx) (session_ttl demo_ctx) < Instant 4000000000000"
    by (simp add: demo_eval session_ttl_def plus_secs_def)
  from session_expires [OF demo_laws demo_uuid demo_login this surjective_pairing] show ?thesis by blast
qed

text \<open>C11. Nobody is logged in without a cookie that carries the server's HMAC of the identifier
  of a stored, unexpired session; the user and the admin flag are those of that row, and
  looking them up changes nothing.\<close>

theorem session_authentic:
  assumes "current_user_id C d = (Some (uid, adm), d')"
  shows "\<exists>a b sid row exp. cookie C = Some (a @ ''.'' @ b) \<and> b64dec C a = Some sid
    \<and> b64dec C b = Some (hmac_tag C (hmac_secret (cfg C)) sid)
    \<and> find_session sid d = Some row \<and> s_user row = uid \<and> (adm \<longleftrightarrow> s_is_admin row \<noteq> 0)
    \<and> rfc3339_parse C (s_expires row) = Some exp \<and> now C \<le> exp \<and> d' = d"
proof -
  obtain raw sid row exp where r: "cookie C = Some raw"
    "parse_and_verify_cookie C raw (hmac_secret (cfg C)) = Some sid" "find_session sid d = Some row"
    "rfc3339_parse C (s_expires row) = Some exp" "now C \<le> exp" "s_user row = uid"
    "adm \<longleftrightarrow> s_is_admin row \<noteq> 0" "d' = d"
  proof -
    obtain raw where c: "cookie C = Some raw"
      using assms by (cases "cookie C") (simp_all add: current_user_id_def)
    obtain sid where s: "parse_and_verify_cookie C raw (hmac_secret (cfg C)) = Some sid"
      using assms c by (cases "parse_and_verify_cookie C raw (hmac_secret (cfg C))")
        (simp_all add: current_user_id_def)
    have f: "fault C ''session.select'' = None"
      using assms c s by (cases "fault C ''session.select''") (simp_all add: current_user_id_def run_read_def)
    obtain row where w: "find_session sid d = Some row"
      using assms c s f by (cases "find_session sid d") (simp_all add: current_user_id_def run_read_def)
    obtain exp where e: "rfc3339_parse C (s_expires row) = Some exp"
      using assms c s f w by (cases "rfc3339_parse C (s_expires row)")
        (simp_all add: current_user_id_def run_read_def)
    have "\<not> exp < now C" "s_user row = uid" "adm \<longleftrightarrow> s_is_admin row \<noteq> 0" "d' = d"
      using assms c s f w e by (simp_all add: current_user_id_def run_read_def split: if_splits)
    then show thesis using that c s w e by (simp add: not_less)
  qed
  obtain a b where "split_once (CHR ''.'') raw = Some (a, b)" "b64dec C a = Some sid"
    "b64dec C b = Some (hmac_tag C (hmac_secret (cfg C)) sid)"
    using r(2) by (auto simp: parse_and_verify_cookie_def b64_decode_to_string_def
        split: option.splits if_splits)
  moreover from this(1) have "raw = a @ ''.'' @ b" by (auto dest: split_once_Some)
  ultimately show ?thesis using r
    by (intro exI [of _ a] exI [of _ b] exI [of _ sid] exI [of _ row] exI [of _ exp]) simp
qed

theorem session_authentic_witness:
  "\<exists>a b sid row. cookie alice = Some (a @ ''.'' @ b) \<and> b64dec alice a = Some sid
     \<and> b64dec alice b = Some (hmac_tag alice (hmac_secret (cfg alice)) sid)
     \<and> find_session sid demo_db = Some row \<and> s_user row = ''u1''"
proof -
  have "current_user_id alice demo_db = (Some (''u1'', False), demo_db)" by (simp add: demo_eval)
  from session_authentic [OF this] show ?thesis by blast
qed

text \<open>C12. No administrators' operation on the ledger does anything for a request that is not
  authenticated as an administrator: the answer is an error and no balance or row changes.\<close>

theorem admin_only:
  assumes "\<not> is_admin_request C d"
    and "admin_wallet_approve C i n d = (j, d') \<or> admin_wallet_complete C i n d = (j, d')
      \<or> admin_wallet_reject C i n d = (j, d')"
  shows "\<not> answer_ok j \<and> pruned d d'"
  using assms approve_cases [of C i n d j d'] complete_cases [of C i n d j d']
    reject_cases [of C i n d j d'] by blast

theorem admin_only_witness:
  "\<not> answer_ok (fst (admin_wallet_approve alice 1 None demo_db))"
proof -
  have "\<not> is_admin_request alice demo_db" by (simp add: is_admin_request_def demo_eval)
  from admin_only [OF this disjI1 [OF surjective_pairing]] show ?thesis by blast
qed

end
