(* ===== verification/Access.thy ===== *)
theory Access
  imports Sessions
begin

text \<open>
  Who may see what: \<open>src/src/handlers/video.rs\<close> (listing, the allowlist, editing a video and
  the authorization helper \<open>user_has_view_access\<close>), \<open>src/src/creator_block.rs\<close> and
  \<open>src/src/handlers/creator_block.rs\<close> (buyers a creator has blocked).
\<close>

section \<open>Blocked buyers\<close>

definition block_count :: "instant \<Rightarrow> string \<Rightarrow> string \<Rightarrow> db \<Rightarrow> int" where
  "block_count t creator blocked d =
     count_where (\<lambda>b. cb_creator b = creator \<and> cb_blocked b = blocked \<and> block_active t b) (blocks d)"

definition is_blocked_by_creator :: "ctx \<Rightarrow> string \<Rightarrow> string \<Rightarrow> db \<Rightarrow> string + bool" where
  "is_blocked_by_creator C creator blocked d =
     (case run_read C ''blocked.count'' (block_count (now C) creator blocked) d of
        Inl e \<Rightarrow> Inl e
      | Inr count \<Rightarrow> Inr (count > 0))"

text \<open>
  \<open>to_lowercase\<close> is Unicode's; of its results only \<open>hard\<close> matters here, and no code point
  outside ASCII lower-cases to one of its letters.
\<close>

definition normalize_ban_type :: "string option \<Rightarrow> string" where
  "normalize_ban_type input =
     (let s = ascii_lower (trim (case input of None \<Rightarrow> ''soft'' | Some s \<Rightarrow> s)) in
      if s = ''hard'' then ''hard'' else ''soft'')"

text \<open>\<open>INSERT ... ON CONFLICT (creator_user_id, blocked_user_id) DO UPDATE\<close>\<close>

definition upsert_block ::
  "instant \<Rightarrow> string \<Rightarrow> string \<Rightarrow> string \<Rightarrow> string option \<Rightarrow> unit stmt" where
  "upsert_block t creator blocked ban reason d =
     (if creator = blocked then Inl ''creator_blocked_users_no_self_block''
      else if ban \<notin> {''soft'', ''hard''} then Inl ''creator_blocked_users_ban_type_check''
      else if \<not> user_exists creator d then Inl ''creator_blocked_users_creator_user_id_fkey''
      else if \<not> user_exists blocked d then Inl ''creator_blocked_users_blocked_user_id_fkey''
      else if \<exists>b\<in>set (blocks d). cb_creator b = creator \<and> cb_blocked b = blocked
        then Inr ((), d\<lparr>blocks := upd_where (\<lambda>b. cb_creator b = creator \<and> cb_blocked b = blocked)
          (\<lambda>b. b\<lparr>cb_ban_type := ban, cb_reason := reason, cb_expires := None\<rparr>) (blocks d)\<rparr>)
      else Inr ((), d\<lparr>blocks := blocks d @ [\<lparr> cb_creator = creator, cb_blocked = blocked,
             cb_ban_type = ban, cb_reason = reason, cb_expires = None, cb_created = t \<rparr>]\<rparr>))"

definition block_user ::
  "ctx \<Rightarrow> string \<Rightarrow> string option \<Rightarrow> string option \<Rightarrow> db \<Rightarrow> json \<times> db" where
  "block_user C user_id p_ban_type p_reason d0 =
     (case current_user_id C d0 of
        (None, d) \<Rightarrow> (jerr ''not logged in'', d)
      | (Some (creator_id, _), d) \<Rightarrow>
     let blocked = trim user_id in
     if blocked = [] then (jerr ''user_id required'', d)
     else if blocked = creator_id then (jerr ''cannot block yourself'', d)
     else
     let target_exists = (case run_read C ''block.exists''
           (\<lambda>d. count_where (\<lambda>u. u_id u = blocked) (users d)) d of Inr n \<Rightarrow> n | Inl _ \<Rightarrow> 0) in
     if target_exists = 0 then (jerr ''user not found'', d)
     else
     let ban_type = normalize_ban_type p_ban_type in
     (case run_write C ''block.upsert'' (upsert_block (now C) creator_id blocked ban_type p_reason) d of
        (Inr _, d') \<Rightarrow> (jok [(''blocked_user_id'', JStr blocked), (''ban_type'', JStr ban_type)], d')
      | (Inl e, d') \<Rightarrow> (jerr (''db: '' @ e), d')))"

definition delete_block :: "string \<Rightarrow> string \<Rightarrow> int stmt" where
  "delete_block creator blocked d =
     (let hit = (\<lambda>b. cb_creator b = creator \<and> cb_blocked b = blocked) in
      Inr (count_where hit (blocks d), d\<lparr>blocks := filter (\<lambda>b. \<not> hit b) (blocks d)\<rparr>))"

definition unblock_user :: "ctx \<Rightarrow> string \<Rightarrow> db \<Rightarrow> json \<times> db" where
  "unblock_user C user_id d0 =
     (case current_user_id C d0 of
        (None, d) \<Rightarrow> (jerr ''not logged in'', d)
      | (Some (creator_id, _), d) \<Rightarrow>
     let blocked = trim user_id in
     if blocked = [] then (jerr ''user_id required'', d)
     else
     (case run_write C ''unblock.delete'' (delete_block creator_id blocked) d of
        (Inr n, d') \<Rightarrow> (jok [(''removed'', JNum n)], d')
      | (Inl e, d') \<Rightarrow> (jerr (''db: '' @ e), d')))"

definition blocked_item :: "ctx \<Rightarrow> db \<Rightarrow> block_row \<Rightarrow> json option" where
  "blocked_item C d b =
     (case find_user (cb_blocked b) d of
        None \<Rightarrow> None
      | Some u \<Rightarrow> Some (JObj
          [(''blocked_user_id'', JStr (cb_blocked b)), (''username'', JStr (u_username u)),
           (''email'', JStr (u_email u)), (''ban_type'', JStr (cb_ban_type b)),
           (''reason'', jopt (cb_reason b)), (''expires_at'', jopt (map_option (pg_text C) (cb_expires b))),
           (''created_at'', JStr (pg_text C (cb_created b)))]))"

definition list_blocked_users :: "ctx \<Rightarrow> db \<Rightarrow> json \<times> db" where
  "list_blocked_users C d0 =
     (case current_user_id C d0 of
        (None, d) \<Rightarrow> (jerr ''not logged in'', d)
      | (Some (creator_id, _), d) \<Rightarrow>
     (case run_read C ''blocked.list'' (\<lambda>d. List.map_filter (blocked_item C d) (order_by_desc cb_created
             (filter (\<lambda>b. cb_creator b = creator_id \<and> block_active (now C) b) (blocks d)))) d of
        Inl e \<Rightarrow> (jerr (''db: '' @ e), d)
      | Inr items \<Rightarrow> (jok [(''items'', JArr items)], d)))"


section \<open>Videos\<close>

definition video_item :: "db \<Rightarrow> video \<Rightarrow> json" where
  "video_item d v = (let u = find_user (v_owner v) d in
     JObj [(''id'', JStr (v_id v)), (''owner_id'', JStr (v_owner v)),
      (''owner_name'', JStr (case u of None \<Rightarrow> ''(tidak diketahui)'' | Some u \<Rightarrow> u_username u)),
      (''owner_profile_desc'', JStr (case u of None \<Rightarrow> [] | Some u \<Rightarrow> u_profile u)),
      (''title'', JStr (v_title v)), (''description'', JStr (v_description v)),
      (''price_cents'', JNum (v_price v)), (''filename'', JStr (v_filename v)),
      (''created_at'', JStr (v_created v))])"

definition list_videos :: "ctx \<Rightarrow> db \<Rightarrow> json" where
  "list_videos C d =
     (case run_read C ''videos.list'' (\<lambda>d. map (video_item d) (order_by_desc v_created (videos d))) d of
        Inl e \<Rightarrow> jerr (''db: '' @ e)
      | Inr items \<Rightarrow> jok [(''videos'', JArr items)])"

text \<open>The loop's query for the allowlist of one video; a failed query lists nobody.\<close>

definition my_video :: "ctx \<Rightarrow> db \<Rightarrow> video \<Rightarrow> json" where
  "my_video C d v =
     (let allow_users = (case run_read C (''my_videos.allow '' @ v_id v)
            (\<lambda>d. map al_username (order_by al_username (filter (\<lambda>a. al_video a = v_id v) (allowlist d)))) d of
          Inr us \<Rightarrow> us | Inl _ \<Rightarrow> [])
      in JObj [(''id'', JStr (v_id v)), (''title'', JStr (v_title v)), (''description'', JStr (v_description v)),
         (''price_cents'', JNum (v_price v)), (''created_at'', JStr (v_created v)),
         (''allow_count'', JNum (int (length allow_users))), (''allow_users'', JArr (map JStr allow_users))])"

definition my_videos :: "ctx \<Rightarrow> db \<Rightarrow> json \<times> db" where
  "my_videos C d0 =
     (case current_user_id C d0 of
        (None, d) \<Rightarrow> (jerr ''not logged in'', d)
      | (Some (uid, _), d) \<Rightarrow>
     (case run_read C ''my_videos.list''
             (\<lambda>d. order_by_desc v_created (filter (\<lambda>v. v_owner v = uid) (videos d))) d of
        Inl e \<Rightarrow> (jerr (''db: '' @ e), d)
      | Inr vids \<Rightarrow> (jok [(''videos'', JArr (map (my_video C d) vids))], d)))"

definition user_brief :: "user \<Rightarrow> json" where
  "user_brief u = JObj [(''id'', JStr (u_id u)), (''username'', JStr (u_username u))]"

definition nonempty :: "string option \<Rightarrow> string option" where
  "nonempty s = (case s of None \<Rightarrow> None | Some x \<Rightarrow> if x = [] then None else Some x)"

definition user_lookup ::
  "ctx \<Rightarrow> string option \<Rightarrow> string option \<Rightarrow> string option \<Rightarrow> db \<Rightarrow> json \<times> db" where
  "user_lookup C qs_username qs_email qs_q d0 =
     (case current_user_id C d0 of
        (None, d) \<Rightarrow> (jerr ''not logged in'', d)
      | (Some _, d) \<Rightarrow>
     (case nonempty qs_username of
        Some u \<Rightarrow>
          (case run_read C ''lookup.username'' (find_username u) d of
             Inr (Some r) \<Rightarrow> (jok [(''user'', user_brief r)], d)
           | _ \<Rightarrow> (jok [(''user'', JNull)], d))
      | None \<Rightarrow>
     (case nonempty qs_email of
        Some _ \<Rightarrow> (jerr ''email lookup is disabled'', d)
      | None \<Rightarrow>
     (case nonempty qs_q of
        Some q \<Rightarrow>
          (case run_read C ''lookup.search'' (\<lambda>d. take 20 (order_by u_username
                  (filter (\<lambda>u. pg_ilike C (u_username u) (''%'' @ q @ ''%'')) (users d)))) d of
             Inr us \<Rightarrow> (jok [(''users'', JArr (map user_brief us))], d)
           | Inl _ \<Rightarrow> (jok [(''users'', JArr [])], d))
      | None \<Rightarrow> (jok [(''users'', JArr [])], d)))))"

definition is_video_owner :: "string \<Rightarrow> string \<Rightarrow> db \<Rightarrow> bool" where
  "is_video_owner vid uid d \<longleftrightarrow> (\<exists>v\<in>set (videos d). v_id v = vid \<and> v_owner v = uid)"

text \<open>
  The first field of the form that is present names the user, as a username that is not
  looked up, an e-mail, an id, or either of username and e-mail.
\<close>

definition allow_target ::
  "ctx \<Rightarrow> string option \<Rightarrow> string option \<Rightarrow> string option \<Rightarrow> string option \<Rightarrow> db \<Rightarrow> string" where
  "allow_target C f_username f_email f_user_id f_either d =
     (let name_of = (\<lambda>r. case r of Inr (Some u) \<Rightarrow> u_username u | _ \<Rightarrow> []) in
      case f_username of
        Some u \<Rightarrow> trim u
      | None \<Rightarrow>
     (case f_email of
        Some e \<Rightarrow> name_of (run_read C ''allow.email'' (\<lambda>d. find (\<lambda>u. u_email u = trim e) (users d)) d)
      | None \<Rightarrow>
     (case f_user_id of
        Some i \<Rightarrow> name_of (run_read C ''allow.id'' (find_user (trim i)) d)
      | None \<Rightarrow>
     (case f_either of
        Some k \<Rightarrow> name_of (run_read C ''allow.either''
            (\<lambda>d. find (\<lambda>u. u_username u = trim k \<or> u_email u = trim k) (users d)) d)
      | None \<Rightarrow> []))))"

definition add_allow ::
  "ctx \<Rightarrow> string \<Rightarrow> string option \<Rightarrow> string option \<Rightarrow> string option \<Rightarrow> string option \<Rightarrow> db \<Rightarrow> json \<times> db" where
  "add_allow C vid f_username f_email f_user_id f_either d0 =
     (case current_user_id C d0 of
        (None, d) \<Rightarrow> (jerr ''not logged in'', d)
      | (Some (uid, _), d) \<Rightarrow>
     let is_owner = (case run_read C ''allow.owner'' (is_video_owner vid uid) d of Inr b \<Rightarrow> b | Inl _ \<Rightarrow> False) in
     if \<not> is_owner then (jerr ''not owner'', d)
     else
     let target = allow_target C f_username f_email f_user_id f_either d in
     if target = [] then (jerr ''user not found'', d)
     else
     (case run_write C ''allow.insert'' (ins_allow vid target) d of
        (Inr n, d') \<Rightarrow> (jok [(''video_id'', JStr vid), (''username'', JStr target), (''rows_affected'', JNum n)], d')
      | (Inl e, d') \<Rightarrow> (jerr e, d')))"


text \<open>What the update hands to the federation task it spawns.\<close>

datatype fed_publish = PublishCreate | PublishUpdate | PublishDelete

definition federation_enabled :: "ctx \<Rightarrow> bool" where
  "federation_enabled C =
     (case env_var C ''FEDERATION_ENABLED'' of
        Some v \<Rightarrow> ascii_lower (trim v) \<in> {''1'', ''true'', ''yes'', ''on''}
      | None \<Rightarrow> False)"

definition federation_base_url :: "ctx \<Rightarrow> string" where
  "federation_base_url C =
     (case env_var C ''FEDERATION_BASE_URL'' of Some u \<Rightarrow> u | None \<Rightarrow> ''http://localhost:8080'')"

definition publish_action :: "bool \<Rightarrow> bool \<Rightarrow> fed_publish option" where
  "publish_action was_public now_public =
     (if \<not> was_public \<and> now_public then Some PublishCreate
      else if was_public \<and> now_public then Some PublishUpdate
      else if was_public \<and> \<not> now_public then Some PublishDelete
      else None)"

definition set_video :: "string \<Rightarrow> string \<Rightarrow> string \<Rightarrow> string \<Rightarrow> int \<Rightarrow> string option \<Rightarrow> int stmt" where
  "set_video vid uid title descr price vis d =
     (let hit = (\<lambda>v. v_id v = vid \<and> v_owner v = uid) in
      Inr (count_where hit (videos d),
        d\<lparr>videos := upd_where hit (\<lambda>v. v\<lparr>v_title := title, v_description := descr, v_price := price,
           v_visibility := (case vis of None \<Rightarrow> v_visibility v | Some x \<Rightarrow> x)\<rparr>) (videos d)\<rparr>))"

definition bad_visibility :: json where
  "bad_visibility = jerr (''federation_visibility must be '' @ [CHR 0x27] @ ''local_only'' @ [CHR 0x27]
     @ '' or '' @ [CHR 0x27] @ ''public'' @ [CHR 0x27])"

definition update_video ::
  "ctx \<Rightarrow> string \<Rightarrow> string \<Rightarrow> string \<Rightarrow> int \<Rightarrow> string option \<Rightarrow> db \<Rightarrow> (json \<times> fed_publish option) \<times> db" where
  "update_video C vid title descr price f_vis d0 =
     (case current_user_id C d0 of
        (None, d) \<Rightarrow> ((jerr ''not logged in'', None), d)
      | (Some (uid, _), d) \<Rightarrow>
     if f_vis \<notin> {None, Some [], Some ''public'', Some ''local_only''}
     then ((bad_visibility, None), d)
     else
     let new_vis = nonempty f_vis;
         prev_vis = (if federation_enabled C
            then (case run_read C ''video.prev_vis''
                   (\<lambda>d. find (\<lambda>v. v_id v = vid \<and> v_owner v = uid) (videos d)) d of
                    Inr (Some v) \<Rightarrow> v_visibility v | _ \<Rightarrow> ''local_only'')
            else []) in
     (case run_write C ''video.update'' (set_video vid uid (trim title) (trim descr) price new_vis) d of
        (Inr n, d') \<Rightarrow>
          if n > 0 then
            let eff_new = (case new_vis of None \<Rightarrow> prev_vis | Some x \<Rightarrow> x) in
            ((jok [], if federation_enabled C
                      then publish_action (prev_vis = ''public'') (eff_new = ''public'') else None), d')
          else ((jerr ''not owner / not found'', None), d')
      | (Inl e, d') \<Rightarrow> ((jerr e, None), d')))"


section \<open>Access to a video\<close>

definition user_has_view_access :: "ctx \<Rightarrow> string \<Rightarrow> string \<Rightarrow> db \<Rightarrow> bool" where
  "user_has_view_access C vid uid d =
     (let price = (case run_read C ''access.price'' (find_video vid) d of
            Inr (Some v) \<Rightarrow> v_price v | _ \<Rightarrow> 1) in
      if price \<le> 0 then True else
      let is_owner = (case run_read C ''access.owner'' (is_video_owner vid uid) d of
            Inr b \<Rightarrow> b | Inl _ \<Rightarrow> False) in
      if is_owner then True else
      (case run_read C ''access.user'' (find_user uid) d of
         Inr (Some u) \<Rightarrow>
           if u_is_admin u \<noteq> 0 then True else
           let is_allowed = (case run_read C ''access.allowed'' (allowed vid (u_username u)) d of
                 Inr b \<Rightarrow> b | Inl _ \<Rightarrow> False) in
           if is_allowed then True else
           let bought = (case run_read C ''access.purchase'' (has_purchase uid vid) d of
                 Inr b \<Rightarrow> b | Inl _ \<Rightarrow> False) in
           if bought then True else
           (case run_read C ''access.fiat'' (\<lambda>d. \<exists>f\<in>set (fiat_invoices d).
                 fi_video f = vid \<and> fi_user f = uid \<and> fi_status f = ''paid'') d of
              Inr b \<Rightarrow> b | Inl _ \<Rightarrow> False)
       | _ \<Rightarrow> False))"

text \<open>The policy the function is written for.\<close>

definition entitled :: "string \<Rightarrow> string \<Rightarrow> db \<Rightarrow> bool" where
  "entitled vid uid d \<longleftrightarrow>
     (\<exists>v. find_video vid d = Some v \<and> v_price v \<le> 0) \<or>
     is_video_owner vid uid d \<or>
     (\<exists>u. find_user uid d = Some u \<and>
        (u_is_admin u \<noteq> 0 \<or> allowed vid (u_username u) d \<or> has_purchase uid vid d \<or>
         (\<exists>f\<in>set (fiat_invoices d). fi_video f = vid \<and> fi_user f = uid \<and> fi_status f = ''paid'')))"

lemma read_flag: "(case run_read C s q d of Inr b \<Rightarrow> b | Inl _ \<Rightarrow> False) \<longleftrightarrow> fault C s = None \<and> q d"
  by (simp add: run_read_def split: option.splits)

lemma read_price: "(case run_read C s (find_video vid) d of Inr (Some v) \<Rightarrow> v_price v | _ \<Rightarrow> 1) \<le> 0 \<longleftrightarrow>
    fault C s = None \<and> (\<exists>v. find_video vid d = Some v \<and> v_price v \<le> 0)"
  by (cases "fault C s"; cases "find_video vid d") (simp_all add: run_read_def)

lemma read_user_flag: "(case run_read C s (find_user uid) d of Inr (Some u) \<Rightarrow> P u | _ \<Rightarrow> False) \<longleftrightarrow>
    fault C s = None \<and> (\<exists>u. find_user uid d = Some u \<and> P u)"
  by (cases "fault C s"; cases "find_user uid d") (simp_all add: run_read_def)

lemma if_or: "(if b then True else c) \<longleftrightarrow> b \<or> c"
  by simp

lemma view_access_iff:
  "user_has_view_access C vid uid d \<longleftrightarrow>
     (fault C ''access.price'' = None \<and> (\<exists>v. find_video vid d = Some v \<and> v_price v \<le> 0)) \<or>
     (fault C ''access.owner'' = None \<and> is_video_owner vid uid d) \<or>
     (fault C ''access.user'' = None \<and> (\<exists>u. find_user uid d = Some u \<and>
        (u_is_admin u \<noteq> 0 \<or> fault C ''access.allowed'' = None \<and> allowed vid (u_username u) d \<or>
         fault C ''access.purchase'' = None \<and> has_purchase uid vid d \<or>
         fault C ''access.fiat'' = None \<and>
           (\<exists>f\<in>set (fiat_invoices d). fi_video f = vid \<and> fi_user f = uid \<and> fi_status f = ''paid''))))"
  by (simp only: user_has_view_access_def Let_def read_flag read_price read_user_flag if_or conj_assoc)

lemma view_access_sound: "user_has_view_access C vid uid d \<Longrightarrow> entitled vid uid d"
  unfolding view_access_iff entitled_def by blast

lemma view_access_complete:
  "fault C = (\<lambda>_. None) \<Longrightarrow> entitled vid uid d \<Longrightarrow> user_has_view_access C vid uid d"
  unfolding view_access_iff entitled_def by simp


section \<open>What the operations change\<close>

lemma add_allow_post:
  "post (\<lambda>(j, d'). pruned d d' \<and> \<not> answer_ok j \<or>
     (\<exists>uid adm name. current_user_id C d = (Some (uid, adm), d) \<and> is_video_owner vid uid d \<and> name \<noteq> []
        \<and> name = allow_target C fu fe fi fk d
        \<and> (\<exists>n. ins_allow vid name d = Inr (n, d'))))
   (add_allow C vid fu fe fi fk d)"
  unfolding add_allow_def Let_def
  apply (intro post_intros)
  apply (auto simp: run_read_def dest: current_user_pruned current_user_Some split: option.splits)
  done

lemmas add_allow_cases = add_allow_post [THEN postD]

lemma block_post:
  "post (\<lambda>(j, d'). pruned d d' \<and> \<not> answer_ok j \<or>
     (\<exists>uid adm. current_user_id C d = (Some (uid, adm), d) \<and> trim user_id \<noteq> uid
        \<and> (answer_ok j \<or> fault C ''block.upsert'' \<noteq> None)
        \<and> upsert_block (now C) uid (trim user_id) (normalize_ban_type ban) reason d = Inr ((), d')))
   (block_user C user_id ban reason d)"
  unfolding block_user_def Let_def
  apply (intro post_intros)
  apply (auto dest: current_user_pruned current_user_Some)
  done

lemmas block_cases = block_post [THEN postD]

lemma unblock_post:
  "post (\<lambda>(j, d'). pruned d d' \<and> \<not> answer_ok j \<or>
     (\<exists>uid adm n. current_user_id C d = (Some (uid, adm), d)
        \<and> (answer_ok j \<or> fault C ''unblock.delete'' \<noteq> None)
        \<and> delete_block uid (trim user_id) d = Inr (n, d')))
   (unblock_user C user_id d)"
  unfolding unblock_user_def Let_def
  apply (intro post_intros)
  apply (auto dest: current_user_pruned current_user_Some)
  done

lemmas unblock_cases = unblock_post [THEN postD]

lemma update_video_post:
  "post (\<lambda>((j, a), d'). pruned d d' \<and> \<not> answer_ok j \<and> a = None \<or>
     (\<exists>uid adm n. current_user_id C d = (Some (uid, adm), d)
        \<and> f_vis \<in> {None, Some [], Some ''public'', Some ''local_only''}
        \<and> set_video vid uid (trim title) (trim descr) price (nonempty f_vis) d = Inr (n, d')
        \<and> (answer_ok j \<longrightarrow> 0 < n)))
   (update_video C vid title descr price f_vis d)"
  unfolding update_video_def Let_def bad_visibility_def
  apply (intro post_intros)
  apply (auto dest: current_user_pruned current_user_Some)
  done

lemmas update_video_cases = update_video_post [THEN postD]

end
