(* ===== verification/AccessProperties.thy ===== *)
theory AccessProperties
  imports WalletSystem Access
begin

text \<open>
  The properties of access to videos, of the creators' block list and of editing videos.
\<close>

lemmas access_eval = user_has_view_access_def is_video_owner_def allow_target_def add_allow_def
  block_user_def upsert_block_def block_count_def normalize_ban_type_def is_blocked_by_creator_def
  unblock_user_def delete_block_def set_video_def update_video_def nonempty_def federation_enabled_def
  publish_action_def

text \<open>C13. Access is granted only to somebody the policy entitles, whatever queries fail, and
  to everybody it entitles when none does: the price is not positive, or the user owns the
  video, is an administrator, is on the allowlist, has bought it or has a paid invoice.\<close>

theorem view_access_policy:
  "(user_has_view_access C vid uid d \<longrightarrow> entitled vid uid d)
   \<and> (fault C = (\<lambda>_. None) \<longrightarrow> entitled vid uid d \<longrightarrow> user_has_view_access C vid uid d)"
  using view_access_sound view_access_complete by blast

theorem view_access_policy_witness:
  "\<not> user_has_view_access demo_ctx ''v1'' ''u1'' demo_db \<and> user_has_view_access demo_ctx ''v1'' ''ad'' demo_db"
proof
  have "\<not> entitled ''v1'' ''u1'' demo_db" by (simp add: entitled_def access_eval demo_eval)
  then show "\<not> user_has_view_access demo_ctx ''v1'' ''u1'' demo_db" using view_access_policy by blast
  have "entitled ''v1'' ''ad'' demo_db" by (simp add: entitled_def access_eval demo_eval)
  moreover have "fault demo_ctx = (\<lambda>_. None)" by (simp add: demo_ctx_def)
  ultimately show "user_has_view_access demo_ctx ''v1'' ''ad'' demo_db" using view_access_policy by blast
qed

lemma user_exists_set: "user_exists i d \<longleftrightarrow> i \<in> set (map u_id (users d))"
  by (auto simp: user_exists_def find_user_def find_None_set)

lemma user_exists_ids: "map u_id (users d') = map u_id (users d) \<Longrightarrow> user_exists i d' = user_exists i d"
  by (simp only: user_exists_set)

lemma commission_paid_fields:
  assumes "commission_paid C vid buyer owner price name meth invc d cm d'"
  shows "purchases d' = purchases d" "map u_id (users d') = map u_id (users d)"
proof -
  obtain u x y where d': "d' = commission_posted C vid buyer owner price u meth invc cm x y d"
    using assms unfolding commission_paid_def by blast
  show "purchases d' = purchases d" "map u_id (users d') = map u_id (users d)"
    unfolding d' commission_posted_def Let_def by (simp_all add: post_pair_fields)
qed

lemma pay_end_purchases:
  assumes "pay_end C p ref_code d1 d'"
  shows "purchases d' = purchases d1 \<and> map u_id (users d') = map u_id (users d1)"
proof -
  consider "d' = d1" | r e where "process_affiliate_commission C (pp_video p) (pp_buyer p) (pp_owner p)
      (pp_price p) r ''wallet'' None d1 = (e, d')"
    using assms surjective_pairing unfolding pay_end_def by metis
  then show ?thesis
  proof cases
    case 2
    then show ?thesis
      by (rule process_cases [THEN disjE]) (auto simp: commission_paid_fields)
  qed simp
qed

lemma sold_may_view:
  "has_purchase (pp_buyer p) (pp_video p) (sold C p x y d)"
  "map u_id (users (sold C p x y d)) = map u_id (users d)"
  unfolding sold_def put_allow_def add_purchase_def sale_pair_def has_purchase_def
  by (simp_all add: post_pair_fields)

text \<open>Whoever bought a video from the balance may see it: after a purchase answered with
  \<open>ok\<close>, with or without a referral, a request that no query fails is granted access.\<close>

theorem purchase_grants_access:
  assumes "wallet_pay_video C vid ref_code d = (j, d')" "answer_ok j"
    and "current_user_id C d = (Some (uid, adm), d)" "fault C2 = (\<lambda>_. None)"
  shows "user_has_view_access C2 vid uid d'"
  using assms(1)
proof (cases rule: pay_video_cases)
  case (bought p x d1)
  obtain v y where s: "balance_of uid d = Some x" "d1 = sold C p x y d" "pp_buyer p = uid" "pp_video p = vid"
    using bought(1,2) assms(3) unfolding sale_done_def plan_checked_def by (elim exE conjE) simp
  have "has_purchase uid vid d'"
    using sold_may_view(1) [of p C x y d] pay_end_purchases [OF bought(4)] s(2-4)
    by (simp add: has_purchase_def)
  moreover have "user_exists uid d'"
  proof -
    have "map u_id (users d') = map u_id (users d)"
      using sold_may_view(2) [of C p x y d] pay_end_purchases [OF bought(4)] s(2) by simp
    moreover have "user_exists uid d" using s(1) by (simp add: user_exists_balance)
    ultimately show ?thesis by (simp only: user_exists_set)
  qed
  ultimately have "entitled vid uid d'" by (auto simp: entitled_def user_exists_def)
  then show ?thesis using view_access_complete [OF assms(4)] by blast
qed (use assms(2) in simp_all)

theorem purchase_grants_access_witness:
  "user_has_view_access demo_ctx ''v1'' ''u1'' (snd (wallet_pay_video alice ''v1'' (Some ''carol'') demo_db))"
proof -
  have "answer_ok (fst (wallet_pay_video alice ''v1'' (Some ''carol'') demo_db))"
    by (simp add: demo_eval)
  moreover have "current_user_id alice demo_db = (Some (''u1'', False), demo_db)" by (simp add: demo_eval)
  moreover have "fault demo_ctx = (\<lambda>_. None)" by (simp add: demo_ctx_def)
  ultimately show ?thesis using purchase_grants_access [OF surjective_pairing] by blast
qed

text \<open>Only the owner of a video can put somebody on its allowlist, and an answer \<open>ok\<close>
  means that a registered user of that name now has access.\<close>

theorem add_allow_owner_only:
  assumes "add_allow C vid fu fe fi fk d = (j, d')" "answer_ok j"
  shows "\<exists>uid adm name. current_user_id C d = (Some (uid, adm), d) \<and> is_video_owner vid uid d
    \<and> name = allow_target C fu fe fi fk d
    \<and> (\<forall>C2 u. fault C2 = (\<lambda>_. None) \<longrightarrow> find_username name d = Some u \<longrightarrow> find_user (u_id u) d = Some u
         \<longrightarrow> user_has_view_access C2 vid (u_id u) d')
    \<and> (\<forall>v n. allowed v n d' \<longleftrightarrow> allowed v n d \<or> v = vid \<and> n = name)"
proof -
  obtain uid adm name n where a: "current_user_id C d = (Some (uid, adm), d)" "is_video_owner vid uid d"
    "name = allow_target C fu fe fi fk d" "ins_allow vid name d = Inr (n, d')"
    using add_allow_cases [OF assms(1)] assms(2) by blast
  have al: "allowed v m d' \<longleftrightarrow> allowed v m d \<or> v = vid \<and> m = name" for v m
    using a(4) by (auto simp: ins_allow_def allowed_def split: if_splits)
  have us: "find_user i d' = find_user i d" for i
    using a(4) by (auto simp: ins_allow_def find_user_def split: if_splits)
  have "user_has_view_access C2 vid (u_id u) d'"
    if "fault C2 = (\<lambda>_. None)" "find_username name d = Some u" "find_user (u_id u) d = Some u"
    for C2 and u :: user
  proof -
    have "entitled vid (u_id u) d'"
      using that us al find_username_in [OF that(2)] by (auto simp: entitled_def)
    then show ?thesis using view_access_complete [OF that(1)] by blast
  qed
  with a al show ?thesis by blast
qed

theorem add_allow_owner_only_witness:
  "allowed ''v1'' ''carol'' (snd (add_allow bob ''v1'' (Some '' carol'') None None None demo_db))"
proof -
  have "answer_ok (fst (add_allow bob ''v1'' (Some '' carol'') None None None demo_db))"
    "allow_target bob (Some '' carol'') None None None demo_db = ''carol''"
    by (simp_all add: access_eval demo_eval)
  with add_allow_owner_only [OF surjective_pairing this(1)] show ?thesis by metis
qed

lemma upsert_block_hits:
  assumes "upsert_block nw c b ban r d = Inr ((), d1)"
  shows "\<exists>x\<in>set (blocks d1). cb_creator x = c \<and> cb_blocked x = b \<and> cb_expires x = None"
proof (cases "\<exists>x\<in>set (blocks d). cb_creator x = c \<and> cb_blocked x = b")
  case True
  then obtain x where x: "x \<in> set (blocks d)" "cb_creator x = c" "cb_blocked x = b" by blast
  let ?f = "\<lambda>x. x\<lparr>cb_ban_type := ban, cb_reason := r, cb_expires := None\<rparr>"
  have "blocks d1 = upd_where (\<lambda>x. cb_creator x = c \<and> cb_blocked x = b) ?f (blocks d)"
    using assms True by (auto simp: upsert_block_def split: if_splits)
  then have "?f x \<in> set (blocks d1)"
    using x by (simp add: set_upd_where rev_image_eqI)
  then show ?thesis using x by (intro bexI [of _ "?f x"]) simp_all
next
  case False
  then show ?thesis using assms by (auto simp: upsert_block_def split: if_splits)
qed

text \<open>Blocking takes effect and unblocking undoes it: after an \<open>ok\<close> from \<open>block_user\<close> the
  caller's target counts as blocked at any later time, after an \<open>ok\<close> from \<open>unblock_user\<close> as
  not blocked, and no other pair of users is affected by either.\<close>

theorem block_unblock:
  assumes "block_user C target ban reason d = (j, d1)" "answer_ok j"
  shows "\<exists>uid adm. current_user_id C d = (Some (uid, adm), d) \<and> trim target \<noteq> uid
    \<and> (\<forall>t. blocked_in t uid (trim target) d1)
    \<and> (\<forall>t a b. (a, b) \<noteq> (uid, trim target) \<longrightarrow> blocked_in t a b d1 = blocked_in t a b d)
    \<and> (\<forall>C2 j2 d2 adm2. current_user_id C2 d1 = (Some (uid, adm2), d1) \<longrightarrow>
         unblock_user C2 target d1 = (j2, d2) \<longrightarrow> answer_ok j2 \<longrightarrow>
           (\<forall>t. \<not> blocked_in t uid (trim target) d2)
           \<and> (\<forall>t a b. (a, b) \<noteq> (uid, trim target) \<longrightarrow> blocked_in t a b d2 = blocked_in t a b d1))"
proof -
  obtain uid adm where u: "current_user_id C d = (Some (uid, adm), d)" "trim target \<noteq> uid"
    "upsert_block (now C) uid (trim target) (normalize_ban_type ban) reason d = Inr ((), d1)"
    using block_cases [OF assms(1)] assms(2) by blast
  have hit: "blocked_in t uid (trim target) d1" for t
    using upsert_block_hits [OF u(3)] by (auto simp: blocked_in_def block_active_def)
  have pick: "current_user_id C2 d1 = (Some (uid, adm2), d1) \<Longrightarrow> unblock_user C2 target d1 = (j2, d2) \<Longrightarrow>
      answer_ok j2 \<Longrightarrow> \<exists>n. delete_block uid (trim target) d1 = Inr (n, d2)" for C2 adm2 j2 d2
    using unblock_cases [of C2 target d1 j2 d2] by auto
  have other: "blocked_in t a b d1 = blocked_in t a b d" if "(a, b) \<noteq> (uid, trim target)" for t a b
    using u(3) that by (auto simp: upsert_block_def blocked_in_def set_upd_where image_iff
        split: if_splits)
  have undo: "\<not> blocked_in t uid (trim target) d2"
      "(a, b) \<noteq> (uid, trim target) \<Longrightarrow> blocked_in t a b d2 = blocked_in t a b d1"
    if "delete_block uid (trim target) d1 = Inr (n, d2)" for d2 n t a b
    using that by (auto simp: delete_block_def Let_def blocked_in_def)
  show ?thesis
    using u(1,2) hit other pick undo by (intro exI [of _ uid] exI [of _ adm]) (meson)
qed

theorem block_unblock_witness:
  "blocked_in (Instant 0) ''u2'' ''u1'' (snd (block_user bob ''u1'' (Some ''Hard'') None demo_db))"
proof -
  have a: "answer_ok (fst (block_user bob ''u1'' (Some ''Hard'') None demo_db))"
    by (simp add: access_eval demo_eval)
  have b: "current_user_id bob demo_db = (Some (''u2'', False), demo_db)" "trim ''u1'' = ''u1''"
    by (simp_all add: demo_eval)
  from block_unblock [OF surjective_pairing a] b show ?thesis by auto
qed

text \<open>Editing reaches only the caller's own video: every other video keeps all its fields,
  no owner, no balance and no ledger row changes.\<close>

theorem update_video_own_only:
  assumes "update_video C vid title descr price f_vis d = ((j, act), d')"
  shows "same_money d d' \<and> map v_id (videos d') = map v_id (videos d) \<and> map v_owner (videos d') = map v_owner (videos d)
    \<and> (\<forall>i v. i < length (videos d) \<longrightarrow> v = videos d ! i \<longrightarrow> videos d' ! i \<noteq> v \<longrightarrow>
         v_id v = vid \<and> (\<exists>adm. current_user_id C d = (Some (v_owner v, adm), d)))"
proof -
  consider (no) "pruned d d'" | (yes) uid adm n where "current_user_id C d = (Some (uid, adm), d)"
    "set_video vid uid (trim title) (trim descr) price (nonempty f_vis) d = Inr (n, d')"
    using update_video_cases [OF assms] by auto
  then show ?thesis
  proof cases
    case no
    from pruned_money [OF this] pruned_fields [OF this] show ?thesis by simp
  next
    case yes
    then show ?thesis
      by (auto simp: set_video_def Let_def same_money_def map_upd_where) (simp_all add: upd_where_def split: if_splits)
  qed
qed

theorem update_video_own_only_witness:
  "same_money demo_db (snd (update_video bob ''v1'' ''New'' ''D'' 700 None demo_db))
   \<and> videos (snd (update_video bob ''v1'' ''New'' ''D'' 700 None demo_db)) \<noteq> videos demo_db"
proof
  show "same_money demo_db (snd (update_video bob ''v1'' ''New'' ''D'' 700 None demo_db))"
    using update_video_own_only [of bob "''v1''" "''New''" "''D''" 700 None demo_db] by (metis prod.collapse)
  show "videos (snd (update_video bob ''v1'' ''New'' ''D'' 700 None demo_db)) \<noteq> videos demo_db"
    by (simp add: access_eval demo_eval)
qed

end
