(* ===== verification/Affiliate.thy ===== *)
theory Affiliate
  imports Wallet
begin

text \<open>
  \<open>src/src/handlers/affiliate.rs\<close>: the affiliate program of a video and the commissions earned.
  The creator sets the percentage; the commissions themselves are paid by \<open>Commission\<close>.
\<close>

section \<open>Earnings\<close>

text \<open>
  \<open>COALESCE(SUM(commission_cents), 0)\<close> is a \<open>NUMERIC\<close>: \<open>num64\<close> decides what arrives as \<open>i64\<close>.
\<close>

definition affiliate_summary :: "ctx \<Rightarrow> db \<Rightarrow> json \<times> db" where
  "affiliate_summary C d0 =
     (case current_user_id C d0 of
        (None, d) \<Rightarrow> (not_logged_in, d)
      | (Some (uid, _), d) \<Rightarrow>
     let mine = filter (\<lambda>a. ac_affiliate a = uid) (aff_commissions d);
         total = (case run_read C ''aff.total'' (\<lambda>d. num64 C (\<Sum>a\<leftarrow>mine. ac_commission a)) d of
           Inr (Some n) \<Rightarrow> n | _ \<Rightarrow> 0);
         month = (case run_read C ''aff.month'' (\<lambda>d. num64 C (\<Sum>a\<leftarrow>
              filter (\<lambda>a. pg_month C (now C) \<le> ac_created a) mine. ac_commission a)) d of
           Inr (Some n) \<Rightarrow> n | _ \<Rightarrow> 0);
         refs = (case run_read C ''aff.count'' (\<lambda>d. int (length mine)) d of Inr n \<Rightarrow> n | Inl _ \<Rightarrow> 0)
     in (jok [(''total_earnings_cents'', JNum total), (''month_earnings_cents'', JNum month),
              (''total_referrals'', JNum refs)], d))"

text \<open>
  The joins keep the rows whose video and users exist; the identifiers of the serial column
  are the places of the rows, which are never removed.
\<close>

definition join_commission :: "db \<Rightarrow> int \<times> aff_commission \<Rightarrow> (string \<times> json) list option" where
  "join_commission d r = (case r of (i, a) \<Rightarrow>
     (case (find_video (ac_video a) d, find_user (ac_buyer a) d) of
        (Some v, Some b) \<Rightarrow>
          Some [(''id'', JNum i), (''video_id'', JStr (ac_video a)), (''video_title'', JStr (v_title v)),
                (''buyer_username'', JStr (u_username b)), (''commission_cents'', JNum (ac_commission a)),
                (''commission_display'', JStr (cents_to_display (ac_commission a))),
                (''purchase_price_cents'', JNum (ac_price a)), (''payment_method'', JStr (ac_method a))]
      | _ \<Rightarrow> None))"

definition earning_item :: "ctx \<Rightarrow> db \<Rightarrow> int \<times> aff_commission \<Rightarrow> (aff_commission \<times> json) option" where
  "earning_item C d r =
     map_option (\<lambda>fs. (snd r, JObj (fs @ [(''created_at'', JStr (pg_text C (ac_created (snd r))))])))
       (join_commission d r)"

text \<open>\<open>sum\<close> of \<open>i64\<close> values wraps in a release build.\<close>

definition sum64 :: "int list \<Rightarrow> int" where
  "sum64 xs = foldl add64 0 xs"

definition affiliate_earnings :: "ctx \<Rightarrow> string option \<Rightarrow> db \<Rightarrow> json \<times> db" where
  "affiliate_earnings C q_limit d0 =
     (case current_user_id C d0 of
        (None, d) \<Rightarrow> (not_logged_in, d)
      | (Some (uid, _), d) \<Rightarrow>
     let limit = min (case Option.bind q_limit parse_i64 of None \<Rightarrow> 50 | Some l \<Rightarrow> l) 200 in
     (case run_read C ''aff.earnings'' (\<lambda>d. sql_limit limit (List.map_filter (earning_item C d)
             (order_by_desc (ac_created \<circ> snd)
                (filter (\<lambda>r. ac_affiliate (snd r) = uid) (numbered (aff_commissions d)))))) d of
        Inl e \<Rightarrow> (jerr (''db: '' @ e), d)
      | Inr (Inl c) \<Rightarrow> (jerr (''db: '' @ viol C c), d)
      | Inr (Inr rows) \<Rightarrow>
          let total = sum64 (map (ac_commission \<circ> fst) rows); items = JArr (map snd rows) in
          (jok [(''total_commission_cents'', JNum total), (''total_display'', JStr (cents_to_display total)),
                (''earnings'', items), (''items'', items)], d)))"

definition admin_item :: "ctx \<Rightarrow> db \<Rightarrow> int \<times> aff_commission \<Rightarrow> (aff_commission \<times> json) option" where
  "admin_item C d r =
     (case (join_commission d r, find_user (ac_affiliate (snd r)) d, find_user (ac_owner (snd r)) d) of
        (Some fs, Some a, Some w) \<Rightarrow>
          Some (snd r, JObj (fs @ [(''affiliate_username'', JStr (u_username a)),
            (''owner_username'', JStr (u_username w)),
            (''created_at'', JStr (pg_text C (ac_created (snd r))))]))
      | _ \<Rightarrow> None)"

definition admin_affiliate_commissions :: "ctx \<Rightarrow> string option \<Rightarrow> db \<Rightarrow> json \<times> db" where
  "admin_affiliate_commissions C q_limit d0 =
     (case current_user_id C d0 of
        (None, d) \<Rightarrow> (not_logged_in, d)
      | (Some (_, False), d) \<Rightarrow> (jerr ''admin only'', d)
      | (Some (_, True), d) \<Rightarrow>
     let limit = min (case Option.bind q_limit parse_i64 of None \<Rightarrow> 100 | Some l \<Rightarrow> l) 500 in
     (case run_read C ''aff.admin'' (\<lambda>d. sql_limit limit (List.map_filter (admin_item C d)
             (order_by_desc (ac_created \<circ> snd) (numbered (aff_commissions d))))) d of
        Inl e \<Rightarrow> (jerr (''db: '' @ e), d)
      | Inr (Inl c) \<Rightarrow> (jerr (''db: '' @ viol C c), d)
      | Inr (Inr rows) \<Rightarrow>
          let total = sum64 (map (ac_commission \<circ> fst) rows) in
          (jok [(''total_commission_cents'', JNum total), (''total_display'', JStr (cents_to_display total)),
                (''count'', JNum (int (length rows))), (''items'', JArr (map snd rows))], d)))"


section \<open>The program of a video\<close>

definition owned_count :: "string \<Rightarrow> string \<Rightarrow> db \<Rightarrow> int" where
  "owned_count vid uid d = count_where (\<lambda>v. v_id v = vid \<and> v_owner v = uid) (videos d)"

definition settings_answer :: "string \<Rightarrow> aff_setting option \<Rightarrow> json" where
  "settings_answer vid r = jok [(''video_id'', JStr vid),
     (''commission_pct'', JNum (case r of None \<Rightarrow> 0 | Some s \<Rightarrow> as_pct s)),
     (''is_enabled'', JBool (case r of None \<Rightarrow> False | Some s \<Rightarrow> as_enabled s))]"

definition affiliate_settings_get :: "ctx \<Rightarrow> string option \<Rightarrow> db \<Rightarrow> json \<times> db" where
  "affiliate_settings_get C q_video d0 =
     (case current_user_id C d0 of
        (None, d) \<Rightarrow> (not_logged_in, d)
      | (Some (uid, _), d) \<Rightarrow>
     let vid = (case q_video of None \<Rightarrow> [] | Some v \<Rightarrow> v) in
     if vid = [] then (jerr ''video_id required'', d)
     else if (case run_read C ''affset.owned'' (owned_count vid uid) d of Inr n \<Rightarrow> n | Inl _ \<Rightarrow> 0) = 0
     then (jerr ''not your video'', d)
     else
     (case run_read C ''affset.get'' (find_aff_setting vid) d of
        Inr r \<Rightarrow> (settings_answer vid r, d)
      | Inl e \<Rightarrow> (jerr (''db: '' @ e), d)))"

text \<open>
  \<open>INSERT ... ON CONFLICT (video_id) DO UPDATE\<close>, with the check and the foreign keys of
  \<open>029_affiliate.sql\<close>; the owner of an existing row is kept.
\<close>

definition upsert_aff_setting :: "string \<Rightarrow> string \<Rightarrow> int \<Rightarrow> bool \<Rightarrow> unit stmt" where
  "upsert_aff_setting vid uid pct enabled d =
     (if pct < 0 \<or> 90 < pct then Inl ''affiliate_settings_commission_pct_check''
      else if find_aff_setting vid d \<noteq> None
      then Inr ((), d\<lparr>aff_settings := upd_where (\<lambda>s. as_video s = vid)
             (\<lambda>s. s\<lparr>as_pct := pct, as_enabled := enabled\<rparr>) (aff_settings d)\<rparr>)
      else if \<not> video_exists vid d then Inl ''affiliate_settings_video_id_fkey''
      else if \<not> user_exists uid d then Inl ''affiliate_settings_owner_id_fkey''
      else Inr ((), d\<lparr>aff_settings := aff_settings d @
             [\<lparr> as_video = vid, as_owner = uid, as_pct = pct, as_enabled = enabled \<rparr>]\<rparr>))"

definition affiliate_settings_save :: "ctx \<Rightarrow> string \<Rightarrow> int \<Rightarrow> bool \<Rightarrow> db \<Rightarrow> json \<times> db" where
  "affiliate_settings_save C vid pct enabled d0 =
     (case current_user_id C d0 of
        (None, d) \<Rightarrow> (not_logged_in, d)
      | (Some (uid, _), d) \<Rightarrow>
     if vid = [] then (jerr ''video_id required'', d)
     else if \<not> (0 \<le> pct \<and> pct \<le> 90) then (jerr (''commission_pct must be 0'' @ map chr [226, 128, 147] @ ''90''), d)
     else if (case run_read C ''affset.owned'' (owned_count vid uid) d of Inr n \<Rightarrow> n | Inl _ \<Rightarrow> 0) = 0
     then (jerr ''not your video'', d)
     else
     (case run_write C ''affset.save'' (upsert_aff_setting vid uid pct enabled) d of
        (Inr _, d') \<Rightarrow> (jok [(''message'', JStr ''Affiliate settings saved.'')], d')
      | (Inl e, d') \<Rightarrow> (jerr (''db: '' @ e), d')))"

text \<open>
  The second component of \<open>current_user_id\<close> is the administrator flag; the code takes it for
  the username and prints it as Rust prints a \<open>bool\<close>.
\<close>

definition show_bool :: "bool \<Rightarrow> string" where
  "show_bool b = (if b then ''true'' else ''false'')"

definition affiliate_link :: "ctx \<Rightarrow> string option \<Rightarrow> db \<Rightarrow> json \<times> db" where
  "affiliate_link C q_video d0 =
     (case current_user_id C d0 of
        (None, d) \<Rightarrow> (not_logged_in, d)
      | (Some (_, username), d) \<Rightarrow>
     let vid = (case q_video of None \<Rightarrow> [] | Some v \<Rightarrow> v) in
     if vid = [] then (jerr ''video_id required'', d)
     else
     let enabled = (case run_read C ''afflink.enabled'' (find_aff_setting vid) d of
           Inr (Some s) \<Rightarrow> as_enabled s | _ \<Rightarrow> False);
         link = ''/public/watch.html?video_id='' @ vid @ ''&ref='' @ show_bool username
     in (jok [(''link'', JStr link), (''username'', JBool username), (''video_id'', JStr vid),
              (''is_enabled'', JBool enabled)], d))"

definition affiliate_program_info :: "ctx \<Rightarrow> string option \<Rightarrow> db \<Rightarrow> json" where
  "affiliate_program_info C q_video d =
     (let vid = (case q_video of None \<Rightarrow> [] | Some v \<Rightarrow> v) in
      if vid = [] then jerr ''video_id required''
      else
      (case run_read C ''affinfo.get'' (find_aff_setting vid) d of
         Inr (Some s) \<Rightarrow> jok [(''has_affiliate'', JBool (as_enabled s \<and> 0 < as_pct s)),
                             (''commission_pct'', JNum (as_pct s))]
       | Inr None \<Rightarrow> jok [(''has_affiliate'', JBool False), (''commission_pct'', JNum 0)]
       | Inl e \<Rightarrow> jerr (''db: '' @ e)))"


section \<open>What the operations change\<close>

lemma settings_save_post:
  "post (\<lambda>(j, d'). pruned d d' \<and> \<not> answer_ok j \<or>
     (\<exists>uid adm. current_user_id C d = (Some (uid, adm), d) \<and> 0 \<le> pct \<and> pct \<le> 90 \<and> 0 < owned_count vid uid d
        \<and> (answer_ok j \<or> fault C ''affset.save'' \<noteq> None)
        \<and> upsert_aff_setting vid uid pct enabled d = Inr ((), d')))
   (affiliate_settings_save C vid pct enabled d)"
  unfolding affiliate_settings_save_def Let_def not_logged_in_def
  apply (intro post_intros)
  apply (auto simp: run_read_def owned_count_def order_less_le
      dest: current_user_pruned current_user_Some split: option.splits)
  done

lemmas settings_save_cases = settings_save_post [THEN postD]

text \<open>Percentages in the range that \<open>process_affiliate_commission\<close> relies on.\<close>

definition settings_in_range :: "db \<Rightarrow> bool" where
  "settings_in_range d \<longleftrightarrow> (\<forall>s\<in>set (aff_settings d). 0 \<le> as_pct s \<and> as_pct s \<le> 90)"

lemma upsert_aff_range:
  "upsert_aff_setting vid uid pct en d = Inr ((), d') \<Longrightarrow> settings_in_range d \<Longrightarrow> settings_in_range d'"
  by (auto simp: upsert_aff_setting_def settings_in_range_def set_upd_where split: if_splits)

lemma upsert_aff_find:
  assumes "upsert_aff_setting vid uid pct en d = Inr ((), d')"
  shows "\<exists>s. find_aff_setting vid d' = Some s \<and> as_pct s = pct \<and> as_enabled s = en"
    and "v \<noteq> vid \<Longrightarrow> find_aff_setting v d' = find_aff_setting v d"
proof -
  have old: "find_aff_setting v (d\<lparr>aff_settings := upd_where (\<lambda>s. as_video s = vid) f (aff_settings d)\<rparr>)
      = map_option (\<lambda>s. if as_video s = vid then f s else s) (find_aff_setting v d)"
    if "\<And>s. as_video (f s) = as_video s" for v f
    using that by (simp add: find_aff_setting_def find_upd_where)
  show "\<exists>s. find_aff_setting vid d' = Some s \<and> as_pct s = pct \<and> as_enabled s = en"
  proof (cases "find_aff_setting vid d")
    case None
    then have "d' = d\<lparr>aff_settings := aff_settings d @
        [\<lparr> as_video = vid, as_owner = uid, as_pct = pct, as_enabled = en \<rparr>]\<rparr>"
      using assms by (simp add: upsert_aff_setting_def split: if_splits)
    then show ?thesis using None by (simp add: find_aff_setting_def find_append)
  next
    case (Some s)
    then have v: "as_video s = vid" by (auto simp: find_aff_setting_def dest: find_in)
    have d': "d' = d\<lparr>aff_settings := upd_where (\<lambda>s. as_video s = vid)
        (\<lambda>s. s\<lparr>as_pct := pct, as_enabled := en\<rparr>) (aff_settings d)\<rparr>"
      using assms Some by (simp add: upsert_aff_setting_def split: if_splits)
    show ?thesis using Some v by (simp add: d' old)
  qed
  show "find_aff_setting v d' = find_aff_setting v d" if "v \<noteq> vid"
  proof -
    have "(if as_video s = vid then f s else s) = s" if "find_aff_setting v d = Some s" for s f
      using that \<open>v \<noteq> vid\<close> by (auto simp: find_aff_setting_def dest: find_in)
    then have "map_option (\<lambda>s. if as_video s = vid then f s else s) (find_aff_setting v d)
        = find_aff_setting v d" for f
      by (cases "find_aff_setting v d") auto
    with assms \<open>v \<noteq> vid\<close> show ?thesis
      by (auto simp: upsert_aff_setting_def old split: if_splits)
        (auto simp: find_aff_setting_def find_append split: option.splits)
  qed
qed

end
