(* ===== verification/AffiliateProperties.thy ===== *)
theory AffiliateProperties
  imports Affiliate Demo
begin

text \<open>
  The properties of the affiliate settings and of the referral link.
\<close>

lemmas affiliate_eval = affiliate_settings_save_def upsert_aff_setting_def owned_count_def
  affiliate_link_def show_bool_def settings_in_range_def

text \<open>Only the owner of a video changes its affiliate program: an answer \<open>ok\<close> means that the
  caller owns the video and that exactly the requested percentage, within 0 to 90, is stored
  for it.  Whatever the answer, no other video's program, no balance and no ledger row changes,
  and percentages stay in the range the commission computation relies on.\<close>

theorem affiliate_settings_saved:
  assumes "affiliate_settings_save C vid pct enabled d = (j, d')"
  shows "(answer_ok j \<longrightarrow> 0 \<le> pct \<and> pct \<le> 90
      \<and> (\<exists>uid adm. current_user_id C d = (Some (uid, adm), d) \<and> (\<exists>v\<in>set (videos d). v_id v = vid \<and> v_owner v = uid))
      \<and> (\<exists>s. find_aff_setting vid d' = Some s \<and> as_pct s = pct \<and> as_enabled s = enabled))
    \<and> (\<forall>v. v \<noteq> vid \<longrightarrow> find_aff_setting v d' = find_aff_setting v d)
    \<and> same_money d d' \<and> (settings_in_range d \<longrightarrow> settings_in_range d')"
proof -
  consider (no) "pruned d d'" "\<not> answer_ok j"
    | (yes) uid adm where "current_user_id C d = (Some (uid, adm), d)" "0 \<le> pct" "pct \<le> 90"
        "0 < owned_count vid uid d" "upsert_aff_setting vid uid pct enabled d = Inr ((), d')"
    using settings_save_cases [OF assms] by blast
  then show ?thesis
  proof cases
    case no
    then have "aff_settings d' = aff_settings d" using pruned_fields by blast
    then show ?thesis
      using no pruned_money [OF no(1)] by (simp add: find_aff_setting_def settings_in_range_def)
  next
    case yes
    have "same_money d d'"
      using yes(5) by (auto simp: upsert_aff_setting_def same_money_def split: if_splits)
    moreover have "\<exists>v\<in>set (videos d). v_id v = vid \<and> v_owner v = uid"
      using yes(4) by (simp add: owned_count_def count_where_pos)
    ultimately show ?thesis
      using yes(1-3) upsert_aff_find [OF yes(5)] upsert_aff_range [OF yes(5)] by blast
  qed
qed

theorem affiliate_settings_saved_witness:
  "\<exists>s. find_aff_setting ''v1'' (snd (affiliate_settings_save bob ''v1'' 25 True demo_db)) = Some s \<and> as_pct s = 25"
proof -
  have "answer_ok (fst (affiliate_settings_save bob ''v1'' 25 True demo_db))"
    by (simp add: affiliate_eval demo_eval)
  with affiliate_settings_saved [OF surjective_pairing, of bob "''v1''" 25 True demo_db] show ?thesis by blast
qed

lemma link_post:
  "post (\<lambda>(j, d'). \<not> answer_ok j \<or> (\<exists>vid adm fs. j = jok ((''link'',
      JStr (''/public/watch.html?video_id='' @ vid @ ''&ref='' @ show_bool adm)) # fs)))
   (affiliate_link C q d)"
  unfolding affiliate_link_def Let_def not_logged_in_def
  apply (intro post_intros)
    apply simp
   apply simp
  apply (unfold prod.case, intro disjI2 exI, rule refl)
  done

lemmas link_cases = link_post [THEN postD]

text \<open>The link handed to an affiliate does not name the affiliate: its referral code is the
  administrator flag printed as \<open>true\<close> or \<open>false\<close>, and unless a user is called that, a purchase
  through the link pays no commission to anybody and changes nothing.\<close>

theorem affiliate_link_names_nobody:
  assumes "affiliate_link C q d = (j, d1)" "answer_ok j"
  shows "\<exists>ref vid. ref \<in> {''true'', ''false''}
    \<and> jget ''link'' j = Some (JStr (''/public/watch.html?video_id='' @ vid @ ''&ref='' @ ref))
    \<and> (\<forall>C2 buyer owner price meth invc d2 r d3. find_username ref d2 = None \<longrightarrow>
         process_affiliate_commission C2 vid buyer owner price ref meth invc d2 = (r, d3) \<longrightarrow>
           d3 = d2 \<and> (r = Inr 0 \<or> (\<exists>e. r = Inl e)))"
proof -
  obtain vid adm fs where l: "j = jok ((''link'',
      JStr (''/public/watch.html?video_id='' @ vid @ ''&ref='' @ show_bool adm)) # fs)"
    using link_cases [OF assms(1)] assms(2) by blast
  have t: "trim (show_bool adm) = show_bool adm" "show_bool adm \<in> {''true'', ''false''}"
    by (simp_all add: show_bool_def trim_def trim_start.simps trim_rev.simps byte_def)
  have "d3 = d2 \<and> (r = Inr 0 \<or> (\<exists>e. r = Inl e))"
    if "find_username (show_bool adm) d2 = None"
      "process_affiliate_commission C2 vid buyer owner price (show_bool adm) meth invc d2 = (r, d3)"
    for C2 buyer owner price meth invc d2 r d3
    using process_cases [OF that(2)] that(1) t(1) by (auto simp: commission_paid_def)
  with t(2) l show ?thesis
    by (intro exI [of _ "show_bool adm"] exI [of _ vid]) (simp add: jget_jok)
qed

theorem affiliate_link_names_nobody_witness:
  "answer_ok (fst (affiliate_link alice (Some ''v1'') demo_db))
   \<and> find_username ''alice'' demo_db \<noteq> None
   \<and> (\<exists>ref vid. ref \<in> {''true'', ''false''} \<and> jget ''link'' (fst (affiliate_link alice (Some ''v1'') demo_db))
        = Some (JStr (''/public/watch.html?video_id='' @ vid @ ''&ref='' @ ref)))"
proof -
  have ok: "answer_ok (fst (affiliate_link alice (Some ''v1'') demo_db))"
    by (simp add: affiliate_eval demo_eval)
  have "find_username ''alice'' demo_db \<noteq> None" by (simp add: demo_eval)
  with ok affiliate_link_names_nobody [OF surjective_pairing ok] show ?thesis by blast
qed

end
