(* ===== verification/Middleware.thy ===== *)
theory Middleware
  imports Prelude
begin

text \<open>
  \<open>src/src/middleware.rs\<close>: the guard against cross-origin requests, the rate limit of the
  sensitive routes and the security headers.  The rest of the server is the argument \<open>next\<close> of
  a layer, a function from the request and its state to the response and the state after.
\<close>

section \<open>Requests\<close>

text \<open>\<open>hdr\<close> gives the bytes of the first header of a name in lower case.\<close>

record request =
  rq_method :: string
  rq_path :: string
  rq_hdr :: "string \<Rightarrow> string option"

record response =
  rp_status :: nat
  rp_hdr :: "string \<Rightarrow> string option"
  rp_body :: string

text \<open>\<open>HeaderValue::to_str\<close> accepts visible ASCII, space and tab.\<close>

definition header_str :: "request \<Rightarrow> string \<Rightarrow> string option" where
  "header_str req name =
     (case rq_hdr req name of
        None \<Rightarrow> None
      | Some v \<Rightarrow> if \<forall>c\<in>set v. (32 \<le> byte c \<and> byte c < 127) \<or> byte c = 9 then Some v else None)"

fun contains_str :: "string \<Rightarrow> string \<Rightarrow> bool" where
  "contains_str p [] = (p = [])"
| "contains_str p (c # cs) = (starts_with p (c # cs) \<or> contains_str p cs)"

text \<open>A status with a text, as \<open>into_response\<close> makes of the pair.\<close>

definition error_response :: "nat \<Rightarrow> string \<Rightarrow> response" where
  "error_response st body =
     \<lparr> rp_status = st, rp_hdr = [''content-type'' \<mapsto> ''text/plain; charset=utf-8''], rp_body = body \<rparr>"


section \<open>Same origin\<close>

definition normalize_origin :: "string \<Rightarrow> string" where
  "normalize_origin value = ascii_lower (trim_end_slashes (trim value))"

definition same_origin :: "string \<Rightarrow> string \<Rightarrow> bool" where
  "same_origin candidate base_url =
     (let expected = normalize_origin base_url; current = normalize_origin candidate in
      current = expected \<or> starts_with (expected @ ''/'') current)"

definition has_session_cookie :: "request \<Rightarrow> bool" where
  "has_session_cookie req =
     (case header_str req ''cookie'' of Some v \<Rightarrow> contains_str ''ppv_session='' v | None \<Rightarrow> False)"

definition should_enforce_same_origin :: "request \<Rightarrow> bool" where
  "should_enforce_same_origin req =
     (rq_method req \<in> {''POST'', ''PUT'', ''PATCH'', ''DELETE''} \<and> has_session_cookie req
      \<and> \<not> starts_with ''/api/pay/'' (rq_path req))"

definition browser_csrf_guard ::
  "string \<Rightarrow> (request \<Rightarrow> 's \<Rightarrow> response \<times> 's) \<Rightarrow> request \<Rightarrow> 's \<Rightarrow> response \<times> 's" where
  "browser_csrf_guard base_url next req s =
     (let ok = (\<lambda>name. case header_str req name of Some v \<Rightarrow> same_origin v base_url | None \<Rightarrow> False) in
      if should_enforce_same_origin req \<and> \<not> ok ''origin'' \<and> \<not> ok ''referer''
      then (error_response 403 ''cross-origin state-changing request blocked'', s)
      else next req s)"


section \<open>Rate limit\<close>

definition RATE_LIMIT_WINDOW :: int where "RATE_LIMIT_WINDOW = 300 * 1000000000"
definition RATE_LIMIT_MAX_ATTEMPTS :: nat where "RATE_LIMIT_MAX_ATTEMPTS = 20"

definition should_rate_limit :: "string \<Rightarrow> string \<Rightarrow> bool" where
  "should_rate_limit path meth =
     (meth = ''POST'' \<and> path \<in> {''/auth/login'', ''/admin/login'', ''/auth/register'', ''/auth/forgot'',
        ''/setup_admin'', ''/api/change_password'', ''/admin/change_password''})"

definition client_fingerprint :: "request \<Rightarrow> bool \<Rightarrow> string" where
  "client_fingerprint req trust_proxy_headers =
     (let ua = (case header_str req ''user-agent'' of
            Some v \<Rightarrow> if trim v = [] then ''unknown'' else ''ua:'' @ v
          | None \<Rightarrow> ''unknown'');
          real = (case header_str req ''x-real-ip'' of
            Some v \<Rightarrow> if trim v = [] then ua else trim v
          | None \<Rightarrow> ua)
      in if trust_proxy_headers
         then (case header_str req ''x-forwarded-for'' of
            Some v \<Rightarrow> (let ip = trim (takeWhile (\<lambda>c. c \<noteq> CHR '','') v) in if ip = [] then real else ip)
          | None \<Rightarrow> real)
         else ua)"

text \<open>\<open>duration_since\<close> saturates at zero.\<close>

definition outside :: "instant \<Rightarrow> instant \<Rightarrow> bool" where
  "outside now ts \<longleftrightarrow> RATE_LIMIT_WINDOW < max 0 (nanos now - nanos ts)"

text \<open>The pops from the front of the bucket.\<close>

fun expire :: "instant \<Rightarrow> instant list \<Rightarrow> instant list" where
  "expire now [] = []"
| "expire now (ts # bucket) = (if outside now ts then expire now bucket else ts # bucket)"

text \<open>One attempt on one bucket: whether it is admitted, and the bucket afterwards.\<close>

definition attempt :: "instant \<Rightarrow> instant list \<Rightarrow> bool \<times> instant list" where
  "attempt now bucket =
     (let b = expire now bucket in
      if RATE_LIMIT_MAX_ATTEMPTS \<le> length b then (False, b) else (True, b @ [now]))"

type_synonym rate_store = "string \<Rightarrow> instant list"

definition basic_rate_limit ::
  "bool \<Rightarrow> instant \<Rightarrow> (request \<Rightarrow> 's \<Rightarrow> response \<times> 's) \<Rightarrow> request \<Rightarrow> rate_store \<times> 's \<Rightarrow> response \<times> rate_store \<times> 's"
where
  "basic_rate_limit trust now next req st =
     (let (store, s) = st in
      if should_rate_limit (rq_path req) (rq_method req) then
        let key = rq_path req @ '':'' @ client_fingerprint req trust;
            (ok, bucket) = attempt now (store key);
            store' = store(key := bucket) in
        if \<not> ok then (error_response 429 ''too many requests, please retry later'', store', s)
        else let (r, s') = next req s in (r, store', s')
      else let (r, s') = next req s in (r, store, s'))"


section \<open>Security headers\<close>

definition should_default_no_store :: "string \<Rightarrow> bool" where
  "should_default_no_store path =
     (\<not> (starts_with ''/public/'' path \<or> starts_with ''/static_hls/'' path \<or> path = ''/''
        \<or> path = ''/browse'' \<or> path = ''/dashboard'' \<or> path = ''/health''))"

definition security_headers ::
  "(request \<Rightarrow> 's \<Rightarrow> response \<times> 's) \<Rightarrow> request \<Rightarrow> 's \<Rightarrow> response \<times> 's" where
  "security_headers next req s =
     (let (r, s') = next req s;
          h = (rp_hdr r)(''x-frame-options'' \<mapsto> ''DENY'', ''x-content-type-options'' \<mapsto> ''nosniff'',
                ''referrer-policy'' \<mapsto> ''strict-origin-when-cross-origin'',
                ''permissions-policy'' \<mapsto> ''camera=(), microphone=(), geolocation=()'',
                ''cross-origin-opener-policy'' \<mapsto> ''same-origin'',
                ''cross-origin-resource-policy'' \<mapsto> ''same-origin'');
          h' = (if h ''cache-control'' = None \<and> should_default_no_store (rq_path req)
                then h(''cache-control'' \<mapsto> ''no-store'') else h)
      in (r\<lparr>rp_hdr := h'\<rparr>, s'))"

end
