(* ===== verification/MiddlewareProperties.thy ===== *)
theory MiddlewareProperties
  imports Middleware
begin

text \<open>
  What the layers of \<open>middleware.rs\<close> guarantee: the rate limit against the specification that
  counts the admitted attempts of the last five minutes, and which origins pass the guard.
\<close>

section \<open>The bucket against the list of all admitted attempts\<close>

text \<open>
  The specification keeps every admitted attempt and counts those inside the window.
\<close>

definition admit_spec :: "instant \<Rightarrow> instant list \<Rightarrow> bool \<times> instant list" where
  "admit_spec now hist =
     (if length (filter (\<lambda>t. \<not> outside now t) hist) < RATE_LIMIT_MAX_ATTEMPTS
      then (True, hist @ [now]) else (False, hist))"

fun run_bucket :: "instant list \<Rightarrow> instant list \<Rightarrow> bool list" where
  "run_bucket [] b = []"
| "run_bucket (t # ts) b = (case attempt t b of (ok, b') \<Rightarrow> ok # run_bucket ts b')"

fun run_spec :: "instant list \<Rightarrow> instant list \<Rightarrow> bool list" where
  "run_spec [] h = []"
| "run_spec (t # ts) h = (case admit_spec t h of (ok, h') \<Rightarrow> ok # run_spec ts h')"

lemma outside_mono: "outside now t \<Longrightarrow> now \<le> now' \<Longrightarrow> outside now' t"
  by (cases now; cases now'; cases t) (auto simp: outside_def)

lemma outside_earlier: "outside now t \<Longrightarrow> t' \<le> t \<Longrightarrow> outside now t'"
  by (cases now; cases t'; cases t) (auto simp: outside_def)

lemma outside_now [simp]: "\<not> outside t t" "t \<le> t' \<Longrightarrow> \<not> outside t t'"
  by (cases t; cases t'; auto simp: outside_def RATE_LIMIT_WINDOW_def)+

lemma expire_filter: "sorted b \<Longrightarrow> expire now b = filter (\<lambda>t. \<not> outside now t) b"
proof (induction b)
  case (Cons t b)
  show ?case
  proof (cases "outside now t")
    case True
    with Cons show ?thesis by simp
  next
    case False
    with Cons.prems have "\<forall>t'\<in>set b. \<not> outside now t'" by (auto dest: outside_earlier)
    with False show ?thesis by (simp add: filter_id_conv)
  qed
qed simp

text \<open>The bucket is the history without attempts that some earlier moment had expired.\<close>

definition bucket_of :: "instant \<Rightarrow> instant list \<Rightarrow> instant list \<Rightarrow> bool" where
  "bucket_of now hist b \<longleftrightarrow> sorted hist \<and> (\<forall>t\<in>set hist. t \<le> now) \<and> sorted b
     \<and> filter (\<lambda>t. \<not> outside now t) hist = filter (\<lambda>t. \<not> outside now t) b"

lemma filter_outside_later:
  assumes "now \<le> now'" "filter (\<lambda>t. \<not> outside now t) xs = filter (\<lambda>t. \<not> outside now t) ys"
  shows "filter (\<lambda>t. \<not> outside now' t) xs = filter (\<lambda>t. \<not> outside now' t) ys"
proof -
  have "filter (\<lambda>t. \<not> outside now' t) zs = filter (\<lambda>t. \<not> outside now' t) (filter (\<lambda>t. \<not> outside now t) zs)" for zs
    using outside_mono [OF _ assms(1)] by (auto simp: filter_filter intro!: filter_cong)
  with assms(2) show ?thesis by metis
qed

lemma attempt_refines:
  assumes "bucket_of now hist b" "now \<le> t"
  shows "fst (attempt t b) = fst (admit_spec t hist)"
    and "bucket_of t (snd (admit_spec t hist)) (snd (attempt t b))"
proof -
  have eq: "filter (\<lambda>x. \<not> outside t x) hist = filter (\<lambda>x. \<not> outside t x) b"
    using assms filter_outside_later unfolding bucket_of_def by blast
  have ex: "expire t b = filter (\<lambda>x. \<not> outside t x) b"
    using assms(1) by (simp add: bucket_of_def expire_filter)
  have le: "\<forall>x\<in>set hist. x \<le> t" "sorted hist" "sorted b"
    using assms by (auto simp: bucket_of_def intro: order_trans)
  have sub: "set (expire t b) \<subseteq> set hist" unfolding ex eq [symmetric] by auto
  show "fst (attempt t b) = fst (admit_spec t hist)"
    by (simp add: attempt_def admit_spec_def Let_def ex eq not_le)
  show "bucket_of t (snd (admit_spec t hist)) (snd (attempt t b))"
    using le sub by (auto simp: bucket_of_def attempt_def admit_spec_def Let_def eq ex sorted_append sorted_wrt_filter)
qed

lemma run_refines: "bucket_of now hist b \<Longrightarrow> sorted (now # ts) \<Longrightarrow> run_bucket ts b = run_spec ts hist"
proof (induction ts arbitrary: now hist b)
  case (Cons t ts)
  have "now \<le> t" "sorted (t # ts)" using Cons.prems(2) by auto
  with attempt_refines [OF Cons.prems(1)] Cons.IH [of t] show ?case
    by (simp add: case_prod_beta)
qed simp

text \<open>C14. The limiter's bucket decides every attempt as the specification that counts the
  admitted attempts of the last 300 seconds, for attempts in the order of time.\<close>

theorem rate_limit_equivalent:
  assumes "sorted ts"
  shows "run_bucket ts [] = run_spec ts []"
proof (cases ts)
  case (Cons t us)
  have "bucket_of t [] []" by (simp add: bucket_of_def)
  moreover have "sorted (t # ts)" using assms Cons by simp
  ultimately show ?thesis by (rule run_refines)
qed simp

theorem rate_limit_equivalent_witness:
  "run_bucket (replicate 21 (Instant 0)) [] = replicate 20 True @ [False]"
proof -
  have "sorted (replicate 21 (Instant 0))" by (simp add: sorted_replicate)
  from rate_limit_equivalent [OF this] show ?thesis
    by (simp add: admit_spec_def RATE_LIMIT_MAX_ATTEMPTS_def outside_def RATE_LIMIT_WINDOW_def eval_nat_numeral)
qed

section \<open>How many attempts pass\<close>

definition burst_ok :: "instant list \<Rightarrow> bool" where
  "burst_ok h \<longleftrightarrow> (\<forall>t. length (filter (\<lambda>x. x \<le> t \<and> \<not> outside t x) h) \<le> RATE_LIMIT_MAX_ATTEMPTS)"

lemma burst_step:
  assumes "burst_ok h" "\<forall>x\<in>set h. x \<le> now"
  shows "burst_ok (snd (admit_spec now h))"
  unfolding burst_ok_def
proof
  fix t
  let ?F = "filter (\<lambda>x. x \<le> t \<and> \<not> outside t x)"
  show "length (?F (snd (admit_spec now h))) \<le> RATE_LIMIT_MAX_ATTEMPTS"
  proof (cases "now \<le> t \<and> fst (admit_spec now h)")
    case True
    have "?F h = filter (\<lambda>x. x \<le> t \<and> \<not> outside t x) (filter (\<lambda>x. \<not> outside now x) h)" 
      using True outside_mono by (auto simp: filter_filter intro!: filter_cong)
    then have "length (?F h) \<le> length (filter (\<lambda>x. \<not> outside now x) h)"
      by (metis length_filter_le)
    with True show ?thesis by (auto simp: admit_spec_def split: if_splits)
  next
    case False
    then have "?F (snd (admit_spec now h)) = ?F h" by (auto simp: admit_spec_def)
    with assms(1) show ?thesis by (simp add: burst_ok_def)
  qed
qed


section \<open>The layer in operation\<close>

text \<open>
  A step is one request through \<open>basic_rate_limit\<close>; the inner server \<open>mark\<close> only records that it
  was reached.  The third component lists, for each route and client, when that happened.
\<close>

definition mark :: "request \<Rightarrow> bool \<Rightarrow> response \<times> bool" where
  "mark req s = (error_response 200 [], True)"

type_synonym limiter = "rate_store \<times> instant \<times> (string \<Rightarrow> instant list)"

inductive limiter_step :: "bool \<Rightarrow> limiter \<Rightarrow> limiter \<Rightarrow> bool" for trust where
  request: "now \<le> t \<Longrightarrow> basic_rate_limit trust t mark req (store, False) = (r, store', reached) \<Longrightarrow>
    key = rq_path req @ '':'' @ client_fingerprint req trust \<Longrightarrow>
    limiter_step trust (store, now, hist)
      (store', t, if should_rate_limit (rq_path req) (rq_method req) \<and> reached
                  then hist(key := hist key @ [t]) else hist)"

definition limiter_init :: "limiter \<Rightarrow> bool" where
  "limiter_init s \<longleftrightarrow> (\<exists>t. s = (\<lambda>_. [], t, \<lambda>_. []))"

definition limiter_inv :: "limiter \<Rightarrow> bool" where
  "limiter_inv s = (case s of (store, now, hist) \<Rightarrow>
     \<forall>k. bucket_of now (hist k) (store k) \<and> burst_ok (hist k))"

lemma bucket_of_later:
  assumes "bucket_of now h b" "now \<le> t" shows "bucket_of t h b"
  using assms filter_outside_later unfolding bucket_of_def by (blast intro: order_trans)

lemma limiter_step_inv: "limiter_inv s \<Longrightarrow> limiter_step trust s s' \<Longrightarrow> limiter_inv s'"
proof (erule limiter_step.cases)
  fix now t req store r store' reached key and hist :: "string \<Rightarrow> instant list"
  assume inv: "limiter_inv s" and s: "s = (store, now, hist)" and t: "now \<le> t"
    and k: "key = rq_path req @ '':'' @ client_fingerprint req trust"
    and r: "basic_rate_limit trust t mark req (store, False) = (r, store', reached)"
    and s': "s' = (store', t, if should_rate_limit (rq_path req) (rq_method req) \<and> reached
                  then hist(key := hist key @ [t]) else hist)"
  have old: "bucket_of t (hist k) (store k)" "burst_ok (hist k)" for k
    using inv bucket_of_later [OF _ t] by (auto simp: limiter_inv_def s)
  show "limiter_inv s'"
  proof (cases "should_rate_limit (rq_path req) (rq_method req)")
    case False
    then have "store' = store" using r by (simp add: basic_rate_limit_def split: prod.splits)
    with False old show ?thesis by (simp add: limiter_inv_def s')
  next
    case True
    then have st: "store' = store(key := snd (attempt t (store key)))" "reached = fst (attempt t (store key))"
      using r k by (auto simp: basic_rate_limit_def mark_def Let_def split: prod.splits if_splits)
    note ref = attempt_refines [OF old(1) [of key] order_refl]
    have h: "(if reached then hist key @ [t] else hist key) = snd (admit_spec t (hist key))"
      using ref(1) st(2) by (simp add: admit_spec_def split: if_splits)
    have "burst_ok (snd (admit_spec t (hist key)))"
      using old [of key] by (intro burst_step) (auto simp: bucket_of_def)
    with ref(2) old h True show ?thesis
      by (auto simp: limiter_inv_def s' st(1) split: if_splits)
  qed
qed

interpretation limiter: inv_system limiter_init "limiter_step trust" limiter_inv
proof unfold_locales
  show "limiter_init s \<Longrightarrow> limiter_inv s" for s
    by (auto simp: limiter_init_def limiter_inv_def bucket_of_def burst_ok_def)
qed (rule limiter_step_inv)

definition demo_request :: request where
  "demo_request = \<lparr> rq_method = ''POST'', rq_path = ''/auth/login'', rq_hdr = (\<lambda>_. None) \<rparr>"

definition demo_limiter :: limiter where
  "demo_limiter = ((\<lambda>_. [])(''/auth/login:unknown'' := [Instant 5]), Instant 5,
     (\<lambda>_. [])(''/auth/login:unknown'' := [Instant 5]))"

lemma demo_limiter_reach: "reach limiter_init (limiter_step False) demo_limiter"
proof (rule reach_step)
  show "reach limiter_init (limiter_step False) (\<lambda>_. [], Instant 0, \<lambda>_. [])"
    by (rule reach_init) (auto simp: limiter_init_def)
  have r: "basic_rate_limit False (Instant 5) mark demo_request (\<lambda>_. [], False)
      = (error_response 200 [], (\<lambda>_. [])(''/auth/login:unknown'' := [Instant 5]), True)"
    by (simp add: basic_rate_limit_def demo_request_def should_rate_limit_def attempt_def
        client_fingerprint_def header_str_def mark_def RATE_LIMIT_MAX_ATTEMPTS_def)
  have k: "''/auth/login:unknown'' = rq_path demo_request @ '':'' @ client_fingerprint demo_request False"
    "should_rate_limit (rq_path demo_request) (rq_method demo_request)"
    by (simp_all add: demo_request_def client_fingerprint_def header_str_def should_rate_limit_def)
  have "Instant 0 \<le> Instant 5" by simp
  from limiter_step.request [OF this r k(1), of "\<lambda>_. []"] k(2)
  show "limiter_step False (\<lambda>_. [], Instant 0, \<lambda>_. []) demo_limiter"
    by (simp only: demo_limiter_def simp_thms if_True append_Nil)
qed



text \<open>The limit forgives: an attempt is let through whenever fewer than 20 were in the last
  300 seconds, and a route outside the list is never limited.\<close>

theorem rate_limit_admits:
  assumes "reach limiter_init (limiter_step trust) (store, now, hist)" "now \<le> t"
    and "should_rate_limit (rq_path req) (rq_method req) \<longrightarrow>
      length (filter (\<lambda>x. nanos t - nanos x \<le> 300 * 1000000000)
        (hist (rq_path req @ '':'' @ client_fingerprint req trust))) < 20"
  shows "fst (basic_rate_limit trust t next req (store, s)) = fst (next req s)
    \<and> snd (snd (basic_rate_limit trust t next req (store, s))) = snd (next req s)"
proof (cases "should_rate_limit (rq_path req) (rq_method req)")
  case False
  then show ?thesis by (simp add: basic_rate_limit_def split: prod.splits)
next
  case True
  let ?k = "rq_path req @ '':'' @ client_fingerprint req trust"
  have b: "bucket_of t (hist ?k) (store ?k)"
    using limiter.reach_inv [OF assms(1)] bucket_of_later [OF _ assms(2)] by (simp add: limiter_inv_def)
  have "\<not> outside t x \<longleftrightarrow> nanos t - nanos x \<le> 300 * 1000000000" for x
    by (auto simp: outside_def RATE_LIMIT_WINDOW_def)
  then have "fst (attempt t (store ?k))"
    using attempt_refines(1) [OF b order_refl] assms(3) True
    by (simp add: admit_spec_def RATE_LIMIT_MAX_ATTEMPTS_def)
  then show ?thesis using True by (auto simp: basic_rate_limit_def Let_def split: prod.splits)
qed

theorem rate_limit_admits_witness:
  "fst (basic_rate_limit False (Instant 7) mark demo_request (fst demo_limiter, False)) = error_response 200 []"
  using rate_limit_admits [OF demo_limiter_reach [unfolded demo_limiter_def], of "Instant 7" demo_request mark False]
  by (simp add: demo_limiter_def demo_request_def client_fingerprint_def header_str_def mark_def Let_def)


section \<open>Origins\<close>

text \<open>The host of a normalized origin or URL: what stands between \<open>://\<close> and the next slash.\<close>

fun after_scheme :: "string \<Rightarrow> string" where
  "after_scheme [] = []"
| "after_scheme (c # cs) = (if starts_with ''://'' (c # cs) then drop 2 cs else after_scheme cs)"

definition origin_host :: "string \<Rightarrow> string" where
  "origin_host s = takeWhile (\<lambda>c. c \<noteq> CHR ''/'') (after_scheme s)"

lemma starts_with_iff: "starts_with p s \<longleftrightarrow> (\<exists>r. s = p @ r)"
  by (auto simp: starts_with_def strip_prefix_Some)

lemma after_scheme_length: "after_scheme s \<noteq> [] \<Longrightarrow> 4 \<le> length s"
proof (induction s)
  case (Cons c cs)
  show ?case
  proof (cases "starts_with ''://'' (c # cs)")
    case True
    with Cons.prems show ?thesis by (auto simp: starts_with_iff neq_Nil_conv)
  next
    case False
    with Cons show ?thesis by simp
  qed
qed simp

lemma after_scheme_append: "after_scheme s \<noteq> [] \<Longrightarrow> after_scheme (s @ r) = after_scheme s @ r"
proof (induction s)
  case (Cons c cs)
  show ?case
  proof (cases "starts_with ''://'' (c # cs)")
    case True
    then obtain q where q: "c # cs = ''://'' @ q" by (auto simp: starts_with_iff)
    then have "starts_with ''://'' (c # cs @ r)" by (auto simp: starts_with_iff)
    with True q show ?thesis by simp
  next
    case False
    with Cons.prems have ne: "after_scheme cs \<noteq> []" by simp
    have "\<not> starts_with ''://'' (c # cs @ r)"
    proof
      assume "starts_with ''://'' (c # cs @ r)"
      then obtain q where "c # cs @ r = ''://'' @ q" by (auto simp: starts_with_iff)
      moreover have "4 \<le> length cs" using after_scheme_length [OF ne] .
      ultimately have "\<exists>q. c # cs = ''://'' @ q"
        by (auto simp: append_eq_Cons_conv Cons_eq_append_conv append_eq_append_conv2)
      with False show False by (auto simp: starts_with_iff)
    qed
    with False Cons.IH [OF ne] show ?thesis by simp
  qed
qed simp

lemma same_origin_host:
  assumes "same_origin v base" "after_scheme (normalize_origin base) \<noteq> []"
  shows "origin_host (normalize_origin v) = origin_host (normalize_origin base)"
proof -
  consider "normalize_origin v = normalize_origin base"
    | r where "normalize_origin v = normalize_origin base @ ''/'' @ r"
    using assms(1) by (auto simp: same_origin_def starts_with_iff Let_def)
  then show ?thesis
  proof cases
    case 2
    then show ?thesis
      by (simp add: origin_host_def after_scheme_append [OF assms(2)] takeWhile_append takeWhile_eq_all_conv
          eq_commute [of "after_scheme (normalize_origin base)"])
  qed simp
qed

text \<open>A state-changing request with a session cookie from another host is stopped before it
  reaches the server: when neither the \<open>Origin\<close> nor the \<open>Referer\<close> header, as far as present,
  names the configured host, the answer is 403 and nothing else happens.  A request whose
  \<open>Origin\<close> is the configured base URL passes.\<close>

theorem csrf_guard_hosts:
  assumes "after_scheme (normalize_origin base) \<noteq> []"
  shows "(should_enforce_same_origin req \<longrightarrow>
      (\<forall>name\<in>{''origin'', ''referer''}. \<forall>v. header_str req name = Some v \<longrightarrow>
         origin_host (normalize_origin v) \<noteq> origin_host (normalize_origin base)) \<longrightarrow>
      browser_csrf_guard base next req s
        = (error_response 403 ''cross-origin state-changing request blocked'', s))
    \<and> (header_str req ''origin'' = Some base \<longrightarrow> browser_csrf_guard base next req s = next req s)"
proof -
  have "\<not> same_origin v base" if "origin_host (normalize_origin v) \<noteq> origin_host (normalize_origin base)" for v
    using that same_origin_host [OF _ assms] by blast
  moreover have "same_origin base base" by (simp add: same_origin_def)
  ultimately show ?thesis by (auto simp: browser_csrf_guard_def Let_def split: option.splits)
qed

theorem csrf_guard_hosts_witness:
  "browser_csrf_guard ''https://ppv.example/'' mark
     \<lparr> rq_method = ''POST'', rq_path = ''/api/upload'',
       rq_hdr = [''cookie'' \<mapsto> ''ppv_session=x'', ''origin'' \<mapsto> ''https://ppv.example.evil''] \<rparr> False
   = (error_response 403 ''cross-origin state-changing request blocked'', False)"
proof -
  let ?req = "\<lparr> rq_method = ''POST'', rq_path = ''/api/upload'',
       rq_hdr = [''cookie'' \<mapsto> ''ppv_session=x'', ''origin'' \<mapsto> ''https://ppv.example.evil''] \<rparr>"
  note ev = normalize_origin_def trim_def trim_start.simps trim_rev.simps trim_end_slashes_def ascii_lower_def
    ascii_lower_char_def byte_def chr_def starts_with_def origin_host_def header_str_def Let_def
  have a: "after_scheme (normalize_origin ''https://ppv.example/'') \<noteq> []" by (simp add: ev)
  have b: "should_enforce_same_origin ?req"
    by (simp add: should_enforce_same_origin_def has_session_cookie_def ev)
  have c: "\<forall>name\<in>{''origin'', ''referer''}. \<forall>v. header_str ?req name = Some v \<longrightarrow>
      origin_host (normalize_origin v) \<noteq> origin_host (normalize_origin ''https://ppv.example/'')"
    by (simp add: ev)
  show ?thesis using csrf_guard_hosts [OF a, of ?req mark False] b c by blast
qed

end
