(* ===== verification/X402.thy ===== *)
theory X402
  imports Wallet
begin

text \<open>
  \<open>src/src/handlers/pay.rs\<close>: what a video can be paid with, the x402 invoice and the signed
  authorization of a payment on a chain, the confirmation of such a payment from the
  receipt of its transaction, and the cached prices of crypto currencies.
\<close>

section \<open>The libraries of the chain\<close>

text \<open>
  Parsing of addresses and keys, Keccak, the ABI encoder and the log decoder (ethers, ethabi)
  and the JSON-RPC endpoint are the record \<open>evm\<close>; byte strings are strings.
\<close>

datatype abi_token = AFixedBytes string | AAddress string | AUint nat

datatype event_token = EUint nat | EString string | EAddress string | EFixedBytes string

record event_param =
  ep_name :: string
  ep_kind :: string
  ep_indexed :: bool

record evm =
  ev_address :: "string \<Rightarrow> string option"
  ev_keccak :: "string \<Rightarrow> string"
  ev_hex66 :: "string \<Rightarrow> string"
  ev_hexnum :: "nat \<Rightarrow> string"
  ev_abi :: "abi_token list \<Rightarrow> string"
  ev_wallet :: "string \<Rightarrow> string option"
  ev_sign :: "string \<Rightarrow> string \<Rightarrow> string + nat \<times> nat \<times> nat"
  ev_topic :: "string \<Rightarrow> event_param list \<Rightarrow> string"
  ev_unhex :: "string \<Rightarrow> string option"
  ev_h256 :: "string \<Rightarrow> string option"
  ev_parse_log :: "event_param list \<Rightarrow> string list \<Rightarrow> string \<Rightarrow> (string \<times> event_token) list option"
  ev_rpc :: "string \<Rightarrow> string \<Rightarrow> string + (string + json)"

definition zero_address :: string where "zero_address = replicate 20 (chr 0)"


section \<open>Options\<close>

definition remote_video_checkout_url :: "ctx \<Rightarrow> string \<Rightarrow> db \<Rightarrow> string option option" where
  "remote_video_checkout_url C vid d =
     (case run_read C ''remote.checkout''
             (\<lambda>d. find (\<lambda>r. rv_uri r = vid \<and> \<not> rv_deleted r) (remote_videos (fed d))) d of
        Inr (Some r) \<Rightarrow> Some (rv_checkout r)
      | _ \<Rightarrow> None)"

definition no_such_video :: "ctx \<Rightarrow> string \<Rightarrow> db \<Rightarrow> json" where
  "no_such_video C vid d =
     (case remote_video_checkout_url C vid d of
        None \<Rightarrow> jerr ''video not found''
      | Some url \<Rightarrow> JObj ([(''ok'', JBool False), (''error'', JStr
           ''This video is hosted on a remote instance. Complete payment on the origin server.'')]
           @ (case url of None \<Rightarrow> [] | Some u \<Rightarrow> [(''checkout_url'', JStr u)])))"

definition coalesce :: "'a option \<Rightarrow> 'a option \<Rightarrow> 'a option" where
  "coalesce a b = (case a of None \<Rightarrow> b | Some x \<Rightarrow> Some x)"

definition token_erc20 :: "pay_token \<Rightarrow> string option" where
  "token_erc20 t = coalesce (pt_address t) (pt_legacy t)"

definition token_item :: "pay_token \<Rightarrow> json" where
  "token_item t = JObj [(''chain'', JStr (pt_chain t)), (''chain_id'', JNum (pt_chain_id t)),
     (''symbol'', JStr (pt_symbol t)), (''decimals'', JNum (pt_decimals t)), (''erc20'', jopt (token_erc20 t))]"

text \<open>\<open>ORDER BY chain_id, symbol\<close>; a failed query lists no token.\<close>

definition active_tokens :: "ctx \<Rightarrow> db \<Rightarrow> pay_token list" where
  "active_tokens C d =
     (case run_read C ''pay.tokens''
             (\<lambda>d. order_by pt_chain_id (order_by pt_symbol (filter pt_active (pay_tokens d)))) d of
        Inr ts \<Rightarrow> ts | Inl _ \<Rightarrow> [])"

definition jopt_num :: "int option \<Rightarrow> json" where
  "jopt_num n = (case n of None \<Rightarrow> JNull | Some i \<Rightarrow> JNum i)"

text \<open>The join of a video with its owner.\<close>

definition video_with_owner :: "string \<Rightarrow> db \<Rightarrow> (video \<times> user) option" where
  "video_with_owner vid d =
     (case find_video vid d of
        None \<Rightarrow> None
      | Some v \<Rightarrow> map_option (Pair v) (find_user (v_owner v) d))"

definition pay_options :: "ctx \<Rightarrow> string option \<Rightarrow> db \<Rightarrow> json" where
  "pay_options C q_video d =
     (let vid = (case q_video of None \<Rightarrow> [] | Some v \<Rightarrow> v) in
      if vid = [] then jerr ''video_id required''
      else
      (case run_read C ''options.video'' (video_with_owner vid) d of
         Inl e \<Rightarrow> jerr (''db error: '' @ e)
       | Inr None \<Rightarrow> no_such_video C vid d
       | Inr (Some (v, u)) \<Rightarrow>
           jok [(''video_id'', JStr vid), (''price_cents'', JNum (v_price v)),
                (''creator_id'', JStr (v_owner v)), (''creator_wallet'', jopt (u_wallet u)),
                (''creator_chain_id'', jopt_num (u_chain u)),
                (''tokens'', JArr (map token_item (active_tokens C d)))]))"

definition all_options :: "ctx \<Rightarrow> string option \<Rightarrow> db \<Rightarrow> json \<times> db" where
  "all_options C q_video d0 =
     (let ps = load_payment_settings C d0;
          vid = (case q_video of None \<Rightarrow> [] | Some v \<Rightarrow> v) in
      if vid = [] then (jerr ''video_id required'', d0)
      else
      (case run_read C ''alloptions.video'' (find_video vid) d0 of
         Inl e \<Rightarrow> (jerr (''db: '' @ e), d0)
       | Inr None \<Rightarrow> (no_such_video C vid d0, d0)
       | Inr (Some v) \<Rightarrow>
      (case current_user_id C d0 of (who, d) \<Rightarrow>
      let price = v_price v;
          (bal, is_owner, bought) = (case who of
             None \<Rightarrow> (None, False, False)
           | Some (uid, _) \<Rightarrow>
               (Some (case run_read C ''alloptions.balance'' (balance_of uid) d of
                   Inr (Some b) \<Rightarrow> b | _ \<Rightarrow> 0),
                uid = v_owner v,
                (case run_read C ''alloptions.bought'' (has_purchase uid vid) d of Inr b \<Rightarrow> b | Inl _ \<Rightarrow> False)));
          tokens = active_tokens C d;
          fiat = (if paypal_enabled ps then [''paypal''] else []) @ (if stripe_enabled ps then [''stripe''] else [])
             @ (if midtrans_enabled ps then [''midtrans''] else []) @ (if xendit_enabled ps then [''xendit''] else [])
      in (jok [(''video_id'', JStr vid), (''price_cents'', JNum price),
            (''price_display'', JStr (cents_to_display price)), (''is_owner'', JBool is_owner),
            (''already_purchased'', JBool bought),
            (''wallet'', JObj [(''available'', JBool (wallet_payment_enabled ps)),
               (''balance_cents'', jopt_num bal),
               (''balance_display'', jopt (map_option cents_to_display bal)),
               (''can_afford'', case bal of None \<Rightarrow> JNull
                  | Some b \<Rightarrow> JBool (wallet_payment_enabled ps \<and> price \<le> b \<and> \<not> is_owner))]),
            (''x402'', JObj [(''available'', JBool (x402_enabled ps \<and> tokens \<noteq> [])),
               (''tokens'', JArr (map token_item tokens))]),
            (''fiat'', JObj [(''available'', JBool (fiat \<noteq> [])), (''providers'', JArr (map JStr fiat))])], d))))"


section \<open>Starting a payment\<close>

definition u128_max :: nat where "u128_max = 2 ^ 128 - 1"

text \<open>
  The price in base units of the token, rounded up.  \<open>decimals as u32\<close> wraps, \<open>u128::pow\<close>
  wraps in a release build, the multiplication and the addition saturate.
\<close>

definition token_amount :: "int \<Rightarrow> int \<Rightarrow> nat" where
  "token_amount price_cents decimals =
     (if price_cents \<le> 0 then 0
      else let d = nat (decimals mod 2 ^ 32);
               numerator = min (nat price_cents * (10 ^ d mod 2 ^ 128)) u128_max
           in min (numerator + 99) u128_max div 100)"

record start_req =
  sr_video :: string
  sr_chain :: int
  sr_symbol :: string
  sr_token :: "string option"
  sr_payer :: string
  sr_ref :: "string option"

text \<open>
  The serial key and the constraints of \<open>x402_invoices\<close>: unique \<open>invoice_uid\<close> and hash, the
  foreign keys.
\<close>

definition ins_x402 :: "x402_invoice \<Rightarrow> unit stmt" where
  "ins_x402 r d =
     (if \<exists>x\<in>set (x402_invoices d). xi_uid x = xi_uid r then Inl ''x402_invoices_invoice_uid_key''
      else if xi_hash r \<noteq> None \<and> (\<exists>x\<in>set (x402_invoices d). xi_hash x = xi_hash r)
        then Inl ''x402_inv_uid_hash_uq''
      else if \<not> user_exists (xi_user r) d then Inl ''x402_inv_user_fk''
      else if \<not> user_exists (xi_creator r) d then Inl ''x402_inv_creator_fk''
      else if \<not> video_exists (xi_video r) d then Inl ''x402_inv_video_fk''
      else Inr ((), d\<lparr>x402_seq := x402_seq d + 1,
             x402_invoices := x402_invoices d @ [r\<lparr>xi_id := x402_seq d + 1\<rparr>]\<rparr>))"

definition upd_x402 :: "(x402_invoice \<Rightarrow> bool) \<Rightarrow> (x402_invoice \<Rightarrow> x402_invoice) \<Rightarrow> unit stmt" where
  "upd_x402 P f d = Inr ((), d\<lparr>x402_invoices := upd_where P f (x402_invoices d)\<rparr>)"

definition find_x402 :: "string \<Rightarrow> db \<Rightarrow> x402_invoice option" where
  "find_x402 uid d = find (\<lambda>x. xi_uid x = uid) (x402_invoices d)"

definition find_token :: "int \<Rightarrow> string \<Rightarrow> string option \<Rightarrow> db \<Rightarrow> pay_token option" where
  "find_token chain symb addr d = find (\<lambda>t. pt_chain_id t = chain \<and> pt_symbol t = symb
     \<and> (case token_erc20 t of None \<Rightarrow> [] | Some a \<Rightarrow> a) = (case addr of None \<Rightarrow> [] | Some a \<Rightarrow> a)
     \<and> pt_active t) (pay_tokens d)"

definition invoice_row :: "ctx \<Rightarrow> evm \<Rightarrow> start_req \<Rightarrow> string \<Rightarrow> video \<Rightarrow> nat \<Rightarrow> x402_invoice" where
  "invoice_row C E b buyer v amount = (let uid = fresh_uuid C ''x402.invoice'' in
     \<lparr> xi_id = 0, xi_uid = uid, xi_hash = Some (ev_hex66 E (ev_keccak E uid)), xi_user = buyer,
       xi_video = sr_video b, xi_creator = v_owner v, xi_chain = sr_chain b, xi_symbol = sr_symbol b,
       xi_token = sr_token b, xi_required = Some (int amount), xi_paid = Some 0,
       xi_token_amount = int amount, xi_price = v_price v, xi_status = ''pending'', xi_payer = None,
       xi_tx = None, xi_aff_ref = None, xi_expires = Some (plus_secs (now C) 600), xi_paid_at = None \<rparr>)"

definition add_u64 :: "int \<Rightarrow> int \<Rightarrow> nat" where
  "add_u64 a b = nat ((a + b) mod 2 ^ 64)"

text \<open>The tuple the contract verifies, in its order, and the hash that is signed.\<close>

definition payment_hash ::
  "ctx \<Rightarrow> evm \<Rightarrow> start_req \<Rightarrow> string \<Rightarrow> string \<Rightarrow> string \<Rightarrow> nat \<Rightarrow> nat \<Rightarrow> string" where
  "payment_hash C E b uid creator payer amount deadline =
     (let token = (case Option.bind (sr_token b) (ev_address E) of Some a \<Rightarrow> a | None \<Rightarrow> zero_address);
          payload = ev_abi E [AFixedBytes (ev_keccak E uid), AAddress token, AUint amount,
            AAddress creator, AUint (nat (creator_split_bp (cfg C))), AFixedBytes (ev_keccak E (sr_video b)),
            AAddress payer, AUint deadline]
      in ev_keccak E (chr 25 # ''Ethereum Signed Message:'' @ chr 10 # ''32'' @ ev_keccak E payload))"

text \<open>
  Neither a failed insertion of the invoice nor a failed update of its referral stops the
  request.
\<close>

definition x402_store :: "ctx \<Rightarrow> evm \<Rightarrow> start_req \<Rightarrow> string \<Rightarrow> video \<Rightarrow> nat \<Rightarrow> db \<Rightarrow> db" where
  "x402_store C E b buyer v amount d =
     (let row = invoice_row C E b buyer v amount;
          d1 = snd (run_write C ''x402.insert'' (ins_x402 row) d)
      in case sr_ref b of
           None \<Rightarrow> d1
         | Some r \<Rightarrow> if r = [] then d1
             else snd (run_write C ''x402.ref'' (upd_x402 (\<lambda>x. xi_uid x = xi_uid row)
                    (\<lambda>x. x\<lparr>xi_aff_ref := Some r\<rparr>)) d1))"

definition x402_sign :: "ctx \<Rightarrow> evm \<Rightarrow> start_req \<Rightarrow> string \<Rightarrow> string \<Rightarrow> string \<Rightarrow> nat \<Rightarrow> json" where
  "x402_sign C E b creator_wallet creator payer amount =
     (let uid = fresh_uuid C ''x402.invoice'';
          contract = (case env_var C ''X402_CONTRACT_ADDRESS'' of Some x \<Rightarrow> x | None \<Rightarrow> []);
          deadline = add_u64 (unix_secs (now C)) (x402_deadline_secs (cfg C));
          key = (case env_var C ''X402_ADMIN_PRIVKEY'' of Some k \<Rightarrow> k | None \<Rightarrow> [])
      in if key = [] then jerr ''X402_ADMIN_PRIVKEY not set''
         else (case ev_wallet E key of
            None \<Rightarrow> jerr ''bad admin privkey''
          | Some w \<Rightarrow>
         (case ev_sign E w (payment_hash C E b uid creator payer amount deadline) of
            Inl e \<Rightarrow> jerr (''sign: '' @ e)
          | Inr (v, r, s) \<Rightarrow>
              jok [(''invoice_uid'', JStr uid), (''invoice_uid_bytes32'', JStr (ev_hex66 E (ev_keccak E uid))),
                (''video_id'', JStr (sr_video b)), (''chain_id'', JNum (sr_chain b)),
                (''symbol'', JStr (sr_symbol b)), (''token_address'', jopt (sr_token b)),
                (''amount_wei'', JStr (string_of_nat amount)), (''min_amount_wei'', JStr (string_of_nat amount)),
                (''deadline'', JNum (int deadline)), (''v'', JNum (int (v mod 256))),
                (''r'', JStr (ev_hexnum E r)), (''s'', JStr (ev_hexnum E s)),
                (''split_creator_bp'', JNum (creator_split_bp (cfg C))),
                (''split_admin_bp'', JNum (10000 - creator_split_bp (cfg C))),
                (''x402_contract'', JStr contract), (''creator_wallet'', JStr creator_wallet)])))"

definition x402_start :: "ctx \<Rightarrow> evm \<Rightarrow> start_req \<Rightarrow> db \<Rightarrow> json \<times> db" where
  "x402_start C E b d0 =
     (if \<not> x402_enabled (load_payment_settings C d0)
      then (jerr ''x402 payment is currently disabled by admin'', d0)
      else
     (case current_user_id C d0 of
        (None, d) \<Rightarrow> (not_logged_in, d)
      | (Some (buyer, _), d) \<Rightarrow>
     if sr_video b = [] \<or> sr_chain b = 0 \<or> sr_symbol b = [] then (jerr ''invalid params'', d)
     else
     (case ev_address E (sr_payer b) of
        None \<Rightarrow> (jerr ''invalid payer_address'', d)
      | Some payer \<Rightarrow>
     (case (case run_read C ''x402.video'' (video_with_owner (sr_video b)) d of Inr r \<Rightarrow> r | Inl _ \<Rightarrow> None) of
        None \<Rightarrow> (no_such_video C (sr_video b) d, d)
      | Some (v, u) \<Rightarrow>
     (case u_wallet u of
        None \<Rightarrow> (jerr ''creator has no wallet'', d)
      | Some wallet \<Rightarrow>
     if wallet = [] then (jerr ''creator has no wallet'', d)
     else
     (case ev_address E wallet of
        None \<Rightarrow> (jerr ''invalid creator wallet'', d)
      | Some creator \<Rightarrow>
     (case (case run_read C ''x402.token'' (find_token (sr_chain b) (sr_symbol b) (sr_token b)) d of
              Inr r \<Rightarrow> r | Inl _ \<Rightarrow> None) of
        None \<Rightarrow> (jerr ''token not supported'', d)
      | Some t \<Rightarrow>
     let amount = token_amount (v_price v) (pt_decimals t) in
     if amount = 0 then (jerr ''calculated amount is zero'', d)
     else (x402_sign C E b wallet creator payer amount, x402_store C E b buyer v amount d))))))))"
section \<open>Confirming a payment\<close>

text \<open>The \<open>Paid\<close> event of the contract, as its ABI.\<close>

definition paid_event_abi :: "event_param list" where
  "paid_event_abi =
     [\<lparr> ep_name = ''invoiceUid'', ep_kind = ''bytes32'', ep_indexed = True \<rparr>,
      \<lparr> ep_name = ''payer'', ep_kind = ''address'', ep_indexed = True \<rparr>,
      \<lparr> ep_name = ''creator'', ep_kind = ''address'', ep_indexed = True \<rparr>,
      \<lparr> ep_name = ''admin'', ep_kind = ''address'', ep_indexed = False \<rparr>,
      \<lparr> ep_name = ''token'', ep_kind = ''address'', ep_indexed = False \<rparr>,
      \<lparr> ep_name = ''amountWei'', ep_kind = ''uint256'', ep_indexed = False \<rparr>,
      \<lparr> ep_name = ''videoId'', ep_kind = ''string'', ep_indexed = False \<rparr>]"

fun jstr :: "json option \<Rightarrow> string option" where
  "jstr (Some (JStr s)) = Some s"
| "jstr _ = None"

fun jarr :: "json option \<Rightarrow> json list option" where
  "jarr (Some (JArr xs)) = Some xs"
| "jarr _ = None"

definition str_or_empty :: "json option \<Rightarrow> string" where
  "str_or_empty j = (case jstr j of Some s \<Rightarrow> s | None \<Rightarrow> [])"

text \<open>\<open>trim_start_matches("0x")\<close> removes the prefix as often as it is there.\<close>

fun strip_0x :: "string \<Rightarrow> string" where
  "strip_0x (a # b # s) = (if a = CHR ''0'' \<and> b = CHR ''x'' then strip_0x s else a # b # s)"
| "strip_0x s = s"

text \<open>The topics and data of a log that passes the filters of the scan.\<close>

definition paid_log :: "ctx \<Rightarrow> string \<Rightarrow> string \<Rightarrow> string \<Rightarrow> json \<Rightarrow> json list option" where
  "paid_log C contract paid_signature invoice_topic log =
     (if to_lowercase C (str_or_empty (jget ''address'' log)) \<noteq> contract then None
      else
      let topics = (case jarr (jget ''topics'' log) of Some ts \<Rightarrow> ts | None \<Rightarrow> []) in
      case topics of
        t0 # t1 # _ \<Rightarrow>
          if to_lowercase C (str_or_empty (Some t0)) \<noteq> paid_signature then None
          else if to_lowercase C (str_or_empty (Some t1)) \<noteq> invoice_topic then None
          else Some topics
      | _ \<Rightarrow> None)"

definition parse_paid :: "evm \<Rightarrow> json list \<Rightarrow> json \<Rightarrow> (string \<times> event_token) list option" where
  "parse_paid E topics log =
     (let data = (case ev_unhex E (strip_0x (str_or_empty (jget ''data'' log))) of Some b \<Rightarrow> b | None \<Rightarrow> []);
          hs = List.map_filter (ev_h256 E) (List.map_filter (\<lambda>t. jstr (Some t)) topics)
      in ev_parse_log E paid_event_abi hs data)"

definition event_amount :: "(string \<times> event_token) list \<Rightarrow> nat option" where
  "event_amount ps = (case map_of ps ''amountWei'' of Some (EUint a) \<Rightarrow> Some a | _ \<Rightarrow> None)"

definition event_video :: "(string \<times> event_token) list \<Rightarrow> string option" where
  "event_video ps = (case map_of ps ''videoId'' of Some (EString v) \<Rightarrow> Some v | _ \<Rightarrow> None)"

text \<open>The scan stops at the first log that passes the filters and decodes.\<close>

fun scan_logs :: "ctx \<Rightarrow> evm \<Rightarrow> string \<Rightarrow> string \<Rightarrow> string \<Rightarrow> json list \<Rightarrow> nat option \<times> string option" where
  "scan_logs C E contract sig topic [] = (None, None)"
| "scan_logs C E contract sig topic (log # logs) =
    (case paid_log C contract sig topic log of
       None \<Rightarrow> scan_logs C E contract sig topic logs
     | Some topics \<Rightarrow>
         (case parse_paid E topics log of
            None \<Rightarrow> scan_logs C E contract sig topic logs
          | Some ps \<Rightarrow> (event_amount ps, event_video ps)))"

text \<open>What the chain says about the transaction: an error, or amount and video of its event.\<close>

definition verify_receipt :: "ctx \<Rightarrow> evm \<Rightarrow> string option \<Rightarrow> string \<Rightarrow> json + nat option \<times> string option" where
  "verify_receipt C E inv_hash tx_hash =
     (let env = (\<lambda>k. case env_var C k of Some v \<Rightarrow> v | None \<Rightarrow> []) in
      if env ''X402_RPC_HTTP'' = [] then Inl (jerr ''X402_RPC_HTTP not set'')
      else
      (case ev_rpc E (env ''X402_RPC_HTTP'') tx_hash of
         Inl e \<Rightarrow> Inl (jerr (''rpc: '' @ e))
       | Inr (Inl e) \<Rightarrow> Inl (jerr (''rpc parse: '' @ e))
       | Inr (Inr receipt) \<Rightarrow>
           let result = jget ''result'' receipt;
               field = (\<lambda>k. Option.bind result (jget k));
               status = (case jstr (field ''status'') of Some s \<Rightarrow> s | None \<Rightarrow> ''0x0'') in
           if status \<noteq> ''0x1'' then Inl (jerr ''tx failed'')
           else Inr (scan_logs C E (to_lowercase C (env ''X402_CONTRACT_ADDRESS''))
                  (to_lowercase C (''0x'' @ ev_topic E ''Paid'' paid_event_abi))
                  (to_lowercase C (case inv_hash of Some h \<Rightarrow> h | None \<Rightarrow> []))
                  (case jarr (field ''logs'') of Some ls \<Rightarrow> ls | None \<Rightarrow> []))))"

definition eq_ignore_case :: "string \<Rightarrow> string \<Rightarrow> bool" where
  "eq_ignore_case a b \<longleftrightarrow> ascii_lower a = ascii_lower b"

text \<open>The rows a confirmed payment leaves; the failure of any of the statements is dropped.\<close>

definition unlock_video :: "ctx \<Rightarrow> string \<Rightarrow> string \<Rightarrow> string \<Rightarrow> db \<Rightarrow> db" where
  "unlock_video C site uid vid d =
     (let d1 = snd (run_write C (site @ ''.purchase'') (ins_purchase (now C) (pg_text C (now C)) uid vid) d);
          name = (case run_read C (site @ ''.username'') (find_user uid) d1 of
             Inr (Some u) \<Rightarrow> u_username u | _ \<Rightarrow> [])
      in if name = [] then d1
         else snd (run_write C (site @ ''.allow'') (ins_allow vid name) d1))"

definition x402_commission :: "ctx \<Rightarrow> x402_invoice \<Rightarrow> db \<Rightarrow> db" where
  "x402_commission C invc d =
     (case (case run_read C ''confirm.ref'' (find_x402 (xi_uid invc)) d of
              Inr (Some x) \<Rightarrow> xi_aff_ref x | _ \<Rightarrow> None) of
        None \<Rightarrow> d
      | Some ref \<Rightarrow>
          if ref = [] then d
          else (case run_read C ''confirm.extra'' (find_x402 (xi_uid invc)) d of
             Inr (Some x) \<Rightarrow> snd (process_affiliate_commission C (xi_video invc) (xi_user invc) (xi_creator x)
                               (xi_price x) ref ''x402'' (Some (xi_uid invc)) d)
           | _ \<Rightarrow> d))"

definition record_payment :: "ctx \<Rightarrow> x402_invoice \<Rightarrow> string \<Rightarrow> nat \<Rightarrow> bool \<Rightarrow> db \<Rightarrow> db" where
  "record_payment C invc tx_hash paid full d =
     snd (run_write C ''confirm.update'' (upd_x402 (\<lambda>x. xi_id x = xi_id invc)
       (\<lambda>x. x\<lparr>xi_status := (if full then ''paid'' else ''underpaid''), xi_paid_at := Some (now C),
              xi_tx := Some tx_hash,
              xi_paid := Some ((case xi_paid x of Some p \<Rightarrow> p | None \<Rightarrow> 0) + int paid)\<rparr>)) d)"

definition underpaid_answer :: "int \<Rightarrow> nat \<Rightarrow> json" where
  "underpaid_answer required paid = JObj [(''ok'', JBool False), (''underpaid'', JBool True),
     (''missing_wei'', JStr (string_of_int (max (required - int paid) 0))),
     (''message'', JStr ''Payment below required amount. Please top up the remainder to unlock.'')]"

definition x402_confirm :: "ctx \<Rightarrow> evm \<Rightarrow> string \<Rightarrow> string \<Rightarrow> db \<Rightarrow> json \<times> db" where
  "x402_confirm C E invoice_uid tx_hash d =
     (if invoice_uid = [] \<or> tx_hash = [] then (jerr ''invalid params'', d)
      else
      (case (case run_read C ''confirm.invoice'' (find_x402 invoice_uid) d of Inr r \<Rightarrow> r | Inl _ \<Rightarrow> None) of
         None \<Rightarrow> (jerr ''invoice not found'', d)
       | Some invc \<Rightarrow>
      if xi_status invc = ''paid''
      then (jok [(''status'', JStr ''paid''), (''replayed'', JBool True),
              (''same_tx'', JBool (case xi_tx invc of Some t \<Rightarrow> eq_ignore_case t tx_hash | None \<Rightarrow> False))], d)
      else
      (case verify_receipt C E (xi_hash invc) tx_hash of
         Inl j \<Rightarrow> (j, d)
       | Inr (None, _) \<Rightarrow> (jerr ''Paid event not found'', d)
       | Inr (Some paid, ev_vid) \<Rightarrow>
      if (case ev_vid of Some v \<Rightarrow> v \<noteq> xi_video invc | None \<Rightarrow> False)
      then (jerr ''mismatched videoId in event'', d)
      else
      let required = (case xi_required invc of Some r \<Rightarrow> r | None \<Rightarrow> 0);
          full = (required \<le> int paid);
          d1 = record_payment C invc tx_hash paid full d in
      if \<not> full then (underpaid_answer required paid, d1)
      else
      let d2 = unlock_video C ''confirm'' (xi_user invc) (xi_video invc) d1;
          d3 = x402_commission C invc d2
      in (jok [(''status'', JStr ''paid'')], d3))))"


section \<open>Prices\<close>

record price_entry =
  ce_at :: instant
  ce_json :: json

type_synonym price_cache = "string \<Rightarrow> price_entry option"

text \<open>
  \<open>fetch\<close> is the request to CoinGecko: an error of the transport, another status, a body that
  does not parse, or the parsed body.
\<close>

datatype fetched = FetchFailed string | HttpStatus string | BadBody string | Body json

definition crypto_price ::
  "instant \<Rightarrow> (string \<Rightarrow> string \<Rightarrow> fetched) \<Rightarrow> string \<Rightarrow> string option \<Rightarrow> price_cache \<Rightarrow> json \<times> price_cache" where
  "crypto_price nw fetch q_ids q_vs cache =
     (let ids = trim q_ids in
      if ids = [] then (jerr ''ids required'', cache)
      else
      let quotes = (case q_vs of None \<Rightarrow> ''idr'' | Some v \<Rightarrow> v);
          key = ids @ ''|'' @ quotes;
          hit = (case cache key of
             None \<Rightarrow> None
           | Some e \<Rightarrow> if max 0 (nanos nw - nanos (ce_at e)) < 60 * 1000000000 then Some (ce_json e) else None)
      in case hit of
           Some j \<Rightarrow> (jok [(''data'', j)], cache)
         | None \<Rightarrow>
             (case fetch ids quotes of
                Body j \<Rightarrow> (jok [(''data'', j)], cache(key \<mapsto> \<lparr> ce_at = nw, ce_json = j \<rparr>))
              | BadBody e \<Rightarrow> (jerr (''parse: '' @ e), cache)
              | HttpStatus s \<Rightarrow> (jerr (''coingecko http '' @ s), cache)
              | FetchFailed e \<Rightarrow> (jerr (''fetch: '' @ e), cache)))"

end
