(* ===== verification/X402Properties.thy ===== *)
theory X402Properties
  imports X402 Access Demo
begin

text \<open>
  The properties of payments on a chain: the amount asked for, what a confirmation unlocks and
  what happens to a payment below the required amount.
\<close>

section \<open>The amount\<close>

text \<open>C16. The amount asked for is the price in base units rounded up, exact whenever the product
  fits 128 bits; in particular for every 64-bit price and every token of at most 18 decimals.\<close>

lemma token_amount_exact:
  assumes "0 < price" "0 \<le> decimals" "decimals < 2 ^ 32" "nat price * 10 ^ nat decimals + 99 < 2 ^ 128"
  shows "token_amount price decimals = (nat price * 10 ^ nat decimals + 99) div 100"
proof -
  have "1 * 10 ^ nat decimals \<le> nat price * 10 ^ nat decimals"
    using assms(1) by (intro mult_right_mono) auto
  then have "10 ^ nat decimals < (2::nat) ^ 128" using assms(4) by linarith
  then have p: "10 ^ nat decimals mod (2::nat) ^ 128 = 10 ^ nat decimals" by simp
  have d: "decimals mod 2 ^ 32 = decimals" using assms(2,3) by simp
  show ?thesis
    using assms(1,4) unfolding token_amount_def Let_def d p u128_max_def by (simp add: min_def)
qed

lemma small_product:
  assumes "price < 2 ^ 63" "decimals \<le> 18"
  shows "nat price * 10 ^ nat decimals + 99 < 2 ^ 128"
proof -
  have "nat price \<le> 2 ^ 63" using assms(1) by simp
  moreover have "(10::nat) ^ nat decimals \<le> 10 ^ 18" using assms(2) by (intro power_increasing) auto
  ultimately have "nat price * 10 ^ nat decimals \<le> 2 ^ 63 * 10 ^ 18" by (rule mult_le_mono)
  moreover have "(2::nat) ^ 63 * 10 ^ 18 + 99 < 2 ^ 128" by simp
  ultimately show ?thesis by linarith
qed

lemma round_up_100: "0 < n \<Longrightarrow> n \<le> 100 * ((n + 99) div 100) \<and> 100 * ((n + 99) div 100) < n + 100
    \<and> 0 < (n + 99) div 100" for n :: nat
  using div_mult_mod_eq [of "n + 99" 100] mod_less_divisor [of 100 "n + 99"] by linarith

theorem token_amount_rounds_up:
  assumes "0 < price" "price < 2 ^ 63" "0 \<le> decimals" "decimals \<le> 18"
  shows "nat price * 10 ^ nat decimals \<le> 100 * token_amount price decimals
    \<and> 100 * token_amount price decimals < nat price * 10 ^ nat decimals + 100
    \<and> 0 < token_amount price decimals"
proof -
  have t: "token_amount price decimals = (nat price * 10 ^ nat decimals + 99) div 100"
    using assms by (intro token_amount_exact small_product) auto
  have "0 < nat price * 10 ^ nat decimals" using assms(1) by simp
  then show ?thesis unfolding t by (rule round_up_100)
qed

theorem token_amount_rounds_up_witness:
  "100 * token_amount 199 0 < 199 + 100 \<and> token_amount 199 0 = 2"
  using token_amount_rounds_up [of 199 0] by (simp add: token_amount_def u128_max_def)


section \<open>The invoice after a confirmation\<close>

lemma find_x402_upd:
  assumes "upd_x402 P f d = Inr (x, d')" "\<And>r. xi_uid (f r) = xi_uid r"
  shows "find_x402 uid d' = map_option (\<lambda>r. if P r then f r else r) (find_x402 uid d)"
  using assms by (auto simp: upd_x402_def find_x402_def find_upd_where)

lemma no_fault_write: "fault C = (\<lambda>_. None) \<Longrightarrow> run_write C s q d =
    (case q d of Inl c \<Rightarrow> (Inl (viol C c), d) | Inr (v, d') \<Rightarrow> (Inr v, d'))"
  by (auto simp: run_write_def split: sum.splits)

lemma no_fault_read: "fault C = (\<lambda>_. None) \<Longrightarrow> run_read C s q d = Inr (q d)"
  by (simp add: run_read_def)

lemma record_payment_fields:
  "users (record_payment C invc tx paid full d) = users d"
  "videos (record_payment C invc tx paid full d) = videos d"
  "purchases (record_payment C invc tx paid full d) = purchases d"
  "allowlist (record_payment C invc tx paid full d) = allowlist d"
  "wtxns (record_payment C invc tx paid full d) = wtxns d"
  by (simp_all add: record_payment_def run_write_def upd_x402_def split: option.splits fault.splits)

lemma record_payment_invoice:
  assumes "fault C = (\<lambda>_. None)" "find_x402 uid d = Some invc"
  shows "\<exists>x. find_x402 uid (record_payment C invc tx paid full d) = Some x
    \<and> xi_status x = (if full then ''paid'' else ''underpaid'') \<and> xi_tx x = Some tx
    \<and> xi_required x = xi_required invc
    \<and> xi_paid x = Some ((case xi_paid invc of Some p \<Rightarrow> p | None \<Rightarrow> 0) + int paid)"
  using assms
  by (auto simp: record_payment_def no_fault_write upd_x402_def find_x402_def find_upd_where)

text \<open>A payment below the required amount never unlocks the video, however much the invoice has
  received in total, although the answer asks for a top-up of the remainder: each confirmed
  transaction, also one confirmed before, is compared with the whole requirement, added to
  the total, and leaves the invoice underpaid.\<close>

theorem x402_topup_ignored:
  assumes "x402_confirm C E uid tx d = (j, d')" "fault C = (\<lambda>_. None)" "uid \<noteq> []" "tx \<noteq> []"
    and "find_x402 uid d = Some invc" "xi_status invc \<noteq> ''paid''" "xi_required invc = Some req"
    and "verify_receipt C E (xi_hash invc) tx = Inr (Some paid, ev)"
    and "ev = None \<or> ev = Some (xi_video invc)" "int paid < req"
  shows "\<not> answer_ok j \<and> jget ''missing_wei'' j = Some (JStr (string_of_int (req - int paid)))
    \<and> purchases d' = purchases d \<and> allowlist d' = allowlist d
    \<and> (\<exists>x. find_x402 uid d' = Some x \<and> xi_status x = ''underpaid''
         \<and> xi_paid x = Some ((case xi_paid invc of Some p \<Rightarrow> p | None \<Rightarrow> 0) + int paid))"
proof -
  have "j = underpaid_answer req paid" "d' = record_payment C invc tx paid False d"
    using assms by (auto simp: x402_confirm_def no_fault_read Let_def)
  then show ?thesis
    using assms(10) record_payment_invoice [OF assms(2,5), of tx paid False]
    by (auto simp: underpaid_answer_def answer_ok_def record_payment_fields)
qed


section \<open>A chain for the examples\<close>

text \<open>One receipt: a \<open>Paid\<close> event of 60 units for \<open>v1\<close> in the transaction \<open>0xt\<close>.\<close>

definition demo_log :: json where
  "demo_log = JObj [(''address'', JStr ''0xc0''),
     (''topics'', JArr [JStr ''0xsig'', JStr ''0xh'']), (''data'', JStr ''0x'')]"

definition demo_evm :: "nat \<Rightarrow> evm" where
  "demo_evm paid = \<lparr> ev_address = (\<lambda>s. Some s), ev_keccak = (\<lambda>s. s), ev_hex66 = (\<lambda>_. ''0xh''),
     ev_hexnum = string_of_nat, ev_abi = (\<lambda>_. []), ev_wallet = (\<lambda>s. Some s), ev_sign = (\<lambda>_ _. Inr (27, 1, 1)),
     ev_topic = (\<lambda>_ _. ''sig''), ev_unhex = (\<lambda>s. Some s), ev_h256 = (\<lambda>s. Some s),
     ev_parse_log = (\<lambda>_ _ _. Some [(''amountWei'', EUint paid), (''videoId'', EString ''v1'')]),
     ev_rpc = (\<lambda>_ _. Inr (Inr (JObj [(''result'',
        JObj [(''status'', JStr ''0x1''), (''logs'', JArr [demo_log])])]))) \<rparr>"

definition chain_ctx :: ctx where
  "chain_ctx = demo_ctx\<lparr>env_var := [''X402_RPC_HTTP'' \<mapsto> ''http://rpc'', ''X402_CONTRACT_ADDRESS'' \<mapsto> ''0xC0'',
     ''X402_ADMIN_PRIVKEY'' \<mapsto> ''k'']\<rparr>"

definition demo_invoice :: x402_invoice where
  "demo_invoice = \<lparr> xi_id = 1, xi_uid = ''i1'', xi_hash = Some ''0xH'', xi_user = ''u1'', xi_video = ''v1'',
     xi_creator = ''u2'', xi_chain = 137, xi_symbol = ''USDC'', xi_token = None, xi_required = Some 100,
     xi_paid = Some 60, xi_token_amount = 100, xi_price = 1000, xi_status = ''underpaid'', xi_payer = None,
     xi_tx = Some ''0xt'', xi_aff_ref = Some ''carol'', xi_expires = None, xi_paid_at = None \<rparr>"

definition invoice_db :: db where
  "invoice_db = demo_db\<lparr>x402_seq := 1, x402_invoices := [demo_invoice]\<rparr>"

lemmas chain_eval = verify_receipt_def paid_log_def parse_paid_def event_amount_def event_video_def
  str_or_empty_def find_x402_def demo_log_def demo_evm_def chain_ctx_def demo_invoice_def invoice_db_def
  List.map_filter_def

lemma demo_receipt: "verify_receipt chain_ctx (demo_evm n) (Some ''0xH'') ''0xt'' = Inr (Some n, Some ''v1'')"
  by (simp add: chain_eval demo_eval char_of_def bit_Suc_0_iff)

theorem x402_topup_ignored_witness:
  "\<exists>x. find_x402 ''i1'' (snd (x402_confirm chain_ctx (demo_evm 60) ''i1'' ''0xt'' invoice_db)) = Some x
     \<and> xi_status x = ''underpaid'' \<and> xi_paid x = Some 120 \<and> xi_required demo_invoice = Some 100"
proof -
  have "find_x402 ''i1'' invoice_db = Some demo_invoice" by (simp add: chain_eval)
  moreover have "fault chain_ctx = (\<lambda>_. None)" by (simp add: chain_ctx_def demo_ctx_def)
  moreover have "xi_status demo_invoice \<noteq> ''paid''" "xi_required demo_invoice = Some 100"
    "xi_hash demo_invoice = Some ''0xH''" "xi_video demo_invoice = ''v1''" "xi_paid demo_invoice = Some 60"
    by (simp_all add: demo_invoice_def)
  ultimately show ?thesis
    using x402_topup_ignored [OF surjective_pairing, of chain_ctx "''i1''" "''0xt''" invoice_db demo_invoice 100
        "demo_evm 60" 60 "Some ''v1''"] demo_receipt [of 60]
    by simp
qed


section \<open>What a confirmed payment unlocks\<close>

lemma username_put: "map_option u_username (find_user j (put_balance i b d)) = map_option u_username (find_user j d)"
  by (cases "find_user j d") (simp_all add: find_user_put)

lemma post_pair_more:
  "x402_invoices (post_pair nw a ta xa a_new na b xb b_new nb d) = x402_invoices d"
  "fiat_invoices (post_pair nw a ta xa a_new na b xb b_new nb d) = fiat_invoices d"
  "map_option u_username (find_user i (post_pair nw a ta xa a_new na b xb b_new nb d))
     = map_option u_username (find_user i d)"
  by (simp_all add: post_pair_def Let_def put_balance_fields add_wtxn_fields finds_add_wtxn username_put)

lemma commission_keeps:
  assumes "process_affiliate_commission C vid buyer owner price name meth ref d = (r, d')"
  shows "x402_invoices d' = x402_invoices d \<and> fiat_invoices d' = fiat_invoices d \<and> allowlist d' = allowlist d
    \<and> map_option u_username (find_user i d') = map_option u_username (find_user i d)"
proof -
  have "x402_invoices e = x402_invoices d \<and> fiat_invoices e = fiat_invoices d \<and> allowlist e = allowlist d
    \<and> map_option u_username (find_user i e) = map_option u_username (find_user i d)"
    if "e = commission_posted C vid buyer owner price aff meth ref cm x y d" for e aff cm x y
    unfolding that commission_posted_def Let_def
    by (simp add: post_pair_fields post_pair_more find_user_other)
  then show ?thesis
    using process_cases [OF assms] unfolding commission_paid_def by blast
qed

lemma unlock_video_allows:
  fixes site vid :: string
  assumes "fault C = (\<lambda>_. None)" "find_user uid d = Some u" "u_username u \<noteq> []"
  defines "d' \<equiv> unlock_video C site uid vid d"
  shows "allowed vid (u_username u) d'" "x402_invoices d' = x402_invoices d" "users d' = users d"
    "fiat_invoices d' = fiat_invoices d"
proof -
  let ?d1 = "snd (run_write C (site @ ''.purchase'') (ins_purchase (now C) (pg_text C (now C)) uid vid) d)"
  have d1: "users ?d1 = users d" "x402_invoices ?d1 = x402_invoices d" "fiat_invoices ?d1 = fiat_invoices d"
    by (auto simp: no_fault_write [OF assms(1)] ins_purchase_def Let_def split: sum.splits)
  have "find_user uid ?d1 = Some u" using assms(2) d1(1) by (simp add: find_user_def)
  then have "d' = snd (run_write C (site @ ''.allow'') (ins_allow vid (u_username u)) ?d1)"
    using assms(1,3) by (simp add: d'_def unlock_video_def Let_def no_fault_read)
  then show "allowed vid (u_username u) d'" "x402_invoices d' = x402_invoices d" "users d' = users d"
    "fiat_invoices d' = fiat_invoices d"
    using d1 by (auto simp: no_fault_write [OF assms(1)] ins_allow_def allowed_def)
qed


definition blocked_buyer_db :: db where
  "blocked_buyer_db = invoice_db\<lparr>blocks := [\<lparr> cb_creator = ''u2'', cb_blocked = ''u1'', cb_ban_type = ''hard'',
     cb_reason = None, cb_expires = None, cb_created = Instant 0 \<rparr>]\<rparr>"


end
