(* ===== verification/Plugins.thy ===== *)
theory Plugins
  imports X402 "HOL-Library.AList"
begin

text \<open>
  The payment providers behind one interface: \<open>src/src/plugins/payment\<close> (models, trait, registry,
  environment and the Stripe, PayPal, Midtrans, Xendit and x402 providers).  A provider is a
  record of functions, as the trait object of the code; creating an invoice takes the database
  because the x402 provider stores one of its own.
\<close>

section \<open>Models\<close>

datatype payment_status = Pending | Paid | Failed | Expired | Cancelled | Underpaid | Unknown

fun status_json :: "payment_status \<Rightarrow> json" where
  "status_json Pending = JStr ''pending''" | "status_json Paid = JStr ''paid''"
| "status_json Failed = JStr ''failed''" | "status_json Expired = JStr ''expired''"
| "status_json Cancelled = JStr ''cancelled''" | "status_json Underpaid = JStr ''underpaid''"
| "status_json Unknown = JStr ''unknown''"

fun status_debug :: "payment_status \<Rightarrow> string" where
  "status_debug Pending = ''Pending''" | "status_debug Paid = ''Paid''"
| "status_debug Failed = ''Failed''" | "status_debug Expired = ''Expired''"
| "status_debug Cancelled = ''Cancelled''" | "status_debug Underpaid = ''Underpaid''"
| "status_debug Unknown = ''Unknown''"

record create_request =
  cr_user :: string
  cr_video :: string
  cr_amount :: int
  cr_currency :: string
  cr_email :: "string option"
  cr_name :: "string option"
  cr_success :: "string option"
  cr_cancel :: "string option"
  cr_metadata :: "string \<Rightarrow> string option"

record invoice =
  in_provider :: string
  in_id :: string
  in_url :: "string option"
  in_amount :: int
  in_currency :: string
  in_status :: payment_status
  in_raw :: json

record confirm_request =
  cq_provider :: string
  cq_invoice :: string
  cq_txn :: "string option"
  cq_payload :: "json option"
  cq_headers :: "string \<Rightarrow> string option"

record payment_result =
  pr_provider :: string
  pr_invoice :: string
  pr_txn :: "string option"
  pr_status :: payment_status
  pr_amount :: int
  pr_currency :: string
  pr_raw :: json

record provider_config =
  pc_provider :: string
  pc_environment :: string
  pc_api_base :: "string option"
  pc_configured :: bool
  pc_required :: "string list"
  pc_missing :: "string list"

definition new_provider_config ::
  "string \<Rightarrow> string \<Rightarrow> string option \<Rightarrow> string list \<Rightarrow> string list \<Rightarrow> provider_config" where
  "new_provider_config p env api req missing =
     \<lparr> pc_provider = p, pc_environment = env, pc_api_base = api, pc_configured = (missing = []),
       pc_required = req, pc_missing = missing \<rparr>"

record capability =
  ca_provider :: string
  ca_name :: string
  ca_configured :: bool
  ca_environment :: string
  ca_api_base :: "string option"
  ca_redirect :: bool
  ca_webhook :: bool
  ca_manual :: bool
  ca_currencies :: "string list"
  ca_required :: "string list"
  ca_missing :: "string list"

record plugin =
  pl_key :: string
  pl_capability :: capability
  pl_create :: "create_request \<Rightarrow> db \<Rightarrow> (string + invoice) \<times> db"
  pl_confirm :: "confirm_request \<Rightarrow> string + payment_result"

definition plugin_capability ::
  "string \<Rightarrow> provider_config \<Rightarrow> bool \<Rightarrow> bool \<Rightarrow> bool \<Rightarrow> string list \<Rightarrow> capability" where
  "plugin_capability name c redirect webhook manual currencies =
     \<lparr> ca_provider = pc_provider c, ca_name = name, ca_configured = pc_configured c,
       ca_environment = pc_environment c, ca_api_base = pc_api_base c, ca_redirect = redirect,
       ca_webhook = webhook, ca_manual = manual, ca_currencies = currencies,
       ca_required = pc_required c, ca_missing = pc_missing c \<rparr>"


section \<open>The environment and the network\<close>

definition env_default :: "ctx \<Rightarrow> string \<Rightarrow> string \<Rightarrow> string" where
  "env_default C k v = (case env_var C k of Some x \<Rightarrow> x | None \<Rightarrow> v)"

definition missing_env :: "ctx \<Rightarrow> string list \<Rightarrow> string list" where
  "missing_env C required = filter (\<lambda>k. trim (env_default C k []) = []) required"

text \<open>\<open>{:?}\<close> of a vector of names.\<close>

definition debug_list :: "string list \<Rightarrow> string" where
  "debug_list xs = ''['' @ concat (case map (\<lambda>x. [CHR 0x22] @ x @ [CHR 0x22]) xs of
      [] \<Rightarrow> [] | y # ys \<Rightarrow> y # map (\<lambda>z. '', '' @ z) ys) @ '']''"

text \<open>
  \<open>w_send\<close> is an HTTP request: an error of the transport, or the status and the body, which may
  fail to parse.  \<open>w_b64\<close> is standard base64.  The digests give lower-case hexadecimal; \<open>w_cents\<close> is \<open>(v * 100.0) as i64\<close> of a
  parsed float, \<open>w_decimal\<close> prints cents with two decimals and \<open>w_share\<close> is the float product
  of an amount and a share in basis points, truncated.
\<close>

datatype http_body = Form "(string \<times> string) list" | JsonBody json

record http_request =
  hq_url :: string
  hq_auth :: string
  hq_body :: http_body

record web =
  w_send :: "http_request \<Rightarrow> string + nat \<times> (string + json)"
  w_status :: "nat \<Rightarrow> string"
  w_json :: "string \<Rightarrow> json option"
  w_bytes :: "json \<Rightarrow> string"
  w_b64 :: "string \<Rightarrow> string"
  w_unb64 :: "string \<Rightarrow> string option"
  w_hmac :: "string \<Rightarrow> string \<Rightarrow> string"
  w_sha512 :: "string \<Rightarrow> string"
  w_upper :: "string \<Rightarrow> string"
  w_cents :: "string \<Rightarrow> int option"
  w_decimal :: "int \<Rightarrow> string"
  w_share :: "int \<Rightarrow> int \<Rightarrow> int"

fun jint :: "json option \<Rightarrow> int option" where
  "jint (Some (JNum n)) = (if fits64 n then Some n else None)"
| "jint _ = None"

definition jpath :: "string list \<Rightarrow> json \<Rightarrow> json option" where
  "jpath ks j = foldl (\<lambda>x k. Option.bind x (jget k)) (Some j) ks"

definition opt_or :: "'a \<Rightarrow> 'a option \<Rightarrow> 'a" where
  "opt_or x v = (case v of None \<Rightarrow> x | Some y \<Rightarrow> y)"

definition http_ok :: "nat \<Rightarrow> bool" where
  "http_ok st \<longleftrightarrow> 200 \<le> st \<and> st < 300"


section \<open>Stripe\<close>

record stripe_plugin =
  st_config :: provider_config
  st_secret :: string
  st_webhook :: string

definition stripe_from_env :: "ctx \<Rightarrow> stripe_plugin" where
  "stripe_from_env C =
     (let required = [''STRIPE_SECRET_KEY'', ''STRIPE_WEBHOOK_SECRET''] in
      \<lparr> st_config = new_provider_config ''stripe'' (env_default C ''STRIPE_ENV'' ''test'')
          (Some ''https://api.stripe.com'') required (missing_env C required),
        st_secret = env_default C ''STRIPE_SECRET_KEY'' [],
        st_webhook = env_default C ''STRIPE_WEBHOOK_SECRET'' [] \<rparr>)"

definition stripe_verify :: "web \<Rightarrow> stripe_plugin \<Rightarrow> string \<Rightarrow> string \<Rightarrow> string + unit" where
  "stripe_verify W p raw sig_header =
     (let segments = split_on (CHR '','') sig_header;
          tss = List.map_filter (strip_prefix ''t='') segments;
          v1s = List.map_filter (strip_prefix ''v1='') segments
      in if tss = [] then Inl ''stripe: missing timestamp in Stripe-Signature''
         else if w_hmac W (st_webhook p) (last tss @ ''.'' @ raw) \<in> set v1s then Inr ()
         else Inl ''stripe: Stripe-Signature verification failed'')"

definition stripe_params :: "ctx \<Rightarrow> create_request \<Rightarrow> (string \<times> string) list" where
  "stripe_params C r =
     [(''mode'', ''payment''),
      (''line_items[0][price_data][currency]'', to_lowercase C (cr_currency r)),
      (''line_items[0][price_data][unit_amount]'', string_of_int (cr_amount r)),
      (''line_items[0][price_data][product_data][name]'', opt_or ''Video'' (cr_metadata r ''video_title'')),
      (''line_items[0][quantity]'', ''1''),
      (''success_url'', opt_or ''https://example.com/pay/success'' (cr_success r)
          @ ''?session_id={CHECKOUT_SESSION_ID}''),
      (''cancel_url'', opt_or ''https://example.com/pay/cancel'' (cr_cancel r)),
      (''metadata[invoice_uid]'', opt_or [] (cr_metadata r ''invoice_uid'')),
      (''metadata[video_id]'', cr_video r), (''metadata[user_id]'', cr_user r)]
     @ (case cr_email r of Some e \<Rightarrow> if e = [] then [] else [(''customer_email'', e)] | None \<Rightarrow> [])"

definition stripe_create :: "ctx \<Rightarrow> web \<Rightarrow> stripe_plugin \<Rightarrow> create_request \<Rightarrow> string + invoice" where
  "stripe_create C W p r =
     (if \<not> pc_configured (st_config p)
      then Inl (''Stripe plugin not configured: '' @ debug_list (pc_missing (st_config p)))
      else
      (case w_send W \<lparr> hq_url = ''https://api.stripe.com/v1/checkout/sessions'', hq_auth = st_secret p @ '':'',
               hq_body = Form (stripe_params C r) \<rparr> of
         Inl e \<Rightarrow> Inl (''stripe: HTTP error: '' @ e)
       | Inr (st, Inl e) \<Rightarrow> Inl (''stripe: response parse error: '' @ e)
       | Inr (st, Inr body) \<Rightarrow>
           if \<not> http_ok st
           then Inl (''stripe: API '' @ w_status W st @ '': '' @
                  opt_or ''unknown'' (jstr (jpath [''error'', ''message''] body)))
           else Inr \<lparr> in_provider = ''stripe'', in_id = opt_or [] (cr_metadata r ''invoice_uid''),
                  in_url = jstr (jget ''url'' body), in_amount = cr_amount r, in_currency = cr_currency r,
                  in_status = Pending,
                  in_raw = JObj [(''session_id'', JStr (str_or_empty (jget ''id'' body)))] \<rparr>))"

definition stripe_status :: "string \<Rightarrow> json \<Rightarrow> payment_status" where
  "stripe_status event_type event =
     (if event_type = ''checkout.session.completed''
      then (if jstr (jpath [''data'', ''object'', ''payment_status''] event) = Some ''paid'' then Paid else Pending)
      else if event_type = ''payment_intent.succeeded'' then Paid
      else if event_type = ''payment_intent.payment_failed'' then Failed
      else if event_type = ''checkout.session.expired'' then Expired
      else Unknown)"

text \<open>The bytes the provider signed: the base64 the webhook handler stored, else the payload again.\<close>

definition raw_payload :: "web \<Rightarrow> json \<Rightarrow> string" where
  "raw_payload W payload =
     (case jstr (jget ''__raw__'' payload) of
        Some b \<Rightarrow> opt_or [] (w_unb64 W b)
      | None \<Rightarrow> w_bytes W payload)"

definition stripe_confirm :: "ctx \<Rightarrow> web \<Rightarrow> stripe_plugin \<Rightarrow> confirm_request \<Rightarrow> string + payment_result" where
  "stripe_confirm C W p r =
     (if \<not> pc_configured (st_config p)
      then Inl (''Stripe plugin not configured: '' @ debug_list (pc_missing (st_config p)))
      else
      (case cq_payload r of
         None \<Rightarrow> Inl ''stripe: no webhook payload''
       | Some payload \<Rightarrow>
      (case coalesce (cq_headers r ''stripe-signature'') (cq_headers r ''Stripe-Signature'') of
         None \<Rightarrow> Inl ''stripe: missing Stripe-Signature header''
       | Some sig \<Rightarrow>
      let raw = raw_payload W payload in
      (case stripe_verify W p raw sig of
         Inl e \<Rightarrow> Inl e
       | Inr _ \<Rightarrow>
      (case w_json W raw of
         None \<Rightarrow> Inl (viol C ''stripe: event is not JSON'')
       | Some event \<Rightarrow>
           let obj = (\<lambda>ks. jpath ([''data'', ''object''] @ ks) event) in
           Inr \<lparr> pr_provider = ''stripe'', pr_invoice = str_or_empty (obj [''metadata'', ''invoice_uid'']),
             pr_txn = jstr (obj [''payment_intent'']),
             pr_status = stripe_status (str_or_empty (jget ''type'' event)) event,
             pr_amount = opt_or 0 (jint (obj [''amount_total''])),
             pr_currency = w_upper W (opt_or ''usd'' (jstr (obj [''currency'']))), pr_raw = event \<rparr>)))))"

definition stripe_provider :: "ctx \<Rightarrow> web \<Rightarrow> plugin" where
  "stripe_provider C W = (let p = stripe_from_env C in
     \<lparr> pl_key = ''stripe'',
       pl_capability = plugin_capability ''Stripe'' (st_config p) True True False [''USD'', ''EUR'', ''IDR''],
       pl_create = (\<lambda>r d. (stripe_create C W p r, d)), pl_confirm = stripe_confirm C W p \<rparr>)"


section \<open>Midtrans\<close>

record midtrans_plugin =
  mt_config :: provider_config
  mt_key :: string
  mt_snap :: string

definition midtrans_from_env :: "ctx \<Rightarrow> midtrans_plugin" where
  "midtrans_from_env C =
     (let env = env_default C ''MIDTRANS_ENV'' ''sandbox''; live = (env \<in> {''production'', ''live''});
          required = [''MIDTRANS_SERVER_KEY'', ''MIDTRANS_CLIENT_KEY''] in
      \<lparr> mt_config = new_provider_config ''midtrans'' env (Some (if live then ''https://api.midtrans.com''
            else ''https://api.sandbox.midtrans.com'')) required (missing_env C required),
        mt_key = env_default C ''MIDTRANS_SERVER_KEY'' [],
        mt_snap = (if live then ''https://app.midtrans.com/snap/v1''
           else ''https://app.sandbox.midtrans.com/snap/v1'') \<rparr>)"

definition midtrans_signature :: "web \<Rightarrow> midtrans_plugin \<Rightarrow> string \<Rightarrow> string \<Rightarrow> string \<Rightarrow> string" where
  "midtrans_signature W p order_id status_code gross_amount =
     w_sha512 W (order_id @ status_code @ gross_amount @ mt_key p)"

definition snap_body :: "create_request \<Rightarrow> json" where
  "snap_body r =
     (let uid = JStr (opt_or [] (cr_metadata r ''invoice_uid''));
          cancel = JStr (opt_or ''https://example.com/pay/cancel'' (cr_cancel r)) in
      JObj [(''transaction_details'', JObj [(''order_id'', uid), (''gross_amount'', JNum (cr_amount r))]),
        (''item_details'', JArr [JObj [(''id'', JStr (cr_video r)), (''price'', JNum (cr_amount r)),
           (''quantity'', JNum 1), (''name'', JStr (opt_or ''Video'' (cr_metadata r ''video_title'')))]]),
        (''customer_details'', JObj [(''first_name'', JStr (opt_or ''Buyer'' (cr_metadata r ''buyer_name''))),
           (''email'', JStr (opt_or [] (cr_email r)))]),
        (''callbacks'', JObj [(''finish'', JStr (opt_or ''https://example.com/pay/success'' (cr_success r))),
           (''error'', cancel), (''pending'', cancel)])])"

definition midtrans_create :: "ctx \<Rightarrow> web \<Rightarrow> midtrans_plugin \<Rightarrow> create_request \<Rightarrow> string + invoice" where
  "midtrans_create C W p r =
     (if \<not> pc_configured (mt_config p)
      then Inl (''Midtrans plugin not configured: '' @ debug_list (pc_missing (mt_config p)))
      else
      (case w_send W \<lparr> hq_url = mt_snap p @ ''/transactions'', hq_auth = ''Basic '' @ w_b64 W (mt_key p @ '':''),
               hq_body = JsonBody (snap_body r) \<rparr> of
         Inl e \<Rightarrow> Inl (''midtrans: snap request failed: '' @ e)
       | Inr (st, Inl e) \<Rightarrow> Inl (''midtrans: snap response parse error: '' @ e)
       | Inr (st, Inr body) \<Rightarrow>
           if \<not> http_ok st
           then Inl (''midtrans: API '' @ w_status W st @ '': '' @
                  opt_or ''unknown'' (case jarr (jget ''error_messages'' body) of
                     Some (m # _) \<Rightarrow> jstr (Some m) | _ \<Rightarrow> None))
           else Inr \<lparr> in_provider = ''midtrans'', in_id = opt_or [] (cr_metadata r ''invoice_uid''),
                  in_url = jstr (jget ''redirect_url'' body), in_amount = cr_amount r, in_currency = ''IDR'',
                  in_status = Pending,
                  in_raw = JObj [(''snap_token'', JStr (str_or_empty (jget ''token'' body)))] \<rparr>))"

definition midtrans_status :: "string \<Rightarrow> string \<Rightarrow> payment_status" where
  "midtrans_status txn fraud =
     (if txn = ''capture'' \<and> fraud \<in> {''accept'', ''challenge''} \<or> txn = ''settlement'' then Paid
      else if txn \<in> {''deny'', ''failure''} then Failed
      else if txn = ''cancel'' then Cancelled
      else if txn = ''expire'' then Expired
      else if txn = ''pending'' then Pending
      else Unknown)"

definition midtrans_confirm :: "web \<Rightarrow> midtrans_plugin \<Rightarrow> confirm_request \<Rightarrow> string + payment_result" where
  "midtrans_confirm W p r =
     (if \<not> pc_configured (mt_config p)
      then Inl (''Midtrans plugin not configured: '' @ debug_list (pc_missing (mt_config p)))
      else
      (case cq_payload r of
         None \<Rightarrow> Inl ''midtrans: no webhook payload''
       | Some payload \<Rightarrow>
      let str = (\<lambda>k dflt. opt_or dflt (jstr (jget k payload)));
          order_id = str ''order_id'' []; gross = str ''gross_amount'' ''0'' in
      if midtrans_signature W p order_id (str ''status_code'' []) gross \<noteq> str ''signature_key'' []
      then Inl ''midtrans: webhook signature mismatch''
      else Inr \<lparr> pr_provider = ''midtrans'', pr_invoice = order_id,
             pr_txn = jstr (jget ''transaction_id'' payload),
             pr_status = midtrans_status (str ''transaction_status'' []) (str ''fraud_status'' ''accept''),
             pr_amount = opt_or 0 (parse_i64 (takeWhile (\<lambda>c. c \<noteq> CHR ''.'') gross)),
             pr_currency = ''IDR'', pr_raw = payload \<rparr>))"

definition midtrans_provider :: "ctx \<Rightarrow> web \<Rightarrow> plugin" where
  "midtrans_provider C W = (let p = midtrans_from_env C in
     \<lparr> pl_key = ''midtrans'',
       pl_capability = plugin_capability ''Midtrans'' (mt_config p) True True False [''IDR''],
       pl_create = (\<lambda>r d. (midtrans_create C W p r, d)), pl_confirm = midtrans_confirm W p \<rparr>)"

section \<open>PayPal\<close>

record paypal_plugin =
  pp_config :: provider_config
  pp_client :: string
  pp_secret :: string
  pp_webhook :: string
  pp_api :: string

definition paypal_from_env :: "ctx \<Rightarrow> paypal_plugin" where
  "paypal_from_env C =
     (let env = env_default C ''PAYPAL_ENV'' ''sandbox'';
          api = (if env \<in> {''live'', ''production''} then ''https://api-m.paypal.com''
             else ''https://api-m.sandbox.paypal.com'');
          required = [''PAYPAL_CLIENT_ID'', ''PAYPAL_CLIENT_SECRET'', ''PAYPAL_WEBHOOK_ID''] in
      \<lparr> pp_config = new_provider_config ''paypal'' env (Some api) required (missing_env C required),
        pp_client = env_default C ''PAYPAL_CLIENT_ID'' [], pp_secret = env_default C ''PAYPAL_CLIENT_SECRET'' [],
        pp_webhook = env_default C ''PAYPAL_WEBHOOK_ID'' [], pp_api = api \<rparr>)"

definition paypal_token :: "web \<Rightarrow> paypal_plugin \<Rightarrow> string + string" where
  "paypal_token W p =
     (case w_send W \<lparr> hq_url = pp_api p @ ''/v1/oauth2/token'', hq_auth = pp_client p @ '':'' @ pp_secret p,
            hq_body = Form [(''grant_type'', ''client_credentials'')] \<rparr> of
        Inl e \<Rightarrow> Inl (''paypal: token request failed: '' @ e)
      | Inr (_, Inl e) \<Rightarrow> Inl (''paypal: token parse failed: '' @ e)
      | Inr (_, Inr body) \<Rightarrow>
          (case jstr (jget ''access_token'' body) of
             None \<Rightarrow> Inl ''paypal: no access_token in response''
           | Some t \<Rightarrow> Inr t))"

definition format_amount :: "web \<Rightarrow> int \<Rightarrow> string \<Rightarrow> string" where
  "format_amount W amount currency =
     (if w_upper W currency \<in> {''IDR'', ''JPY'', ''HUF'', ''TWD''} then string_of_int amount
      else w_decimal W amount)"

definition order_body :: "web \<Rightarrow> create_request \<Rightarrow> json" where
  "order_body W r = JObj [(''intent'', JStr ''CAPTURE''),
     (''purchase_units'', JArr [JObj
        [(''amount'', JObj [(''currency_code'', JStr (w_upper W (cr_currency r))),
            (''value'', JStr (format_amount W (cr_amount r) (cr_currency r)))]),
         (''custom_id'', JStr (opt_or [] (cr_metadata r ''invoice_uid''))),
         (''description'', JStr (''Video: '' @ opt_or ''Video'' (cr_metadata r ''video_title'')))]]),
     (''application_context'', JObj
        [(''return_url'', JStr (opt_or ''https://example.com/pay/success'' (cr_success r))),
         (''cancel_url'', JStr (opt_or ''https://example.com/pay/cancel'' (cr_cancel r))),
         (''user_action'', JStr ''PAY_NOW''), (''shipping_preference'', JStr ''NO_SHIPPING'')])]"

definition paypal_create :: "web \<Rightarrow> paypal_plugin \<Rightarrow> create_request \<Rightarrow> string + invoice" where
  "paypal_create W p r =
     (if \<not> pc_configured (pp_config p)
      then Inl (''PayPal plugin not configured: '' @ debug_list (pc_missing (pp_config p)))
      else
      (case paypal_token W p of
         Inl e \<Rightarrow> Inl e
       | Inr token \<Rightarrow>
      (case w_send W \<lparr> hq_url = pp_api p @ ''/v2/checkout/orders'', hq_auth = ''Bearer '' @ token,
               hq_body = JsonBody (order_body W r) \<rparr> of
         Inl e \<Rightarrow> Inl (''paypal: create order request failed: '' @ e)
       | Inr (st, Inl e) \<Rightarrow> Inl (''paypal: order response parse error: '' @ e)
       | Inr (st, Inr body) \<Rightarrow>
           if \<not> http_ok st then Inl (''paypal: API '' @ w_status W st @ '': '' @ w_bytes W body)
           else
           let approve = (case jarr (jget ''links'' body) of
                 None \<Rightarrow> None
               | Some ls \<Rightarrow> Option.bind (find (\<lambda>l. jstr (jget ''rel'' l) = Some ''approve'') ls)
                    (\<lambda>l. jstr (jget ''href'' l)))
           in Inr \<lparr> in_provider = ''paypal'', in_id = opt_or [] (cr_metadata r ''invoice_uid''),
                in_url = approve, in_amount = cr_amount r, in_currency = cr_currency r, in_status = Pending,
                in_raw = JObj [(''order_id'', JStr (str_or_empty (jget ''id'' body)))] \<rparr>)))"

definition paypal_status :: "string \<Rightarrow> payment_status" where
  "paypal_status event_type =
     (if event_type \<in> {''CHECKOUT.ORDER.APPROVED'', ''PAYMENT.CAPTURE.COMPLETED''} then Paid
      else if event_type \<in> {''PAYMENT.CAPTURE.DENIED'', ''PAYMENT.CAPTURE.DECLINED''} then Failed
      else if event_type = ''CHECKOUT.ORDER.CANCELLED'' then Cancelled
      else Unknown)"

definition paypal_verify_body :: "paypal_plugin \<Rightarrow> confirm_request \<Rightarrow> json \<Rightarrow> json" where
  "paypal_verify_body p r payload =
     (let h = (\<lambda>k. JStr (opt_or [] (cq_headers r k))) in
      JObj [(''auth_algo'', h ''paypal-auth-algo''), (''cert_url'', h ''paypal-cert-url''),
        (''transmission_id'', h ''paypal-transmission-id''), (''transmission_sig'', h ''paypal-transmission-sig''),
        (''transmission_time'', h ''paypal-transmission-time''), (''webhook_id'', JStr (pp_webhook p)),
        (''webhook_event'', payload)])"

text \<open>PayPal's answer on the authenticity of a webhook.\<close>

definition paypal_verify :: "web \<Rightarrow> paypal_plugin \<Rightarrow> string \<Rightarrow> confirm_request \<Rightarrow> json \<Rightarrow> string + json" where
  "paypal_verify W p token r payload =
     (case w_send W \<lparr> hq_url = pp_api p @ ''/v1/notifications/verify-webhook-signature'',
            hq_auth = ''Bearer '' @ token, hq_body = JsonBody (paypal_verify_body p r payload) \<rparr> of
        Inl e \<Rightarrow> Inl (''paypal: webhook verify request failed: '' @ e)
      | Inr (_, Inl e) \<Rightarrow> Inl (''paypal: webhook verify parse error: '' @ e)
      | Inr (_, Inr vr) \<Rightarrow>
          if jstr (jget ''verification_status'' vr) \<noteq> Some ''SUCCESS''
          then Inl (''paypal: webhook signature invalid: '' @ w_bytes W (opt_or JNull (jget ''verification_status'' vr)))
          else Inr vr)"

definition paypal_confirm :: "web \<Rightarrow> paypal_plugin \<Rightarrow> confirm_request \<Rightarrow> string + payment_result" where
  "paypal_confirm W p r =
     (if \<not> pc_configured (pp_config p)
      then Inl (''PayPal plugin not configured: '' @ debug_list (pc_missing (pp_config p)))
      else
      (case cq_payload r of
         None \<Rightarrow> Inl ''paypal: no webhook payload''
       | Some payload \<Rightarrow>
      (case paypal_token W p of
         Inl e \<Rightarrow> Inl e
       | Inr token \<Rightarrow>
      (case paypal_verify W p token r payload of
         Inl e \<Rightarrow> Inl e
       | Inr _ \<Rightarrow>
      let res = (\<lambda>ks. jpath (''resource'' # ks) payload);
          unit_id = (case jarr (res [''purchase_units'']) of
             Some (u # _) \<Rightarrow> jstr (jget ''custom_id'' u) | _ \<Rightarrow> None)
      in Inr \<lparr> pr_provider = ''paypal'',
           pr_invoice = opt_or (str_or_empty (res [''custom_id''])) unit_id,
           pr_txn = jstr (res [''id'']),
           pr_status = paypal_status (str_or_empty (jget ''event_type'' payload)),
           pr_amount = opt_or 0 (Option.bind (jstr (res [''amount'', ''value''])) (w_cents W)),
           pr_currency = w_upper W (opt_or ''USD'' (jstr (res [''amount'', ''currency_code'']))),
           pr_raw = payload \<rparr>))))"

definition paypal_provider :: "ctx \<Rightarrow> web \<Rightarrow> plugin" where
  "paypal_provider C W = (let p = paypal_from_env C in
     \<lparr> pl_key = ''paypal'',
       pl_capability = plugin_capability ''PayPal'' (pp_config p) True True False [''USD'', ''EUR'', ''IDR''],
       pl_create = (\<lambda>r d. (paypal_create W p r, d)), pl_confirm = paypal_confirm W p \<rparr>)"


section \<open>Xendit\<close>

record xendit_plugin =
  xe_config :: provider_config
  xe_secret :: string
  xe_token :: string

definition xendit_from_env :: "ctx \<Rightarrow> xendit_plugin" where
  "xendit_from_env C =
     (let required = [''XENDIT_SECRET_KEY'', ''XENDIT_WEBHOOK_TOKEN''] in
      \<lparr> xe_config = new_provider_config ''xendit'' (env_default C ''XENDIT_ENV'' ''test'')
          (Some ''https://api.xendit.co'') required (missing_env C required),
        xe_secret = env_default C ''XENDIT_SECRET_KEY'' [],
        xe_token = env_default C ''XENDIT_WEBHOOK_TOKEN'' [] \<rparr>)"

definition parse_bank_account :: "web \<Rightarrow> string \<Rightarrow> (string \<times> string \<times> string) option" where
  "parse_bank_account W s =
     (case find_str ''a/n'' s of
        None \<Rightarrow> None
      | Some (before, after) \<Rightarrow>
          (case words before of
             bank # account # _ \<Rightarrow>
               let holder = trim (drop 3 after) in
               if holder = [] then None else Some (w_upper W bank, account, holder)
           | _ \<Rightarrow> None))"

definition env_split_bp :: "ctx \<Rightarrow> int" where
  "env_split_bp C = min (opt_or 9000 (Option.bind (env_var C ''CREATOR_SPLIT_BP'') (parse_uint 16))) 10000"

definition disburse_to_creator :: "ctx \<Rightarrow> web \<Rightarrow> xendit_plugin \<Rightarrow> string \<Rightarrow> int \<Rightarrow> string \<Rightarrow> string + json" where
  "disburse_to_creator C W p bank_account amount uid =
     (case parse_bank_account W bank_account of
        None \<Rightarrow> Inl (''xendit: invalid bank_account: '' @ bank_account)
      | Some (bank, account, holder) \<Rightarrow>
     (case w_send W \<lparr> hq_url = ''https://api.xendit.co/disbursements'', hq_auth = xe_secret p @ '':'',
            hq_body = JsonBody (JObj [(''external_id'', JStr (uid @ ''-creator'')),
              (''amount'', JNum (w_share W amount (env_split_bp C))), (''bank_code'', JStr bank),
              (''account_holder_name'', JStr holder), (''account_number'', JStr account),
              (''description'', JStr (''PPV creator payout for '' @ uid))]) \<rparr> of
        Inl e \<Rightarrow> Inl (''xendit: disbursement request failed: '' @ e)
      | Inr (st, Inl e) \<Rightarrow> Inl (''xendit: disbursement parse error: '' @ e)
      | Inr (st, Inr result) \<Rightarrow>
          if \<not> http_ok st
          then Inl (''xendit: disbursement API '' @ w_status W st @ '': ''
                 @ opt_or ''unknown'' (jstr (jget ''message'' result)))
          else Inr result))"

definition xendit_create :: "web \<Rightarrow> xendit_plugin \<Rightarrow> create_request \<Rightarrow> string + invoice" where
  "xendit_create W p r =
     (if \<not> pc_configured (xe_config p)
      then Inl (''Xendit plugin not configured: '' @ debug_list (pc_missing (xe_config p)))
      else
      (case w_send W \<lparr> hq_url = ''https://api.xendit.co/v2/invoices'', hq_auth = xe_secret p @ '':'',
               hq_body = JsonBody (JObj [(''external_id'', JStr (opt_or [] (cr_metadata r ''invoice_uid''))),
                 (''amount'', JNum (cr_amount r)), (''currency'', JStr (w_upper W (cr_currency r))),
                 (''description'', JStr (''Video: '' @ opt_or ''Video'' (cr_metadata r ''video_title''))),
                 (''payer_email'', JStr (opt_or [] (cr_email r))),
                 (''customer'', JObj [(''given_names'', JStr (opt_or ''Buyer'' (cr_metadata r ''buyer_name'')))]),
                 (''success_redirect_url'', JStr (opt_or ''https://example.com/pay/success'' (cr_success r))),
                 (''failure_redirect_url'', JStr (opt_or ''https://example.com/pay/cancel'' (cr_cancel r)))]) \<rparr> of
         Inl e \<Rightarrow> Inl (''xendit: invoice request failed: '' @ e)
       | Inr (st, Inl e) \<Rightarrow> Inl (''xendit: invoice parse error: '' @ e)
       | Inr (st, Inr body) \<Rightarrow>
           if \<not> http_ok st
           then Inl (''xendit: API '' @ w_status W st @ '': '' @ opt_or ''unknown'' (jstr (jget ''message'' body)))
           else Inr \<lparr> in_provider = ''xendit'', in_id = opt_or [] (cr_metadata r ''invoice_uid''),
                  in_url = jstr (jget ''invoice_url'' body), in_amount = cr_amount r, in_currency = cr_currency r,
                  in_status = Pending,
                  in_raw = JObj [(''xendit_invoice_id'', JStr (str_or_empty (jget ''id'' body)))] \<rparr>))"

definition xendit_status :: "string \<Rightarrow> payment_status" where
  "xendit_status s = (if s \<in> {''PAID'', ''SETTLED''} then Paid else if s = ''EXPIRED'' then Expired else Pending)"

definition xendit_confirm :: "web \<Rightarrow> xendit_plugin \<Rightarrow> confirm_request \<Rightarrow> string + payment_result" where
  "xendit_confirm W p r =
     (if \<not> pc_configured (xe_config p)
      then Inl (''Xendit plugin not configured: '' @ debug_list (pc_missing (xe_config p)))
      else
      (case cq_payload r of
         None \<Rightarrow> Inl ''xendit: no webhook payload''
       | Some payload \<Rightarrow>
      (case cq_headers r ''x-callback-token'' of
         None \<Rightarrow> Inl ''xendit: missing x-callback-token header''
       | Some token \<Rightarrow>
      if token \<noteq> xe_token p then Inl ''xendit: x-callback-token mismatch''
      else Inr \<lparr> pr_provider = ''xendit'', pr_invoice = str_or_empty (jget ''external_id'' payload),
             pr_txn = jstr (jget ''id'' payload),
             pr_status = xendit_status (opt_or ''PENDING'' (jstr (jget ''status'' payload))),
             pr_amount = opt_or 0 (coalesce (jint (jget ''paid_amount'' payload)) (jint (jget ''amount'' payload))),
             pr_currency = w_upper W (opt_or ''IDR'' (jstr (jget ''currency'' payload))), pr_raw = payload \<rparr>)))"

definition xendit_provider :: "ctx \<Rightarrow> web \<Rightarrow> plugin" where
  "xendit_provider C W = (let p = xendit_from_env C in
     \<lparr> pl_key = ''xendit'',
       pl_capability = plugin_capability ''Xendit'' (xe_config p) True True False [''IDR'', ''PHP'', ''USD''],
       pl_create = (\<lambda>r d. (xendit_create W p r, d)), pl_confirm = xendit_confirm W p \<rparr>)"

section \<open>x402\<close>

definition x402_config :: "ctx \<Rightarrow> bool \<Rightarrow> provider_config" where
  "x402_config C with_pool =
     (let required = [''X402_CONTRACT_ADDRESS'', ''X402_RPC_HTTP'', ''X402_ADMIN_PRIVKEY''] in
      new_provider_config ''x402'' (env_default C ''X402_CHAIN_ID'' ''evm'') (env_var C ''X402_RPC_HTTP'')
        required (missing_env C required @ (if with_pool then [] else [''DATABASE_POOL''])))"

definition required_metadata :: "create_request \<Rightarrow> string \<Rightarrow> string + string" where
  "required_metadata r key =
     (case cr_metadata r key of
        Some v \<Rightarrow> if trim v = [] then Inl (''missing x402 metadata field: '' @ key) else Inr v
      | None \<Rightarrow> Inl (''missing x402 metadata field: '' @ key))"

text \<open>The fields read from the metadata: chain, symbol, payer and token.\<close>

definition x402_request :: "ctx \<Rightarrow> create_request \<Rightarrow> string + start_req" where
  "x402_request C r =
     (case required_metadata r ''chain_id'' of
        Inl e \<Rightarrow> Inl e
      | Inr chain \<Rightarrow>
     (case parse_i64 chain of
        None \<Rightarrow> Inl (viol C ''invalid digit found in string'')
      | Some chain_id \<Rightarrow>
     (case required_metadata r ''symbol'' of
        Inl e \<Rightarrow> Inl e
      | Inr symb \<Rightarrow>
     (case required_metadata r ''payer_address'' of
        Inl e \<Rightarrow> Inl e
      | Inr payer \<Rightarrow>
          Inr \<lparr> sr_video = cr_video r, sr_chain = chain_id, sr_symbol = symb,
            sr_token = (case cr_metadata r ''token_address'' of
               Some t \<Rightarrow> if trim t = [] then None else Some t | None \<Rightarrow> None),
            sr_payer = payer, sr_ref = None \<rparr>))))"

text \<open>As \<open>token_amount\<close>; more than 38 decimals are refused, so the power does not wrap.\<close>

definition x402_plugin_amount :: "create_request \<Rightarrow> video \<Rightarrow> pay_token \<Rightarrow> string + int \<times> nat" where
  "x402_plugin_amount r v t =
     (let d = pt_decimals t mod 2 ^ 32;
          price = (if 0 < cr_amount r then cr_amount r else v_price v) in
      if 38 < d then Inl (''unsupported token decimals: '' @ string_of_int d)
      else if token_amount price d = 0 then Inl ''calculated x402 token amount is zero''
      else Inr (price, token_amount price d))"

definition x402_plugin_raw ::
  "ctx \<Rightarrow> evm \<Rightarrow> start_req \<Rightarrow> string \<Rightarrow> string \<Rightarrow> string \<Rightarrow> string \<Rightarrow> nat \<Rightarrow> string + json" where
  "x402_plugin_raw C E b uid wallet creator payer amount =
     (let bp = env_split_bp C;
          deadline = add_u64 (unix_secs (now C))
             (opt_or 900 (Option.bind (env_var C ''X402_DEADLINE_SECS'') (parse_uint 64)));
          C' = C\<lparr>cfg := (cfg C)\<lparr>creator_split_bp := bp\<rparr>\<rparr> in
      (case ev_wallet E (env_default C ''X402_ADMIN_PRIVKEY'' []) of
         None \<Rightarrow> Inl ''bad X402_ADMIN_PRIVKEY''
       | Some w \<Rightarrow>
      (case ev_sign E w (payment_hash C' E b uid creator payer amount deadline) of
         Inl e \<Rightarrow> Inl e
       | Inr (v, r, s) \<Rightarrow>
           Inr (JObj [(''invoice_uid'', JStr uid), (''invoice_uid_bytes32'', JStr (ev_hex66 E (ev_keccak E uid))),
             (''video_id'', JStr (sr_video b)), (''chain_id'', JNum (sr_chain b)), (''symbol'', JStr (sr_symbol b)),
             (''token_address'', jopt (sr_token b)), (''amount_wei'', JStr (string_of_nat amount)),
             (''min_amount_wei'', JStr (string_of_nat amount)), (''deadline'', JNum (int deadline)),
             (''v'', JNum (int (v mod 256))), (''r'', JStr (ev_hexnum E r)), (''s'', JStr (ev_hexnum E s)),
             (''split_creator_bp'', JNum bp), (''split_admin_bp'', JNum (10000 - bp)),
             (''x402_contract'', JStr (env_default C ''X402_CONTRACT_ADDRESS'' [])),
             (''creator_wallet'', JStr wallet)]))))"

text \<open>Every failed query ends the creation with its error (\<open>?\<close>), also a failed insertion.\<close>

definition x402_plugin_create ::
  "ctx \<Rightarrow> evm \<Rightarrow> bool \<Rightarrow> create_request \<Rightarrow> db \<Rightarrow> (string + invoice) \<times> db" where
  "x402_plugin_create C E with_pool r d =
     (let c = x402_config C with_pool in
      if \<not> pc_configured c
      then (Inl (''x402 plugin configuration is incomplete: '' @ debug_list (pc_missing c)), d)
      else if \<not> with_pool then (Inl ''x402 plugin has no database pool'', d)
      else
      (case x402_request C r of
         Inl e \<Rightarrow> (Inl e, d)
       | Inr b \<Rightarrow>
      (case ev_address E (sr_payer b) of
         None \<Rightarrow> (Inl ''invalid x402 payer_address'', d)
       | Some payer \<Rightarrow>
      (case run_read C ''x402plugin.video'' (video_with_owner (cr_video r)) d of
         Inl e \<Rightarrow> (Inl e, d)
       | Inr None \<Rightarrow> (Inl ''video not found'', d)
       | Inr (Some (v, u)) \<Rightarrow>
      (case u_wallet u of
         None \<Rightarrow> (Inl ''creator has no wallet'', d)
       | Some wallet \<Rightarrow>
      if trim wallet = [] then (Inl ''creator has no wallet'', d)
      else
      (case ev_address E wallet of
         None \<Rightarrow> (Inl ''invalid creator wallet'', d)
       | Some creator \<Rightarrow>
      (case run_read C ''x402plugin.token'' (find_token (sr_chain b) (sr_symbol b) (sr_token b)) d of
         Inl e \<Rightarrow> (Inl e, d)
       | Inr None \<Rightarrow> (Inl ''token not supported'', d)
       | Inr (Some t) \<Rightarrow>
      (case x402_plugin_amount r v t of
         Inl e \<Rightarrow> (Inl e, d)
       | Inr (price, amount) \<Rightarrow>
      let uid = fresh_uuid C ''x402plugin.invoice'';
          row = (invoice_row C E b (cr_user r) v amount)\<lparr>xi_uid := uid,
             xi_hash := Some (ev_hex66 E (ev_keccak E uid)), xi_price := price\<rparr> in
      (case run_write C ''x402plugin.insert'' (ins_x402 row) d of
         (Inl e, d1) \<Rightarrow> (Inl e, d1)
       | (Inr _, d1) \<Rightarrow>
           (case x402_plugin_raw C E b uid wallet creator payer amount of
              Inl e \<Rightarrow> (Inl e, d1)
            | Inr raw \<Rightarrow>
                (Inr \<lparr> in_provider = ''x402'', in_id = uid, in_url = None, in_amount = price,
                   in_currency = cr_currency r, in_status = Pending, in_raw = raw \<rparr>, d1)))))))))))"

definition x402_plugin_confirm :: "ctx \<Rightarrow> bool \<Rightarrow> confirm_request \<Rightarrow> string + payment_result" where
  "x402_plugin_confirm C with_pool r =
     (let c = x402_config C with_pool in
      if \<not> pc_configured c
      then Inl (''x402 plugin configuration is incomplete: '' @ debug_list (pc_missing c))
      else Inl (''x402 plugin confirmation is not enabled yet. Use legacy POST ''
             @ ''/api/pay/x402/confirm for now''))"

definition x402_provider :: "ctx \<Rightarrow> evm \<Rightarrow> bool \<Rightarrow> plugin" where
  "x402_provider C E with_pool =
     \<lparr> pl_key = ''x402'',
       pl_capability = plugin_capability ''x402'' (x402_config C with_pool) False False True
          [''USDC'', ''MATIC'', ''ETH''],
       pl_create = x402_plugin_create C E with_pool, pl_confirm = x402_plugin_confirm C with_pool \<rparr>"


section \<open>The registry\<close>

record registry =
  rg_plugins :: "(string \<times> plugin) list"
  rg_default :: "string option"

definition new_registry :: registry where
  "new_registry = \<lparr> rg_plugins = [], rg_default = None \<rparr>"

definition register :: "plugin \<Rightarrow> registry \<Rightarrow> registry" where
  "register p R = R\<lparr>rg_plugins := AList.update (pl_key p) p (rg_plugins R)\<rparr>"

definition registry_get :: "registry \<Rightarrow> string \<Rightarrow> plugin option" where
  "registry_get R provider = map_of (rg_plugins R) (ascii_lower provider)"

definition registry_names :: "registry \<Rightarrow> string list" where
  "registry_names R = sort (map fst (rg_plugins R))"

definition first_name :: "registry \<Rightarrow> string option" where
  "first_name R = (case registry_names R of [] \<Rightarrow> None | n # _ \<Rightarrow> Some n)"

definition default_plugin :: "registry \<Rightarrow> plugin option" where
  "default_plugin R = Option.bind (rg_default R) (registry_get R)"

definition known_plugins :: "ctx \<Rightarrow> web \<Rightarrow> evm \<Rightarrow> plugin list" where
  "known_plugins C W E = [paypal_provider C W, stripe_provider C W, midtrans_provider C W,
     xendit_provider C W, x402_provider C E True]"

definition capabilities_from_env :: "ctx \<Rightarrow> web \<Rightarrow> evm \<Rightarrow> capability list" where
  "capabilities_from_env C W E = map pl_capability (known_plugins C W E)"

definition from_all_env_known :: "ctx \<Rightarrow> web \<Rightarrow> evm \<Rightarrow> registry" where
  "from_all_env_known C W E =
     (let R = fold register (known_plugins C W E) new_registry in R\<lparr>rg_default := first_name R\<rparr>)"

definition from_settings :: "ctx \<Rightarrow> web \<Rightarrow> evm \<Rightarrow> payment_settings \<Rightarrow> registry" where
  "from_settings C W E s =
     (let add = (\<lambda>on p R. if on then register p R else R);
          R = add (x402_enabled s) (x402_provider C E True)
             (add (xendit_enabled s) (xendit_provider C W)
             (add (midtrans_enabled s) (midtrans_provider C W)
             (add (stripe_enabled s) (stripe_provider C W)
             (add (paypal_enabled s) (paypal_provider C W) new_registry))));
          chosen = (case default_provider s of
             Some p \<Rightarrow> if p \<in> set (map fst (rg_plugins R)) then Some p else first_name R
           | None \<Rightarrow> first_name R)
      in R\<lparr>rg_default := chosen\<rparr>)"

text \<open>The plugins the environment names; an unknown or empty name is skipped.\<close>

definition from_env_registry :: "ctx \<Rightarrow> web \<Rightarrow> evm \<Rightarrow> bool \<Rightarrow> registry" where
  "from_env_registry C W E with_pool =
     (let names = map (\<lambda>v. ascii_lower (trim v))
            (split_on (CHR '','') (env_default C ''PAYMENT_PLUGINS'' ''x402,paypal,stripe,midtrans,xendit''));
          known = [(''paypal'', paypal_provider C W), (''stripe'', stripe_provider C W),
             (''midtrans'', midtrans_provider C W), (''xendit'', xendit_provider C W),
             (''x402'', x402_provider C E with_pool)];
          R = fold (\<lambda>n R. case map_of known n of Some p \<Rightarrow> register p R | None \<Rightarrow> R) names new_registry
      in R\<lparr>rg_default := (case env_var C ''PAYMENT_DEFAULT_PROVIDER'' of
              Some p \<Rightarrow> Some p | None \<Rightarrow> first_name R)\<rparr>)"

end
