(* ===== verification/FiatPayments.thy ===== *)
theory FiatPayments
  imports Plugins
begin

text \<open>
  \<open>src/src/handlers/payment_plugins.rs\<close>: invoices of the payment providers and their webhooks; and
  \<open>src/src/services/x402_watcher.rs\<close>, which grants access on the events of the chain.
\<close>

section \<open>Invoices\<close>

definition find_fiat :: "string \<Rightarrow> db \<Rightarrow> fiat_invoice option" where
  "find_fiat uid d = find (\<lambda>f. fi_uid f = uid) (fiat_invoices d)"

definition ins_fiat :: "fiat_invoice \<Rightarrow> unit stmt" where
  "ins_fiat f d =
     (if find_fiat (fi_uid f) d \<noteq> None then Inl ''fiat_invoices_invoice_uid_key''
      else if \<not> user_exists (fi_user f) d then Inl ''fiat_invoices_user_id_fkey''
      else if \<not> video_exists (fi_video f) d then Inl ''fiat_invoices_video_id_fkey''
      else if \<not> user_exists (fi_creator f) d then Inl ''fiat_invoices_creator_id_fkey''
      else Inr ((), d\<lparr>fiat_invoices := fiat_invoices d @ [f]\<rparr>))"

definition upd_fiat :: "string \<Rightarrow> (fiat_invoice \<Rightarrow> fiat_invoice) \<Rightarrow> unit stmt" where
  "upd_fiat uid f d = Inr ((), d\<lparr>fiat_invoices := upd_where (\<lambda>x. fi_uid x = uid) f (fiat_invoices d)\<rparr>)"

definition del_fiat :: "string \<Rightarrow> unit stmt" where
  "del_fiat uid d = Inr ((), d\<lparr>fiat_invoices := filter (\<lambda>x. fi_uid x \<noteq> uid) (fiat_invoices d)\<rparr>)"

record create_payload =
  cp_video :: string
  cp_currency :: string
  cp_email :: "string option"
  cp_name :: "string option"
  cp_success :: "string option"
  cp_cancel :: "string option"
  cp_ref :: "string option"
  cp_metadata :: "string \<Rightarrow> string option"

definition invoice_json :: "invoice \<Rightarrow> json" where
  "invoice_json i = JObj [(''provider'', JStr (in_provider i)), (''invoice_id'', JStr (in_id i)),
     (''payment_url'', jopt (in_url i)), (''amount_cents'', JNum (in_amount i)),
     (''currency'', JStr (in_currency i)), (''status'', status_json (in_status i)), (''raw'', in_raw i)]"

definition provider_error :: "string \<Rightarrow> string \<Rightarrow> json" where
  "provider_error provider e = JObj [(''ok'', JBool False), (''provider'', JStr provider), (''error'', JStr e)]"

definition no_provider :: "string \<Rightarrow> json" where
  "no_provider provider = jerr (''payment provider not found: '' @ provider)"

text \<open>The reference the provider will use: its order, invoice or session, else the invoice.\<close>

definition provider_ref_of :: "invoice \<Rightarrow> string \<Rightarrow> string" where
  "provider_ref_of i uid = opt_or uid (coalesce (jstr (jget ''order_id'' (in_raw i)))
     (coalesce (jstr (jget ''xendit_invoice_id'' (in_raw i))) (jstr (jget ''session_id'' (in_raw i)))))"

definition new_fiat :: "ctx \<Rightarrow> string \<Rightarrow> string \<Rightarrow> video \<Rightarrow> create_payload \<Rightarrow> string option \<Rightarrow> fiat_invoice" where
  "new_fiat C provider buyer v p email =
     \<lparr> fi_uid = fresh_uuid C ''fiat.invoice'', fi_provider = provider, fi_provider_ref = None, fi_user = buyer,
       fi_video = cp_video p, fi_creator = v_owner v, fi_amount = v_price v, fi_currency = cp_currency p,
       fi_status = ''pending'', fi_pay_url = None, fi_email = Some (opt_or [] email), fi_meta = None, fi_created = now C,
       fi_aff_ref = None, fi_paid_at = None, fi_disbursed_at = None, fi_disburse_ref = None \<rparr>"

definition plugin_request :: "string \<Rightarrow> string \<Rightarrow> video \<Rightarrow> create_payload \<Rightarrow> string option \<Rightarrow> create_request" where
  "plugin_request uid buyer v p email =
     \<lparr> cr_user = buyer, cr_video = cp_video p, cr_amount = v_price v, cr_currency = cp_currency p,
       cr_email = coalesce email (cp_email p), cr_name = cp_name p, cr_success = cp_success p,
       cr_cancel = cp_cancel p,
       cr_metadata = (cp_metadata p)(''invoice_uid'' \<mapsto> uid, ''video_title'' \<mapsto> v_title v) \<rparr>"

text \<open>The call of the provider, after the invoice is stored.\<close>

definition call_provider :: "ctx \<Rightarrow> plugin \<Rightarrow> string \<Rightarrow> string \<Rightarrow> create_request \<Rightarrow> db \<Rightarrow> json \<times> db" where
  "call_provider C pl provider uid request d =
     (case pl_create pl request d of
        (Inr i, d1) \<Rightarrow>
          (jok [(''provider'', JStr provider), (''invoice'', invoice_json i)],
           snd (run_write C ''fiat.ref'' (upd_fiat uid (\<lambda>f. f\<lparr>fi_provider_ref := Some (provider_ref_of i uid),
                  fi_pay_url := in_url i\<rparr>)) d1))
      | (Inl e, d1) \<Rightarrow>
          (provider_error provider e, snd (run_write C ''fiat.delete'' (del_fiat uid) d1)))"

definition create_invoice_with_provider ::
  "ctx \<Rightarrow> registry \<Rightarrow> string \<Rightarrow> create_payload \<Rightarrow> db \<Rightarrow> json \<times> db" where
  "create_invoice_with_provider C R provider p d0 =
     (case registry_get R provider of
        None \<Rightarrow> (no_provider provider, d0)
      | Some pl \<Rightarrow>
     (case current_user_id C d0 of
        (None, d) \<Rightarrow> (not_logged_in, d)
      | (Some (buyer, _), d) \<Rightarrow>
     (case run_read C ''fiat.video'' (find_video (cp_video p)) d of
        Inl e \<Rightarrow> (jerr (''db error: '' @ e), d)
      | Inr None \<Rightarrow> (jerr ''video not found'', d)
      | Inr (Some v) \<Rightarrow>
     if v_owner v = buyer then (jerr ''owners cannot buy their own video'', d)
     else if v_price v < 0 then (jerr ''invalid video price'', d)
     else
     let email = (case run_read C ''fiat.email'' (find_user buyer) d of Inr (Some u) \<Rightarrow> Some (u_email u) | _ \<Rightarrow> None);
         row = new_fiat C provider buyer v p email; uid = fi_uid row in
     (case run_write C ''fiat.insert'' (ins_fiat row) d of
        (Inl e, d1) \<Rightarrow> (jerr (''db insert error: '' @ e), d1)
      | (Inr _, d1) \<Rightarrow>
          let d2 = (case cp_ref p of
                 None \<Rightarrow> d1
               | Some r \<Rightarrow> if r = [] then d1
                   else snd (run_write C ''fiat.affref'' (upd_fiat uid (\<lambda>f. f\<lparr>fi_aff_ref := Some r\<rparr>)) d1))
          in call_provider C pl provider uid (plugin_request uid buyer v p email) d2))))"

definition runtime_registry :: "ctx \<Rightarrow> web \<Rightarrow> evm \<Rightarrow> db \<Rightarrow> registry" where
  "runtime_registry C W E d = from_settings C W E (load_payment_settings C d)"

definition no_default_provider :: json where
  "no_default_provider = jerr ''default payment provider is not configured''"

definition create_default_payment_invoice :: "ctx \<Rightarrow> web \<Rightarrow> evm \<Rightarrow> create_payload \<Rightarrow> db \<Rightarrow> json \<times> db" where
  "create_default_payment_invoice C W E p d =
     (let R = runtime_registry C W E d in
      case rg_default R of
        None \<Rightarrow> (no_default_provider, d)
      | Some provider \<Rightarrow> create_invoice_with_provider C R provider p d)"

definition create_payment_invoice :: "ctx \<Rightarrow> web \<Rightarrow> evm \<Rightarrow> string \<Rightarrow> create_payload \<Rightarrow> db \<Rightarrow> json \<times> db" where
  "create_payment_invoice C W E provider p d =
     create_invoice_with_provider C (runtime_registry C W E d) provider p d"

definition capability_json :: "payment_settings \<Rightarrow> capability \<Rightarrow> json" where
  "capability_json s c = JObj [(''provider'', JStr (ca_provider c)), (''display_name'', JStr (ca_name c)),
     (''configured'', JBool (ca_configured c)), (''environment'', JStr (ca_environment c)),
     (''api_base_url'', jopt (ca_api_base c)), (''supports_redirect_checkout'', JBool (ca_redirect c)),
     (''supports_webhook_confirmation'', JBool (ca_webhook c)),
     (''supports_manual_confirmation'', JBool (ca_manual c)),
     (''supported_currencies'', JArr (map JStr (ca_currencies c))),
     (''required_env'', JArr (map JStr (ca_required c))), (''missing_env'', JArr (map JStr (ca_missing c))),
     (''enabled'', JBool (is_provider_enabled s (ca_provider c)))]"

definition list_payment_plugins :: "ctx \<Rightarrow> web \<Rightarrow> evm \<Rightarrow> db \<Rightarrow> json" where
  "list_payment_plugins C W E d =
     jok [(''default_provider'', jopt (rg_default (runtime_registry C W E d))),
          (''providers'', JArr (map (capability_json (load_payment_settings C d)) (capabilities_from_env C W E)))]"


section \<open>Confirmation by hand\<close>

record confirm_payload =
  cf_invoice :: string
  cf_txn :: "string option"
  cf_payload :: "json option"
  cf_headers :: "string \<Rightarrow> string option"

definition payment_json :: "payment_result \<Rightarrow> json" where
  "payment_json r = JObj [(''provider'', JStr (pr_provider r)), (''invoice_id'', JStr (pr_invoice r)),
     (''transaction_id'', jopt (pr_txn r)), (''status'', status_json (pr_status r)),
     (''paid_amount_cents'', JNum (pr_amount r)), (''currency'', JStr (pr_currency r)), (''raw'', pr_raw r)]"

definition confirm_payment_with_provider :: "registry \<Rightarrow> string \<Rightarrow> confirm_payload \<Rightarrow> json" where
  "confirm_payment_with_provider R provider p =
     (case registry_get R provider of
        None \<Rightarrow> no_provider provider
      | Some pl \<Rightarrow>
          (case pl_confirm pl \<lparr> cq_provider = provider, cq_invoice = cf_invoice p, cq_txn = cf_txn p,
                  cq_payload = cf_payload p, cq_headers = cf_headers p \<rparr> of
             Inr r \<Rightarrow> jok [(''provider'', JStr provider), (''payment'', payment_json r)]
           | Inl e \<Rightarrow> provider_error provider e))"

definition confirm_default_payment :: "ctx \<Rightarrow> web \<Rightarrow> evm \<Rightarrow> confirm_payload \<Rightarrow> db \<Rightarrow> json" where
  "confirm_default_payment C W E p d =
     (let R = runtime_registry C W E d in
      case rg_default R of
        None \<Rightarrow> no_default_provider
      | Some provider \<Rightarrow> confirm_payment_with_provider R provider p)"

definition confirm_payment :: "ctx \<Rightarrow> web \<Rightarrow> evm \<Rightarrow> string \<Rightarrow> confirm_payload \<Rightarrow> json" where
  "confirm_payment C W E provider p = confirm_payment_with_provider (from_all_env_known C W E) provider p"


section \<open>Webhooks\<close>

text \<open>
  \<open>payload["__raw__"] = ...\<close>: serde makes an object of \<open>null\<close> and panics on any other value that
  is not an object.
\<close>

fun with_raw :: "json \<Rightarrow> string \<Rightarrow> json option" where
  "with_raw JNull raw = Some (JObj [(''__raw__'', JStr raw)])"
| "with_raw (JObj fs) raw = Some (JObj ((''__raw__'', JStr raw) # fs))"
| "with_raw _ raw = None"

text \<open>\<open>hs\<close> are the request's headers by lower-case name, those that are visible ASCII.\<close>

definition webhook_request ::
  "ctx \<Rightarrow> web \<Rightarrow> string \<Rightarrow> (string \<Rightarrow> string option) \<Rightarrow> string \<Rightarrow> confirm_request option" where
  "webhook_request C W provider hs body =
     map_option (\<lambda>payload. \<lparr> cq_provider = provider, cq_invoice = [], cq_txn = None,
         cq_payload = Some payload, cq_headers = hs \<rparr>)
       (with_raw (opt_or JNull (w_json W body)) (w_b64 W body))"

text \<open>The invoice with the users it names; the join finds nothing when one of them is gone.\<close>

definition fiat_with_users :: "string \<Rightarrow> db \<Rightarrow> (fiat_invoice \<times> user \<times> user) option" where
  "fiat_with_users uid d =
     (case find_fiat uid d of
        None \<Rightarrow> None
      | Some f \<Rightarrow>
          (case (find_user (fi_user f) d, find_user (fi_creator f) d) of
             (Some b, Some c) \<Rightarrow> Some (f, b, c)
           | _ \<Rightarrow> None))"

definition mark_fiat_paid :: "ctx \<Rightarrow> string \<Rightarrow> string option \<Rightarrow> db \<Rightarrow> db" where
  "mark_fiat_paid C uid txn d = snd (run_write C ''webhook.paid'' (upd_fiat uid (\<lambda>f. f\<lparr>fi_status := ''paid'',
     fi_paid_at := Some (now C), fi_provider_ref := coalesce (fi_provider_ref f) (Some (opt_or [] txn))\<rparr>)) d)"

definition grant_fiat :: "ctx \<Rightarrow> fiat_invoice \<Rightarrow> string \<Rightarrow> db \<Rightarrow> db" where
  "grant_fiat C f username d =
     (let d1 = snd (run_write C ''webhook.purchase''
             (ins_purchase (now C) (pg_text C (now C)) (fi_user f) (fi_video f)) d)
      in snd (run_write C ''webhook.allow'' (ins_allow (fi_video f) username) d1))"

definition fiat_commission :: "ctx \<Rightarrow> string \<Rightarrow> string \<Rightarrow> fiat_invoice \<Rightarrow> db \<Rightarrow> db" where
  "fiat_commission C provider uid f d =
     (case (case run_read C ''webhook.ref'' (find_fiat uid) d of Inr (Some x) \<Rightarrow> fi_aff_ref x | _ \<Rightarrow> None) of
        None \<Rightarrow> d
      | Some ref \<Rightarrow>
          if ref = [] then d
          else snd (process_affiliate_commission C (fi_video f) (fi_user f) (fi_creator f) (fi_amount f) ref
                 provider (Some uid) d))"

text \<open>The payout of Xendit, the only provider with one, when the creator has a bank account.\<close>

definition fiat_disburse :: "ctx \<Rightarrow> web \<Rightarrow> string \<Rightarrow> string \<Rightarrow> fiat_invoice \<Rightarrow> string option \<Rightarrow> db \<Rightarrow> db" where
  "fiat_disburse C W provider uid f bank d =
     (if provider \<noteq> ''xendit'' \<or> fi_disbursed_at f \<noteq> None then d
      else
      (case bank of
         None \<Rightarrow> d
       | Some b \<Rightarrow>
           if trim b = [] then d
           else
           (case disburse_to_creator C W (xendit_from_env C) b (fi_amount f) uid of
              Inl _ \<Rightarrow> d
            | Inr resp \<Rightarrow> snd (run_write C ''webhook.disbursed'' (upd_fiat uid (\<lambda>x.
                x\<lparr>fi_disbursed_at := Some (now C), fi_disburse_ref := Some (str_or_empty (jget ''id'' resp))\<rparr>)) d))))"

definition paid_answer :: "string \<Rightarrow> string \<Rightarrow> json" where
  "paid_answer uid vid = jok [(''status'', JStr ''paid''), (''invoice_id'', JStr uid), (''video_id'', JStr vid)]"

text \<open>What the webhook does with the provider's verified result.\<close>

definition settle_webhook :: "ctx \<Rightarrow> web \<Rightarrow> string \<Rightarrow> payment_result \<Rightarrow> db \<Rightarrow> json \<times> db" where
  "settle_webhook C W provider result d =
     (let uid = pr_invoice result in
      if pr_status result \<noteq> Paid
      then (jok [(''status'', JStr (status_debug (pr_status result))), (''invoice_id'', JStr uid)], d)
      else
      (case run_read C ''webhook.invoice'' (fiat_with_users uid) d of
         Inl _ \<Rightarrow> (jerr ''db error'', d)
       | Inr None \<Rightarrow> (jerr ''invoice not found'', d)
       | Inr (Some (f, buyer, creator)) \<Rightarrow>
           if fi_status f = ''paid'' \<and> fi_paid_at f \<noteq> None
           then (jok [(''status'', JStr ''paid''), (''invoice_id'', JStr uid), (''video_id'', JStr (fi_video f)),
                   (''replayed'', JBool True)], d)
           else
           let d1 = mark_fiat_paid C uid (pr_txn result) d;
               d2 = grant_fiat C f (u_username buyer) d1;
               d3 = fiat_commission C provider uid f d2;
               d4 = fiat_disburse C W provider uid f (u_bank creator) d3
           in (paid_answer uid (fi_video f), d4)))"

text \<open>\<open>None\<close> in the place of the answer is a panic of the handler.\<close>

definition handle_webhook ::
  "ctx \<Rightarrow> web \<Rightarrow> evm \<Rightarrow> string \<Rightarrow> (string \<Rightarrow> string option) \<Rightarrow> string \<Rightarrow> db \<Rightarrow> json option \<times> db" where
  "handle_webhook C W E provider hs body d =
     (case registry_get (from_all_env_known C W E) provider of
        None \<Rightarrow> (Some (no_provider provider), d)
      | Some pl \<Rightarrow>
     (case webhook_request C W provider hs body of
        None \<Rightarrow> (None, d)
      | Some request \<Rightarrow>
     (case pl_confirm pl request of
        Inl e \<Rightarrow> (Some (jerr e), d)
      | Inr result \<Rightarrow> apfst Some (settle_webhook C W provider result d))))"


section \<open>The watcher of the chain\<close>

text \<open>
  \<open>handle_paid_event\<close> for one event of the contract; an error of a query ends it (\<open>?\<close>).
\<close>

definition handle_paid_event :: "ctx \<Rightarrow> string \<Rightarrow> string \<Rightarrow> string \<Rightarrow> db \<Rightarrow> (string + unit) \<times> db" where
  "handle_paid_event C invoice_hash payer video_id d =
     (case run_read C ''watcher.invoice'' (\<lambda>d. find (\<lambda>x. (case xi_hash x of None \<Rightarrow> False
             | Some h \<Rightarrow> to_lowercase C h = invoice_hash)) (x402_invoices d)) d of
        Inl e \<Rightarrow> (Inl e, d)
      | Inr None \<Rightarrow> (Inr (), d)
      | Inr (Some row) \<Rightarrow>
     (case run_write C ''watcher.paid'' (upd_x402 (\<lambda>x. xi_id x = xi_id row) (\<lambda>x. x\<lparr>xi_status := ''paid'',
             xi_paid_at := Some (now C), xi_payer := Some payer\<rparr>)) d of
        (Inl e, d1) \<Rightarrow> (Inl e, d1)
      | (Inr _, d1) \<Rightarrow>
     (case run_read C ''watcher.username'' (find_user (xi_user row)) d1 of
        Inl e \<Rightarrow> (Inl e, d1)
      | Inr None \<Rightarrow> (Inl (viol C ''RowNotFound''), d1)
      | Inr (Some u) \<Rightarrow>
     if u_username u = [] then (Inr (), d1)
     else
     (case run_write C ''watcher.purchase''
             (ins_purchase (now C) (pg_text C (now C)) (xi_user row) video_id) d1 of
        (Inl e, d2) \<Rightarrow> (Inl e, d2)
      | (Inr _, d2) \<Rightarrow>
     (case run_write C ''watcher.allow'' (ins_allow video_id (u_username u)) d2 of
        (Inl e, d3) \<Rightarrow> (Inl e, d3)
      | (Inr _, d3) \<Rightarrow> (Inr (), d3))))))"

text \<open>
  The stream of a connection: each event with the context in which it arrives.  An event that cannot be
  handled is only logged; an error of the stream ends it, and the rest is never seen, since the next
  connection starts with the events of its own time.
\<close>

record paid_event =
  pe_uid :: string
  pe_payer :: string
  pe_video :: string

fun watch_once :: "evm \<Rightarrow> (ctx \<times> (string + paid_event)) list \<Rightarrow> db \<Rightarrow> db" where
  "watch_once E [] d = d"
| "watch_once E ((C, Inl e) # es) d = d"
| "watch_once E ((C, Inr ev) # es) d =
     watch_once E es (snd (handle_paid_event C (ev_hex66 E (pe_uid ev)) (pe_payer ev) (pe_video ev) d))"

text \<open>The connections one after the other; \<open>Inl\<close> is one that could not be made.\<close>

fun run_watcher :: "evm \<Rightarrow> (string + (ctx \<times> (string + paid_event)) list) list \<Rightarrow> db \<Rightarrow> db" where
  "run_watcher E [] d = d"
| "run_watcher E (Inl e # cs) d = run_watcher E cs d"
| "run_watcher E (Inr es # cs) d = run_watcher E cs (watch_once E es d)"

end
