(* ===== verification/FiatProperties.thy ===== *)
theory FiatProperties
  imports FiatPayments X402Properties
begin

text \<open>
  The contract of a payment provider towards the webhook handler, proved of the five
  providers, and the properties of the webhooks and of the watcher of the chain.
\<close>

section \<open>The contract of a provider\<close>

text \<open>
  A provider confirms a payment only on a request that carries its proof of origin.  The
  handler's lemma rests on this alone.
\<close>

locale payment_provider =
  fixes confirm :: "confirm_request \<Rightarrow> string + payment_result"
    and authentic :: "confirm_request \<Rightarrow> bool"
  assumes confirm_authentic: "confirm r = Inr res \<Longrightarrow> authentic r"
begin

lemma unauthentic_refused: "\<not> authentic r \<Longrightarrow> \<exists>e. confirm r = Inl e"
  using confirm_authentic by (cases "confirm r") auto

lemma webhook_authentic:
  assumes "registry_get (from_all_env_known C W E) provider = Some pl" "pl_confirm pl = confirm"
    and "handle_webhook C W E provider hs body d = (a, d')" "d' \<noteq> d"
  shows "\<exists>r. webhook_request C W provider hs body = Some r \<and> authentic r"
proof (cases "webhook_request C W provider hs body")
  case None
  then show ?thesis using assms by (simp add: handle_webhook_def)
next
  case (Some r)
  have "authentic r"
  proof (rule ccontr)
    assume "\<not> authentic r"
    then obtain e where "confirm r = Inl e" using unauthentic_refused by blast
    then show False using assms Some by (simp add: handle_webhook_def)
  qed
  with Some show ?thesis by blast
qed

end

text \<open>What counts as a proof of origin for each provider.\<close>

definition stripe_authentic :: "ctx \<Rightarrow> web \<Rightarrow> confirm_request \<Rightarrow> bool" where
  "stripe_authentic C W r \<longleftrightarrow> (\<exists>payload hdr ts. cq_payload r = Some payload
     \<and> (cq_headers r ''stripe-signature'' = Some hdr \<or> cq_headers r ''Stripe-Signature'' = Some hdr)
     \<and> ''t='' @ ts \<in> set (split_on (CHR '','') hdr)
     \<and> ''v1='' @ w_hmac W (st_webhook (stripe_from_env C)) (ts @ ''.'' @ raw_payload W payload)
         \<in> set (split_on (CHR '','') hdr))"

definition midtrans_authentic :: "ctx \<Rightarrow> web \<Rightarrow> confirm_request \<Rightarrow> bool" where
  "midtrans_authentic C W r \<longleftrightarrow> (\<exists>payload order code gross. cq_payload r = Some payload
     \<and> opt_or [] (jstr (jget ''signature_key'' payload))
         = w_sha512 W (order @ code @ gross @ mt_key (midtrans_from_env C))
     \<and> order = opt_or [] (jstr (jget ''order_id'' payload)))"

definition xendit_authentic :: "ctx \<Rightarrow> confirm_request \<Rightarrow> bool" where
  "xendit_authentic C r \<longleftrightarrow> cq_headers r ''x-callback-token'' = Some (xe_token (xendit_from_env C))
     \<and> xe_token (xendit_from_env C) \<noteq> []"

definition paypal_authentic :: "ctx \<Rightarrow> web \<Rightarrow> confirm_request \<Rightarrow> bool" where
  "paypal_authentic C W r \<longleftrightarrow> (\<exists>payload token vr. cq_payload r = Some payload
     \<and> paypal_verify W (paypal_from_env C) token r payload = Inr vr
     \<and> jstr (jget ''verification_status'' vr) = Some ''SUCCESS'')"

lemma map_filter_prefix: "x \<in> set (List.map_filter (strip_prefix p) xs) \<longleftrightarrow> p @ x \<in> set xs"
  by (auto simp: List.map_filter_def strip_prefix_Some image_iff)

lemma stripe_verify_Inr:
  "stripe_verify W p raw hdr = Inr () \<Longrightarrow> \<exists>ts. ''t='' @ ts \<in> set (split_on (CHR '','') hdr)
     \<and> ''v1='' @ w_hmac W (st_webhook p) (ts @ ''.'' @ raw) \<in> set (split_on (CHR '','') hdr)"
proof -
  assume v: "stripe_verify W p raw hdr = Inr ()"
  let ?ts = "List.map_filter (strip_prefix ''t='') (split_on (CHR '','') hdr)"
  from v have "?ts \<noteq> []" and m: "w_hmac W (st_webhook p) (last ?ts @ ''.'' @ raw)
      \<in> set (List.map_filter (strip_prefix ''v1='') (split_on (CHR '','') hdr))"
    by (auto simp: stripe_verify_def Let_def split: if_splits)
  then have "last ?ts \<in> set ?ts" by simp
  with m show ?thesis unfolding map_filter_prefix by blast
qed

interpretation stripe: payment_provider "stripe_confirm C W (stripe_from_env C)" "stripe_authentic C W" for C W
proof
  fix r res
  assume "stripe_confirm C W (stripe_from_env C) r = Inr res"
  then obtain payload hdr where h: "cq_payload r = Some payload"
    "coalesce (cq_headers r ''stripe-signature'') (cq_headers r ''Stripe-Signature'') = Some hdr"
    "stripe_verify W (stripe_from_env C) (raw_payload W payload) hdr = Inr ()"
    by (auto simp: stripe_confirm_def Let_def split: if_splits option.splits sum.splits)
  from h(2) have "cq_headers r ''stripe-signature'' = Some hdr \<or> cq_headers r ''Stripe-Signature'' = Some hdr"
    by (auto simp: coalesce_def split: option.splits)
  with h(1) stripe_verify_Inr [OF h(3)] show "stripe_authentic C W r" unfolding stripe_authentic_def by blast
qed

interpretation midtrans: payment_provider "midtrans_confirm W (midtrans_from_env C)" "midtrans_authentic C W" for C W
  by unfold_locales
    (auto simp: midtrans_confirm_def midtrans_authentic_def midtrans_signature_def Let_def
      split: if_splits option.splits, metis)

lemma configured_not_empty:
  "missing_env C req = [] \<Longrightarrow> k \<in> set req \<Longrightarrow> env_default C k [] \<noteq> []"
  by (auto simp: missing_env_def filter_empty_conv trim_def trim_start.simps [of "[]"] trim_rev.simps [of "[]"])

interpretation xendit: payment_provider "xendit_confirm W (xendit_from_env C)" "xendit_authentic C" for C W
proof
  fix r res
  assume a: "xendit_confirm W (xendit_from_env C) r = Inr res"
  then have "missing_env C [''XENDIT_SECRET_KEY'', ''XENDIT_WEBHOOK_TOKEN''] = []"
    by (auto simp: xendit_confirm_def xendit_from_env_def new_provider_config_def Let_def split: if_splits)
  from configured_not_empty [OF this, of "''XENDIT_WEBHOOK_TOKEN''"]
  have "xe_token (xendit_from_env C) \<noteq> []" by (simp add: xendit_from_env_def Let_def)
  with a show "xendit_authentic C r"
    by (auto simp: xendit_confirm_def xendit_authentic_def split: if_splits option.splits)
qed

interpretation paypal: payment_provider "paypal_confirm W (paypal_from_env C)" "paypal_authentic C W" for C W
proof
  fix r res
  assume "paypal_confirm W (paypal_from_env C) r = Inr res"
  then obtain payload token vr where "cq_payload r = Some payload"
    "paypal_verify W (paypal_from_env C) token r payload = Inr vr"
    by (auto simp: paypal_confirm_def Let_def split: if_splits option.splits sum.splits)
  moreover from this(2) have "jstr (jget ''verification_status'' vr) = Some ''SUCCESS''"
    by (auto simp: paypal_verify_def split: if_splits sum.splits prod.splits)
  ultimately show "paypal_authentic C W r" unfolding paypal_authentic_def by blast
qed

interpretation x402: payment_provider "x402_plugin_confirm C b" "\<lambda>r. False" for C b
  by unfold_locales (simp add: x402_plugin_confirm_def Let_def split: if_splits)

section \<open>Webhooks\<close>

lemma provider_keys:
  "pl_key (paypal_provider C W) = ''paypal''" "pl_key (stripe_provider C W) = ''stripe''"
  "pl_key (midtrans_provider C W) = ''midtrans''" "pl_key (xendit_provider C W) = ''xendit''"
  "pl_key (x402_provider C E b) = ''x402''"
  by (simp_all add: paypal_provider_def stripe_provider_def midtrans_provider_def xendit_provider_def
      x402_provider_def Let_def)

lemma registry_known:
  "registry_get (from_all_env_known C W E) provider =
     (if ascii_lower provider = ''paypal'' then Some (paypal_provider C W)
      else if ascii_lower provider = ''stripe'' then Some (stripe_provider C W)
      else if ascii_lower provider = ''midtrans'' then Some (midtrans_provider C W)
      else if ascii_lower provider = ''xendit'' then Some (xendit_provider C W)
      else if ascii_lower provider = ''x402'' then Some (x402_provider C E True) else None)"
  by (simp add: registry_get_def from_all_env_known_def known_plugins_def register_def new_registry_def
      provider_keys Let_def)

text \<open>C18. A webhook changes the database only when its request carries the provider's proof of
  origin: the HMAC of the raw body under Stripe's secret, Midtrans's digest under the server
  key, Xendit's callback token (which is then not empty), or PayPal's own confirmation.  The x402
  provider never confirms anything.\<close>

theorem webhook_needs_proof:
  assumes "handle_webhook C W E provider hs body d = (a, d')" "d' \<noteq> d"
  shows "\<exists>r. webhook_request C W provider hs body = Some r \<and>
    (ascii_lower provider = ''stripe'' \<and> stripe_authentic C W r
     \<or> ascii_lower provider = ''midtrans'' \<and> midtrans_authentic C W r
     \<or> ascii_lower provider = ''xendit'' \<and> xendit_authentic C r
     \<or> ascii_lower provider = ''paypal'' \<and> paypal_authentic C W r)"
proof -
  note g = registry_known [of C W E provider]
  have "ascii_lower provider \<in> {''paypal'', ''stripe'', ''midtrans'', ''xendit'', ''x402''}"
    using assms g by (auto simp: handle_webhook_def split: if_splits)
  then consider "ascii_lower provider = ''paypal''" | "ascii_lower provider = ''stripe''"
    | "ascii_lower provider = ''midtrans''" | "ascii_lower provider = ''xendit''"
    | "ascii_lower provider = ''x402''" by blast
  then show ?thesis
  proof cases
    case 1
    have "pl_confirm (paypal_provider C W) = paypal_confirm W (paypal_from_env C)"
      by (simp add: paypal_provider_def Let_def)
    from paypal.webhook_authentic [OF _ this assms] 1 g show ?thesis by auto
  next
    case 2
    have "pl_confirm (stripe_provider C W) = stripe_confirm C W (stripe_from_env C)"
      by (simp add: stripe_provider_def Let_def)
    from stripe.webhook_authentic [OF _ this assms] 2 g show ?thesis by auto
  next
    case 3
    have "pl_confirm (midtrans_provider C W) = midtrans_confirm W (midtrans_from_env C)"
      by (simp add: midtrans_provider_def Let_def)
    from midtrans.webhook_authentic [OF _ this assms] 3 g show ?thesis by auto
  next
    case 4
    have "pl_confirm (xendit_provider C W) = xendit_confirm W (xendit_from_env C)"
      by (simp add: xendit_provider_def Let_def)
    from xendit.webhook_authentic [OF _ this assms] 4 g show ?thesis by auto
  next
    case 5
    have "pl_confirm (x402_provider C E True) = x402_plugin_confirm C True" by (simp add: x402_provider_def)
    from x402.webhook_authentic [OF _ this assms] 5 g show ?thesis by auto
  qed
qed

section \<open>The invoice after a webhook\<close>

lemma find_fiat_upd:
  assumes "upd_fiat uid f d = Inr (x, d')" "\<And>r. fi_uid (f r) = fi_uid r"
  shows "find_fiat uid d' = map_option f (find_fiat uid d)"
proof -
  have m: "find_fiat uid d' = map_option (\<lambda>r. if fi_uid r = uid then f r else r) (find_fiat uid d)"
    using assms by (auto simp: upd_fiat_def find_fiat_def find_upd_where)
  show ?thesis
  proof (cases "find_fiat uid d")
    case (Some x)
    then have "fi_uid x = uid" by (auto simp: find_fiat_def find_Some_iff)
    with m Some show ?thesis by simp
  qed (simp add: m)
qed

lemma mark_fiat_paid_invoice:
  assumes "fault C = (\<lambda>_. None)" "find_fiat uid d = Some f"
  shows "\<exists>x. find_fiat uid (mark_fiat_paid C uid txn d) = Some x \<and> fi_status x = ''paid'' \<and> fi_paid_at x = Some (now C)
      \<and> fi_user x = fi_user f \<and> fi_creator x = fi_creator f \<and> fi_video x = fi_video f"
    "users (mark_fiat_paid C uid txn d) = users d" "videos (mark_fiat_paid C uid txn d) = videos d"
    "allowlist (mark_fiat_paid C uid txn d) = allowlist d"
  using find_fiat_upd [of uid "\<lambda>f. f\<lparr>fi_status := ''paid'', fi_paid_at := Some (now C),
      fi_provider_ref := coalesce (fi_provider_ref f) (Some (opt_or [] txn))\<rparr>" d] assms(2)
  by (auto simp: mark_fiat_paid_def no_fault_write [OF assms(1)] upd_fiat_def)

lemma grant_fiat_allows:
  assumes "fault C = (\<lambda>_. None)"
  shows "allowed (fi_video f) name (grant_fiat C f name d)" "fiat_invoices (grant_fiat C f name d) = fiat_invoices d"
    "users (grant_fiat C f name d) = users d"
  by (auto simp: grant_fiat_def Let_def no_fault_write [OF assms] ins_purchase_def ins_allow_def allowed_def
      split: sum.splits)

lemma fiat_commission_keeps:
  "fiat_invoices (fiat_commission C provider uid f d) = fiat_invoices d
   \<and> allowlist (fiat_commission C provider uid f d) = allowlist d
   \<and> map_option u_username (find_user i (fiat_commission C provider uid f d)) = map_option u_username (find_user i d)"
  unfolding fiat_commission_def using commission_keeps [OF surjective_pairing] by (auto split: option.split)

lemma fiat_disburse_keeps:
  assumes "fault C = (\<lambda>_. None)" "find_fiat uid d = Some x"
  shows "\<exists>y. find_fiat uid (fiat_disburse C W provider uid f bank d) = Some y
      \<and> fi_status y = fi_status x \<and> fi_paid_at y = fi_paid_at x \<and> fi_user y = fi_user x \<and> fi_creator y = fi_creator x
      \<and> fi_video y = fi_video x"
    "allowlist (fiat_disburse C W provider uid f bank d) = allowlist d"
    "users (fiat_disburse C W provider uid f bank d) = users d"
  using assms(2) find_fiat_upd [OF _ refl]
  by (auto simp: fiat_disburse_def no_fault_write [OF assms(1)] upd_fiat_def find_fiat_def find_upd_where
      split: option.split sum.split)

lemma settle_grants:
  assumes ok: "fault C = (\<lambda>_. None)" and paid: "pr_status res = Paid" "find_fiat (pr_invoice res) d = Some f"
    and u: "find_user (fi_user f) d = Some buyer" "find_user (fi_creator f) d = Some creator"
    and fresh: "\<not> (fi_status f = ''paid'' \<and> fi_paid_at f \<noteq> None)"
    and s: "settle_webhook C W provider res d = (j, d')"
  shows "j = paid_answer (pr_invoice res) (fi_video f)" "entitled (fi_video f) (fi_user f) d'"
    "\<exists>x. find_fiat (pr_invoice res) d' = Some x \<and> fi_status x = ''paid'' \<and> fi_paid_at x = Some (now C)
       \<and> fi_user x = fi_user f \<and> fi_creator x = fi_creator f \<and> fi_video x = fi_video f"
    "map_option u_username (find_user i d') = map_option u_username (find_user i d)"
proof -
  define uid where "uid = pr_invoice res"
  define d1 where "d1 = mark_fiat_paid C uid (pr_txn res) d"
  define d2 where "d2 = grant_fiat C f (u_username buyer) d1"
  define d3 where "d3 = fiat_commission C provider uid f d2"
  have "fiat_with_users uid d = Some (f, buyer, creator)"
    using paid(2) u by (simp add: fiat_with_users_def uid_def)
  then have "j = paid_answer uid (fi_video f) \<and> d' = fiat_disburse C W provider uid f (u_bank creator) d3"
    using s paid(1) fresh
    by (auto simp: settle_webhook_def no_fault_read [OF ok] Let_def uid_def d1_def d2_def d3_def)
  then have j: "j = paid_answer uid (fi_video f)" and d': "d' = fiat_disburse C W provider uid f (u_bank creator) d3"
    by simp_all
  note m = mark_fiat_paid_invoice [OF ok paid(2) [folded uid_def], of "pr_txn res", folded d1_def]
  note g = grant_fiat_allows [OF ok, of f "u_username buyer" d1, folded d2_def]
  note c = fiat_commission_keeps [of C provider uid f d2, folded d3_def]
  obtain x where x: "find_fiat uid d3 = Some x" "fi_status x = ''paid''" "fi_paid_at x = Some (now C)"
      "fi_user x = fi_user f" "fi_creator x = fi_creator f" "fi_video x = fi_video f"
    using m(1) g(2) c by (auto simp: find_fiat_def)
  note dk = fiat_disburse_keeps [OF ok x(1), of W provider f "u_bank creator", folded d']
  show "j = paid_answer (pr_invoice res) (fi_video f)" using j by (simp add: uid_def)
  show n: "map_option u_username (find_user i d') = map_option u_username (find_user i d)" for i
    using dk(3) c g(3) m(2) by (simp add: find_user_def)
  have "allowed (fi_video f) (u_username buyer) d'"
    using g(1) c dk(2) by (simp add: allowed_def)
  moreover have "map_option u_username (find_user (fi_user f) d') = Some (u_username buyer)"
    using n u(1) by simp
  ultimately show "entitled (fi_video f) (fi_user f) d'" by (auto simp: entitled_def)
  show "\<exists>x. find_fiat (pr_invoice res) d' = Some x \<and> fi_status x = ''paid'' \<and> fi_paid_at x = Some (now C)
      \<and> fi_user x = fi_user f \<and> fi_creator x = fi_creator f \<and> fi_video x = fi_video f"
    using dk(1) x by (auto simp: uid_def)
qed

text \<open>A paid result of a provider settles its invoice whatever the amount and the currency the
  provider reports: they are never compared with the invoice.  When no statement fails the
  answer is \<open>paid\<close>, the invoice is paid and its buyer may see the video.\<close>

theorem webhook_grants_any_amount:
  assumes "registry_get (from_all_env_known C W E) provider = Some pl"
    and "webhook_request C W provider hs body = Some r"
    and "pl_confirm pl r = Inr (res\<lparr>pr_amount := amount, pr_currency := currency\<rparr>)"
    and "pr_status res = Paid" "find_fiat (pr_invoice res) d = Some f" "fault C = (\<lambda>_. None)"
    and "find_user (fi_user f) d = Some buyer" "find_user (fi_creator f) d = Some creator"
    and "\<not> (fi_status f = ''paid'' \<and> fi_paid_at f \<noteq> None)"
    and "handle_webhook C W E provider hs body d = (a, d')"
  shows "a = Some (paid_answer (pr_invoice res) (fi_video f))
    \<and> (\<exists>x. find_fiat (pr_invoice res) d' = Some x \<and> fi_status x = ''paid'' \<and> fi_paid_at x = Some (now C))
    \<and> user_has_view_access C (fi_video f) (fi_user f) d'"
proof -
  obtain j where s: "settle_webhook C W provider (res\<lparr>pr_amount := amount, pr_currency := currency\<rparr>) d = (j, d')"
    and a: "a = Some j"
    using assms(1-3,10)
    by (cases "settle_webhook C W provider (res\<lparr>pr_amount := amount, pr_currency := currency\<rparr>) d")
      (simp add: handle_webhook_def)
  note g = settle_grants [OF assms(6) _ _ assms(7-9) s, simplified, OF assms(4,5)]
  show ?thesis using a g(1,3) view_access_complete [OF assms(6) g(2)] by auto
qed

text \<open>C19. A settled webhook delivered again, at any later time and with any statement failing,
  changes nothing: no second commission and no second payout.\<close>

theorem webhook_replay_idempotent:
  assumes "settle_webhook C W provider res d = (j, d')" "pr_status res = Paid" "fault C = (\<lambda>_. None)"
    and "find_fiat (pr_invoice res) d = Some f" "find_user (fi_user f) d = Some buyer"
    and "find_user (fi_creator f) d = Some creator"
    and "settle_webhook C2 W2 provider2 res d' = (j2, d2)"
  shows "d2 = d' \<and> (fault C2 = (\<lambda>_. None) \<longrightarrow> jget ''replayed'' j2 = Some (JBool True))"
proof -
  have "\<exists>x. find_fiat (pr_invoice res) d' = Some x \<and> fi_status x = ''paid'' \<and> fi_paid_at x \<noteq> None
      \<and> (\<exists>b c. fiat_with_users (pr_invoice res) d' = Some (x, b, c))"
  proof (cases "fi_status f = ''paid'' \<and> fi_paid_at f \<noteq> None")
    case True
    then have "d' = d" using assms(1-6)
      by (auto simp: settle_webhook_def no_fault_read fiat_with_users_def Let_def)
    then show ?thesis using True assms(4-6) by (auto simp: fiat_with_users_def)
  next
    case False
    note g = settle_grants [OF assms(3,2,4-6) False assms(1)]
    from g(3) obtain x where x: "find_fiat (pr_invoice res) d' = Some x" "fi_status x = ''paid''"
        "fi_paid_at x = Some (now C)" "fi_user x = fi_user f" "fi_creator x = fi_creator f" by blast
    have "find_user (fi_user f) d' \<noteq> None" "find_user (fi_creator f) d' \<noteq> None"
      using g(4) [of "fi_user f"] g(4) [of "fi_creator f"] assms(5,6) by auto
    then show ?thesis using x by (auto simp: fiat_with_users_def)
  qed
  then show ?thesis
    using assms(2,7) by (auto simp: settle_webhook_def run_read_def Let_def jok_def split: option.splits)
qed

section \<open>The watcher\<close>

text \<open>An event of the contract that carries the hash of an invoice marks it paid and lets the
  buyer see the video the event names, whatever was paid and whatever video the invoice is
  for: the amount of the event is not looked at, and the event's video is not compared with
  the invoice's.\<close>

theorem watcher_trusts_event:
  assumes "handle_paid_event C h payer vid d = (Inr (), d')" "fault C = (\<lambda>_. None)"
    and "find (\<lambda>x. (case xi_hash x of None \<Rightarrow> False | Some k \<Rightarrow> to_lowercase C k = h)) (x402_invoices d) = Some row"
    and "find_user (xi_user row) d = Some u" "u_username u \<noteq> []"
  shows "(\<forall>x\<in>set (x402_invoices d'). xi_id x = xi_id row \<longrightarrow> xi_status x = ''paid'' \<and> xi_payer x = Some payer)
    \<and> user_has_view_access C vid (xi_user row) d'"
proof -
  define d1 where "d1 = d\<lparr>x402_invoices := upd_where (\<lambda>x. xi_id x = xi_id row) (\<lambda>x. x\<lparr>xi_status := ''paid'',
             xi_paid_at := Some (now C), xi_payer := Some payer\<rparr>) (x402_invoices d)\<rparr>"
  have w: "find_user (xi_user row) d1 = Some u" using assms(4) by (simp add: d1_def find_user_def)
  obtain d2 where p: "ins_purchase (now C) (pg_text C (now C)) (xi_user row) vid d1 = Inr ((), d2)"
    and d': "d' = (case ins_allow vid (u_username u) d2 of Inl _ \<Rightarrow> d2 | Inr (_, e) \<Rightarrow> e)"
    using assms w
    by (auto simp: handle_paid_event_def no_fault_read no_fault_write upd_x402_def d1_def [symmetric]
        split: sum.splits prod.splits if_splits)
  have x: "x402_invoices d' = x402_invoices d1" "users d' = users d1"
    using p unfolding d' by (auto simp: ins_purchase_def ins_allow_def Let_def split: if_splits)
  have "allowed vid (u_username u) d'" unfolding d' by (auto simp: ins_allow_def allowed_def)
  moreover have "find_user (xi_user row) d' = Some u" using w x(2) by (simp add: find_user_def)
  ultimately have "entitled vid (xi_user row) d'" by (auto simp: entitled_def)
  moreover have "\<forall>x\<in>set (x402_invoices d'). xi_id x = xi_id row \<longrightarrow> xi_status x = ''paid'' \<and> xi_payer x = Some payer"
    by (auto simp: x d1_def upd_where_def)
  ultimately show ?thesis using view_access_complete [OF assms(2)] by blast
qed

section \<open>A provider for the examples\<close>

text \<open>Xendit, configured, reporting a paid amount of 1 for the invoice of 1000 in \<open>fiat_db\<close>.\<close>

definition fiat_ctx :: ctx where
  "fiat_ctx = demo_ctx\<lparr>env_var := [''XENDIT_SECRET_KEY'' \<mapsto> ''s'', ''XENDIT_WEBHOOK_TOKEN'' \<mapsto> ''tok'']\<rparr>"

definition paid_body :: json where
  "paid_body = JObj [(''external_id'', JStr ''f1''), (''id'', JStr ''x9''), (''status'', JStr ''PAID''),
     (''paid_amount'', JNum 1), (''currency'', JStr ''IDR'')]"

definition demo_web :: web where
  "demo_web = \<lparr> w_send = (\<lambda>_. Inl ''offline''), w_status = (\<lambda>_. []), w_json = (\<lambda>s. if s = ''paid'' then Some paid_body
       else if s = ''[]'' then Some (JArr []) else None),
     w_bytes = (\<lambda>_. []), w_b64 = esc, w_unb64 = unesc, w_hmac = (\<lambda>k m. k @ m), w_sha512 = (\<lambda>s. s), w_upper = (\<lambda>s. s),
     w_cents = (\<lambda>_. None), w_decimal = (\<lambda>_. []), w_share = (\<lambda>a b. a * b div 10000) \<rparr>"

definition demo_fiat :: fiat_invoice where
  "demo_fiat = \<lparr> fi_uid = ''f1'', fi_provider = ''xendit'', fi_provider_ref = None, fi_user = ''u1'', fi_video = ''v1'',
     fi_creator = ''u2'', fi_amount = 1000, fi_currency = ''USD'', fi_status = ''pending'', fi_pay_url = None,
     fi_email = None, fi_meta = None, fi_created = Instant 0, fi_aff_ref = None, fi_paid_at = None, fi_disbursed_at = None,
     fi_disburse_ref = None \<rparr>"

definition fiat_db :: db where "fiat_db = demo_db\<lparr>fiat_invoices := [demo_fiat]\<rparr>"

definition fiat_headers :: "string \<Rightarrow> string option" where
  "fiat_headers = [''x-callback-token'' \<mapsto> ''tok'']"

definition paid_request :: confirm_request where
  "paid_request = \<lparr> cq_provider = ''xendit'', cq_invoice = [], cq_txn = None,
     cq_payload = with_raw paid_body (esc ''paid''), cq_headers = fiat_headers \<rparr>"

definition paid_result :: payment_result where
  "paid_result = \<lparr> pr_provider = ''xendit'', pr_invoice = ''f1'', pr_txn = Some ''x9'', pr_status = Paid,
     pr_amount = 1, pr_currency = ''IDR'', pr_raw = opt_or JNull (with_raw paid_body (esc ''paid'')) \<rparr>"

lemmas fiat_eval = fiat_ctx_def demo_web_def fiat_headers_def paid_request_def paid_result_def
  paid_body_def opt_or_def str_or_empty_def coalesce_def xendit_status_def

lemma lower_xendit: "ascii_lower ''xendit'' = ''xendit''"
  by code_simp

lemma demo_provider: "registry_get (from_all_env_known C W E) ''xendit'' = Some (xendit_provider C W)"
  by (simp add: registry_known lower_xendit)

lemma demo_request: "webhook_request fiat_ctx demo_web ''xendit'' fiat_headers ''paid'' = Some paid_request"
  by (simp add: webhook_request_def fiat_eval demo_ctx_def)

lemma demo_missing: "missing_env fiat_ctx [''XENDIT_SECRET_KEY'', ''XENDIT_WEBHOOK_TOKEN''] = []"
  by (simp add: missing_env_def env_default_def fiat_ctx_def) code_simp

lemma demo_configured: "xendit_from_env fiat_ctx = \<lparr> xe_config = new_provider_config ''xendit'' ''test''
      (Some ''https://api.xendit.co'') [''XENDIT_SECRET_KEY'', ''XENDIT_WEBHOOK_TOKEN''] [],
    xe_secret = ''s'', xe_token = ''tok'' \<rparr>"
  by (simp add: xendit_from_env_def demo_missing) (simp add: env_default_def fiat_ctx_def demo_ctx_def)

lemma demo_confirmed: "pl_confirm (xendit_provider fiat_ctx demo_web) paid_request = Inr paid_result"
proof -
  have "pl_confirm (xendit_provider fiat_ctx demo_web) = xendit_confirm demo_web (xendit_from_env fiat_ctx)"
    by (simp add: xendit_provider_def Let_def)
  then show ?thesis
    unfolding demo_configured
    by (simp add: xendit_confirm_def new_provider_config_def fiat_eval fits64_def i64_min_def i64_max_def)
qed

lemma fiat_rows: "find_fiat ''f1'' fiat_db = Some demo_fiat"
  "find_user ''u1'' fiat_db = Some (demo_user ''u1'' ''alice'' 0 20000)"
  "find_user ''u2'' fiat_db = Some (demo_user ''u2'' ''bob'' 0 300)" "fault fiat_ctx = (\<lambda>_. None)"
  by (simp_all add: find_fiat_def fiat_db_def demo_fiat_def find_user_def demo_db_def demo_user_def fiat_ctx_def demo_ctx_def)

theorem webhook_grants_any_amount_witness:
  "user_has_view_access fiat_ctx ''v1'' ''u1''
     (snd (handle_webhook fiat_ctx demo_web (demo_evm 0) ''xendit'' fiat_headers ''paid'' fiat_db))
   \<and> pr_amount paid_result = 1 \<and> fi_amount demo_fiat = 1000"
proof -
  have r: "paid_result\<lparr>pr_amount := 1, pr_currency := ''IDR''\<rparr> = paid_result" by (simp add: paid_result_def)
  have c: "pl_confirm (xendit_provider fiat_ctx demo_web) paid_request
      = Inr (paid_result\<lparr>pr_amount := 1, pr_currency := ''IDR''\<rparr>)"
    by (simp only: r demo_confirmed)
  have "pr_status paid_result = Paid" "pr_invoice paid_result = ''f1''" by (simp_all add: paid_result_def)
  moreover have "fi_user demo_fiat = ''u1''" "fi_creator demo_fiat = ''u2''" "fi_video demo_fiat = ''v1''"
    "fi_status demo_fiat = ''pending''" "fi_amount demo_fiat = 1000" by (simp_all add: demo_fiat_def)
  moreover have "pr_amount paid_result = 1" by (simp add: paid_result_def)
  ultimately show ?thesis
    using webhook_grants_any_amount [OF demo_provider demo_request c _ _ fiat_rows(4)
        _ _ _ surjective_pairing, of fiat_db demo_fiat] fiat_rows
    by auto
qed

theorem webhook_replay_idempotent_witness:
  "snd (settle_webhook fiat_ctx demo_web ''xendit'' paid_result
          (snd (settle_webhook fiat_ctx demo_web ''xendit'' paid_result fiat_db)))
   = snd (settle_webhook fiat_ctx demo_web ''xendit'' paid_result fiat_db)"
proof -
  have "pr_status paid_result = Paid" "pr_invoice paid_result = ''f1''" by (simp_all add: paid_result_def)
  moreover have "fi_user demo_fiat = ''u1''" "fi_creator demo_fiat = ''u2''" by (simp_all add: demo_fiat_def)
  ultimately show ?thesis
    using webhook_replay_idempotent [OF surjective_pairing _ fiat_rows(4) _ _ _ surjective_pairing,
        of paid_result fiat_db demo_fiat] fiat_rows by auto
qed

theorem webhook_needs_proof_witness:
  "\<exists>r. webhook_request fiat_ctx demo_web ''xendit'' fiat_headers ''paid'' = Some r \<and> xendit_authentic fiat_ctx r"
proof -
  define d' where "d' = snd (handle_webhook fiat_ctx demo_web (demo_evm 0) ''xendit'' fiat_headers ''paid'' fiat_db)"
  have "fst (handle_webhook fiat_ctx demo_web (demo_evm 0) ''xendit'' fiat_headers ''paid'' fiat_db)
      = Some (paid_answer ''f1'' ''v1'') \<and> d' \<noteq> fiat_db"
  proof -
    have a: "pr_status paid_result = Paid" "pr_invoice paid_result = ''f1''" "fi_user demo_fiat = ''u1''"
      "fi_creator demo_fiat = ''u2''" "fi_video demo_fiat = ''v1''" "fi_status demo_fiat = ''pending''"
      by (simp_all add: paid_result_def demo_fiat_def)
    have h: "handle_webhook fiat_ctx demo_web (demo_evm 0) ''xendit'' fiat_headers ''paid'' fiat_db
        = apfst Some (settle_webhook fiat_ctx demo_web ''xendit'' paid_result fiat_db)"
      by (simp add: handle_webhook_def demo_provider demo_request demo_confirmed)
    note g = settle_grants [where W = demo_web and provider = "''xendit''" and d = fiat_db and f = demo_fiat,
        OF fiat_rows(4) a(1) _ _ _ _ surjective_pairing]
    have "find_fiat ''f1'' d' \<noteq> find_fiat ''f1'' fiat_db"
      using g(3) fiat_rows a unfolding d'_def h by fastforce
    moreover have "fst (settle_webhook fiat_ctx demo_web ''xendit'' paid_result fiat_db) = paid_answer ''f1'' ''v1''"
      using g(1) fiat_rows a by auto
    ultimately show ?thesis unfolding h by auto
  qed
  then have "d' \<noteq> fiat_db" by blast
  then show ?thesis
    using webhook_needs_proof [OF surjective_pairing, of fiat_ctx demo_web "demo_evm 0" "''xendit''" fiat_headers "''paid''" fiat_db]
    unfolding d'_def by (auto simp: lower_xendit)
qed

text \<open>A second video, \<open>v2\<close>, for which the invoice is not.\<close>

definition two_videos :: db where
  "two_videos = invoice_db\<lparr>videos := [demo_video ''v1'' ''u2'' 1000, demo_video ''v2'' ''u2'' 90000]\<rparr>"

theorem watcher_trusts_event_witness:
  "user_has_view_access demo_ctx ''v2'' ''u1'' (snd (handle_paid_event demo_ctx ''0xh'' ''0xp'' ''v2'' two_videos))"
proof -
  let ?d = "two_videos"
  have f: "find (\<lambda>x. (case xi_hash x of None \<Rightarrow> False | Some k \<Rightarrow> to_lowercase demo_ctx k = ''0xh'')) (x402_invoices ?d)
      = Some demo_invoice"
    by (simp add: two_videos_def invoice_db_def demo_invoice_def demo_eval char_of_def bit_Suc_0_iff)
  have u: "find_user (xi_user demo_invoice) ?d = Some (demo_user ''u1'' ''alice'' 0 20000)"
    by (simp add: two_videos_def invoice_db_def demo_db_def demo_invoice_def demo_user_def find_user_def)
  have n: "fault demo_ctx = (\<lambda>_. None)" by (simp add: demo_ctx_def)
  have "fst (handle_paid_event demo_ctx ''0xh'' ''0xp'' ''v2'' ?d) = Inr ()"
    using f u by (simp add: handle_paid_event_def no_fault_read [OF n] no_fault_write [OF n] upd_x402_def)
      (simp add: two_videos_def invoice_db_def demo_invoice_def demo_eval)
  then have "handle_paid_event demo_ctx ''0xh'' ''0xp'' ''v2'' ?d
      = (Inr (), snd (handle_paid_event demo_ctx ''0xh'' ''0xp'' ''v2'' ?d))" by (metis surjective_pairing)
  from watcher_trusts_event [OF this n f u] show ?thesis
    by (simp add: demo_user_def demo_invoice_def)
qed

end
