(* ===== verification/FedSignatures.thy ===== *)
theory FedSignatures
  imports Database
begin

text \<open>
  \<open>src/src/federation/keys.rs\<close> and \<open>src/src/federation/signatures.rs\<close>: the keys of the local
  actors, stored under a stream cipher, and the HTTP signatures of federated requests.
\<close>

unbundle bit_operations_syntax

text \<open>
  The third-party functions: standard base64, SHA-256 and HMAC-SHA256 as raw bytes, RSA keys
  in PEM and RSA signatures as bytes, and the date of a header.
\<close>

record rsa_kit =
  sg_b64 :: "string \<Rightarrow> string"
  sg_unb64 :: "string \<Rightarrow> string option"
  sg_sha256 :: "string \<Rightarrow> string"
  sg_hmac :: "string \<Rightarrow> string \<Rightarrow> string"
  sg_keygen :: "string + string \<times> string"
  sg_private :: "string \<Rightarrow> string option"
  sg_public :: "string \<Rightarrow> string option"
  sg_sign :: "string \<Rightarrow> string \<Rightarrow> string"
  sg_bytes :: "string \<Rightarrow> bool"
  sg_verify :: "string \<Rightarrow> string \<Rightarrow> string \<Rightarrow> bool"
  sg_rfc2822 :: "string \<Rightarrow> instant option"
  sg_http_date :: "instant \<Rightarrow> string"

definition quoted :: "string \<Rightarrow> string" where
  "quoted s = [CHR 0x22] @ s @ [CHR 0x22]"


section \<open>Keys\<close>

text \<open>\<open>u64::to_le_bytes\<close>.\<close>

definition le64 :: "nat \<Rightarrow> string" where
  "le64 n = map (\<lambda>k. chr (n div 256 ^ k mod 256)) [0..<8]"

definition keystream :: "rsa_kit \<Rightarrow> string \<Rightarrow> string \<Rightarrow> nat \<Rightarrow> string" where
  "keystream K key nonce i = sg_hmac K key (nonce @ le64 i)"

text \<open>The exclusive or with as much of the key stream as there is; the rest stays as it is.\<close>

fun xor_bytes :: "string \<Rightarrow> string \<Rightarrow> string" where
  "xor_bytes (c # cs) (k # ks) = chr (byte c XOR byte k) # xor_bytes cs ks"
| "xor_bytes cs _ = cs"

function stream_xor :: "rsa_kit \<Rightarrow> string \<Rightarrow> string \<Rightarrow> nat \<Rightarrow> string \<Rightarrow> string" where
  "stream_xor K key nonce i bytes =
     (if bytes = [] then []
      else xor_bytes (take 32 bytes) (keystream K key nonce i)
             @ stream_xor K key nonce (Suc i) (drop 32 bytes))"
  by auto
termination by (relation "measure (\<lambda>(K, key, nonce, i, bytes). length bytes)") auto

declare stream_xor.simps [simp del]

definition derived_key :: "rsa_kit \<Rightarrow> string \<Rightarrow> string" where
  "derived_key K app_secret = sg_hmac K app_secret ''ppv-federation-actor-key-v1''"

definition encrypt_private_key :: "rsa_kit \<Rightarrow> string \<Rightarrow> string \<Rightarrow> string \<Rightarrow> string" where
  "encrypt_private_key K nonce pem app_secret =
     ''v1:'' @ sg_b64 K nonce @ '':'' @ sg_b64 K (stream_xor K (derived_key K app_secret) nonce 0 pem)"

definition decrypt_private_key :: "rsa_kit \<Rightarrow> string \<Rightarrow> string \<Rightarrow> string + string" where
  "decrypt_private_key K encrypted app_secret =
     (case split_once (CHR '':'') encrypted of
        Some (version, rest) \<Rightarrow>
          (case split_once (CHR '':'') rest of
             Some (nonce64, text64) \<Rightarrow>
               if version \<noteq> ''v1'' then Inl ''unsupported private key encryption format''
               else
               (case sg_unb64 K nonce64 of
                  None \<Rightarrow> Inl ''nonce base64 decode failed''
                | Some nonce \<Rightarrow>
               (case sg_unb64 K text64 of
                  None \<Rightarrow> Inl ''ciphertext base64 decode failed''
                | Some ciphertext \<Rightarrow>
                    let pem = stream_xor K (derived_key K app_secret) nonce 0 ciphertext in
                    if valid_utf8 pem then Inr pem else Inl ''decrypted key is not valid UTF-8''))
           | None \<Rightarrow> Inl ''unsupported private key encryption format'')
      | None \<Rightarrow> Inl ''unsupported private key encryption format'')"

definition local_actor_of :: "string \<Rightarrow> db \<Rightarrow> fed_actor option" where
  "local_actor_of uid d = find (\<lambda>a. fa_user a = Some uid \<and> fa_local a) (actors (fed d))"

definition find_actor :: "string \<Rightarrow> db \<Rightarrow> fed_actor option" where
  "find_actor uri d = find (\<lambda>a. fa_uri a = uri) (actors (fed d))"

definition set_actors :: "(fed_actor list \<Rightarrow> fed_actor list) \<Rightarrow> db \<Rightarrow> db" where
  "set_actors f d = d\<lparr>fed := (fed d)\<lparr>actors := f (actors (fed d))\<rparr>\<rparr>"

text \<open>The upsert of a local actor; a remote row may not get a private key.\<close>

definition upsert_local_actor :: "fed_actor \<Rightarrow> unit stmt" where
  "upsert_local_actor a d =
     (case find_actor (fa_uri a) d of
        None \<Rightarrow>
          if (case fa_user a of None \<Rightarrow> False | Some uid \<Rightarrow> \<not> user_exists uid d)
          then Inl ''federation_actors_local_user_id_fkey''
          else Inr ((), set_actors (\<lambda>rows. rows @ [a]) d)
      | Some old \<Rightarrow>
          if \<not> fa_local old then Inl ''federation_actors_check''
          else Inr ((), set_actors (upd_where (\<lambda>x. fa_uri x = fa_uri a)
                 (\<lambda>x. x\<lparr>fa_key_id := fa_key_id a, fa_key_pem := fa_key_pem a,
                         fa_key_encrypted := fa_key_encrypted a\<rparr>)) d))"

definition set_user_actor :: "string \<Rightarrow> string \<Rightarrow> unit stmt" where
  "set_user_actor uid uri d =
     (if user_exists uid d \<and> (\<exists>u\<in>set (users d). u_id u \<noteq> uid \<and> u_actor u = Some uri)
      then Inl ''users_actor_uri_uq''
      else Inr ((), d\<lparr>users := upd_where (\<lambda>u. u_id u = uid) (\<lambda>u. u\<lparr>u_actor := Some uri\<rparr>) (users d)\<rparr>))"

text \<open>\<open>nonce\<close> is the random nonce of the encryption.\<close>

definition ensure_local_actor_keys ::
  "ctx \<Rightarrow> rsa_kit \<Rightarrow> string \<Rightarrow> string \<Rightarrow> string \<Rightarrow> string \<Rightarrow> string \<Rightarrow> string \<Rightarrow> db \<Rightarrow> (string + string) \<times> db" where
  "ensure_local_actor_keys C K nonce uid username base dom_name app_secret d =
     (let actor_uri = base @ ''/users/'' @ username in
      case run_read C ''keys.existing'' (local_actor_of uid) d of
        Inl _ \<Rightarrow> (Inl ''actor record lookup failed'', d)
      | Inr row \<Rightarrow>
     (case Option.bind row fa_key_pem of
        Some pem \<Rightarrow> (Inr pem, d)
      | None \<Rightarrow>
     (case sg_keygen K of
        Inl e \<Rightarrow> (Inl e, d)
      | Inr (public_pem, private_pem) \<Rightarrow>
     (case run_write C ''keys.actor'' (upsert_local_actor
             \<lparr> fa_id = fresh_uuid C ''keys.actor'', fa_user = Some uid, fa_uri = actor_uri,
               fa_username = username, fa_domain = dom_name, fa_inbox = actor_uri @ ''/inbox'',
               fa_shared_inbox = None, fa_key_id = Some (actor_uri @ ''#main-key''),
               fa_key_pem = Some public_pem,
               fa_key_encrypted = Some (encrypt_private_key K nonce private_pem app_secret),
               fa_local = True, fa_fetched = None \<rparr>) d of
        (Inl _, d1) \<Rightarrow> (Inl ''actor key upsert failed'', d1)
      | (Inr _, d1) \<Rightarrow>
     (case run_write C ''keys.user'' (set_user_actor uid actor_uri) d1 of
        (Inl _, d2) \<Rightarrow> (Inl ''user actor_uri update failed'', d2)
      | (Inr _, d2) \<Rightarrow> (Inr public_pem, d2))))))"

definition load_actor_private_key :: "ctx \<Rightarrow> rsa_kit \<Rightarrow> string \<Rightarrow> string \<Rightarrow> db \<Rightarrow> string + string \<times> string" where
  "load_actor_private_key C K uid app_secret d =
     (case run_read C ''keys.load'' (local_actor_of uid) d of
        Inl _ \<Rightarrow> Inl ''actor key lookup failed''
      | Inr None \<Rightarrow> Inl (''no local actor key record for user '' @ uid)
      | Inr (Some a) \<Rightarrow>
          (case (fa_key_encrypted a, fa_key_id a) of
             (Some enc, Some key_id) \<Rightarrow>
               (case decrypt_private_key K enc app_secret of
                  Inl e \<Rightarrow> Inl e
                | Inr pem \<Rightarrow> Inr (pem, key_id))
           | _ \<Rightarrow> Inl (''no local actor key record for user '' @ uid)))"


section \<open>Digests\<close>

definition build_digest :: "rsa_kit \<Rightarrow> string \<Rightarrow> string" where
  "build_digest K body = ''SHA-256='' @ sg_b64 K (sg_sha256 K body)"

definition verify_digest :: "rsa_kit \<Rightarrow> string \<Rightarrow> string \<Rightarrow> string + unit" where
  "verify_digest K body header =
     (if trim header = build_digest K body then Inr () else Inl ''Digest header does not match request body'')"


section \<open>Signatures\<close>

definition REQUEST_TARGET :: string where "REQUEST_TARGET = ''(request-target)''"

definition signed_line :: "ctx \<Rightarrow> string \<Rightarrow> string \<Rightarrow> (string \<Rightarrow> string option) \<Rightarrow> string \<Rightarrow> string" where
  "signed_line C verb path headers name =
     (if name = REQUEST_TARGET then REQUEST_TARGET @ '': '' @ to_lowercase C verb @ '' '' @ path
      else name @ '': '' @ (case headers name of None \<Rightarrow> [] | Some v \<Rightarrow> v))"

definition build_signing_string ::
  "ctx \<Rightarrow> string \<Rightarrow> string \<Rightarrow> string list \<Rightarrow> (string \<Rightarrow> string option) \<Rightarrow> string" where
  "build_signing_string C verb path names headers = join [CHR 0x0A] (map (signed_line C verb path headers) names)"

record signature_input =
  si_key_id :: string
  si_pem :: string
  si_method :: string
  si_path :: string
  si_host :: string
  si_date :: string
  si_digest :: "string option"

definition signed_names :: "signature_input \<Rightarrow> string list" where
  "signed_names inp = [REQUEST_TARGET, ''host'', ''date''] @ (if si_digest inp = None then [] else [''digest''])"

definition signed_headers :: "signature_input \<Rightarrow> string \<Rightarrow> string option" where
  "signed_headers inp = [''host'' \<mapsto> si_host inp, ''date'' \<mapsto> si_date inp](''digest'' := si_digest inp)"

definition signature_header :: "string \<Rightarrow> string list \<Rightarrow> string \<Rightarrow> string" where
  "signature_header key_id names sig64 =
     ''keyId='' @ quoted key_id @ '',algorithm='' @ quoted ''rsa-sha256'' @ '',headers='' @ quoted (join '' '' names)
       @ '',signature='' @ quoted sig64"

definition create_signature :: "ctx \<Rightarrow> rsa_kit \<Rightarrow> signature_input \<Rightarrow> string + string" where
  "create_signature C K inp =
     (case sg_private K (si_pem inp) of
        None \<Rightarrow> Inl ''invalid PKCS#8 private key PEM''
      | Some key \<Rightarrow>
          let names = signed_names inp;
              text = build_signing_string C (si_method inp) (si_path inp) names (signed_headers inp)
          in Inr (signature_header (si_key_id inp) names (sg_b64 K (sg_sign K key text))))"

text \<open>One parameter of the header; a later one replaces an earlier one of its name.\<close>

definition signature_param :: "string \<Rightarrow> (string \<times> string) option" where
  "signature_param segment =
     map_option (\<lambda>(k, v). (trim k, trim_matches (\<lambda>c. c = CHR 0x22) (trim v)))
       (split_once (CHR ''='') (trim segment))"

definition parse_signature_header :: "string \<Rightarrow> string + (string \<Rightarrow> string option)" where
  "parse_signature_header header =
     (let params = List.map_filter signature_param (split_on (CHR '','') header) in
      if params = [] then Inl ''Signature header contained no recognisable parameters''
      else Inr (map_of (rev params)))"

definition MAX_AGE_SECS :: int where "MAX_AGE_SECS = 30"

definition enforce_max_age :: "ctx \<Rightarrow> rsa_kit \<Rightarrow> string \<Rightarrow> string + unit" where
  "enforce_max_age C K date_str =
     (case (case sg_rfc2822 K date_str of Some t \<Rightarrow> Some t | None \<Rightarrow> rfc3339_parse C date_str) of
        None \<Rightarrow> Inl ''Date header is not a valid RFC 2822 / RFC 3339 timestamp''
      | Some t \<Rightarrow>
          let age = abs (quot (nanos (now C) - nanos t) 1000000000) in
          if MAX_AGE_SECS < age
          then Inl (''request is '' @ string_of_int age @ '' seconds old; maximum allowed is ''
                 @ string_of_int MAX_AGE_SECS)
          else Inr ())"

record incoming =
  im_method :: string
  im_path :: string
  im_signature :: string
  im_headers :: "string \<Rightarrow> string option"
  im_key :: string

definition verify_signature :: "ctx \<Rightarrow> rsa_kit \<Rightarrow> incoming \<Rightarrow> string + string" where
  "verify_signature C K r =
     (case parse_signature_header (im_signature r) of
        Inl _ \<Rightarrow> Inl ''malformed Signature header''
      | Inr params \<Rightarrow>
     (case params ''keyId'' of
        None \<Rightarrow> Inl ''Signature header missing keyId''
      | Some key_id \<Rightarrow>
     (case params ''signature'' of
        None \<Rightarrow> Inl ''Signature header missing signature value''
      | Some sig64 \<Rightarrow>
     (case (case im_headers r ''date'' of None \<Rightarrow> Inr () | Some v \<Rightarrow> enforce_max_age C K v) of
        Inl _ \<Rightarrow> Inl ''request age check failed''
      | Inr _ \<Rightarrow>
     let names = words (case params ''headers'' of None \<Rightarrow> ''date'' | Some h \<Rightarrow> h);
         text = build_signing_string C (im_method r) (im_path r) names (im_headers r) in
     (case sg_unb64 K sig64 of
        None \<Rightarrow> Inl ''Signature base64 decode failed''
      | Some sig \<Rightarrow>
     (case sg_public K (im_key r) of
        None \<Rightarrow> Inl ''invalid PKCS#1 public key PEM''
      | Some key \<Rightarrow>
     if \<not> sg_bytes K sig then Inl ''invalid signature bytes''
     else if sg_verify K key text sig then Inr key_id
     else Inl ''HTTP Signature RSA-SHA256 verification failed''))))))"

end
