(* ===== verification/FedModeration.thy ===== *)
theory FedModeration
  imports FedSignatures
begin

text \<open>
  \<open>src/src/federation/moderation.rs\<close>: the federation administrator's token, the rules on domains
  and the administrator's views and actions on the delivery queue and the remote catalog.
  A response is its status and JSON body.
\<close>

type_synonym http = "nat \<times> json"

definition api_error :: "nat \<Rightarrow> string \<Rightarrow> http" where
  "api_error st msg = (st, JObj [(''error'', JStr msg)])"

definition http_json :: "json \<Rightarrow> http" where
  "http_json j = (200, j)"

text \<open>The configuration of \<open>FederationState\<close> the handlers read.\<close>

record fed_config =
  fc_enabled :: bool
  fc_domain :: string
  fc_base :: string
  fc_version :: string

definition check_admin_token :: "ctx \<Rightarrow> (string \<Rightarrow> string option) \<Rightarrow> bool" where
  "check_admin_token C headers =
     (case env_var C ''FEDERATION_ADMIN_TOKEN'' of
        None \<Rightarrow> False
      | Some t \<Rightarrow> trim t \<noteq> [] \<and> headers ''x-federation-admin-token'' = Some (trim t))"

definition token_required :: http where
  "token_required = api_error 403 ''X-Federation-Admin-Token required''"

definition set_fed :: "(fed_db \<Rightarrow> fed_db) \<Rightarrow> db \<Rightarrow> db" where
  "set_fed f d = d\<lparr>fed := f (fed d)\<rparr>"


section \<open>Rules on domains\<close>

definition rule_of :: "string \<Rightarrow> db \<Rightarrow> domain_rule option" where
  "rule_of dom_name d = find (\<lambda>r. dr_domain r = dom_name) (domain_rules (fed d))"

definition domain_action :: "ctx \<Rightarrow> string \<Rightarrow> db \<Rightarrow> string option" where
  "domain_action C dom_name d =
     (case run_read C ''rule.action'' (rule_of dom_name) d of
        Inr (Some r) \<Rightarrow> Some (dr_action r)
      | _ \<Rightarrow> None)"

definition is_domain_blocked :: "ctx \<Rightarrow> string \<Rightarrow> db \<Rightarrow> bool" where
  "is_domain_blocked C dom_name d \<longleftrightarrow> domain_action C dom_name d \<in> {Some ''block'', Some ''suspend''}"

text \<open>The host of a URL: what \<open>strip_prefix\<close> and \<open>split('/')\<close> leave, used before every rule.\<close>

definition url_rest :: "string \<Rightarrow> string option" where
  "url_rest url =
     (case strip_prefix ''https://'' url of
        Some r \<Rightarrow> Some r
      | None \<Rightarrow> strip_prefix ''http://'' url)"

definition url_domain :: "string \<Rightarrow> string \<Rightarrow> string" where
  "url_domain dflt url =
     (case url_rest url of
        None \<Rightarrow> dflt
      | Some r \<Rightarrow> hd (split_on (CHR ''/'') r))"

definition rule_json :: "ctx \<Rightarrow> domain_rule \<Rightarrow> json" where
  "rule_json C r = JObj [(''domain'', JStr (dr_domain r)), (''action'', JStr (dr_action r)),
     (''reason'', jopt (dr_reason r)), (''created_at'', JStr (pg_text C (dr_created r)))]"

definition list_domain_rules :: "ctx \<Rightarrow> (string \<Rightarrow> string option) \<Rightarrow> db \<Rightarrow> http" where
  "list_domain_rules C headers d =
     (if \<not> check_admin_token C headers then token_required
      else
      let rows = (case run_read C ''rules.list'' (\<lambda>d. order_by dr_action (order_by dr_domain (domain_rules (fed d)))) d of
            Inr rs \<Rightarrow> rs | Inl _ \<Rightarrow> [])
      in http_json (jok [(''rules'', JArr (map (rule_json C) rows))]))"

definition VALID_ACTIONS :: "string list" where
  "VALID_ACTIONS = [''allow'', ''silence'', ''reject_media'', ''suspend'', ''block'']"

definition upsert_rule :: "domain_rule \<Rightarrow> unit stmt" where
  "upsert_rule r d =
     (if dr_action r \<notin> set VALID_ACTIONS then Inl ''federation_domain_rules_action_check''
      else Inr ((), set_fed (\<lambda>f. f\<lparr>domain_rules :=
        (if find (\<lambda>x. dr_domain x = dr_domain r) (domain_rules f) = None then domain_rules f @ [r]
         else upd_where (\<lambda>x. dr_domain x = dr_domain r)
                (\<lambda>x. x\<lparr>dr_action := dr_action r, dr_reason := dr_reason r\<rparr>) (domain_rules f))\<rparr>) d))"

definition database_error :: http where
  "database_error = api_error 500 ''database error''"

definition set_domain_rule ::
  "ctx \<Rightarrow> (string \<Rightarrow> string option) \<Rightarrow> string \<Rightarrow> string \<Rightarrow> string option \<Rightarrow> db \<Rightarrow> http \<times> db" where
  "set_domain_rule C headers dom_name action reason d =
     (if \<not> check_admin_token C headers then (token_required, d)
      else if action \<notin> set VALID_ACTIONS
      then (api_error 400 ''action must be: allow, silence, reject_media, suspend, or block'', d)
      else
      let host = to_lowercase C (trim dom_name) in
      if host = [] \<or> CHR ''/'' \<in> set host \<or> CHR ''@'' \<in> set host
      then (api_error 400 ''domain must be a bare hostname'', d)
      else
      (case run_write C ''rule.set'' (upsert_rule \<lparr> dr_domain = host, dr_action = action, dr_reason = reason,
             dr_created_by = Some ''admin'', dr_created = now C \<rparr>) d of
         (Inr _, d') \<Rightarrow> (http_json (jok []), d')
       | (Inl _, d') \<Rightarrow> (database_error, d')))"

definition delete_rule :: "string \<Rightarrow> int stmt" where
  "delete_rule host d =
     Inr (count_where (\<lambda>r. dr_domain r = host) (domain_rules (fed d)),
          set_fed (\<lambda>f. f\<lparr>domain_rules := filter (\<lambda>r. dr_domain r \<noteq> host) (domain_rules f)\<rparr>) d)"

definition delete_domain_rule :: "ctx \<Rightarrow> (string \<Rightarrow> string option) \<Rightarrow> string \<Rightarrow> db \<Rightarrow> http \<times> db" where
  "delete_domain_rule C headers dom_name d =
     (if \<not> check_admin_token C headers then (token_required, d)
      else
      (case run_write C ''rule.delete'' (delete_rule (to_lowercase C (trim dom_name))) d of
         (Inr n, d') \<Rightarrow> if 0 < n then (http_json (jok []), d') else (api_error 404 ''domain rule not found'', d')
       | (Inl _, d') \<Rightarrow> (database_error, d')))"


section \<open>Views\<close>

definition count_or_0 :: "ctx \<Rightarrow> string \<Rightarrow> (db \<Rightarrow> int) \<Rightarrow> db \<Rightarrow> int" where
  "count_or_0 C site q d = (case run_read C site q d of Inr n \<Rightarrow> n | Inl _ \<Rightarrow> 0)"

definition admin_overview :: "ctx \<Rightarrow> fed_config \<Rightarrow> (string \<Rightarrow> string option) \<Rightarrow> db \<Rightarrow> http" where
  "admin_overview C F headers d =
     (if \<not> check_admin_token C headers then token_required
      else
      http_json (jok [(''domain'', JStr (fc_domain F)), (''base_url'', JStr (fc_base F)),
        (''remote_actors'', JNum (count_or_0 C ''overview.actors''
            (\<lambda>d. count_where (\<lambda>a. \<not> fa_local a) (actors (fed d))) d)),
        (''active_follows'', JNum (count_or_0 C ''overview.follows''
            (\<lambda>d. count_where (\<lambda>f. ff_status f = ''accepted'') (follows (fed d))) d)),
        (''remote_videos'', JNum (count_or_0 C ''overview.videos''
            (\<lambda>d. count_where (\<lambda>v. \<not> rv_deleted v) (remote_videos (fed d))) d)),
        (''pending_deliveries'', JNum (count_or_0 C ''overview.queued''
            (\<lambda>d. count_where (\<lambda>j. dj_status j = ''queued'') (deliveries (fed d))) d)),
        (''failed_deliveries'', JNum (count_or_0 C ''overview.failed''
            (\<lambda>d. count_where (\<lambda>j. dj_status j = ''failed'') (deliveries (fed d))) d)),
        (''domain_rules'', JNum (count_or_0 C ''overview.rules''
            (\<lambda>d. int (length (domain_rules (fed d)))) d))]))"

text \<open>\<open>limit.clamp(1, 200)\<close>, \<open>offset.max(0)\<close> and SQL's \<open>LIMIT ... OFFSET ...\<close>.\<close>

definition page :: "int \<Rightarrow> int \<Rightarrow> 'r list \<Rightarrow> 'r list" where
  "page limit offset rows = take (nat (max 1 (min limit 200))) (drop (nat offset) rows)"

definition actor_count :: "string \<Rightarrow> db \<Rightarrow> int" where
  "actor_count dom_name d = count_where (\<lambda>a. \<not> fa_local a \<and> fa_domain a = dom_name) (actors (fed d))"

definition instance_json :: "db \<Rightarrow> string \<Rightarrow> json" where
  "instance_json d dom_name = JObj [(''domain'', JStr dom_name), (''actor_count'', JNum (actor_count dom_name d)),
     (''video_count'', JNum (count_where (\<lambda>v. rv_domain v = dom_name \<and> \<not> rv_deleted v) (remote_videos (fed d)))),
     (''domain_rule'', jopt (map_option dr_action (rule_of dom_name d)))]"

definition list_instances :: "ctx \<Rightarrow> (string \<Rightarrow> string option) \<Rightarrow> int \<Rightarrow> int \<Rightarrow> db \<Rightarrow> http" where
  "list_instances C headers limit offset d =
     (if \<not> check_admin_token C headers then token_required
      else
      let rows = (case run_read C ''instances.list'' (\<lambda>d. map (instance_json d) (page limit offset
            (order_by_desc (\<lambda>n. actor_count n d) (order_by (\<lambda>n. n)
               (remdups (map fa_domain (filter (\<lambda>a. \<not> fa_local a) (actors (fed d))))))))) d of
            Inr rs \<Rightarrow> rs | Inl _ \<Rightarrow> [])
      in http_json (jok [(''instances'', JArr rows)]))"

definition activity_json :: "ctx \<Rightarrow> fed_activity \<Rightarrow> json" where
  "activity_json C a = JObj [(''id'', JStr (fx_id a)), (''type'', JStr (fx_type a)), (''actor_uri'', JStr (fx_actor a)),
     (''direction'', JStr (fx_direction a)), (''status'', JStr (fx_status a)), (''error'', jopt (fx_error a)),
     (''created_at'', JStr (pg_text C (fx_created a)))]"

definition list_activities :: "ctx \<Rightarrow> (string \<Rightarrow> string option) \<Rightarrow> int \<Rightarrow> int \<Rightarrow> db \<Rightarrow> http" where
  "list_activities C headers limit offset d =
     (if \<not> check_admin_token C headers then token_required
      else
      let rows = (case run_read C ''activities.list'' (\<lambda>d. page limit offset
            (order_by_desc fx_created (activities (fed d)))) d of Inr rs \<Rightarrow> rs | Inl _ \<Rightarrow> [])
      in http_json (jok [(''activities'', JArr (map (activity_json C) rows))]))"

definition job_json :: "ctx \<Rightarrow> delivery_job \<Rightarrow> json" where
  "job_json C j = JObj [(''id'', JStr (dj_id j)), (''target_inbox_url'', JStr (dj_inbox j)),
     (''attempt_count'', JNum (dj_attempts j)), (''max_attempts'', JNum (dj_max j)), (''status'', JStr (dj_status j)),
     (''last_http_status'', (case dj_http j of None \<Rightarrow> JNull | Some n \<Rightarrow> JNum n)), (''last_error'', jopt (dj_error j)),
     (''next_attempt_at'', JStr (pg_text C (dj_next j)))]"

definition list_delivery_jobs :: "ctx \<Rightarrow> (string \<Rightarrow> string option) \<Rightarrow> int \<Rightarrow> int \<Rightarrow> db \<Rightarrow> http" where
  "list_delivery_jobs C headers limit offset d =
     (if \<not> check_admin_token C headers then token_required
      else
      let rows = (case run_read C ''jobs.list'' (\<lambda>d. page limit offset
            (order_by_desc dj_next (deliveries (fed d)))) d of Inr rs \<Rightarrow> rs | Inl _ \<Rightarrow> [])
      in http_json (jok [(''jobs'', JArr (map (job_json C) rows))]))"


section \<open>Actions\<close>

text \<open>\<open>parse_uuid\<close> is \<open>Uuid::parse_str\<close>, to the canonical form.\<close>

definition requeue :: "instant \<Rightarrow> string \<Rightarrow> int stmt" where
  "requeue t job d =
     (let P = (\<lambda>j. dj_id j = job \<and> dj_status j = ''failed'') in
      Inr (count_where P (deliveries (fed d)),
           set_fed (\<lambda>f. f\<lparr>deliveries := upd_where P
             (\<lambda>j. j\<lparr>dj_status := ''queued'', dj_attempts := 0, dj_next := t, dj_error := None\<rparr>) (deliveries f)\<rparr>) d))"

definition retry_delivery_job ::
  "ctx \<Rightarrow> (string \<Rightarrow> string option) \<Rightarrow> (string \<Rightarrow> string option) \<Rightarrow> string \<Rightarrow> db \<Rightarrow> http \<times> db" where
  "retry_delivery_job C parse_uuid headers job_id d =
     (if \<not> check_admin_token C headers then (token_required, d)
      else
      (case parse_uuid job_id of
         None \<Rightarrow> (api_error 400 ''invalid job id'', d)
       | Some job \<Rightarrow>
           (case run_write C ''job.retry'' (requeue (now C) job) d of
              (Inr n, d') \<Rightarrow> if 0 < n then (http_json (jok []), d')
                             else (api_error 404 ''job not found or not in failed state'', d')
            | (Inl _, d') \<Rightarrow> (database_error, d'))))"

definition purge_domain :: "instant \<Rightarrow> string \<Rightarrow> int stmt" where
  "purge_domain t host d =
     (let P = (\<lambda>v. rv_domain v = host \<and> \<not> rv_deleted v) in
      Inr (count_where P (remote_videos (fed d)),
           set_fed (\<lambda>f. f\<lparr>remote_videos := upd_where P
             (\<lambda>v. v\<lparr>rv_deleted := True, rv_availability := ''deleted'', rv_updated := t\<rparr>) (remote_videos f)\<rparr>) d))"

definition purge_remote_videos :: "ctx \<Rightarrow> (string \<Rightarrow> string option) \<Rightarrow> string \<Rightarrow> db \<Rightarrow> http \<times> db" where
  "purge_remote_videos C headers dom_name d =
     (if \<not> check_admin_token C headers then (token_required, d)
      else
      (case run_write C ''videos.purge'' (purge_domain (now C) (to_lowercase C (trim dom_name))) d of
         (Inr n, d') \<Rightarrow> (http_json (jok [(''removed'', JNum n)]), d')
       | (Inl _, d') \<Rightarrow> (database_error, d')))"

end
