(* ===== verification/FedResolver.thy ===== *)
theory FedResolver
  imports FedModeration
begin

text \<open>
  \<open>src/src/federation/resolver.rs\<close>: the check of a remote URL before it is contacted, and the
  fetching of remote objects and of an actor's public key.
\<close>

datatype ip = V4 nat nat nat nat | V6 nat

text \<open>
  The network: the addresses of a host and port, the answer to a GET (an error of the
  transport, or the status and the body, whose reading may fail), JSON and Unicode texts of a
  status and an address; the answer to a signed POST.
\<close>

record fed_net =
  fn_kit :: rsa_kit
  fn_lookup :: "string \<Rightarrow> string + ip list"
  fn_get :: "string \<Rightarrow> string + nat \<times> (string + string)"
  fn_json :: "string \<Rightarrow> string + json"
  fn_bytes :: "json \<Rightarrow> string"
  fn_status :: "nat \<Rightarrow> string"
  fn_ip :: "ip \<Rightarrow> string"
  fn_post :: "string \<Rightarrow> (string \<times> string) list \<Rightarrow> string \<Rightarrow> string + nat \<times> string"
  fn_uuid :: "string \<Rightarrow> string option"
  fn_chars :: "nat \<Rightarrow> string \<Rightarrow> string"
  fn_jitter :: "string \<Rightarrow> nat"
  fn_f64 :: "string \<Rightarrow> string option"
  fn_price :: "int \<Rightarrow> string"

definition MAX_BODY_BYTES :: nat where "MAX_BODY_BYTES = 128 * 1024"

definition truthy :: "string \<Rightarrow> bool" where
  "truthy v \<longleftrightarrow> v \<in> {''1'', ''true'', ''yes'', ''on''}"

definition dev_bypass_enabled :: "ctx \<Rightarrow> bool" where
  "dev_bypass_enabled C = (case env_var C ''FEDERATION_DEV_HTTP_BYPASS'' of None \<Rightarrow> False | Some v \<Rightarrow> truthy (trim v))"

text \<open>The predicates of \<open>Ipv4Addr\<close> and \<open>Ipv6Addr\<close>, on the octets and on the 128 bits.\<close>

fun is_safe_ip :: "ip \<Rightarrow> bool" where
  "is_safe_ip (V4 a b c e) \<longleftrightarrow>
     \<not> (a = 10 \<or> a = 172 \<and> 16 \<le> b \<and> b \<le> 31 \<or> a = 192 \<and> b = 168)
     \<and> a \<noteq> 127
     \<and> \<not> (a = 169 \<and> b = 254)
     \<and> \<not> (a = 255 \<and> b = 255 \<and> c = 255 \<and> e = 255)
     \<and> \<not> (a = 0 \<and> b = 0 \<and> c = 0 \<and> e = 0)
     \<and> \<not> (a = 192 \<and> b = 0 \<and> c = 2 \<or> a = 198 \<and> b = 51 \<and> c = 100 \<or> a = 203 \<and> b = 0 \<and> c = 113)"
| "is_safe_ip (V6 n) \<longleftrightarrow> n \<noteq> 1 \<and> n div 2 ^ 120 \<noteq> 255 \<and> n \<noteq> 0"

definition rsplit_once :: "char \<Rightarrow> string \<Rightarrow> (string \<times> string) option" where
  "rsplit_once c s = map_option (\<lambda>(a, b). (rev b, rev a)) (split_once c (rev s))"

definition extract_host_port :: "string \<Rightarrow> (string \<times> nat) option" where
  "extract_host_port url =
     (case strip_prefix ''https://'' url of
        None \<Rightarrow> None
      | Some rest \<Rightarrow>
          let hostport = hd (split_on (CHR ''/'') rest) in
          (case rsplit_once (CHR '':'') hostport of
             None \<Rightarrow> Some (hostport, 443)
           | Some (host, port) \<Rightarrow>
               (case parse_uint 16 port of
                  Some n \<Rightarrow> Some (host, nat n)
                | None \<Rightarrow> Some (hostport, 443))))"

definition assert_safe_url :: "ctx \<Rightarrow> fed_net \<Rightarrow> string \<Rightarrow> string + unit" where
  "assert_safe_url C N url =
     (if dev_bypass_enabled C then (if url = [] then Inl ''URL is empty'' else Inr ())
      else if \<not> starts_with ''https://'' url then Inl ''remote URL must use HTTPS''
      else
      (case extract_host_port url of
         None \<Rightarrow> Inl ''failed to parse URL host''
       | Some (host, port) \<Rightarrow>
      if host \<in> {''localhost'', ''127.0.0.1'', ''::1''} then Inl ''remote URL must not target localhost''
      else
      (case fn_lookup N (host @ '':'' @ string_of_nat port) of
         Inl e \<Rightarrow> Inl (''DNS resolution failed for '' @ host @ '': '' @ e)
       | Inr addrs \<Rightarrow>
           (case find (\<lambda>a. \<not> is_safe_ip a) addrs of
              Some a \<Rightarrow> Inl (''URL '' @ url @ '' resolves to private/reserved address '' @ fn_ip N a)
            | None \<Rightarrow> Inr ()))))"

definition fetch_remote_object :: "ctx \<Rightarrow> fed_net \<Rightarrow> string \<Rightarrow> string + json" where
  "fetch_remote_object C N url =
     (case assert_safe_url C N url of
        Inl e \<Rightarrow> Inl e
      | Inr _ \<Rightarrow>
     (case fn_get N url of
        Inl e \<Rightarrow> Inl (''request to '' @ url @ '' failed: '' @ e)
      | Inr (st, body) \<Rightarrow>
     if \<not> (200 \<le> st \<and> st < 300)
     then Inl (''remote '' @ url @ '' returned HTTP '' @ fn_status N st)
     else
     (case body of
        Inl e \<Rightarrow> Inl (''failed to read remote body: '' @ e)
      | Inr bytes \<Rightarrow>
     if MAX_BODY_BYTES < length bytes
     then Inl (''remote body exceeds '' @ string_of_nat MAX_BODY_BYTES @ '' byte limit (''
            @ string_of_nat (length bytes) @ '' bytes)'')
     else
     (case fn_json N bytes of
        Inl e \<Rightarrow> Inl (''remote body is not valid JSON: '' @ e)
      | Inr j \<Rightarrow> Inr j))))"

text \<open>\<open>Value::get\<close> and \<open>as_str\<close>.\<close>

fun as_str :: "json \<Rightarrow> string option" where
  "as_str (JStr s) = Some s"
| "as_str _ = None"

definition get_str :: "string \<Rightarrow> json \<Rightarrow> string option" where
  "get_str k j = Option.bind (jget k j) as_str"

definition str_or :: "string \<Rightarrow> string option \<Rightarrow> string" where
  "str_or s v = (case v of None \<Rightarrow> s | Some x \<Rightarrow> x)"

definition ACTOR_TYPES :: "string list" where
  "ACTOR_TYPES = [''Person'', ''Organization'', ''Application'', ''Service'', ''Group'']"

definition fetch_remote_actor_key :: "ctx \<Rightarrow> fed_net \<Rightarrow> string \<Rightarrow> string + string \<times> string" where
  "fetch_remote_actor_key C N actor_url =
     (case fetch_remote_object C N actor_url of
        Inl e \<Rightarrow> Inl e
      | Inr doc \<Rightarrow>
     let actor_type = str_or [] (get_str ''type'' doc) in
     if actor_type \<notin> set ACTOR_TYPES
     then Inl (''remote document at '' @ actor_url @ '' has unsupported type: '' @ actor_type)
     else
     (case jget ''publicKey'' doc of
        None \<Rightarrow> Inl (''actor at '' @ actor_url @ '' has no publicKey'')
      | Some public_key \<Rightarrow>
     (case get_str ''id'' public_key of
        None \<Rightarrow> Inl ''actor publicKey has no id''
      | Some key_id \<Rightarrow>
     (case get_str ''publicKeyPem'' public_key of
        None \<Rightarrow> Inl ''actor publicKey has no publicKeyPem''
      | Some pem \<Rightarrow> Inr (key_id, pem)))))"

end
