(* ===== verification/FedActivities.thy ===== *)
theory FedActivities
  imports FedResolver
begin

text \<open>
  \<open>src/src/federation/activities.rs\<close> and \<open>src/src/federation/video_index.rs\<close>: the queue of outbound
  activities, the publication of local videos to followers, and the processing of inbound
  activities.
\<close>

definition AP_CONTEXT :: json where
  "AP_CONTEXT = JStr ''https://www.w3.org/ns/activitystreams''"

definition AP_PUBLIC :: string where
  "AP_PUBLIC = ''https://www.w3.org/ns/activitystreams#Public''"


section \<open>Statements\<close>

definition ins_activity :: "string option \<Rightarrow> fed_activity \<Rightarrow> unit stmt" where
  "ins_activity uri a d =
     (if uri = None then Inl ''null value in column activity_uri''
      else if \<exists>x\<in>set (activities (fed d)). fx_id x = fx_id a then Inl ''federation_activities_pkey''
      else if \<exists>x\<in>set (activities (fed d)). fx_uri x = fx_uri a then Inl ''federation_activities_activity_uri_key''
      else Inr ((), set_fed (\<lambda>f. f\<lparr>activities := activities f @ [a]\<rparr>) d))"

definition ins_job :: "delivery_job \<Rightarrow> unit stmt" where
  "ins_job j d =
     (if \<exists>x\<in>set (deliveries (fed d)). dj_id x = dj_id j then Inl ''federation_delivery_jobs_pkey''
      else if \<forall>x\<in>set (activities (fed d)). fx_id x \<noteq> dj_activity j then Inl ''federation_delivery_jobs_activity_id_fkey''
      else Inr ((), set_fed (\<lambda>f. f\<lparr>deliveries := deliveries f @ [j]\<rparr>) d))"

definition set_activity_status :: "instant \<Rightarrow> string \<Rightarrow> string \<Rightarrow> unit stmt" where
  "set_activity_status t i status d =
     Inr ((), set_fed (\<lambda>f. f\<lparr>activities := upd_where (\<lambda>x. fx_id x = i)
       (\<lambda>x. x\<lparr>fx_status := status, fx_processed := Some t\<rparr>) (activities f)\<rparr>) d)"

definition mark_activity :: "ctx \<Rightarrow> string \<Rightarrow> string \<Rightarrow> string \<Rightarrow> db \<Rightarrow> (string + unit) \<times> db" where
  "mark_activity C site i status d =
     (case run_write C site (set_activity_status (now C) i status) d of
        (Inl _, d') \<Rightarrow> (Inl ''activity status update failed'', d')
      | (Inr _, d') \<Rightarrow> (Inr (), d'))"


section \<open>Outbound activities\<close>

definition outbound_row :: "ctx \<Rightarrow> string \<Rightarrow> string \<Rightarrow> json \<Rightarrow> fed_activity" where
  "outbound_row C site actor payload =
     \<lparr> fx_id = fresh_uuid C (site @ ''.activity''), fx_uri = str_or [] (get_str ''id'' payload),
       fx_type = str_or ''Unknown'' (get_str ''type'' payload), fx_actor = actor, fx_object = None,
       fx_direction = ''outbound'', fx_payload = payload, fx_status = ''pending'', fx_error = None,
       fx_received = None, fx_processed = None, fx_created = now C \<rparr>"

definition queued_job :: "ctx \<Rightarrow> string \<Rightarrow> string \<Rightarrow> string \<Rightarrow> delivery_job" where
  "queued_job C site activity inbox =
     \<lparr> dj_id = fresh_uuid C (site @ ''.job''), dj_activity = activity, dj_inbox = inbox, dj_attempts = 0, dj_max = 10,
       dj_next = now C, dj_status = ''queued'', dj_http = None, dj_error = None, dj_delivered = None \<rparr>"

text \<open>\<open>site\<close> names the call, as in a loop there are several.\<close>

definition queue_outbound_activity ::
  "ctx \<Rightarrow> string \<Rightarrow> string \<Rightarrow> json \<Rightarrow> string \<Rightarrow> db \<Rightarrow> (string + unit) \<times> db" where
  "queue_outbound_activity C site actor payload inbox d =
     (let row = outbound_row C site actor payload;
          uri = (if fx_uri row = [] then None else Some (fx_uri row)) in
      case run_write C (site @ ''.activity'') (ins_activity uri row) d of
        (Inl _, d1) \<Rightarrow> (Inl ''outbound activity insert failed'', d1)
      | (Inr _, d1) \<Rightarrow>
     (case run_write C (site @ ''.job'') (ins_job (queued_job C site (fx_id row) inbox)) d1 of
        (Inl _, d2) \<Rightarrow> (Inl ''delivery job insert failed'', d2)
      | (Inr _, d2) \<Rightarrow> (Inr (), d2)))"


section \<open>Local videos\<close>

definition video_context :: json where
  "video_context = JArr [AP_CONTEXT, JObj [(''PPVStream'', JStr ''https://ppvstream.org/ns/1.0#''),
     (''priceAmount'', JStr ''PPVStream:priceAmount''), (''priceCurrency'', JStr ''PPVStream:priceCurrency''),
     (''checkoutUrl'', JStr ''PPVStream:checkoutUrl'')]]"

definition owner_uri :: "string \<Rightarrow> string \<Rightarrow> user option \<Rightarrow> string" where
  "owner_uri base owner u = str_or (base @ ''/users/'' @ owner) (Option.bind u u_actor)"

definition build_video_object ::
  "ctx \<Rightarrow> fed_net \<Rightarrow> string \<Rightarrow> string \<Rightarrow> db \<Rightarrow> string + json option" where
  "build_video_object C N vid base d =
     (case run_read C ''object.video'' (find_video vid) d of
        Inl _ \<Rightarrow> Inl ''video lookup failed''
      | Inr None \<Rightarrow> Inr None
      | Inr (Some v) \<Rightarrow>
     if v_visibility v \<noteq> ''public'' then Inr None
     else
     (case run_read C ''object.owner'' (find_user (v_owner v)) d of
        Inl _ \<Rightarrow> Inl ''owner actor URI lookup failed''
      | Inr u \<Rightarrow>
          Inr (Some (JObj [(''@context'', video_context),
            (''id'', JStr (str_or (base @ ''/videos/'' @ vid) (v_object v))), (''type'', JStr ''Video''),
            (''name'', JStr (v_title v)), (''content'', JStr (v_description v)),
            (''attributedTo'', JStr (owner_uri base (v_owner v) u)), (''to'', JArr [JStr AP_PUBLIC]),
            (''published'', JStr (rfc3339 C (now C))),
            (''url'', JArr [JObj [(''type'', JStr ''Link''), (''href'', JStr (base @ ''/watch/'' @ vid)),
               (''mediaType'', JStr ''text/html''), (''name'', JStr ''Watch on origin'')]]),
            (''priceAmount'', JStr (fn_price N (v_price v))), (''priceCurrency'', JStr ''USD''),
            (''checkoutUrl'', JStr (base @ ''/checkout/'' @ vid))]))))"

text \<open>The inboxes of the accepted followers, the shared one where there is one, each once.\<close>

definition actor_by_id :: "string \<Rightarrow> db \<Rightarrow> fed_actor option" where
  "actor_by_id i d = find (\<lambda>a. fa_id a = i) (actors (fed d))"

definition follower_inbox :: "string \<Rightarrow> db \<Rightarrow> fed_follow \<Rightarrow> string option" where
  "follower_inbox actor d f =
     (if ff_status f \<noteq> ''accepted'' then None
      else
      (case (actor_by_id (ff_following f) d, actor_by_id (ff_follower f) d) of
         (Some l, Some a) \<Rightarrow> if fa_uri l = actor then Some (str_or (fa_inbox a) (fa_shared_inbox a)) else None
       | _ \<Rightarrow> None))"

definition follower_delivery_inboxes :: "string \<Rightarrow> db \<Rightarrow> string list" where
  "follower_delivery_inboxes actor d =
     rev (remdups (rev (List.map_filter (follower_inbox actor d) (follows (fed d)))))"

fun broadcast :: "ctx \<Rightarrow> nat \<Rightarrow> string \<Rightarrow> json \<Rightarrow> string list \<Rightarrow> db \<Rightarrow> (string + unit) \<times> db" where
  "broadcast C i actor activity [] d = (Inr (), d)"
| "broadcast C i actor activity (inbox # inboxes) d =
     (case queue_outbound_activity C (''broadcast.'' @ string_of_nat i) actor activity inbox d of
        (Inl _, d') \<Rightarrow> (Inl ''queuing broadcast delivery failed'', d')
      | (Inr _, d') \<Rightarrow> broadcast C (Suc i) actor activity inboxes d')"

definition broadcast_to_followers :: "ctx \<Rightarrow> string \<Rightarrow> json \<Rightarrow> db \<Rightarrow> (string + unit) \<times> db" where
  "broadcast_to_followers C actor activity d =
     (case run_read C ''broadcast.inboxes'' (follower_delivery_inboxes actor) d of
        Inl _ \<Rightarrow> (Inl ''follower inbox query failed'', d)
      | Inr inboxes \<Rightarrow> broadcast C 0 actor activity inboxes d)"

definition assign_object :: "string \<Rightarrow> string \<Rightarrow> unit stmt" where
  "assign_object vid uri d =
     (if (\<exists>v\<in>set (videos d). v_id v = vid \<and> v_object v = None) \<and> (\<exists>v\<in>set (videos d). v_object v = Some uri)
      then Inl ''videos_object_uri_uq''
      else Inr ((), d\<lparr>videos := upd_where (\<lambda>v. v_id v = vid \<and> v_object v = None) (\<lambda>v. v\<lparr>v_object := Some uri\<rparr>) (videos d)\<rparr>))"

definition video_activity :: "ctx \<Rightarrow> string \<Rightarrow> string \<Rightarrow> string \<Rightarrow> string \<Rightarrow> json \<Rightarrow> json" where
  "video_activity C site base kind actor obj = JObj [(''@context'', AP_CONTEXT),
     (''id'', JStr (base @ ''/activities/'' @ fresh_uuid C site)), (''type'', JStr kind), (''actor'', JStr actor),
     (''to'', JArr [JStr AP_PUBLIC]), (''object'', obj)]"

definition publish_create :: "ctx \<Rightarrow> fed_net \<Rightarrow> string \<Rightarrow> string \<Rightarrow> db \<Rightarrow> (string + string option) \<times> db" where
  "publish_create C N vid base d =
     (let uri = base @ ''/videos/'' @ vid in
      case run_write C ''create.object'' (assign_object vid uri) d of
        (Inl _, d1) \<Rightarrow> (Inl ''video object_uri assignment failed'', d1)
      | (Inr _, d1) \<Rightarrow>
     (case build_video_object C N vid base d1 of
        Inl e \<Rightarrow> (Inl e, d1)
      | Inr None \<Rightarrow> (Inr None, d1)
      | Inr (Some obj) \<Rightarrow>
          let actor = str_or [] (get_str ''attributedTo'' obj) in
          (case broadcast_to_followers C actor (video_activity C ''create.activity'' base ''Create'' actor obj) d1 of
             (Inl e, d2) \<Rightarrow> (Inl e, d2)
           | (Inr _, d2) \<Rightarrow> (Inr (Some uri), d2))))"

text \<open>The statement that refreshes \<open>federation_updated_at\<close>, a column the program never reads.\<close>

definition publish_update :: "ctx \<Rightarrow> fed_net \<Rightarrow> string \<Rightarrow> string \<Rightarrow> db \<Rightarrow> (string + unit) \<times> db" where
  "publish_update C N vid base d =
     (case build_video_object C N vid base d of
        Inl e \<Rightarrow> (Inl e, d)
      | Inr None \<Rightarrow> (Inr (), d)
      | Inr (Some obj) \<Rightarrow>
          let actor = str_or [] (get_str ''attributedTo'' obj) in
          (case run_write C ''update.refresh'' (\<lambda>d. Inr ((), d)) d of
             (Inl _, d1) \<Rightarrow> (Inl ''video federation_updated_at refresh failed'', d1)
           | (Inr _, d1) \<Rightarrow>
               broadcast_to_followers C actor (video_activity C ''update.activity'' base ''Update'' actor obj) d1))"

definition publish_delete :: "ctx \<Rightarrow> string \<Rightarrow> string \<Rightarrow> db \<Rightarrow> (string + unit) \<times> db" where
  "publish_delete C vid base d =
     (case run_read C ''delete.video'' (find_video vid) d of
        Inl _ \<Rightarrow> (Inl ''video lookup for Delete failed'', d)
      | Inr v \<Rightarrow>
     (case Option.bind v (\<lambda>v. map_option (\<lambda>uri. (v_owner v, uri)) (v_object v)) of
        None \<Rightarrow> (Inr (), d)
      | Some (owner, uri) \<Rightarrow>
     (case run_read C ''delete.owner'' (find_user owner) d of
        Inl _ \<Rightarrow> (Inl ''owner actor lookup failed'', d)
      | Inr u \<Rightarrow>
          let actor = owner_uri base owner u in
          broadcast_to_followers C actor (video_activity C ''delete.activity'' base ''Delete'' actor (JStr uri)) d)))"

end
