(* ===== verification/FedInbound.thy ===== *)
theory FedInbound
  imports FedActivities
begin

text \<open>
  \<open>src/src/federation/activities.rs\<close> and \<open>video_index.rs\<close>, inbound: the catalog of remote videos,
  follows and their answers; and \<open>collections.rs\<close>: the inboxes and the collections of an actor.
\<close>

section \<open>The remote catalog\<close>

definition is_video_object :: "json \<Rightarrow> bool" where
  "is_video_object obj \<longleftrightarrow> get_str ''type'' obj = Some ''Video''"

text \<open>A string, or the \<open>id\<close> of an object.\<close>

definition object_id :: "json \<Rightarrow> string option" where
  "object_id obj = (case obj of JStr s \<Rightarrow> Some s | _ \<Rightarrow> get_str ''id'' obj)"

definition extract_object_id :: "json \<Rightarrow> string option" where
  "extract_object_id activity = Option.bind (jget ''object'' activity) object_id"

definition extract_video_object :: "json \<Rightarrow> (json \<times> string) option" where
  "extract_video_object activity =
     (case jget ''object'' activity of
        None \<Rightarrow> None
      | Some obj \<Rightarrow>
          if \<not> is_video_object obj then None else map_option (\<lambda>uri. (obj, uri)) (object_id obj))"

definition html_href :: "json \<Rightarrow> string option" where
  "html_href url =
     (case url of
        JStr s \<Rightarrow> Some s
      | JArr items \<Rightarrow>
          Option.bind (find (\<lambda>item. get_str ''mediaType'' item = Some ''text/html'') items) (get_str ''href'')
      | _ \<Rightarrow> None)"

definition content_or_summary :: "json \<Rightarrow> string option" where
  "content_or_summary obj =
     Option.bind (case jget ''content'' obj of Some c \<Rightarrow> Some c | None \<Rightarrow> jget ''summary'' obj) as_str"

definition remote_row :: "ctx \<Rightarrow> fed_net \<Rightarrow> string \<Rightarrow> string \<Rightarrow> json \<Rightarrow> bool \<Rightarrow> remote_video" where
  "remote_row C N actor uri obj mark_deleted =
     \<lparr> rv_id = fresh_uuid C ''remote.video'', rv_uri = uri, rv_actor = actor, rv_domain = url_domain ''unknown'' actor,
       rv_title = str_or ''Untitled'' (get_str ''name'' obj), rv_description = content_or_summary obj,
       rv_thumbnail = None, rv_canonical = str_or uri (Option.bind (jget ''url'' obj) html_href),
       rv_checkout = get_str ''checkoutUrl'' obj,
       rv_price = Option.bind (get_str ''priceAmount'' obj) (fn_f64 N), rv_currency = get_str ''priceCurrency'' obj,
       rv_rating = None, rv_availability = (if mark_deleted then ''deleted'' else ''available''),
       rv_published = Option.bind (get_str ''published'' obj) (rfc3339_parse C), rv_raw = obj,
       rv_deleted = mark_deleted, rv_updated = now C \<rparr>"

text \<open>On a conflict the identifier, the domain, the thumbnail and the rating of the old row stay.\<close>

definition upsert_video_row :: "remote_video \<Rightarrow> unit stmt" where
  "upsert_video_row r d =
     Inr ((), set_fed (\<lambda>f. f\<lparr>remote_videos :=
       (if find (\<lambda>x. rv_uri x = rv_uri r) (remote_videos f) = None then remote_videos f @ [r]
        else upd_where (\<lambda>x. rv_uri x = rv_uri r) (\<lambda>x. r\<lparr>rv_id := rv_id x, rv_domain := rv_domain x,
               rv_thumbnail := rv_thumbnail x, rv_rating := rv_rating x\<rparr>) (remote_videos f))\<rparr>) d)"

definition upsert_remote_video ::
  "ctx \<Rightarrow> fed_net \<Rightarrow> string \<Rightarrow> json \<Rightarrow> bool \<Rightarrow> db \<Rightarrow> (string + unit) \<times> db" where
  "upsert_remote_video C N actor obj mark_deleted d =
     (case get_str ''id'' obj of
        None \<Rightarrow> (Inl ''Video object has no id'', d)
      | Some uri \<Rightarrow>
          if \<not> is_video_object obj then (Inr (), d)
          else
          (case run_write C ''remote.upsert'' (upsert_video_row (remote_row C N actor uri obj mark_deleted)) d of
             (Inl _, d') \<Rightarrow> (Inl ''remote video catalog upsert failed'', d')
           | (Inr _, d') \<Rightarrow> (Inr (), d')))"

definition process_remote_create :: "ctx \<Rightarrow> fed_net \<Rightarrow> string \<Rightarrow> json \<Rightarrow> db \<Rightarrow> (string + unit) \<times> db" where
  "process_remote_create C N actor obj d = upsert_remote_video C N actor obj False d"

definition process_remote_update :: "ctx \<Rightarrow> fed_net \<Rightarrow> string \<Rightarrow> json \<Rightarrow> db \<Rightarrow> (string + unit) \<times> db" where
  "process_remote_update C N actor obj d = upsert_remote_video C N actor obj False d"

definition delete_remote :: "instant \<Rightarrow> string \<Rightarrow> unit stmt" where
  "delete_remote t uri d =
     Inr ((), set_fed (\<lambda>f. f\<lparr>remote_videos := upd_where (\<lambda>v. rv_uri v = uri)
       (\<lambda>v. v\<lparr>rv_deleted := True, rv_availability := ''deleted'', rv_updated := t\<rparr>) (remote_videos f)\<rparr>) d)"

definition process_remote_delete :: "ctx \<Rightarrow> string \<Rightarrow> db \<Rightarrow> (string + unit) \<times> db" where
  "process_remote_delete C uri d =
     (case run_write C ''remote.delete'' (delete_remote (now C) uri) d of
        (Inl _, d') \<Rightarrow> (Inl ''remote video delete failed'', d')
      | (Inr _, d') \<Rightarrow> (Inr (), d'))"


section \<open>Follows\<close>

definition doc_str :: "string \<Rightarrow> string \<Rightarrow> json \<Rightarrow> string option" where
  "doc_str k1 k2 doc = Option.bind (jget k1 doc) (get_str k2)"

definition remote_actor_row :: "ctx \<Rightarrow> string \<Rightarrow> json \<Rightarrow> string \<Rightarrow> fed_actor" where
  "remote_actor_row C uri doc inbox =
     \<lparr> fa_id = fresh_uuid C ''actor.id'', fa_user = None, fa_uri = uri,
       fa_username = str_or (last (split_on (CHR ''/'') uri)) (get_str ''preferredUsername'' doc),
       fa_domain = url_domain ''unknown'' uri, fa_inbox = inbox,
       fa_shared_inbox = doc_str ''endpoints'' ''sharedInbox'' doc, fa_key_id = doc_str ''publicKey'' ''id'' doc,
       fa_key_pem = doc_str ''publicKey'' ''publicKeyPem'' doc, fa_key_encrypted = None, fa_local = False,
       fa_fetched = Some (now C) \<rparr>"

text \<open>The result is \<open>RETURNING id\<close>.\<close>

definition upsert_actor_row :: "fed_actor \<Rightarrow> string stmt" where
  "upsert_actor_row a d =
     (case find_actor (fa_uri a) d of
        None \<Rightarrow> Inr (fa_id a, set_actors (\<lambda>rows. rows @ [a]) d)
      | Some old \<Rightarrow>
          Inr (fa_id old, set_actors (upd_where (\<lambda>x. fa_uri x = fa_uri a)
            (\<lambda>x. x\<lparr>fa_inbox := fa_inbox a, fa_shared_inbox := fa_shared_inbox a, fa_key_id := fa_key_id a,
                    fa_key_pem := fa_key_pem a, fa_fetched := fa_fetched a\<rparr>)) d))"

definition upsert_remote_actor :: "ctx \<Rightarrow> fed_net \<Rightarrow> string \<Rightarrow> db \<Rightarrow> (string + string \<times> string) \<times> db" where
  "upsert_remote_actor C N uri d =
     (case run_read C ''actor.cached'' (\<lambda>d. find (\<lambda>a. fa_uri a = uri \<and> \<not> fa_local a) (actors (fed d))) d of
        Inl _ \<Rightarrow> (Inl ''remote actor cache lookup failed'', d)
      | Inr (Some a) \<Rightarrow> (Inr (fa_id a, fa_inbox a), d)
      | Inr None \<Rightarrow>
     (case fetch_remote_object C N uri of
        Inl e \<Rightarrow> (Inl (''failed to fetch remote actor '' @ uri @ '': '' @ e), d)
      | Inr doc \<Rightarrow>
     (case get_str ''inbox'' doc of
        None \<Rightarrow> (Inl (''remote actor '' @ uri @ '' has no inbox URL''), d)
      | Some inbox \<Rightarrow>
     (case run_write C ''actor.upsert'' (upsert_actor_row (remote_actor_row C uri doc inbox)) d of
        (Inl _, d') \<Rightarrow> (Inl ''remote actor upsert failed'', d')
      | (Inr i, d') \<Rightarrow> (Inr (i, inbox), d')))))"

definition upsert_follow :: "fed_follow \<Rightarrow> unit stmt" where
  "upsert_follow r d =
     (let same = (\<lambda>x. ff_follower x = ff_follower r \<and> ff_following x = ff_following r) in
      if \<exists>x\<in>set (follows (fed d)). \<not> same x \<and> ff_uri x = ff_uri r
      then Inl ''federation_follows_activity_uri_key''
      else Inr ((), set_fed (\<lambda>f. f\<lparr>follows :=
        (if find same (follows f) = None then follows f @ [r]
         else upd_where same (\<lambda>x. x\<lparr>ff_status := ''accepted'', ff_uri := ff_uri r\<rparr>) (follows f))\<rparr>) d))"

definition build_accept :: "ctx \<Rightarrow> string \<Rightarrow> json \<Rightarrow> json" where
  "build_accept C local_uri follow = JObj [(''@context'', AP_CONTEXT),
     (''id'', JStr (local_uri @ ''/activities/'' @ fresh_uuid C ''accept.id'')), (''type'', JStr ''Accept''),
     (''actor'', JStr local_uri), (''object'', follow), (''published'', JStr (rfc3339 C (now C)))]"

definition handle_follow :: "ctx \<Rightarrow> fed_net \<Rightarrow> string \<Rightarrow> json \<Rightarrow> string \<Rightarrow> db \<Rightarrow> (string + unit) \<times> db" where
  "handle_follow C N follower activity act_id d =
     (case extract_object_id activity of
        None \<Rightarrow> (Inl ''Follow activity has no recognisable object'', d)
      | Some uri \<Rightarrow>
     (case run_read C ''follow.local'' (\<lambda>d. find (\<lambda>a. fa_uri a = uri \<and> fa_local a) (actors (fed d))) d of
        Inl _ \<Rightarrow> (Inl ''local actor lookup failed'', d)
      | Inr None \<Rightarrow> mark_activity C ''follow.ignored'' act_id ''ignored'' d
      | Inr (Some l) \<Rightarrow>
     (case upsert_remote_actor C N follower d of
        (Inl e, d1) \<Rightarrow> (Inl e, d1)
      | (Inr (follower_id, inbox), d1) \<Rightarrow>
     (case run_write C ''follow.upsert'' (upsert_follow
             \<lparr> ff_id = fresh_uuid C ''follow.id'', ff_follower = follower_id, ff_following = fa_id l,
               ff_uri = str_or [] (get_str ''id'' activity), ff_status = ''accepted'', ff_created = now C \<rparr>) d1 of
        (Inl _, d2) \<Rightarrow> (Inl ''federation_follows upsert failed'', d2)
      | (Inr _, d2) \<Rightarrow>
     (case mark_activity C ''follow.processed'' act_id ''processed'' d2 of
        (Inl e, d3) \<Rightarrow> (Inl e, d3)
      | (Inr _, d3) \<Rightarrow>
     (case queue_outbound_activity C ''accept'' (fa_uri l) (build_accept C (fa_uri l) activity) inbox d3 of
        (Inl _, d4) \<Rightarrow> (Inl ''queuing Accept{Follow} failed'', d4)
      | (Inr _, d4) \<Rightarrow> (Inr (), d4)))))))"

text \<open>\<open>UPDATE ... FROM federation_actors\<close>: the follows of local actors with that activity.\<close>

definition set_follow_status :: "string \<Rightarrow> string \<Rightarrow> unit stmt" where
  "set_follow_status uri status d =
     Inr ((), set_fed (\<lambda>f. f\<lparr>follows := upd_where
       (\<lambda>x. ff_uri x = uri \<and> (\<exists>a\<in>set (actors f). fa_id a = ff_following x \<and> fa_local a))
       (\<lambda>x. x\<lparr>ff_status := status\<rparr>) (follows f)\<rparr>) d)"

definition answer_follow :: "ctx \<Rightarrow> string \<Rightarrow> string \<Rightarrow> string \<Rightarrow> json \<Rightarrow> string \<Rightarrow> db \<Rightarrow> (string + unit) \<times> db" where
  "answer_follow C site status err activity act_id d =
     (let uri = str_or [] (extract_object_id activity) in
      if uri = [] then mark_activity C (site @ ''.processed'') act_id ''processed'' d
      else
      (case run_write C (site @ ''.update'') (set_follow_status uri status) d of
         (Inl _, d1) \<Rightarrow> (Inl err, d1)
       | (Inr _, d1) \<Rightarrow> mark_activity C (site @ ''.processed'') act_id ''processed'' d1))"

definition handle_accept :: "ctx \<Rightarrow> json \<Rightarrow> string \<Rightarrow> db \<Rightarrow> (string + unit) \<times> db" where
  "handle_accept C = answer_follow C ''accepted'' ''accepted'' ''Accept{Follow} status update failed''"

definition handle_reject :: "ctx \<Rightarrow> json \<Rightarrow> string \<Rightarrow> db \<Rightarrow> (string + unit) \<times> db" where
  "handle_reject C = answer_follow C ''rejected'' ''rejected'' ''Reject{Follow} status update failed''"

definition cancel_follow :: "string \<Rightarrow> string \<Rightarrow> unit stmt" where
  "cancel_follow actor uri d =
     Inr ((), set_fed (\<lambda>f. f\<lparr>follows := upd_where
       (\<lambda>x. ff_uri x = uri \<and> (\<exists>a\<in>set (actors f). fa_id a = ff_follower x \<and> fa_uri a = actor))
       (\<lambda>x. x\<lparr>ff_status := ''cancelled''\<rparr>) (follows f)\<rparr>) d)"

definition handle_undo :: "ctx \<Rightarrow> string \<Rightarrow> json \<Rightarrow> string \<Rightarrow> db \<Rightarrow> (string + unit) \<times> db" where
  "handle_undo C actor activity act_id d =
     (let obj = jget ''object'' activity in
      if str_or [] (Option.bind obj (get_str ''type'')) \<noteq> ''Follow''
      then mark_activity C ''undo.ignored'' act_id ''ignored'' d
      else
      let uri = str_or [] (case Option.bind obj (get_str ''id'') of Some i \<Rightarrow> Some i | None \<Rightarrow> Option.bind obj as_str) in
      (case run_write C ''undo.update'' (cancel_follow actor uri) d of
         (Inl _, d1) \<Rightarrow> (Inl ''Undo{Follow} update failed'', d1)
       | (Inr _, d1) \<Rightarrow> mark_activity C ''undo.processed'' act_id ''processed'' d1))"

text \<open>The administrator's rejection of a follower.\<close>

definition reject_activity :: "ctx \<Rightarrow> string \<Rightarrow> string \<Rightarrow> string \<Rightarrow> json" where
  "reject_activity C local_uri follow_uri follower = JObj [(''@context'', AP_CONTEXT),
     (''id'', JStr (local_uri @ ''/activities/'' @ fresh_uuid C ''reject.id'')), (''type'', JStr ''Reject''),
     (''actor'', JStr local_uri), (''object'', JObj [(''type'', JStr ''Follow''), (''id'', JStr follow_uri),
        (''actor'', JStr follower), (''object'', JStr local_uri)]), (''published'', JStr (rfc3339 C (now C)))]"

definition follow_parties :: "string \<Rightarrow> db \<Rightarrow> (fed_follow \<times> fed_actor \<times> fed_actor) option" where
  "follow_parties follow_id d =
     (case find (\<lambda>x. ff_id x = follow_id) (follows (fed d)) of
        None \<Rightarrow> None
      | Some x \<Rightarrow>
          (case (actor_by_id (ff_follower x) d, actor_by_id (ff_following x) d) of
             (Some a, Some l) \<Rightarrow> if fa_local l then Some (x, a, l) else None
           | _ \<Rightarrow> None))"

definition reject_row :: "string \<Rightarrow> unit stmt" where
  "reject_row follow_id d =
     Inr ((), set_fed (\<lambda>f. f\<lparr>follows := upd_where (\<lambda>x. ff_id x = follow_id)
       (\<lambda>x. x\<lparr>ff_status := ''rejected''\<rparr>) (follows f)\<rparr>) d)"

definition send_reject :: "ctx \<Rightarrow> string \<Rightarrow> db \<Rightarrow> (string + unit) \<times> db" where
  "send_reject C follow_id d =
     (case run_read C ''reject.follow'' (follow_parties follow_id) d of
        Inl _ \<Rightarrow> (Inl ''follow lookup for Reject failed'', d)
      | Inr None \<Rightarrow> (Inl (''follow record '' @ follow_id @ '' not found or not targeting a local actor''), d)
      | Inr (Some (x, a, l)) \<Rightarrow>
     (case run_write C ''reject.row'' (reject_row follow_id) d of
        (Inl _, d1) \<Rightarrow> (Inl (''follow status '' @ map chr [226, 134, 146] @ '' rejected failed''), d1)
      | (Inr _, d1) \<Rightarrow>
     (case queue_outbound_activity C ''reject'' (fa_uri l) (reject_activity C (fa_uri l) (ff_uri x) (fa_uri a))
             (fa_inbox a) d1 of
        (Inl _, d2) \<Rightarrow> (Inl ''queuing Reject{Follow} failed'', d2)
      | (Inr _, d2) \<Rightarrow> (Inr (), d2))))"


section \<open>The dispatch of inbound activities\<close>

definition handle_create_or_update ::
  "ctx \<Rightarrow> fed_net \<Rightarrow> string \<Rightarrow> json \<Rightarrow> string \<Rightarrow> db \<Rightarrow> (string + unit) \<times> db" where
  "handle_create_or_update C N actor activity act_id d =
     (case extract_video_object activity of
        None \<Rightarrow> mark_activity C ''video.ignored'' act_id ''ignored'' d
      | Some (obj, _) \<Rightarrow>
          (case (if str_or ''Create'' (get_str ''type'' activity) = ''Update'' then process_remote_update C N actor obj d
                 else process_remote_create C N actor obj d) of
             (Inl _, d1) \<Rightarrow> (Inl ''remote video catalog update failed'', d1)
           | (Inr _, d1) \<Rightarrow> mark_activity C ''video.processed'' act_id ''processed'' d1))"

definition handle_delete :: "ctx \<Rightarrow> json \<Rightarrow> string \<Rightarrow> db \<Rightarrow> (string + unit) \<times> db" where
  "handle_delete C activity act_id d =
     (case extract_object_id activity of
        None \<Rightarrow> mark_activity C ''delete.processed'' act_id ''processed'' d
      | Some uri \<Rightarrow>
          (case process_remote_delete C uri d of
             (Inl _, d1) \<Rightarrow> (Inl ''remote video delete failed'', d1)
           | (Inr _, d1) \<Rightarrow> mark_activity C ''delete.processed'' act_id ''processed'' d1))"

definition dispatch :: "ctx \<Rightarrow> fed_net \<Rightarrow> string \<Rightarrow> json \<Rightarrow> string \<Rightarrow> db \<Rightarrow> (string + unit) \<times> db" where
  "dispatch C N actor activity act_id d =
     (let kind = str_or [] (get_str ''type'' activity) in
      if kind = ''Follow'' then handle_follow C N actor activity act_id d
      else if kind = ''Accept'' then handle_accept C activity act_id d
      else if kind = ''Reject'' then handle_reject C activity act_id d
      else if kind = ''Undo'' then handle_undo C actor activity act_id d
      else if kind = ''Create'' \<or> kind = ''Update'' then handle_create_or_update C N actor activity act_id d
      else if kind = ''Delete'' then handle_delete C activity act_id d
      else mark_activity C ''dispatch.ignored'' act_id ''ignored'' d)"

definition handle_inbound_activity ::
  "ctx \<Rightarrow> fed_net \<Rightarrow> string \<Rightarrow> json \<Rightarrow> string \<Rightarrow> db \<Rightarrow> (string + unit) \<times> db" where
  "handle_inbound_activity C N actor activity act_id d =
     (case dispatch C N actor activity act_id d of
        (Inl e, d1) \<Rightarrow> (Inl e, snd (mark_activity C ''dispatch.failed'' act_id ''failed'' d1))
      | (Inr _, d1) \<Rightarrow> (Inr (), d1))"


section \<open>The inboxes\<close>

definition MAX_PAYLOAD_BYTES :: nat where "MAX_PAYLOAD_BYTES = 64 * 1024"

definition accepted :: http where
  "accepted = (202, JObj [(''status'', JStr ''accepted'')])"

definition inbox_path :: "fed_config \<Rightarrow> string option \<Rightarrow> string" where
  "inbox_path F target =
     (case target of
        None \<Rightarrow> ''/inbox''
      | Some uri \<Rightarrow> str_or ''/inbox'' (strip_prefix (fc_base F) uri) @ ''/inbox'')"

definition inbound_row :: "ctx \<Rightarrow> string \<Rightarrow> string \<Rightarrow> string \<Rightarrow> json \<Rightarrow> fed_activity" where
  "inbound_row C uri kind actor activity =
     \<lparr> fx_id = fresh_uuid C ''inbox.activity'', fx_uri = uri, fx_type = kind, fx_actor = actor,
       fx_object = extract_object_id activity, fx_direction = ''inbound'', fx_payload = activity,
       fx_status = ''pending'', fx_error = None, fx_received = Some (now C), fx_processed = None,
       fx_created = now C \<rparr>"

text \<open>
  \<open>headers\<close> are the request's headers by lower-case name.  The last result is the processing
  that is started in the background: the actor, the activity and the stored row.
\<close>

definition store_inbound ::
  "ctx \<Rightarrow> string \<Rightarrow> string \<Rightarrow> string \<Rightarrow> json \<Rightarrow> db \<Rightarrow> http \<times> (string \<times> json \<times> string) option \<times> db" where
  "store_inbound C uri kind actor activity d =
     (if uri \<noteq> [] \<and> (case run_read C ''inbox.seen'' (\<lambda>d. \<exists>x\<in>set (activities (fed d)). fx_uri x = uri) d of
            Inr b \<Rightarrow> b | Inl _ \<Rightarrow> False)
      then (accepted, None, d)
      else
      let row = inbound_row C uri kind actor activity in
      (case run_write C ''inbox.store'' (ins_activity (if uri = [] then None else Some uri) row) d of
         (Inl _, d') \<Rightarrow> (api_error 500 ''failed to process activity'', None, d')
       | (Inr _, d') \<Rightarrow> (accepted, Some (actor, activity, fx_id row), d')))"

definition process_inbox ::
  "ctx \<Rightarrow> fed_net \<Rightarrow> fed_config \<Rightarrow> string option \<Rightarrow> (string \<Rightarrow> string option) \<Rightarrow> string \<Rightarrow> db
    \<Rightarrow> http \<times> (string \<times> json \<times> string) option \<times> db" where
  "process_inbox C N F target headers body d =
     (if MAX_PAYLOAD_BYTES < length body then (api_error 413 ''payload exceeds 64 KB federation limit'', None, d)
      else
      (case fn_json N body of
         Inl _ \<Rightarrow> (api_error 400 ''invalid JSON payload'', None, d)
       | Inr activity \<Rightarrow>
      let uri = str_or [] (get_str ''id'' activity);
          kind = str_or [] (get_str ''type'' activity);
          actor = str_or [] (get_str ''actor'' activity);
          host = url_domain [] actor in
      if host \<noteq> [] \<and> is_domain_blocked C host d then (api_error 403 ''domain is blocked'', None, d)
      else if (case headers ''digest'' of None \<Rightarrow> False | Some h \<Rightarrow> verify_digest (fn_kit N) body h \<noteq> Inr ())
      then (api_error 400 ''Digest header mismatch'', None, d)
      else
      (case headers ''signature'' of
         None \<Rightarrow> (api_error 401 ''missing Signature header'', None, d)
       | Some sig \<Rightarrow>
      (case fetch_remote_actor_key C N actor of
         Inl _ \<Rightarrow> (api_error 401 ''could not retrieve actor public key'', None, d)
       | Inr (key_id, pem) \<Rightarrow>
      (case verify_signature C (fn_kit N) \<lparr> im_method = ''POST'', im_path = inbox_path F target, im_signature = sig,
              im_headers = headers, im_key = pem \<rparr> of
         Inl _ \<Rightarrow> (api_error 401 ''HTTP Signature verification failed'', None, d)
       | Inr _ \<Rightarrow> store_inbound C uri kind actor activity d)))))"

definition actor_inbox_post ::
  "ctx \<Rightarrow> fed_net \<Rightarrow> fed_config \<Rightarrow> string \<Rightarrow> (string \<Rightarrow> string option) \<Rightarrow> string \<Rightarrow> db
    \<Rightarrow> http \<times> (string \<times> json \<times> string) option \<times> db" where
  "actor_inbox_post C N F username = process_inbox C N F (Some (fc_base F @ ''/users/'' @ username))"

definition shared_inbox_post ::
  "ctx \<Rightarrow> fed_net \<Rightarrow> fed_config \<Rightarrow> (string \<Rightarrow> string option) \<Rightarrow> string \<Rightarrow> db
    \<Rightarrow> http \<times> (string \<times> json \<times> string) option \<times> db" where
  "shared_inbox_post C N F = process_inbox C N F None"

definition actor_inbox_get :: http where
  "actor_inbox_get = api_error 403 ''actor inbox is not publicly readable''"


section \<open>The collections of an actor\<close>

definition ordered_collection :: "string \<Rightarrow> int \<Rightarrow> json list \<Rightarrow> http" where
  "ordered_collection url n items = http_json (JObj [(''@context'', AP_CONTEXT), (''id'', JStr url),
     (''type'', JStr ''OrderedCollection''), (''totalItems'', JNum n), (''orderedItems'', JArr items)])"

text \<open>The accepted follows of the actor with a URI, and the other side of each.\<close>

definition followers_of :: "string \<Rightarrow> db \<Rightarrow> string list" where
  "followers_of uri d = List.map_filter (\<lambda>x.
     (case (actor_by_id (ff_following x) d, actor_by_id (ff_follower x) d) of
        (Some l, Some a) \<Rightarrow> if fa_uri l = uri \<and> ff_status x = ''accepted'' then Some (fa_uri a) else None
      | _ \<Rightarrow> None)) (order_by_desc ff_created (follows (fed d)))"

definition following_of :: "string \<Rightarrow> db \<Rightarrow> string list" where
  "following_of uri d = List.map_filter (\<lambda>x.
     (case (actor_by_id (ff_follower x) d, actor_by_id (ff_following x) d) of
        (Some l, Some a) \<Rightarrow> if fa_uri l = uri \<and> ff_status x = ''accepted'' then Some (fa_uri a) else None
      | _ \<Rightarrow> None)) (order_by_desc ff_created (follows (fed d)))"

text \<open>
  Both counts are of the actor as the followed one; \<open>/following\<close> counts so the followers.
\<close>

definition followed_count :: "string \<Rightarrow> db \<Rightarrow> int" where
  "followed_count uri d = count_where (\<lambda>x. ff_status x = ''accepted''
     \<and> (case actor_by_id (ff_following x) d of Some l \<Rightarrow> fa_uri l = uri | None \<Rightarrow> False)) (follows (fed d))"

definition actor_followers :: "ctx \<Rightarrow> fed_config \<Rightarrow> string \<Rightarrow> db \<Rightarrow> http" where
  "actor_followers C F username d =
     (let uri = fc_base F @ ''/users/'' @ username in
      ordered_collection (uri @ ''/followers'') (count_or_0 C ''followers.count'' (followed_count uri) d)
        (map JStr (case run_read C ''followers.list'' (\<lambda>d. take 100 (followers_of uri d)) d of Inr xs \<Rightarrow> xs | Inl _ \<Rightarrow> [])))"

definition actor_following :: "ctx \<Rightarrow> fed_config \<Rightarrow> string \<Rightarrow> db \<Rightarrow> http" where
  "actor_following C F username d =
     (let uri = fc_base F @ ''/users/'' @ username in
      ordered_collection (uri @ ''/following'') (count_or_0 C ''following.count'' (followed_count uri) d)
        (map JStr (case run_read C ''following.list'' (\<lambda>d. take 100 (following_of uri d)) d of Inr xs \<Rightarrow> xs | Inl _ \<Rightarrow> [])))"

definition actor_outbox :: "ctx \<Rightarrow> fed_config \<Rightarrow> string \<Rightarrow> db \<Rightarrow> http" where
  "actor_outbox C F username d =
     (let uri = fc_base F @ ''/users/'' @ username;
          items = (case run_read C ''outbox.list'' (\<lambda>d. map fx_payload (take 20 (order_by_desc fx_created
             (filter (\<lambda>x. fx_actor x = uri \<and> fx_direction x = ''outbound''
                \<and> fx_type x \<in> {''Create'', ''Update'', ''Announce''} \<and> fx_status x = ''processed'') (activities (fed d)))))) d of
            Inr xs \<Rightarrow> xs | Inl _ \<Rightarrow> [])
      in ordered_collection (uri @ ''/outbox'') (int (length items)) items)"

end
