(* ===== verification/FedDelivery.thy ===== *)
theory FedDelivery
  imports FedInbound
begin

text \<open>
  \<open>src/src/federation/delivery.rs\<close>: the worker that signs the queued activities and posts them to
  the remote inboxes, with a bounded number of retries.
\<close>

definition BATCH_SIZE :: nat where "BATCH_SIZE = 10"

definition find_job :: "string \<Rightarrow> db \<Rightarrow> delivery_job option" where
  "find_job i d = find (\<lambda>j. dj_id j = i) (deliveries (fed d))"

definition put_job :: "string \<Rightarrow> (delivery_job \<Rightarrow> delivery_job) \<Rightarrow> db \<Rightarrow> db" where
  "put_job i f d = set_fed (\<lambda>s. s\<lparr>deliveries := upd_where (\<lambda>j. dj_id j = i) f (deliveries s)\<rparr>) d"

text \<open>The \<open>UPDATE\<close>s of a job by its identifier; the new status is one of the schema's.\<close>

definition upd_job :: "string \<Rightarrow> (delivery_job \<Rightarrow> delivery_job) \<Rightarrow> unit stmt" where
  "upd_job i f d = Inr ((), put_job i f d)"

definition due_jobs :: "instant \<Rightarrow> db \<Rightarrow> delivery_job list" where
  "due_jobs t d = take BATCH_SIZE (order_by dj_next
     (filter (\<lambda>j. dj_status j = ''queued'' \<and> dj_next j \<le> t) (deliveries (fed d))))"

definition parse_url_host_path :: "string \<Rightarrow> string + string \<times> string" where
  "parse_url_host_path url =
     (case url_rest url of
        None \<Rightarrow> Inl (''unsupported URL scheme: '' @ url)
      | Some rest \<Rightarrow>
          let host = takeWhile (\<lambda>c. c \<noteq> CHR ''/'') rest; path = dropWhile (\<lambda>c. c \<noteq> CHR ''/'') rest in
          Inr (host, if path = [] then ''/'' else path))"

text \<open>\<open>saturating_pow\<close> on 64 bits of \<open>attempt as u32\<close>.\<close>

definition compute_retry_delay_seconds :: "int \<Rightarrow> nat" where
  "compute_retry_delay_seconds attempt = min (min (2 ^ nat (attempt mod 2 ^ 32)) (2 ^ 64 - 1)) 3600"

text \<open>\<open>fn_jitter\<close> is \<open>gen_range(0..=30)\<close>.\<close>

definition compute_next_retry :: "ctx \<Rightarrow> fed_net \<Rightarrow> string \<Rightarrow> int \<Rightarrow> instant" where
  "compute_next_retry C N site attempt =
     plus_secs (now C) (int (compute_retry_delay_seconds attempt + fn_jitter N site))"

definition delivery_headers :: "string \<Rightarrow> string \<Rightarrow> string \<Rightarrow> string \<Rightarrow> (string \<times> string) list" where
  "delivery_headers host date digest sig =
     [(''Content-Type'', ''application/activity+json''), (''Host'', host), (''Date'', date),
      (''Digest'', digest), (''Signature'', sig)]"

text \<open>Signing and posting one activity: reads and the network only.\<close>

definition post_signed :: "ctx \<Rightarrow> fed_net \<Rightarrow> delivery_job \<Rightarrow> string \<Rightarrow> string \<Rightarrow> json \<Rightarrow> string + unit" where
  "post_signed C N job pem key_id payload =
     (let body = fn_bytes N payload; digest = build_digest (fn_kit N) body; date = sg_http_date (fn_kit N) (now C) in
      case parse_url_host_path (dj_inbox job) of
        Inl e \<Rightarrow> Inl e
      | Inr (host, path) \<Rightarrow>
     (case create_signature C (fn_kit N) \<lparr> si_key_id = key_id, si_pem = pem, si_method = ''POST'', si_path = path,
             si_host = host, si_date = date, si_digest = Some digest \<rparr> of
        Inl _ \<Rightarrow> Inl ''HTTP Signature creation failed''
      | Inr sig \<Rightarrow>
     (case fn_post N (dj_inbox job) (delivery_headers host date digest sig) body of
        Inl _ \<Rightarrow> Inl ''HTTP POST failed''
      | Inr (st, text) \<Rightarrow>
          if 200 \<le> st \<and> st < 300 then Inr ()
          else Inl (''remote '' @ dj_inbox job @ '' returned '' @ fn_status N st @ '': '' @ fn_chars N 300 text))))"

definition deliver_job :: "ctx \<Rightarrow> fed_net \<Rightarrow> string \<Rightarrow> string \<Rightarrow> delivery_job \<Rightarrow> db \<Rightarrow> string + unit" where
  "deliver_job C N app_secret site job d =
     (case run_read C (site @ ''.activity'') (\<lambda>d. find (\<lambda>x. fx_id x = dj_activity job) (activities (fed d))) d of
        Inr (Some x) \<Rightarrow>
          (case run_read C (site @ ''.actor'') (\<lambda>d. find (\<lambda>a. fa_uri a = fx_actor x \<and> fa_local a) (actors (fed d))) d of
             Inl _ \<Rightarrow> Inl ''actor lookup failed''
           | Inr a \<Rightarrow>
          (case Option.bind a fa_user of
             None \<Rightarrow> Inl (''no local actor record for '' @ fx_actor x)
           | Some uid \<Rightarrow>
          (case load_actor_private_key C (fn_kit N) uid app_secret d of
             Inl _ \<Rightarrow> Inl ''actor key load failed''
           | Inr (pem, key_id) \<Rightarrow> post_signed C N job pem key_id (fx_payload x))))
      | _ \<Rightarrow> Inl ''activity payload lookup failed'')"

text \<open>After a delivery: two statements, the first failure ends the run.\<close>

definition delivered_job :: "ctx \<Rightarrow> string \<Rightarrow> delivery_job \<Rightarrow> db \<Rightarrow> (string + unit) \<times> db" where
  "delivered_job C site job d =
     (case run_write C (site @ ''.delivered'') (upd_job (dj_id job)
             (\<lambda>j. j\<lparr>dj_status := ''delivered'', dj_delivered := Some (now C)\<rparr>)) d of
        (Inl e, d1) \<Rightarrow> (Inl e, d1)
      | (Inr _, d1) \<Rightarrow>
          run_write C (site @ ''.processed'') (set_activity_status (now C) (dj_activity job) ''processed'') d1)"

definition add32 :: "int \<Rightarrow> int \<Rightarrow> int" where
  "add32 a b = (a + b + 2 ^ 31) mod 2 ^ 32 - 2 ^ 31"

definition fail_activity :: "string \<Rightarrow> unit stmt" where
  "fail_activity i d = Inr ((), set_fed (\<lambda>f. f\<lparr>activities := upd_where (\<lambda>x. fx_id x = i)
     (\<lambda>x. x\<lparr>fx_status := ''failed''\<rparr>) (activities f)\<rparr>) d)"

definition failed_job :: "ctx \<Rightarrow> fed_net \<Rightarrow> string \<Rightarrow> delivery_job \<Rightarrow> string \<Rightarrow> db \<Rightarrow> (string + unit) \<times> db" where
  "failed_job C N site job e d =
     (let n = add32 (dj_attempts job) 1;
          exhausted = (dj_max job \<le> n);
          next_at = (if exhausted then now C else compute_next_retry C N site n) in
      case run_write C (site @ ''.failed'') (upd_job (dj_id job)
             (\<lambda>j. j\<lparr>dj_status := (if exhausted then ''failed'' else ''queued''), dj_attempts := n,
                     dj_error := Some e, dj_next := next_at\<rparr>)) d of
        (Inl e', d1) \<Rightarrow> (Inl e', d1)
      | (Inr _, d1) \<Rightarrow>
          if exhausted then run_write C (site @ ''.exhausted'') (fail_activity (dj_activity job)) d1
          else (Inr (), d1))"

definition process_job ::
  "ctx \<Rightarrow> fed_net \<Rightarrow> string \<Rightarrow> string \<Rightarrow> delivery_job \<Rightarrow> db \<Rightarrow> (string + unit) \<times> db" where
  "process_job C N app_secret site job d =
     (let target = url_domain [] (dj_inbox job) in
      if target \<noteq> [] \<and> is_domain_blocked C target d
      then run_write C (site @ ''.blocked'') (upd_job (dj_id job)
             (\<lambda>j. j\<lparr>dj_status := ''failed'', dj_error := Some ''domain blocked''\<rparr>)) d
      else
      (case run_write C (site @ ''.claim'') (upd_job (dj_id job) (\<lambda>j. j\<lparr>dj_status := ''processing''\<rparr>)) d of
         (Inl e, d1) \<Rightarrow> (Inl e, d1)
       | (Inr _, d1) \<Rightarrow>
           (case deliver_job C N app_secret site job d1 of
              Inr _ \<Rightarrow> delivered_job C site job d1
            | Inl e \<Rightarrow> failed_job C N site job e d1)))"

text \<open>The jobs of a batch in their order; an error of a statement ends the run.\<close>

fun process_jobs ::
  "ctx \<Rightarrow> fed_net \<Rightarrow> string \<Rightarrow> nat \<Rightarrow> delivery_job list \<Rightarrow> db \<Rightarrow> (string + unit) \<times> db" where
  "process_jobs C N app_secret i [] d = (Inr (), d)"
| "process_jobs C N app_secret i (job # jobs) d =
     (case process_job C N app_secret (''delivery.'' @ string_of_nat i) job d of
        (Inl e, d1) \<Rightarrow> (Inl e, d1)
      | (Inr _, d1) \<Rightarrow> process_jobs C N app_secret (Suc i) jobs d1)"

definition process_due_jobs :: "ctx \<Rightarrow> fed_net \<Rightarrow> string \<Rightarrow> db \<Rightarrow> (string + unit) \<times> db" where
  "process_due_jobs C N app_secret d =
     (case run_read C ''delivery.due'' (due_jobs (now C)) d of
        Inl _ \<Rightarrow> (Inl ''delivery job query failed'', d)
      | Inr jobs \<Rightarrow> process_jobs C N app_secret 0 jobs d)"


section \<open>The jobs of a database\<close>

text \<open>What the schema and the worker keep of the jobs.\<close>

definition job_ok :: "delivery_job \<Rightarrow> bool" where
  "job_ok j \<longleftrightarrow> dj_status j \<in> {''queued'', ''processing'', ''delivered'', ''failed''}
     \<and> 0 \<le> dj_attempts j \<and> dj_attempts j \<le> dj_max j \<and> 0 < dj_max j \<and> dj_max j < 2 ^ 31
     \<and> (dj_status j = ''queued'' \<longrightarrow> dj_attempts j < dj_max j)"

definition jobs_ok :: "db \<Rightarrow> bool" where
  "jobs_ok d \<longleftrightarrow> (\<forall>j\<in>set (deliveries (fed d)). job_ok j) \<and> distinct (map dj_id (deliveries (fed d)))"

text \<open>The attempts left to a job.\<close>

definition attempts_left :: "string \<Rightarrow> db \<Rightarrow> nat" where
  "attempts_left i d =
     (case find_job i d of
        Some j \<Rightarrow> if dj_status j = ''queued'' then nat (dj_max j - dj_attempts j) else 0
      | None \<Rightarrow> 0)"

end
