(* ===== verification/FedDemo.thy ===== *)
theory FedDemo
  imports FedDelivery Demo
begin

text \<open>
  A concrete federation network: an encoding without the separators of the headers, keys that are
  their own text, and a remote server that answers 503.
\<close>

fun hide :: "string \<Rightarrow> string" where
  "hide [] = []"
| "hide (c # cs) =
    (if c = CHR ''-'' then ''-a'' else if c = CHR '','' then ''-b'' else if c = CHR 0x22 then ''-c''
     else if c = CHR '':'' then ''-d'' else [c]) @ hide cs"

fun unhide :: "string \<Rightarrow> string option" where
  "unhide [] = Some []"
| "unhide (c # cs) =
    (if c = CHR ''-'' then
       (case cs of
          [] \<Rightarrow> None
        | e # es \<Rightarrow>
            map_option ((#) (if e = CHR ''a'' then CHR ''-'' else if e = CHR ''b'' then CHR '',''
                             else if e = CHR ''c'' then CHR 0x22 else CHR '':'')) (unhide es))
     else map_option ((#) c) (unhide cs))"

lemma unhide_hide: "unhide (hide s) = Some s"
  by (induction s) auto

lemma hide_clean: "CHR '','' \<notin> set (hide s)" "CHR 0x22 \<notin> set (hide s)" "CHR '':'' \<notin> set (hide s)"
  by (induction s) auto

definition demo_kit :: rsa_kit where
  "demo_kit = \<lparr> sg_b64 = hide, sg_unb64 = unhide, sg_sha256 = (\<lambda>m. m), sg_hmac = (\<lambda>k m. take 32 (k @ m)),
     sg_keygen = Inr (''pub'', ''pub''), sg_private = Some, sg_public = Some, sg_sign = (\<lambda>k m. k @ m),
     sg_bytes = (\<lambda>_. True), sg_verify = (\<lambda>k m s. s = k @ m),
     sg_rfc2822 = (\<lambda>s. map_option Instant (parse_int s)), sg_http_date = (\<lambda>t. string_of_int (nanos t)) \<rparr>"

definition demo_net :: fed_net where
  "demo_net = \<lparr> fn_kit = demo_kit, fn_lookup = (\<lambda>_. Inl ''no such host''), fn_get = (\<lambda>_. Inl ''offline''),
     fn_json = (\<lambda>_. Inl ''not json''), fn_bytes = (\<lambda>_. ''body''), fn_status = string_of_nat, fn_ip = (\<lambda>_. ''ip''),
     fn_post = (\<lambda>_ _ _. Inr (503, ''busy'')), fn_uuid = Some, fn_chars = take, fn_jitter = (\<lambda>_. 7),
     fn_f64 = (\<lambda>_. None), fn_price = string_of_int \<rparr>"

text \<open>A queued job whose activity names an actor of no local user.\<close>

definition demo_job :: "int \<Rightarrow> delivery_job" where
  "demo_job n = \<lparr> dj_id = ''j1'', dj_activity = ''a1'', dj_inbox = ''https://far.example/inbox'', dj_attempts = n,
     dj_max = 10, dj_next = Instant 0, dj_status = ''queued'', dj_http = None, dj_error = None, dj_delivered = None \<rparr>"

definition demo_activity :: fed_activity where
  "demo_activity = \<lparr> fx_id = ''a1'', fx_uri = ''https://ppv.example/a/1'', fx_type = ''Create'',
     fx_actor = ''https://ppv.example/users/u9'', fx_object = None, fx_direction = ''outbound'', fx_payload = JNull,
     fx_status = ''queued'', fx_error = None, fx_received = None, fx_processed = None, fx_created = Instant 0 \<rparr>"

definition demo_queue :: "int \<Rightarrow> db" where
  "demo_queue n = demo_db\<lparr>fed := empty_fed\<lparr>activities := [demo_activity], deliveries := [demo_job n]\<rparr>\<rparr>"

end
