(* ===== verification/FedDeliveryProperties.thy ===== *)
theory FedDeliveryProperties
  imports FedDemo
begin

text \<open>
  The properties of the delivery worker: the states of a job, the bound on its retries under any
  failures, and that a job that keeps being taken up is settled.
\<close>

section \<open>What one step does to the jobs\<close>

text \<open>A row before and after the step for the snapshot \<open>job\<close>; unless \<open>strict\<close> it may be left claimed.\<close>

definition taken_up :: "bool \<Rightarrow> delivery_job \<Rightarrow> delivery_job \<Rightarrow> delivery_job \<Rightarrow> bool" where
  "taken_up strict job j j' \<longleftrightarrow> dj_id j' = dj_id j \<and> dj_max j' = dj_max j \<and>
     ((dj_status j' \<in> {''failed'', ''delivered''} \<or> \<not> strict \<and> dj_status j' = ''processing'')
         \<and> dj_attempts j' = dj_attempts j
      \<or> dj_attempts j' = add32 (dj_attempts job) 1
         \<and> dj_status j' = (if dj_max job \<le> add32 (dj_attempts job) 1 then ''failed'' else ''queued''))"

text \<open>
  The rows after a step: those of \<open>job\<close>'s identifier changed as \<open>taken_up\<close> says, or, unless \<open>strict\<close>,
  nothing at all.
\<close>

definition effect :: "bool \<Rightarrow> delivery_job \<Rightarrow> db \<Rightarrow> db \<Rightarrow> bool" where
  "effect strict job d d' \<longleftrightarrow> (\<exists>f. deliveries (fed d') = upd_where (\<lambda>j. dj_id j = dj_id job) f (deliveries (fed d))
     \<and> ((\<forall>j. taken_up strict job j (f j)) \<or> \<not> strict \<and> (\<forall>j. f j = j)))"

definition reliable :: "ctx \<Rightarrow> bool" where
  "reliable C \<longleftrightarrow> fault C = (\<lambda>_. None)"

lemma effect_refl: "effect False job d d"
  by (auto simp: effect_def upd_where_def intro!: exI [of _ "\<lambda>j. j"])

lemma taken_up_weaken: "taken_up True job j j' \<Longrightarrow> taken_up b job j j'"
  by (auto simp: taken_up_def)

lemma effect_weaken: "effect True job d d' \<Longrightarrow> effect b job d d'"
  unfolding effect_def using taken_up_weaken by blast

lemma effect_put: "(\<And>j. taken_up b job j (f j)) \<Longrightarrow> effect b job d (put_job (dj_id job) f d)"
  by (auto simp: effect_def put_job_def set_fed_def)

lemma effect_same: "effect b job d d1 \<Longrightarrow> deliveries (fed d2) = deliveries (fed d1) \<Longrightarrow> effect b job d d2"
  by (simp add: effect_def)

lemma effect_write:
  assumes "run_write C s (upd_job (dj_id job) f) d = (r, d')" "\<And>j. taken_up b job j (f j)"
  shows "effect (b \<and> (reliable C \<or> r = Inr ())) job d d'"
proof -
  have t: "taken_up b' job j (f j)" if "b' \<longrightarrow> b" for b' j
    using assms(2) [of j] that by (auto simp: taken_up_def)
  show ?thesis
  proof (cases "fault C s")
    case None
    then have "d' = put_job (dj_id job) f d" using assms(1) by (simp add: run_write_def upd_job_def)
    then show ?thesis using effect_put t by simp
  next
    case (Some x)
    then have "\<not> (reliable C \<or> r = Inr ())" "d' = d \<or> d' = put_job (dj_id job) f d"
      using assms(1) by (auto simp: run_write_def upd_job_def reliable_def split: fault.splits)
    then show ?thesis using effect_put [of False job f] t [of False] effect_refl by auto
  qed
qed

lemma effect_claimed:
  assumes "effect b job (put_job (dj_id job) (\<lambda>j. j\<lparr>dj_status := ''processing''\<rparr>) d) d'"
  shows "effect b job d d'"
proof -
  let ?f = "\<lambda>j. j\<lparr>dj_status := ''processing''\<rparr>"
  obtain g where g: "deliveries (fed d') = upd_where (\<lambda>j. dj_id j = dj_id job) g
      (upd_where (\<lambda>j. dj_id j = dj_id job) ?f (deliveries (fed d)))"
    "(\<forall>j. taken_up b job j (g j)) \<or> \<not> b \<and> (\<forall>j. g j = j)"
    using assms by (auto simp: effect_def put_job_def set_fed_def)
  from g(2) have "taken_up b job j (g (?f j))" for j
  proof
    assume "\<forall>j. taken_up b job j (g j)"
    then have "taken_up b job (?f j) (g (?f j))" by blast
    then show ?thesis by (simp add: taken_up_def)
  qed (simp add: taken_up_def)
  moreover have "deliveries (fed d') = upd_where (\<lambda>j. dj_id j = dj_id job) (\<lambda>j. g (?f j)) (deliveries (fed d))"
    using g(1) by (auto simp: upd_where_def)
  ultimately show ?thesis unfolding effect_def by blast
qed

lemma activity_writes:
  "run_write C s (set_activity_status t i st) d = (r, d') \<Longrightarrow> deliveries (fed d') = deliveries (fed d)"
  "run_write C s (fail_activity i) d = (r, d') \<Longrightarrow> deliveries (fed d') = deliveries (fed d)"
  by (auto simp: run_write_def set_activity_status_def fail_activity_def set_fed_def split: option.splits fault.splits)

lemma delivered_job_effect:
  assumes "delivered_job C site job d = (r, d')"
  shows "effect (reliable C \<or> r = Inr ()) job d d'"
proof -
  let ?w = "run_write C (site @ ''.delivered'') (upd_job (dj_id job)
      (\<lambda>j. j\<lparr>dj_status := ''delivered'', dj_delivered := Some (now C)\<rparr>)) d"
  obtain r1 d1 where w: "?w = (r1, d1)" by fastforce
  have e: "effect (reliable C \<or> r1 = Inr ()) job d d1"
    using effect_write [OF w, of True] by (simp add: taken_up_def)
  show ?thesis
  proof (cases r1)
    case (Inl x)
    then have "d' = d1" "r = Inl x" using assms w by (simp_all add: delivered_job_def)
    then show ?thesis using e Inl by simp
  next
    case (Inr x)
    then have "run_write C (site @ ''.processed'') (set_activity_status (now C) (dj_activity job) ''processed'') d1 = (r, d')"
      using assms w by (simp add: delivered_job_def)
    from effect_same [OF e activity_writes(1) [OF this]] Inr show ?thesis by (auto intro: effect_weaken)
  qed
qed

lemma failed_job_effect:
  assumes "failed_job C N site job err d = (r, d')"
  shows "effect (reliable C \<or> r = Inr ()) job d d'"
proof -
  define n where "n = add32 (dj_attempts job) 1"
  define next_at where "next_at = (if dj_max job \<le> n then now C else compute_next_retry C N site n)"
  let ?f = "\<lambda>j. j\<lparr>dj_status := (if dj_max job \<le> n then ''failed'' else ''queued''), dj_attempts := n,
      dj_error := Some err, dj_next := next_at\<rparr>"
  obtain r1 d1 where w: "run_write C (site @ ''.failed'') (upd_job (dj_id job) ?f) d = (r1, d1)" by fastforce
  have e: "effect (reliable C \<or> r1 = Inr ()) job d d1"
    using effect_write [OF w, of True] by (simp add: taken_up_def n_def)
  have c: "(r, d') = (case r1 of Inl e' \<Rightarrow> (Inl e', d1)
      | Inr _ \<Rightarrow> if dj_max job \<le> n then run_write C (site @ ''.exhausted'') (fail_activity (dj_activity job)) d1
                 else (Inr (), d1))"
    using assms [unfolded failed_job_def Let_def, folded n_def, folded next_at_def] w by simp
  show ?thesis
  proof (cases r1)
    case (Inl x)
    then have "d' = d1" "r = Inl x" using c by simp_all
    then show ?thesis using e Inl by simp
  next
    case (Inr x)
    have "deliveries (fed d') = deliveries (fed d1)"
    proof (cases "dj_max job \<le> n")
      case True
      with c Inr have "run_write C (site @ ''.exhausted'') (fail_activity (dj_activity job)) d1 = (r, d')" by simp
      then show ?thesis by (rule activity_writes(2))
    next
      case False
      with c Inr show ?thesis by simp
    qed
    from effect_same [OF e this] Inr show ?thesis by (auto intro: effect_weaken)
  qed
qed

text \<open>A step that claims the job and ends well takes it up; so does every step when no statement fails.\<close>

lemma process_job_effect:
  assumes "process_job C N secret site job d = (r, d')"
  shows "effect (reliable C \<or> r = Inr ()) job d d'"
proof (cases "url_domain [] (dj_inbox job) \<noteq> [] \<and> is_domain_blocked C (url_domain [] (dj_inbox job)) d")
  case True
  then have "run_write C (site @ ''.blocked'') (upd_job (dj_id job)
      (\<lambda>j. j\<lparr>dj_status := ''failed'', dj_error := Some ''domain blocked''\<rparr>)) d = (r, d')"
    using assms by (simp add: process_job_def)
  then show ?thesis using effect_write [of C _ job _ d r d' True] by (simp add: taken_up_def)
next
  case False
  let ?claim = "\<lambda>j. j\<lparr>dj_status := ''processing''\<rparr>"
  have t: "taken_up False job j (?claim j)" for j by (simp add: taken_up_def)
  obtain r1 d1 where w: "run_write C (site @ ''.claim'') (upd_job (dj_id job) ?claim) d = (r1, d1)" by fastforce
  show ?thesis
  proof (cases r1)
    case (Inl e)
    from w Inl have "\<not> reliable C" by (auto simp: run_write_def upd_job_def reliable_def split: option.splits fault.splits)
    moreover have "r = Inl e" "d' = d1" using assms w False Inl by (auto simp: process_job_def Let_def)
    ultimately show ?thesis using effect_write [OF w, of False] t by simp
  next
    case (Inr u)
    then have d1: "d1 = put_job (dj_id job) ?claim d"
      using w by (auto simp: run_write_def upd_job_def split: option.splits fault.splits)
    have "effect (reliable C \<or> r = Inr ()) job d1 d'"
      using assms w False Inr delivered_job_effect failed_job_effect
      by (auto simp: process_job_def Let_def split: sum.splits)
    from effect_claimed [OF this [unfolded d1]] show ?thesis .
  qed
qed


section \<open>What a run does to the jobs\<close>

lemma process_job_reliable:
  assumes "reliable C"
  shows "fst (process_job C N secret site job d) = Inr ()"
  using assms
  by (simp add: process_job_def delivered_job_def failed_job_def Let_def reliable_def run_write_def upd_job_def
      set_activity_status_def fail_activity_def split: sum.splits)

lemma find_job_in: "find_job i d = Some j \<Longrightarrow> j \<in> set (deliveries (fed d)) \<and> dj_id j = i"
  unfolding find_job_def by (drule find_in) simp

lemma find_job_unique:
  assumes "jobs_ok d" "j \<in> set (deliveries (fed d))"
  shows "find_job (dj_id j) d = Some j"
proof -
  obtain j' where j': "find_job (dj_id j) d = Some j'"
    using assms(2) by (cases "find_job (dj_id j) d") (auto simp: find_job_def find_None_set)
  have inj: "inj_on dj_id (set (deliveries (fed d)))" using assms(1) by (simp add: jobs_ok_def distinct_map)
  from find_job_in [OF j'] have "j' = j" using inj_onD [OF inj] assms(2) by blast
  with j' show ?thesis by simp
qed

lemma taken_up_ok:
  assumes "taken_up b job job j'" "job_ok job" "dj_status job = ''queued''"
  shows "job_ok j'" "b \<Longrightarrow> dj_status j' \<noteq> ''processing''"
    "dj_status j' = ''queued'' \<Longrightarrow> dj_attempts j' = dj_attempts job + 1" "dj_id j' = dj_id job" "dj_max j' = dj_max job"
proof -
  have "add32 (dj_attempts job) 1 = dj_attempts job + 1"
    using assms(2,3) by (auto simp: add32_def job_ok_def intro!: mod_pos_pos_trivial)
  with assms show "job_ok j'" "b \<Longrightarrow> dj_status j' \<noteq> ''processing''"
    "dj_status j' = ''queued'' \<Longrightarrow> dj_attempts j' = dj_attempts job + 1" "dj_id j' = dj_id job" "dj_max j' = dj_max job"
    by (auto simp: taken_up_def job_ok_def split: if_splits)
qed

text \<open>How a row stands after a run that had it in its batch.\<close>

definition settled_by :: "bool \<Rightarrow> delivery_job \<Rightarrow> delivery_job \<Rightarrow> bool" where
  "settled_by b job j \<longleftrightarrow> j = job \<and> \<not> b \<or> taken_up b job job j"

lemma settled_by_weaken: "settled_by (b \<or> c) job j \<Longrightarrow> settled_by b job j"
  by (cases b; cases c) (auto simp: settled_by_def intro: taken_up_weaken)

text \<open>What one step leaves: the other rows, and a row of its own that fits the schema.\<close>

lemma effect_row:
  assumes e: "effect b job d d'" and ok: "jobs_ok d" and job: "find_job (dj_id job) d = Some job"
    and q: "dj_status job = ''queued''"
  shows "jobs_ok d'"
    and "\<And>i. i \<noteq> dj_id job \<Longrightarrow> find_job i d' = find_job i d"
    and "\<exists>j. find_job (dj_id job) d' = Some j \<and> settled_by b job j"
proof -
  obtain f where f: "deliveries (fed d') = upd_where (\<lambda>j. dj_id j = dj_id job) f (deliveries (fed d))"
    "(\<forall>j. taken_up b job j (f j)) \<or> \<not> b \<and> (\<forall>j. f j = j)"
    using e by (auto simp: effect_def)
  have fj: "f job = job \<and> \<not> b \<or> taken_up b job job (f job)" using f(2) by auto
  have keeps: "dj_id (f j) = dj_id j" for j using f(2) by (auto simp: taken_up_def)
  have jok: "job_ok job" using find_job_in [OF job] ok by (simp add: jobs_ok_def)
  have "job_ok j" if "j \<in> set (deliveries (fed d'))" for j
  proof -
    from that obtain j0 where j0: "j0 \<in> set (deliveries (fed d))" "j = (if dj_id j0 = dj_id job then f j0 else j0)"
      unfolding f(1) set_upd_where by auto
    show ?thesis
    proof (cases "dj_id j0 = dj_id job")
      case True
      then have "j0 = job" using find_job_unique [OF ok j0(1)] job by (metis option.inject)
      with j0(2) have "j = f job" by simp
      moreover have "job_ok (f job)"
        using fj by (elim disjE conjE) (simp add: jok, erule taken_up_ok(1) [OF _ jok q])
      ultimately show ?thesis by simp
    qed (use j0 ok in \<open>simp add: jobs_ok_def\<close>)
  qed
  moreover have "map dj_id (deliveries (fed d')) = map dj_id (deliveries (fed d))"
    unfolding f(1) by (rule map_upd_where) (rule keeps)
  ultimately show "jobs_ok d'" using ok by (simp add: jobs_ok_def)
  have find: "find_job i d' = map_option (\<lambda>j. if dj_id j = dj_id job then f j else j) (find_job i d)" for i
    unfolding find_job_def f(1) by (rule find_upd_where) (simp add: keeps)
  show "find_job i d' = find_job i d" if "i \<noteq> dj_id job" for i
    unfolding find using find_job_in [of i d] that by (cases "find_job i d") auto
  show "\<exists>j. find_job (dj_id job) d' = Some j \<and> settled_by b job j"
    using fj by (simp add: find job settled_by_def)
qed

text \<open>A batch of distinct queued rows.\<close>

definition batch_of :: "delivery_job list \<Rightarrow> db \<Rightarrow> bool" where
  "batch_of jobs d \<longleftrightarrow> distinct (map dj_id jobs) \<and>
     (\<forall>job\<in>set jobs. find_job (dj_id job) d = Some job \<and> dj_status job = ''queued'')"

lemma process_jobs_rows:
  assumes "process_jobs C N secret i jobs d = (r, d')" "jobs_ok d" "batch_of jobs d"
  shows "jobs_ok d' \<and> (\<forall>i. i \<notin> dj_id ` set jobs \<longrightarrow> find_job i d' = find_job i d)
    \<and> (\<forall>job\<in>set jobs. \<exists>j. find_job (dj_id job) d' = Some j \<and> settled_by (reliable C) job j)"
  using assms
proof (induction jobs arbitrary: i d)
  case (Cons job jobs)
  obtain r1 d1 where p: "process_job C N secret (''delivery.'' @ string_of_nat i) job d = (r1, d1)" by fastforce
  have job: "find_job (dj_id job) d = Some job" "dj_status job = ''queued''" "dj_id job \<notin> dj_id ` set jobs"
    using Cons.prems(3) by (auto simp: batch_of_def)
  note row = effect_row [OF process_job_effect [OF p] Cons.prems(2) job(1,2)]
  from row(3) have own: "\<exists>j. find_job (dj_id job) d1 = Some j \<and> settled_by (reliable C) job j"
    by (auto dest: settled_by_weaken)
  have batch: "batch_of jobs d1"
    unfolding batch_of_def
  proof (intro conjI ballI)
    fix j assume "j \<in> set jobs"
    moreover from this job(3) have "dj_id j \<noteq> dj_id job" by (metis imageI)
    ultimately show "find_job (dj_id j) d1 = Some j" "dj_status j = ''queued''"
      using Cons.prems(3) row(2) by (simp_all add: batch_of_def)
  qed (use Cons.prems(3) in \<open>simp add: batch_of_def\<close>)
  show ?case
  proof (cases r1)
    case (Inl e)
    then have "d' = d1" "\<not> reliable C"
      using Cons.prems(1) p process_job_reliable [of C N secret "''delivery.'' @ string_of_nat i" job d] by auto
    then show ?thesis using row(1,2) own batch by (auto simp: batch_of_def settled_by_def)
  next
    case (Inr u)
    then have "process_jobs C N secret (Suc i) jobs d1 = (r, d')" using Cons.prems(1) p by simp
    note ih = Cons.IH [OF this row(1) batch]
    show ?thesis
    proof (intro conjI allI impI ballI)
      show "jobs_ok d'" using ih by blast
    next
      fix k assume "k \<notin> dj_id ` set (job # jobs)"
      then show "find_job k d' = find_job k d" using ih row(2) by simp
    next
      fix j assume "j \<in> set (job # jobs)"
      then consider "j = job" | "j \<in> set jobs" by auto
      then show "\<exists>j'. find_job (dj_id j) d' = Some j' \<and> settled_by (reliable C) j j'"
        by cases (use ih own job(3) in auto)
    qed
  qed
qed (simp add: batch_of_def)

lemma process_due_rows:
  assumes "process_due_jobs C N secret d = (r, d')" "jobs_ok d"
  shows "jobs_ok d'"
    and "\<And>i. i \<notin> dj_id ` set (due_jobs (now C) d) \<Longrightarrow> find_job i d' = find_job i d"
    and "\<And>job. reliable C \<Longrightarrow> job \<in> set (due_jobs (now C) d) \<Longrightarrow>
      find_job (dj_id job) d = Some job \<and> (\<exists>j. find_job (dj_id job) d' = Some j \<and> settled_by True job j)"
    and "\<And>job. job \<in> set (due_jobs (now C) d) \<Longrightarrow>
      find_job (dj_id job) d = Some job \<and> (\<exists>j. find_job (dj_id job) d' = Some j \<and> settled_by False job j)"
proof -
  have inj: "inj_on dj_id (set (deliveries (fed d)))" using assms(2) by (simp add: jobs_ok_def distinct_map)
  have mem: "job \<in> set (deliveries (fed d)) \<and> dj_status job = ''queued''" if "job \<in> set (due_jobs (now C) d)" for job
    using in_set_takeD [OF that [unfolded due_jobs_def]] by simp
  have "distinct (deliveries (fed d))" using assms(2) by (simp add: jobs_ok_def distinct_map)
  then have "distinct (due_jobs (now C) d)"
    by (auto simp: due_jobs_def order_by_def intro!: distinct_take)
  then have "distinct (map dj_id (due_jobs (now C) d))"
    unfolding distinct_map using mem inj by (auto intro: inj_on_subset)
  then have batch: "batch_of (due_jobs (now C) d) d"
    using mem find_job_unique [OF assms(2)] by (simp add: batch_of_def)
  have "(\<not> reliable C \<and> d' = d) \<or> process_jobs C N secret 0 (due_jobs (now C) d) d = (r, d')"
    using assms(1) by (cases "fault C ''delivery.due''") (auto simp: process_due_jobs_def run_read_def reliable_def)
  then have rows: "jobs_ok d' \<and> (\<forall>i. i \<notin> dj_id ` set (due_jobs (now C) d) \<longrightarrow> find_job i d' = find_job i d)
    \<and> (\<forall>job\<in>set (due_jobs (now C) d). \<exists>j. find_job (dj_id job) d' = Some j \<and> settled_by (reliable C) job j)"
  proof
    assume "process_jobs C N secret 0 (due_jobs (now C) d) d = (r, d')"
    then show ?thesis by (rule process_jobs_rows [OF _ assms(2) batch])
  qed (use assms(2) batch in \<open>auto simp: batch_of_def settled_by_def\<close>)
  then show "jobs_ok d'" "\<And>i. i \<notin> dj_id ` set (due_jobs (now C) d) \<Longrightarrow> find_job i d' = find_job i d" by blast+
  fix job assume "job \<in> set (due_jobs (now C) d)"
  with rows batch obtain j where j: "find_job (dj_id job) d = Some job" "find_job (dj_id job) d' = Some j"
    "settled_by (reliable C) job j" by (auto simp: batch_of_def)
  then show "find_job (dj_id job) d = Some job \<and> (\<exists>j. find_job (dj_id job) d' = Some j \<and> settled_by False job j)"
    using settled_by_weaken [of False "reliable C" job j] by simp
  show "find_job (dj_id job) d = Some job \<and> (\<exists>j. find_job (dj_id job) d' = Some j \<and> settled_by True job j)" if "reliable C"
    using j that by simp
qed

lemma attempts_left_settled:
  assumes "settled_by b job j" "jobs_ok d" "find_job i d = Some job" "find_job i d' = Some j" "dj_status job = ''queued''"
  shows "attempts_left i d' \<le> attempts_left i d" "b \<Longrightarrow> attempts_left i d' < attempts_left i d"
proof -
  have jok: "job_ok job" using find_job_in [OF assms(3)] assms(2) by (simp add: jobs_ok_def)
  have left: "attempts_left i d = nat (dj_max job - dj_attempts job)" "dj_attempts job < dj_max job"
    using assms(3,5) jok by (simp_all add: attempts_left_def job_ok_def)
  have lt: "attempts_left i d' < attempts_left i d" if "taken_up b job job j"
    using taken_up_ok [OF that jok assms(5)] left by (simp add: attempts_left_def assms(4))
  then show "b \<Longrightarrow> attempts_left i d' < attempts_left i d" using assms(1) by (auto simp: settled_by_def)
  show "attempts_left i d' \<le> attempts_left i d"
    using assms(1) lt assms(3,4) by (auto simp: settled_by_def attempts_left_def)
qed

lemma jobs_ok_same: "jobs_ok d \<Longrightarrow> deliveries (fed d') = deliveries (fed d) \<Longrightarrow> jobs_ok d'"
  by (simp add: jobs_ok_def)

lemma requeue_ok:
  assumes "jobs_ok d" "requeue t i d = Inr (n, d')"
  shows "jobs_ok d'"
proof -
  let ?P = "\<lambda>j. dj_id j = i \<and> dj_status j = ''failed''"
  let ?f = "\<lambda>j. j\<lparr>dj_status := ''queued'', dj_attempts := 0, dj_next := t, dj_error := None\<rparr>"
  have d': "deliveries (fed d') = upd_where ?P ?f (deliveries (fed d))"
    using assms(2) by (auto simp: requeue_def Let_def set_fed_def)
  have "map dj_id (deliveries (fed d')) = map dj_id (deliveries (fed d))"
    unfolding d' by (rule map_upd_where) simp
  moreover have "job_ok j" if "j \<in> set (deliveries (fed d'))" for j
  proof -
    from that obtain j0 where "j0 \<in> set (deliveries (fed d))" "j = (if ?P j0 then ?f j0 else j0)"
      unfolding d' set_upd_where by auto
    moreover from this have "job_ok j0" using assms(1) by (simp add: jobs_ok_def)
    ultimately show ?thesis by (auto simp: job_ok_def)
  qed
  ultimately show ?thesis using assms(1) by (simp add: jobs_ok_def)
qed

lemma ins_job_ok:
  assumes "jobs_ok d" "job_ok j" "ins_job j d = Inr (u, d')"
  shows "jobs_ok d'"
proof -
  have "deliveries (fed d') = deliveries (fed d) @ [j]" "dj_id j \<notin> dj_id ` set (deliveries (fed d))"
    using assms(3) by (force simp: ins_job_def set_fed_def split: if_splits)+
  with assms(1,2) show ?thesis by (auto simp: jobs_ok_def)
qed

lemma ins_activity_jobs: "ins_activity uri a d = Inr (u, d') \<Longrightarrow> deliveries (fed d') = deliveries (fed d)"
  by (auto simp: ins_activity_def set_fed_def split: if_splits)

lemma run_write_keeps:
  assumes "run_write C s q d = (r, d')" "P d" "\<And>v d'. q d = Inr (v, d') \<Longrightarrow> P d'"
  shows "P d'"
  using assms by (auto simp: run_write_def split: option.splits fault.splits sum.splits)

lemma queue_outbound_jobs_ok:
  assumes "jobs_ok d"
  shows "jobs_ok (snd (queue_outbound_activity C site actor payload inbox d))"
proof -
  let ?row = "outbound_row C site actor payload"
  obtain r1 d1 where w1: "run_write C (site @ ''.activity'') (ins_activity (if fx_uri ?row = [] then None else Some (fx_uri ?row)) ?row) d
      = (r1, d1)" by fastforce
  have ok1: "jobs_ok d1"
    by (rule run_write_keeps [OF w1, where P = jobs_ok]) (use assms ins_activity_jobs jobs_ok_same in blast)+
  obtain r2 d2 where w2: "run_write C (site @ ''.job'') (ins_job (queued_job C site (fx_id ?row) inbox)) d1 = (r2, d2)" by fastforce
  have job: "job_ok (queued_job C site (fx_id ?row) inbox)" by (simp add: queued_job_def job_ok_def)
  have "jobs_ok d2"
    by (rule run_write_keeps [OF w2, where P = jobs_ok]) (use ok1 ins_job_ok [OF ok1 job] in blast)+
  with ok1 w1 w2 show ?thesis by (simp add: queue_outbound_activity_def Let_def split: sum.splits)
qed



section \<open>The properties\<close>

text \<open>C23. The jobs of the delivery queue always fit the schema: a known status, between 0 and
  \<open>max_attempts\<close> attempts and, when queued, at least one attempt left. The worker, the admin's retry
  and the queueing of an activity keep this, whatever statements fail in between.\<close>

theorem delivery_jobs_typed:
  assumes "jobs_ok d"
  shows "jobs_ok (snd (process_due_jobs C N secret d))
    \<and> jobs_ok (snd (retry_delivery_job C parse_uuid headers job d))
    \<and> jobs_ok (snd (queue_outbound_activity C site actor payload inbox d))"
proof (intro conjI)
  show "jobs_ok (snd (process_due_jobs C N secret d))"
    using process_due_rows(1) [OF _ assms, of C N secret] by (metis prod.collapse)
  show "jobs_ok (snd (queue_outbound_activity C site actor payload inbox d))"
    by (rule queue_outbound_jobs_ok [OF assms])
  show "jobs_ok (snd (retry_delivery_job C parse_uuid headers job d))"
  proof (cases "check_admin_token C headers")
    case True
    show ?thesis
    proof (cases "parse_uuid job")
      case (Some j)
      obtain r d' where w: "run_write C ''job.retry'' (requeue (now C) j) d = (r, d')" by fastforce
      then have "jobs_ok d'" by (rule run_write_keeps [where P = jobs_ok]) (use assms requeue_ok in blast)+
      with w True Some show ?thesis by (simp add: retry_delivery_job_def split: sum.splits)
    qed (use True assms in \<open>simp add: retry_delivery_job_def\<close>)
  qed (use assms in \<open>simp add: retry_delivery_job_def\<close>)
qed

text \<open>A sequence of runs of the worker, each with its own time, network and answers.\<close>

fun worker_runs :: "string \<Rightarrow> (ctx \<times> fed_net) list \<Rightarrow> db \<Rightarrow> db" where
  "worker_runs secret [] d = d"
| "worker_runs secret ((C, N) # runs) d = worker_runs secret runs (snd (process_due_jobs C N secret d))"

text \<open>Every run is free of failing statements and has the job in its batch as long as it is queued.\<close>

fun served :: "string \<Rightarrow> string \<Rightarrow> (ctx \<times> fed_net) list \<Rightarrow> db \<Rightarrow> bool" where
  "served secret i [] d \<longleftrightarrow> True"
| "served secret i ((C, N) # runs) d \<longleftrightarrow>
     reliable C
     \<and> (0 < attempts_left i d \<longrightarrow> i \<in> dj_id ` set (due_jobs (now C) d))
     \<and> served secret i runs (snd (process_due_jobs C N secret d))"

definition settled_job :: "string \<Rightarrow> db \<Rightarrow> bool" where
  "settled_job i d \<longleftrightarrow> (\<exists>j. find_job i d = Some j \<and> dj_status j \<in> {''delivered'', ''failed''})"

lemma worker_run_job:
  assumes "reliable C" "jobs_ok d" "find_job i d = Some job" "dj_status job \<noteq> ''processing''"
    and "0 < attempts_left i d \<longrightarrow> i \<in> dj_id ` set (due_jobs (now C) d)" "process_due_jobs C N secret d = (r, d')"
  shows "\<exists>j. find_job i d' = Some j \<and> dj_status j \<noteq> ''processing'' \<and> attempts_left i d' \<le> attempts_left i d - 1"
proof (cases "i \<in> dj_id ` set (due_jobs (now C) d)")
  case True
  note rows = process_due_rows [OF assms(6,2)]
  obtain j0 where j0: "j0 \<in> set (due_jobs (now C) d)" "i = dj_id j0" using True by auto
  from rows(3) [OF assms(1) j0(1)] assms(3) j0(2) obtain j where
    j: "j0 = job" "find_job i d' = Some j" "settled_by True job j" by auto
  have q: "dj_status job = ''queued''"
    using in_set_takeD [OF j0(1) [unfolded due_jobs_def]] j(1) by simp
  have jok: "job_ok job" using find_job_in [OF assms(3)] assms(2) by (simp add: jobs_ok_def)
  from j(3) have "dj_status j \<noteq> ''processing''" using taken_up_ok(2) [OF _ jok q] by (simp add: settled_by_def)
  moreover have "attempts_left i d' < attempts_left i d"
    by (rule attempts_left_settled(2) [OF j(3) assms(2,3) j(2) q]) simp
  ultimately show ?thesis using j(2) by auto
next
  case False
  then have "find_job i d' = find_job i d" by (rule process_due_rows(2) [OF assms(6,2)])
  with False assms(3,4,5) show ?thesis by (simp add: attempts_left_def)
qed

lemma worker_runs_job:
  assumes "jobs_ok d" "find_job i d = Some job" "dj_status job \<noteq> ''processing''" "served secret i runs d"
  shows "\<exists>j. find_job i (worker_runs secret runs d) = Some j \<and> dj_status j \<noteq> ''processing''
    \<and> attempts_left i (worker_runs secret runs d) \<le> attempts_left i d - length runs
    \<and> jobs_ok (worker_runs secret runs d)"
  using assms
proof (induction secret runs d arbitrary: job rule: worker_runs.induct)
  case (2 secret C N runs d)
  obtain r d1 where p: "process_due_jobs C N secret d = (r, d1)" by fastforce
  from worker_run_job [OF _ 2(2,3,4) _ p] 2(5) obtain j where
    j: "find_job i d1 = Some j" "dj_status j \<noteq> ''processing''" "attempts_left i d1 \<le> attempts_left i d - 1" by auto
  have "jobs_ok d1" by (rule process_due_rows(1) [OF p 2(2)])
  from 2(1) [unfolded p snd_conv, OF this j(1,2)] 2(5) p j(3) show ?case by fastforce
qed auto


text \<open>C22. No run of the worker gives a job more attempts, whatever statements fail: the attempts left
  never grow, and in a run without failing statements they shrink for every job of the batch.\<close>

theorem delivery_attempts_shrink:
  assumes "jobs_ok d" "process_due_jobs C N secret d = (r, d')"
  shows "attempts_left i d' \<le> attempts_left i d
    \<and> (reliable C \<and> i \<in> dj_id ` set (due_jobs (now C) d) \<longrightarrow> attempts_left i d' < attempts_left i d)"
proof (cases "i \<in> dj_id ` set (due_jobs (now C) d)")
  case True
  note rows = process_due_rows [OF assms(2,1)]
  obtain job where job: "job \<in> set (due_jobs (now C) d)" "i = dj_id job" using True by auto
  have q: "dj_status job = ''queued''"
    using in_set_takeD [OF job(1) [unfolded due_jobs_def]] by simp
  from rows(4) [OF job(1)] job(2) obtain j where
    j: "find_job i d = Some job" "find_job i d' = Some j" "settled_by False job j" by auto
  have "attempts_left i d' < attempts_left i d" if "reliable C"
    using rows(3) [OF that job(1)] j(1,2) job(2) attempts_left_settled(2) [OF _ assms(1) j(1,2) q] by auto
  then show ?thesis using attempts_left_settled(1) [OF j(3) assms(1) j(1,2) q] by simp
next
  case False
  then have "find_job i d' = find_job i d" by (rule process_due_rows(2) [OF assms(2,1)])
  with False show ?thesis by (simp add: attempts_left_def)
qed


lemmas delivery_eval = demo_queue_def demo_db_def empty_db_def empty_fed_def demo_job_def demo_activity_def demo_net_def
  demo_ctx_def demo_config_def jobs_ok_def job_ok_def find_job_def attempts_left_def process_due_jobs_def run_read_def run_write_def
  due_jobs_def BATCH_SIZE_def order_by_def less_eq_instant_def process_job_def Let_def url_domain_def is_domain_blocked_def
  deliver_job_def failed_job_def upd_job_def put_job_def set_fed_def upd_where_def reliable_def add32_def fail_activity_def

theorem delivery_jobs_typed_witness:
  "jobs_ok (snd (queue_outbound_activity demo_ctx ''follow'' ''https://ppv.example/users/u9'' JNull ''https://far.example/inbox'' (demo_queue 3)))"
  using delivery_jobs_typed [of "demo_queue 3" demo_ctx demo_net "''k''" Some "\<lambda>_. None" "''j1''" "''follow''"
      "''https://ppv.example/users/u9''" JNull "''https://far.example/inbox''"]
  by (simp add: delivery_eval)


theorem delivery_attempts_shrink_witness:
  "attempts_left ''j1'' (snd (process_due_jobs demo_ctx demo_net ''k'' (demo_queue 3))) < attempts_left ''j1'' (demo_queue 3)"
  using delivery_attempts_shrink [of "demo_queue 3" demo_ctx demo_net "''k''" _ _ "''j1''", OF _ prod.collapse [symmetric]]
  by (simp add: delivery_eval)

end
