(* ===== verification/FedRevenue.thy ===== *)
theory FedRevenue
  imports FedResolver
begin

text \<open>
  \<open>src/src/federation/revenue.rs\<close>: referral tokens, the shares a referring instance earns on the
  payments it sent, their reversal, the reports and the policies.
\<close>

section \<open>Referral tokens\<close>

record claims =
  cl_domain :: string
  cl_ts :: int
  cl_nonce :: string

text \<open>\<open>fn_bytes\<close> keeps the order of the fields of the struct.\<close>

definition claims_json :: "claims \<Rightarrow> json" where
  "claims_json c = JObj [(''domain'', JStr (cl_domain c)), (''ts'', JNum (cl_ts c)), (''nonce'', JStr (cl_nonce c))]"

text \<open>A field that occurs once, as the derived \<open>Deserialize\<close> wants it.\<close>

fun field_once :: "string \<Rightarrow> (string \<times> json) list \<Rightarrow> json option" where
  "field_once k fs = (case filter (\<lambda>p. fst p = k) fs of [(_, v)] \<Rightarrow> Some v | _ \<Rightarrow> None)"

definition claims_of :: "json option \<Rightarrow> json option \<Rightarrow> json option \<Rightarrow> claims option" where
  "claims_of a b c =
     (case (a, b, c) of
        (Some (JStr dom_name), Some (JNum ts), Some (JStr nonce)) \<Rightarrow>
          if fits64 ts then Some \<lparr> cl_domain = dom_name, cl_ts = ts, cl_nonce = nonce \<rparr> else None
      | _ \<Rightarrow> None)"

fun parse_claims :: "json \<Rightarrow> claims option" where
  "parse_claims (JObj fs) = claims_of (field_once ''domain'' fs) (field_once ''ts'' fs) (field_once ''nonce'' fs)"
| "parse_claims (JArr [a, b, c]) = claims_of (Some a) (Some b) (Some c)"
| "parse_claims _ = None"

text \<open>\<open>nonce_bytes\<close> are the random bytes of the nonce.\<close>

definition build_referral_payload :: "ctx \<Rightarrow> fed_net \<Rightarrow> string \<Rightarrow> string \<Rightarrow> string \<Rightarrow> string + string" where
  "build_referral_payload C N nonce_bytes dom_name pem =
     (let c = \<lparr> cl_domain = dom_name, cl_ts = unix_secs (now C), cl_nonce = b64enc C nonce_bytes \<rparr>;
          claims64 = b64enc C (fn_bytes N (claims_json c)) in
      case sg_private (fn_kit N) pem of
        None \<Rightarrow> Inl ''private key parse failed''
      | Some key \<Rightarrow> Inr (claims64 @ ''.'' @ b64enc C (sg_sign (fn_kit N) key claims64)))"

definition verify_referral_payload :: "ctx \<Rightarrow> fed_net \<Rightarrow> string \<Rightarrow> string \<Rightarrow> string + claims" where
  "verify_referral_payload C N token pem =
     (case rsplit_once (CHR ''.'') token of
        None \<Rightarrow> Inl ''malformed referral token''
      | Some (claims64, sig64) \<Rightarrow>
     (case b64dec C sig64 of
        None \<Rightarrow> Inl ''base64 decode of signature failed''
      | Some sig \<Rightarrow>
     (case sg_public (fn_kit N) pem of
        None \<Rightarrow> Inl ''public key parse failed''
      | Some key \<Rightarrow>
     if \<not> sg_bytes (fn_kit N) sig then Inl ''invalid signature bytes''
     else if \<not> sg_verify (fn_kit N) key claims64 sig then Inl ''referral signature verification failed''
     else
     (case b64dec C claims64 of
        None \<Rightarrow> Inl ''base64 decode of claims failed''
      | Some text \<Rightarrow>
     (case (case fn_json N text of Inl _ \<Rightarrow> None | Inr v \<Rightarrow> parse_claims v) of
        None \<Rightarrow> Inl ''claims JSON parse failed''
      | Some c \<Rightarrow>
          let age = sub64 (unix_secs (now C)) (cl_ts c) in
          if -300 \<le> age \<and> age \<le> 86400 then Inr c
          else Inl (''referral token is expired or from the future (age '' @ string_of_int age @ ''s)''))))))"

definition ins_referral :: "fed_referral \<Rightarrow> unit stmt" where
  "ins_referral r d =
     (if \<exists>x\<in>set (referrals (fed d)). rf_id x = rf_id r then Inl ''federation_referrals_pkey''
      else Inr ((), set_fed (\<lambda>f. f\<lparr>referrals := referrals f @ [r]\<rparr>) d))"

definition record_referral ::
  "ctx \<Rightarrow> string \<Rightarrow> string \<Rightarrow> string option \<Rightarrow> bool \<Rightarrow> db \<Rightarrow> (string + string) \<times> db" where
  "record_referral C dom_name payload nonce verified d =
     (let i = fresh_uuid C ''referral.id'' in
      case run_write C ''referral.insert'' (ins_referral \<lparr> rf_id = i, rf_domain = dom_name, rf_payload = payload,
             rf_nonce = nonce, rf_verified = verified \<rparr>) d of
        (Inl _, d') \<Rightarrow> (Inl ''federation_referrals insert failed'', d')
      | (Inr _, d') \<Rightarrow> (Inr i, d'))"


section \<open>Shares and the ledger\<close>

text \<open>\<open>*\<close> wraps in a release build.\<close>

definition calculate_share_cents :: "int \<Rightarrow> int \<Rightarrow> int" where
  "calculate_share_cents gross bp = (if bp \<le> 0 \<or> gross \<le> 0 then 0 else quot (mul64 gross bp) 10000)"

definition validate_basis_points :: "int \<Rightarrow> string + unit" where
  "validate_basis_points bp =
     (if 0 \<le> bp \<and> bp \<le> 5000 then Inr ()
      else Inl (''basis_points '' @ string_of_int bp @ '' is out of range [0, 5000] (max 50 %)''))"

definition share_of :: "string \<Rightarrow> string \<Rightarrow> db \<Rightarrow> revenue_share option" where
  "share_of i t d = find (\<lambda>s. rs_invoice s = i \<and> rs_type s = t) (shares (fed d))"

definition policy_of :: "string \<Rightarrow> db \<Rightarrow> share_policy option" where
  "policy_of dom_name d = find (\<lambda>p. sp_domain p = dom_name) (policies (fed d))"

text \<open>The schema's checks come first, then \<open>ON CONFLICT (invoice_id, invoice_type) DO NOTHING\<close>.\<close>

definition ins_share :: "revenue_share \<Rightarrow> unit stmt" where
  "ins_share s d =
     (if rs_gross s < 0 \<or> rs_cents s < 0 then Inl ''federation_revenue_shares_check''
      else if share_of (rs_invoice s) (rs_type s) d \<noteq> None then Inr ((), d)
      else if \<exists>x\<in>set (shares (fed d)). rs_id x = rs_id s then Inl ''federation_revenue_shares_pkey''
      else if (case rs_referral s of None \<Rightarrow> False | Some r \<Rightarrow> \<forall>x\<in>set (referrals (fed d)). rf_id x \<noteq> r)
      then Inl ''federation_revenue_shares_referral_id_fkey''
      else Inr ((), set_fed (\<lambda>f. f\<lparr>shares := shares f @ [s]\<rparr>) d))"

definition ENTRY_TYPES :: "string list" where
  "ENTRY_TYPES = [''credit'', ''debit'', ''refund'', ''chargeback'']"

definition ins_entry :: "revenue_entry \<Rightarrow> unit stmt" where
  "ins_entry e d =
     (if re_type e \<notin> set ENTRY_TYPES \<or> re_amount e < 0 then Inl ''revenue_ledger_entries_check''
      else if \<exists>x\<in>set (entries (fed d)). re_id x = re_id e then Inl ''revenue_ledger_entries_pkey''
      else if \<forall>x\<in>set (shares (fed d)). rs_id x \<noteq> re_share e then Inl ''revenue_ledger_entries_revenue_share_id_fkey''
      else Inr ((), set_fed (\<lambda>f. f\<lparr>entries := entries f @ [e]\<rparr>) d))"

definition record_ledger_entry ::
  "ctx \<Rightarrow> string \<Rightarrow> string \<Rightarrow> int \<Rightarrow> string option \<Rightarrow> db \<Rightarrow> (string + unit) \<times> db" where
  "record_ledger_entry C share kind amount desc d =
     (case run_write C ''revenue.entry'' (ins_entry \<lparr> re_id = fresh_uuid C ''revenue.entry'', re_share = share,
             re_type = kind, re_amount = amount, re_description = desc \<rparr>) d of
        (Inl _, d') \<Rightarrow> (Inl ''revenue_ledger_entries insert failed'', d')
      | (Inr _, d') \<Rightarrow> (Inr (), d'))"

text \<open>What is stored for a payment that earns a share, from the policy on.\<close>

definition store_share ::
  "ctx \<Rightarrow> string \<Rightarrow> string \<Rightarrow> string option \<Rightarrow> string \<Rightarrow> int \<Rightarrow> int \<Rightarrow> int \<Rightarrow> db \<Rightarrow> (string + int option) \<times> db" where
  "store_share C invoice kind referral dom_name gross bp cents d =
     (let i = fresh_uuid C ''revenue.share'' in
      case run_write C ''revenue.share'' (ins_share \<lparr> rs_id = i, rs_invoice = invoice, rs_type = kind,
             rs_referral = referral, rs_domain = Some dom_name, rs_gross = gross, rs_bp = bp, rs_cents = cents,
             rs_status = ''pending'' \<rparr>) d of
        (Inl _, d1) \<Rightarrow> (Inl ''federation_revenue_shares insert failed'', d1)
      | (Inr _, d1) \<Rightarrow>
     (case record_ledger_entry C i ''credit'' cents (Some (''traffic referral from '' @ dom_name)) d1 of
        (Inl e, d2) \<Rightarrow> (Inl e, d2)
      | (Inr _, d2) \<Rightarrow> (Inr (Some cents), d2)))"

definition process_revenue_share ::
  "ctx \<Rightarrow> string \<Rightarrow> string \<Rightarrow> string option \<Rightarrow> string option \<Rightarrow> int \<Rightarrow> db \<Rightarrow> (string + int option) \<times> db" where
  "process_revenue_share C invoice kind referral referring gross d =
     (case run_read C ''revenue.existing'' (share_of invoice kind) d of
        Inl _ \<Rightarrow> (Inl ''revenue share idempotency check failed'', d)
      | Inr (Some _) \<Rightarrow> (Inr None, d)
      | Inr None \<Rightarrow>
     (case referring of
        None \<Rightarrow> (Inr None, d)
      | Some dom_name \<Rightarrow>
     if dom_name = [] then (Inr None, d)
     else
     (case run_read C ''revenue.policy'' (policy_of dom_name) d of
        Inl _ \<Rightarrow> (Inl ''revenue share policy lookup failed'', d)
      | Inr None \<Rightarrow> (Inr None, d)
      | Inr (Some p) \<Rightarrow>
     if \<not> sp_active p then (Inr None, d)
     else
     (case validate_basis_points (sp_bp p) of
        Inl e \<Rightarrow> (Inl e, d)
      | Inr _ \<Rightarrow>
     (let cents = calculate_share_cents gross (sp_bp p) in
      if cents = 0 then (Inr None, d)
      else store_share C invoice kind referral dom_name gross (sp_bp p) cents d)))))"

definition reverse_share :: "string \<Rightarrow> unit stmt" where
  "reverse_share i d = Inr ((), set_fed (\<lambda>f. f\<lparr>shares := upd_where (\<lambda>s. rs_id s = i)
     (\<lambda>s. s\<lparr>rs_status := ''reversed''\<rparr>) (shares f)\<rparr>) d)"

definition quote1 :: "string \<Rightarrow> string" where
  "quote1 s = [CHR 0x27] @ s @ [CHR 0x27]"

definition reverse_revenue_share :: "ctx \<Rightarrow> string \<Rightarrow> string \<Rightarrow> string \<Rightarrow> db \<Rightarrow> (string + unit) \<times> db" where
  "reverse_revenue_share C invoice kind entry_type d =
     (if entry_type \<noteq> ''refund'' \<and> entry_type \<noteq> ''chargeback''
      then (Inl (''entry_type must be '' @ quote1 ''refund'' @ '' or '' @ quote1 ''chargeback'' @ '', got '' @ quote1 entry_type), d)
      else
      (case run_read C ''revenue.pending'' (\<lambda>d. find (\<lambda>s. rs_invoice s = invoice \<and> rs_type s = kind \<and> rs_status s = ''pending'')
              (shares (fed d))) d of
         Inl _ \<Rightarrow> (Inl ''revenue share reversal lookup failed'', d)
       | Inr None \<Rightarrow> (Inr (), d)
       | Inr (Some s) \<Rightarrow>
      (case run_write C ''revenue.reverse'' (reverse_share (rs_id s)) d of
         (Inl _, d1) \<Rightarrow> (Inl ''revenue share status update failed'', d1)
       | (Inr _, d1) \<Rightarrow> record_ledger_entry C (rs_id s) entry_type (rs_cents s) None d1)))"


section \<open>Reports and policies\<close>

text \<open>
  \<open>ORDER BY pending_cents\<close> names neither an output column of the query (its sums have no alias) nor a
  column of the table, so PostgreSQL refuses the statement.
\<close>

definition provider_settlement_report :: "ctx \<Rightarrow> db \<Rightarrow> string + json list" where
  "provider_settlement_report C d = Inl ''provider settlement report query failed''"

text \<open>The groups of the second report: a domain and the basis points of its policy, 0 without one.\<close>

definition policy_bp :: "string \<Rightarrow> db \<Rightarrow> int" where
  "policy_bp dom_name d = (case policy_of dom_name d of None \<Rightarrow> 0 | Some p \<Rightarrow> sp_bp p)"

definition shared_domains :: "db \<Rightarrow> string list" where
  "shared_domains d = remdups (List.map_filter rs_domain (shares (fed d)))"

definition shares_from :: "string \<Rightarrow> db \<Rightarrow> revenue_share list" where
  "shares_from dom_name d = filter (\<lambda>s. rs_domain s = Some dom_name) (shares (fed d))"

text \<open>A row; the two sums are \<open>NUMERIC\<close>, \<open>num64\<close> is what their decoding as \<open>i64\<close> gives.\<close>

definition affiliate_row :: "ctx \<Rightarrow> db \<Rightarrow> string \<Rightarrow> json option" where
  "affiliate_row C d dom_name =
     (let mine = shares_from dom_name d; n = (\<lambda>st. JNum (count_where (\<lambda>s. rs_status s = st) mine)) in
      case (num64 C (\<Sum>s\<leftarrow>mine. rs_gross s), num64 C (\<Sum>s\<leftarrow>mine. rs_cents s)) of
        (Some gross, Some cents) \<Rightarrow>
          Some (JObj [(''referring_domain'', JStr dom_name), (''share_basis_points'', JNum (policy_bp dom_name d)),
            (''total_gross_cents'', JNum gross), (''total_share_cents'', JNum cents),
            (''pending_count'', n ''pending''), (''settled_count'', n ''settled''), (''reversed_count'', n ''reversed'')])
      | _ \<Rightarrow> None)"

definition affiliate_settlement_report :: "ctx \<Rightarrow> db \<Rightarrow> string + json list" where
  "affiliate_settlement_report C d =
     (let groups = order_by_desc (\<lambda>g. \<Sum>s\<leftarrow>shares_from g d. rs_cents s) (order_by (\<lambda>g. g) (shared_domains d));
          rows = map (affiliate_row C d) groups in
      case run_read C ''revenue.report'' (\<lambda>_. ()) d of
        Inl _ \<Rightarrow> Inl ''affiliate settlement report query failed''
      | Inr _ \<Rightarrow> if None \<in> set rows then Inl ''affiliate settlement report query failed'' else Inr (map the rows))"

definition upsert_policy :: "share_policy \<Rightarrow> unit stmt" where
  "upsert_policy p d =
     (case policy_of (sp_domain p) d of
        None \<Rightarrow> Inr ((), set_fed (\<lambda>f. f\<lparr>policies := policies f @ [p]\<rparr>) d)
      | Some _ \<Rightarrow> Inr ((), set_fed (\<lambda>f. f\<lparr>policies := upd_where (\<lambda>x. sp_domain x = sp_domain p)
          (\<lambda>x. x\<lparr>sp_bp := sp_bp p, sp_active := True\<rparr>) (policies f)\<rparr>) d))"

definition set_share_policy :: "ctx \<Rightarrow> string \<Rightarrow> int \<Rightarrow> string \<Rightarrow> db \<Rightarrow> (string + unit) \<times> db" where
  "set_share_policy C dom_name bp created_by d =
     (case validate_basis_points bp of
        Inl e \<Rightarrow> (Inl e, d)
      | Inr _ \<Rightarrow>
     (case run_write C ''policy.set'' (upsert_policy \<lparr> sp_domain = dom_name, sp_bp = bp, sp_active = True,
             sp_created_by = Some created_by, sp_created = now C \<rparr>) d of
        (Inl _, d') \<Rightarrow> (Inl ''revenue_share_policies upsert failed'', d')
      | (Inr _, d') \<Rightarrow> (Inr (), d')))"

end
