(* ===== verification/FedServer.thy ===== *)
theory FedServer
  imports FedInbound FedRevenue
begin

text \<open>
  \<open>src/src/federation/mod.rs\<close> and \<open>catalog.rs\<close>: the configuration, the discovery documents, the
  administrator's endpoints of the federation router and the catalog.
\<close>

section \<open>Configuration\<close>

text \<open>\<open>trim_start_matches\<close> of a non-empty text removes it as often as it is there.\<close>

function strip_all :: "string \<Rightarrow> string \<Rightarrow> string" where
  "strip_all p s =
     (case strip_prefix p s of
        None \<Rightarrow> s
      | Some r \<Rightarrow> if p = [] then s else strip_all p r)"
  by auto
termination
proof (relation "measure (\<lambda>(p, s). length s)", simp)
  fix p s r :: string
  assume "strip_prefix p s = Some r" "p \<noteq> []"
  then show "((p, r), p, s) \<in> measure (\<lambda>(p, s). length s)" by (simp add: strip_prefix_Some)
qed

declare strip_all.simps [simp del]

definition parse_bool :: "ctx \<Rightarrow> string \<Rightarrow> bool \<Rightarrow> bool" where
  "parse_bool C name dflt = (case env_var C name of None \<Rightarrow> dflt | Some v \<Rightarrow> truthy (ascii_lower (trim v)))"

definition fed_from_env :: "ctx \<Rightarrow> string \<Rightarrow> fed_config" where
  "fed_from_env C default_base =
     (let base = (case env_var C ''FEDERATION_BASE_URL'' of None \<Rightarrow> trim_end_slashes default_base | Some v \<Rightarrow> v);
          dom_name = (case env_var C ''FEDERATION_DOMAIN'' of
              None \<Rightarrow> hd (split_on (CHR ''/'') (strip_all ''http://'' (strip_all ''https://'' base)))
            | Some v \<Rightarrow> v) in
      \<lparr> fc_enabled = parse_bool C ''FEDERATION_ENABLED'' False, fc_domain = dom_name, fc_base = trim_end_slashes base,
        fc_version = ''0.2.0'' \<rparr>)"

definition fed_validate :: "ctx \<Rightarrow> fed_config \<Rightarrow> string + unit" where
  "fed_validate C F =
     (if \<not> fc_enabled F then Inr ()
      else if trim (fc_domain F) = [] then Inl ''FEDERATION_DOMAIN must not be empty''
      else if CHR ''/'' \<in> set (fc_domain F) \<or> has_space (fc_domain F)
      then Inl ''FEDERATION_DOMAIN must contain only a host name''
      else if \<not> dev_bypass_enabled C \<and> \<not> starts_with ''https://'' (fc_base F) \<and> \<not> starts_with ''http://localhost'' (fc_base F)
      then Inl ''FEDERATION_BASE_URL must use HTTPS, except for localhost development''
      else Inr ())"

text \<open>The router has routes when this is \<open>Inr (Some _)\<close>.\<close>

definition fed_router :: "ctx \<Rightarrow> string \<Rightarrow> string + fed_config option" where
  "fed_router C default_base =
     (let F = fed_from_env C default_base in
      case fed_validate C F of
        Inl e \<Rightarrow> Inl e
      | Inr _ \<Rightarrow> Inr (if fc_enabled F then Some F else None))"


section \<open>Discovery\<close>

definition discoverable :: "string \<Rightarrow> db \<Rightarrow> user option" where
  "discoverable name d = find (\<lambda>u. u_username u = name \<and> u_federated u \<and> u_discoverable u) (users d)"

definition webfinger :: "ctx \<Rightarrow> fed_config \<Rightarrow> string \<Rightarrow> db \<Rightarrow> http" where
  "webfinger C F resource d =
     (case strip_prefix ''acct:'' resource of
        None \<Rightarrow> api_error 400 ''resource must use acct:username@domain''
      | Some handle \<Rightarrow>
     (case rsplit_once (CHR ''@'') handle of
        None \<Rightarrow> api_error 400 ''resource must include username and domain''
      | Some (username, dom_name) \<Rightarrow>
     if dom_name \<noteq> fc_domain F then api_error 404 ''account is not hosted by this instance''
     else
     (case run_read C ''webfinger.user'' (discoverable username) d of
        Inl _ \<Rightarrow> api_error 500 ''database lookup failed''
      | Inr None \<Rightarrow> api_error 404 ''account not found''
      | Inr (Some _) \<Rightarrow>
          let url = fc_base F @ ''/users/'' @ username in
          http_json (JObj [(''subject'', JStr (''acct:'' @ username @ ''@'' @ fc_domain F)), (''aliases'', JArr [JStr url]),
            (''links'', JArr [JObj [(''rel'', JStr ''self''), (''type'', JStr ''application/activity+json''),
              (''href'', JStr url)]])]))))"

definition nodeinfo_well_known :: "fed_config \<Rightarrow> json" where
  "nodeinfo_well_known F = JObj [(''links'', JArr [JObj [
     (''rel'', JStr ''http://nodeinfo.diaspora.software/ns/schema/2.1''), (''href'', JStr (fc_base F @ ''/nodeinfo/2.1''))]])]"

definition nodeinfo_21 :: "ctx \<Rightarrow> fed_config \<Rightarrow> db \<Rightarrow> http" where
  "nodeinfo_21 C F d =
     (case (run_read C ''nodeinfo.users'' (\<lambda>d. int (length (users d))) d,
            run_read C ''nodeinfo.videos'' (\<lambda>d. int (length (videos d))) d) of
        (Inr us, Inr vs) \<Rightarrow> http_json (JObj [(''version'', JStr ''2.1''),
          (''software'', JObj [(''name'', JStr ''ppv_stream_rust''), (''version'', JStr (fc_version F))]),
          (''protocols'', JArr [JStr ''activitypub'']), (''services'', JObj [(''inbound'', JArr []), (''outbound'', JArr [])]),
          (''openRegistrations'', JBool False),
          (''usage'', JObj [(''users'', JObj [(''total'', JNum us)]), (''localPosts'', JNum vs)]),
          (''metadata'', JObj [(''federationMode'', JStr ''index-only''), (''remoteMediaReplication'', JBool False),
            (''remotePlayback'', JBool False)])])
      | _ \<Rightarrow> api_error 500 ''failed to build node information'')"

text \<open>The left join gives the first local actor record of the user, if any.\<close>

definition local_actor :: "ctx \<Rightarrow> fed_config \<Rightarrow> string \<Rightarrow> db \<Rightarrow> http" where
  "local_actor C F username d =
     (case run_read C ''actor.local'' (\<lambda>d. map_option (\<lambda>u. (u, Option.bind (local_actor_of (u_id u) d) fa_key_pem))
             (discoverable username d)) d of
        Inr (Some (u, pem)) \<Rightarrow>
          let url = str_or (fc_base F @ ''/users/'' @ username) (u_actor u) in
          http_json (JObj [
            (''@context'', JArr [AP_CONTEXT, JStr ''https://w3id.org/security/v1'']), (''id'', JStr url),
            (''type'', JStr ''Person''), (''preferredUsername'', JStr username), (''name'', JStr username),
            (''summary'', JStr (u_profile u)), (''inbox'', JStr (url @ ''/inbox'')), (''outbox'', JStr (url @ ''/outbox'')),
            (''followers'', JStr (url @ ''/followers'')), (''following'', JStr (url @ ''/following'')),
            (''url'', JStr (fc_base F @ ''/public/profile.html?username='' @ username)),
            (''publicKey'', case pem of None \<Rightarrow> JNull
               | Some p \<Rightarrow> JObj [(''id'', JStr (url @ ''#main-key'')), (''owner'', JStr url), (''publicKeyPem'', JStr p)]),
            (''endpoints'', JObj [(''sharedInbox'', JStr (fc_base F @ ''/inbox''))]),
            (''attachment'', JArr [JObj [(''type'', JStr ''PropertyValue''), (''name'', JStr ''Federation mode''),
              (''value'', JStr ''Index only. Remote video media is never replicated.'')]])])
      | _ \<Rightarrow> api_error 404 ''actor not found'')"


section \<open>Revenue endpoints\<close>

definition policy_json :: "ctx \<Rightarrow> share_policy \<Rightarrow> json" where
  "policy_json C p = JObj [(''instance_domain'', JStr (sp_domain p)), (''share_basis_points'', JNum (sp_bp p)),
     (''is_active'', JBool (sp_active p)), (''created_at'', JStr (pg_text C (sp_created p)))]"

definition admin_list_revenue_policies :: "ctx \<Rightarrow> (string \<Rightarrow> string option) \<Rightarrow> db \<Rightarrow> http" where
  "admin_list_revenue_policies C headers d =
     (if \<not> check_admin_token C headers then token_required
      else http_json (jok [(''policies'', JArr
        (case run_read C ''policies.list'' (\<lambda>d. map (policy_json C) (order_by sp_domain (policies (fed d)))) d of
           Inr rows \<Rightarrow> rows | Inl _ \<Rightarrow> []))]))"

definition admin_set_revenue_policy ::
  "ctx \<Rightarrow> (string \<Rightarrow> string option) \<Rightarrow> string \<Rightarrow> int \<Rightarrow> db \<Rightarrow> http \<times> db" where
  "admin_set_revenue_policy C headers body_domain bp d =
     (if \<not> check_admin_token C headers then (token_required, d)
      else
      let dom_name = to_lowercase C (trim body_domain) in
      if dom_name = [] \<or> CHR ''/'' \<in> set dom_name then (api_error 400 ''domain must be a bare hostname'', d)
      else
      (case set_share_policy C dom_name bp ''admin'' d of
         (Inr _, d') \<Rightarrow> (http_json (jok []), d')
       | (Inl e, d') \<Rightarrow> (api_error 400 e, d')))"

definition report_answer :: "string + json list \<Rightarrow> http" where
  "report_answer r = (case r of Inr rows \<Rightarrow> http_json (jok [(''rows'', JArr rows)])
     | Inl _ \<Rightarrow> api_error 500 ''report query failed'')"

definition admin_provider_settlement :: "ctx \<Rightarrow> (string \<Rightarrow> string option) \<Rightarrow> db \<Rightarrow> http" where
  "admin_provider_settlement C headers d =
     (if \<not> check_admin_token C headers then token_required else report_answer (provider_settlement_report C d))"

definition admin_affiliate_settlement :: "ctx \<Rightarrow> (string \<Rightarrow> string option) \<Rightarrow> db \<Rightarrow> http" where
  "admin_affiliate_settlement C headers d =
     (if \<not> check_admin_token C headers then token_required else report_answer (affiliate_settlement_report C d))"

definition resolve_referral_for_split ::
  "ctx \<Rightarrow> fed_net \<Rightarrow> (string \<Rightarrow> string option) \<Rightarrow> db \<Rightarrow> http" where
  "resolve_referral_for_split C N params d =
     (if params ''token'' \<in> {None, Some []} then api_error 400 ''token required''
      else if params ''actor_url'' \<in> {None, Some []} then api_error 400 ''actor_url required''
      else
      (case fetch_remote_actor_key C N (the (params ''actor_url'')) of
         Inl _ \<Rightarrow> api_error 502 ''could not retrieve actor public key''
       | Inr (_, pem) \<Rightarrow>
      (case verify_referral_payload C N (the (params ''token'')) pem of
         Inl _ \<Rightarrow> api_error 422 ''invalid referral token''
       | Inr c \<Rightarrow>
      let (bp, active) = (case run_read C ''referral.policy'' (policy_of (cl_domain c)) d of
                            Inr (Some p) \<Rightarrow> (sp_bp p, sp_active p) | _ \<Rightarrow> (0, False));
          split = (active \<and> 0 < bp);
          wallet = (case run_read C ''referral.instance'' (\<lambda>d. find (\<lambda>i. fi_domain i = cl_domain c) (instances (fed d))) d of
                      Inr (Some i) \<Rightarrow> fi_shared_inbox i | _ \<Rightarrow> None) in
      http_json (jok [(''referring_domain'', JStr (cl_domain c)), (''split_enabled'', JBool split),
        (''share_basis_points'', JNum (if split then bp else 0)), (''provider_wallet'', jopt wallet)]))))"


section \<open>Administrator's endpoints\<close>

text \<open>The middle result is the processing that is started in the background.\<close>

definition injected_row :: "ctx \<Rightarrow> json \<Rightarrow> fed_activity" where
  "injected_row C body =
     \<lparr> fx_id = fresh_uuid C ''inject.activity'', fx_uri = str_or [] (get_str ''id'' body),
       fx_type = str_or [] (get_str ''type'' body), fx_actor = str_or [] (get_str ''actor'' body), fx_object = None,
       fx_direction = ''inbound'', fx_payload = body, fx_status = ''pending'', fx_error = None, fx_received = None,
       fx_processed = None, fx_created = now C \<rparr>"

definition admin_inject_inbound ::
  "ctx \<Rightarrow> (string \<Rightarrow> string option) \<Rightarrow> json \<Rightarrow> db \<Rightarrow> http \<times> (string \<times> json \<times> string) option \<times> db" where
  "admin_inject_inbound C headers body d =
     (if \<not> check_admin_token C headers then (token_required, None, d)
      else if \<not> dev_bypass_enabled C then (api_error 403 ''inject-inbound requires FEDERATION_DEV_HTTP_BYPASS=1'', None, d)
      else
      let row = injected_row C body; uri = fx_uri row in
      if uri = [] \<or> fx_type row = [] \<or> fx_actor row = []
      then (api_error 400 ''activity must have id, type, and actor fields'', None, d)
      else if (case run_read C ''inject.seen'' (\<lambda>d. \<exists>x\<in>set (activities (fed d)). fx_uri x = uri) d of
            Inr b \<Rightarrow> b | Inl _ \<Rightarrow> False)
      then (http_json (jok [(''status'', JStr ''duplicate''), (''activity_uri'', JStr uri)]), None, d)
      else
      (case run_write C ''inject.store'' (ins_activity (Some uri) row) d of
         (Inl _, d') \<Rightarrow> (api_error 500 ''failed to store activity'', None, d')
       | (Inr _, d') \<Rightarrow>
           (http_json (jok [(''status'', JStr ''accepted''), (''activity_id'', JStr (fx_id row)), (''activity_uri'', JStr uri)]),
            Some (fx_actor row, body, fx_id row), d')))"

definition admin_init_actor ::
  "ctx \<Rightarrow> fed_net \<Rightarrow> fed_config \<Rightarrow> string \<Rightarrow> (string \<Rightarrow> string option) \<Rightarrow> string \<Rightarrow> db \<Rightarrow> http \<times> db" where
  "admin_init_actor C N F nonce headers body_username d =
     (if \<not> check_admin_token C headers then (token_required, d)
      else
      let username = to_lowercase C (trim body_username) in
      if username = [] then (api_error 400 ''username required'', d)
      else
      let secret = str_or [] (env_var C ''HMAC_SECRET'') in
      (case run_read C ''init.user'' (\<lambda>d. map_option u_id (find_username username d)) d of
         Inr (Some uid) \<Rightarrow>
           (case ensure_local_actor_keys C (fn_kit N) nonce uid username (fc_base F) (fc_domain F) secret d of
              (Inr pem, d') \<Rightarrow> (http_json (jok [(''actor_url'', JStr (fc_base F @ ''/users/'' @ username)),
                 (''public_key_pem'', JStr pem)]), d')
            | (Inl _, d') \<Rightarrow> (api_error 500 ''actor init failed'', d'))
       | _ \<Rightarrow> (api_error 404 ''user not found'', d)))"

definition follow_activity :: "ctx \<Rightarrow> string \<Rightarrow> string \<Rightarrow> json" where
  "follow_activity C local_url remote_url = JObj [(''@context'', AP_CONTEXT),
     (''id'', JStr (local_url @ ''/activities/'' @ fresh_uuid C ''follow.id'')), (''type'', JStr ''Follow''),
     (''actor'', JStr local_url), (''object'', JStr remote_url), (''published'', JStr (rfc3339 C (now C)))]"

text \<open>The check that the actor exists asks for the \<open>INTEGER\<close> 1 of \<open>SELECT 1\<close> as an \<open>i64\<close>.\<close>

definition admin_send_follow ::
  "ctx \<Rightarrow> fed_net \<Rightarrow> fed_config \<Rightarrow> (string \<Rightarrow> string option) \<Rightarrow> string \<Rightarrow> string \<Rightarrow> db \<Rightarrow> http \<times> db" where
  "admin_send_follow C N F headers local_username remote_actor_url d =
     (if \<not> check_admin_token C headers then (token_required, d)
      else
      let username = to_lowercase C (trim local_username); remote_url = trim remote_actor_url;
          local_url = fc_base F @ ''/users/'' @ username in
      if username = [] \<or> remote_url = [] then (api_error 400 ''local_username and remote_actor_url required'', d)
      else if (case run_read C ''follow.local'' (\<lambda>d. \<exists>a\<in>set (actors (fed d)). fa_uri a = local_url \<and> fa_local a) d of
            Inr b \<Rightarrow> \<not> b \<or> int4_i64 C 1 = None | Inl _ \<Rightarrow> True)
      then (api_error 404 (''local actor not found '' @ map chr [226, 128, 148] @ '' call /admin/actors/init first''), d)
      else
      (case upsert_remote_actor C N remote_url d of
         (Inl _, d1) \<Rightarrow> (api_error 502 ''could not retrieve remote actor'', d1)
       | (Inr (_, inbox), d1) \<Rightarrow>
      (case queue_outbound_activity C ''follow'' local_url (follow_activity C local_url remote_url) inbox d1 of
         (Inl _, d2) \<Rightarrow> (api_error 500 ''failed to queue follow'', d2)
       | (Inr _, d2) \<Rightarrow>
           (http_json (jok [(''follow_activity_uri'', JStr (local_url @ ''/activities/'' @ fresh_uuid C ''follow.id'')),
              (''remote_inbox'', JStr inbox)]), d2))))"

definition admin_reject_follow :: "ctx \<Rightarrow> fed_net \<Rightarrow> string \<Rightarrow> db \<Rightarrow> http \<times> db" where
  "admin_reject_follow C N follow_id d =
     (case fn_uuid N follow_id of
        None \<Rightarrow> (api_error 400 ''invalid follow id'', d)
      | Some i \<Rightarrow>
          (case send_reject C i d of
             (Inr _, d') \<Rightarrow> (http_json (jok []), d')
           | (Inl _, d') \<Rightarrow> (api_error 500 ''reject failed'', d')))"


section \<open>The catalog\<close>

definition local_entry :: "fed_config \<Rightarrow> video \<Rightarrow> json" where
  "local_entry F v = JObj [(''id'', JStr (v_id v)), (''title'', JStr (v_title v)),
     (''description'', jopt (if v_description v = [] then None else Some (v_description v))),
     (''price_cents'', JNum (v_price v)), (''hosting_type'', JStr ''local''), (''origin_domain'', JStr (fc_domain F)),
     (''watch_url'', JStr (fc_base F @ ''/watch/'' @ v_id v)), (''checkout_url'', JStr (fc_base F @ ''/checkout/'' @ v_id v)),
     (''thumbnail_url'', JNull), (''content_rating'', JNull), (''published_at'', JNull)]"

text \<open>\<open>utc_text\<close> is the \<open>TO_CHAR\<close> of a time in the query.\<close>

definition remote_entry :: "(instant \<Rightarrow> string) \<Rightarrow> remote_video \<Rightarrow> json" where
  "remote_entry utc_text v = JObj [(''id'', JStr (rv_uri v)), (''title'', JStr (rv_title v)),
     (''description'', jopt (rv_description v)), (''price_cents'', JNull), (''hosting_type'', JStr ''remote''),
     (''origin_domain'', JStr (rv_domain v)), (''watch_url'', JStr (rv_canonical v)), (''checkout_url'', jopt (rv_checkout v)),
     (''thumbnail_url'', jopt (rv_thumbnail v)), (''content_rating'', jopt (rv_rating v)),
     (''published_at'', jopt (map_option utc_text (rv_published v)))]"

definition remote_order :: "remote_video list \<Rightarrow> remote_video list" where
  "remote_order rows = (let recent = order_by_desc rv_updated rows in
     order_by_desc (\<lambda>v. the (rv_published v)) (filter (\<lambda>v. rv_published v \<noteq> None) recent)
       @ filter (\<lambda>v. rv_published v = None) recent)"

definition catalog_page :: "int \<Rightarrow> int \<Rightarrow> 'r list \<Rightarrow> 'r list" where
  "catalog_page limit offset rows = take (nat (max 1 (min limit 100))) (drop (nat offset) rows)"

definition catalog :: "ctx \<Rightarrow> fed_config \<Rightarrow> (instant \<Rightarrow> string) \<Rightarrow> int \<Rightarrow> int \<Rightarrow> string \<Rightarrow> db \<Rightarrow> http" where
  "catalog C F utc_text limit offset hosting d =
     (let locals = (if hosting = [] \<or> hosting = ''local''
            then (case run_read C ''catalog.local'' (\<lambda>d. map (local_entry F) (catalog_page limit offset (order_by_desc v_created
                     (filter (\<lambda>v. v_visibility v = ''public'') (videos d))))) d of Inr xs \<Rightarrow> xs | Inl _ \<Rightarrow> []) else []);
          remotes = (if hosting = [] \<or> hosting = ''remote''
            then (case run_read C ''catalog.remote'' (\<lambda>d. map (remote_entry utc_text) (catalog_page limit offset (remote_order
                     (filter (\<lambda>v. \<not> rv_deleted v \<and> rv_availability v = ''available'') (remote_videos (fed d)))))) d of
                    Inr xs \<Rightarrow> xs | Inl _ \<Rightarrow> []) else []) in
      if locals @ remotes = [] \<and> hosting \<noteq> [] \<and> hosting \<noteq> ''local'' \<and> hosting \<noteq> ''remote''
      then (400, JObj [(''error'', JStr (''hosting_type must be '' @ quote1 ''local'' @ '', '' @ quote1 ''remote'' @ '', or omitted''))])
      else http_json (JObj [(''items'', JArr (locals @ remotes)), (''count'', JNum (int (length (locals @ remotes))))]))"

definition video_ap_object :: "ctx \<Rightarrow> fed_net \<Rightarrow> fed_config \<Rightarrow> string \<Rightarrow> (string \<Rightarrow> string option) \<Rightarrow> db \<Rightarrow> http" where
  "video_ap_object C N F vid headers d =
     (let accept = str_or [] (headers ''accept'') in
      if find_str ''application/activity+json'' accept = None \<and> find_str ''application/ld+json'' accept = None
      then (406, JStr ''use Accept: application/activity+json'')
      else
      (case build_video_object C N vid (fc_base F) d of
         Inr (Some obj) \<Rightarrow> http_json obj
       | Inr None \<Rightarrow> (404, JObj [(''error'', JStr ''video not found or not federated'')])
       | Inl _ \<Rightarrow> (500, JObj [(''error'', JStr ''failed to build video object'')])))"

end
