(* ===== verification/FedProperties.thy ===== *)
theory FedProperties
  imports FedServer FedDemo
begin

text \<open>
  The properties of signatures, actor keys, the inbox and the broadcasts of the federation.
\<close>

section \<open>Signatures\<close>

lemma split_on_append: "d \<notin> set a \<Longrightarrow> split_on d (a @ d # b) = a # split_on d b"
  by (induction a) auto

lemma split_on_whole: "d \<notin> set a \<Longrightarrow> split_on d a = [a]"
  by (induction a) auto

definition visible :: "char \<Rightarrow> bool" where
  "visible c \<longleftrightarrow> 32 < byte c \<and> byte c < 128"

lemma trim_visible:
  assumes "visible a" "visible z"
  shows "trim (a # m @ [z]) = a # m @ [z]"
proof -
  have "ws_front (byte a # bs) = 0" for bs
    using assms(1) by (auto simp: visible_def split: list.splits)
  then have 1: "trim_start (a # m @ [z]) = a # m @ [z]" by (subst trim_start.simps) simp
  have "ws_back (byte z # bs) = 0" for bs
    using assms(2) by (auto simp: visible_def split: list.splits)
  then have "trim_rev (rev (a # m @ [z])) = rev (a # m @ [z])" by (subst trim_rev.simps) simp
  with 1 show ?thesis by (simp add: trim_def)
qed

lemma unquote:
  assumes "CHR 0x22 \<notin> set v"
  shows "trim (quoted v) = quoted v" "trim_matches (\<lambda>c. c = CHR 0x22) (quoted v) = v"
proof -
  have "visible (CHR 0x22)" by (simp add: visible_def byte_def)
  from trim_visible [OF this this, of v] show "trim (quoted v) = quoted v" by (simp add: quoted_def)
  have d: "dropWhile (\<lambda>c. c = CHR 0x22) w = w" if "CHR 0x22 \<notin> set w" for w :: string
    using that by (cases w) auto
  show "trim_matches (\<lambda>c. c = CHR 0x22) (quoted v) = v"
  proof (cases v)
    case (Cons c cs)
    with assms d [of "rev v"] show ?thesis by (auto simp: trim_matches_def quoted_def)
  qed (simp add: trim_matches_def quoted_def)
qed

lemma signature_param_quoted:
  assumes "CHR 0x22 \<notin> set v" "name = c # cs" "visible c" "CHR ''='' \<notin> set name" "trim name = name"
  shows "signature_param (name @ ''='' @ quoted v) = Some (name, v)"
proof -
  have "visible (CHR 0x22)" by (simp add: visible_def byte_def)
  from trim_visible [OF assms(3) this, of "cs @ ''='' @ [CHR 0x22] @ v"]
  have t: "trim (name @ ''='' @ quoted v) = name @ CHR ''='' # quoted v"
    using assms(2) by (simp add: quoted_def)
  show ?thesis
    using assms(4,5) unquote [OF assms(1)] unfolding signature_param_def t by (simp add: split_once_append)
qed

lemma parse_header:
  assumes "CHR 0x22 \<notin> set key_id" "CHR '','' \<notin> set key_id" "CHR 0x22 \<notin> set sig64" "CHR '','' \<notin> set sig64"
    and "CHR 0x22 \<notin> set (join '' '' names)" "CHR '','' \<notin> set (join '' '' names)"
  shows "\<exists>ps. parse_signature_header (signature_header key_id names sig64) = Inr ps \<and> ps ''keyId'' = Some key_id
    \<and> ps ''signature'' = Some sig64 \<and> ps ''headers'' = Some (join '' '' names)"
proof -
  have q: "CHR '','' \<notin> set (quoted v)" if "CHR '','' \<notin> set v" for v using that by (simp add: quoted_def)
  let ?a = "''keyId'' @ ''='' @ quoted key_id" and ?b = "''algorithm'' @ ''='' @ quoted ''rsa-sha256''"
    and ?c = "''headers'' @ ''='' @ quoted (join '' '' names)" and ?d = "''signature'' @ ''='' @ quoted sig64"
  have "signature_header key_id names sig64 = ?a @ CHR '','' # ?b @ CHR '','' # ?c @ CHR '','' # ?d"
    by (simp add: signature_header_def)
  moreover have "CHR '','' \<notin> set ?a" "CHR '','' \<notin> set ?b" "CHR '','' \<notin> set ?c" "CHR '','' \<notin> set ?d"
    using assms q by (simp_all add: quoted_def)
  ultimately have s: "split_on (CHR '','') (signature_header key_id names sig64) = [?a, ?b, ?c, ?d]"
    by (simp only: split_on_append split_on_whole not_False_eq_True)
  have n: "trim ''keyId'' = ''keyId''" "trim ''algorithm'' = ''algorithm''" "trim ''headers'' = ''headers''"
    "trim ''signature'' = ''signature''" by code_simp+
  have v: "visible (CHR ''k'')" "visible (CHR ''a'')" "visible (CHR ''h'')" "visible (CHR ''s'')"
    by (simp_all add: visible_def byte_def)
  have "signature_param ?a = Some (''keyId'', key_id)"
    by (rule signature_param_quoted [OF assms(1) refl v(1) _ n(1)]) simp
  moreover have "signature_param ?b = Some (''algorithm'', ''rsa-sha256'')"
    by (rule signature_param_quoted [OF _ refl v(2) _ n(2)]) simp_all
  moreover have "signature_param ?c = Some (''headers'', join '' '' names)"
    by (rule signature_param_quoted [OF assms(5) refl v(3) _ n(3)]) simp
  moreover have "signature_param ?d = Some (''signature'', sig64)"
    by (rule signature_param_quoted [OF assms(3) refl v(4) _ n(4)]) simp
  ultimately have "List.map_filter signature_param (split_on (CHR '','') (signature_header key_id names sig64))
      = [(''keyId'', key_id), (''algorithm'', ''rsa-sha256''), (''headers'', join '' '' names), (''signature'', sig64)]"
    unfolding s by (simp only: List.map_filter_simps option.case)
  then show ?thesis by (simp add: parse_signature_header_def)
qed

lemma signed_names_words:
  "words (join '' '' (signed_names inp)) = signed_names inp"
  "CHR 0x22 \<notin> set (join '' '' (signed_names inp))" "CHR '','' \<notin> set (join '' '' (signed_names inp))"
proof -
  have w: "words (join '' '' [''(request-target)'', ''host'', ''date'']) = [''(request-target)'', ''host'', ''date'']"
    "words (join '' '' [''(request-target)'', ''host'', ''date'', ''digest'']) = [''(request-target)'', ''host'', ''date'', ''digest'']"
    by code_simp+
  consider "signed_names inp = [''(request-target)'', ''host'', ''date'']"
    | "signed_names inp = [''(request-target)'', ''host'', ''date'', ''digest'']"
    by (cases "si_digest inp") (simp_all add: signed_names_def REQUEST_TARGET_def)
  then show "words (join '' '' (signed_names inp)) = signed_names inp"
    "CHR 0x22 \<notin> set (join '' '' (signed_names inp))" "CHR '','' \<notin> set (join '' '' (signed_names inp))"
    by (cases; simp add: w [simplified])+
qed

text \<open>What the code relies on: base64 has neither quotes nor commas and is undone by its decoder, and a
  signature made with the private key of a pair verifies with the public one.\<close>

definition base64_ok :: "rsa_kit \<Rightarrow> bool" where
  "base64_ok K \<longleftrightarrow> (\<forall>m. sg_unb64 K (sg_b64 K m) = Some m \<and> CHR 0x22 \<notin> set (sg_b64 K m)
     \<and> CHR '','' \<notin> set (sg_b64 K m) \<and> CHR '':'' \<notin> set (sg_b64 K m))"

definition key_pair :: "rsa_kit \<Rightarrow> string \<Rightarrow> string \<Rightarrow> bool" where
  "key_pair K pem pub \<longleftrightarrow> (\<exists>k p. sg_private K pem = Some k \<and> sg_public K pub = Some p
     \<and> (\<forall>m. sg_bytes K (sg_sign K k m) \<and> sg_verify K p m (sg_sign K k m)))"

lemma signed_verifies:
  assumes "base64_ok K" "key_pair K (si_pem inp) pub" "create_signature C K inp = Inr header"
    and "CHR 0x22 \<notin> set (si_key_id inp)" "CHR '','' \<notin> set (si_key_id inp)"
    and "enforce_max_age C K (si_date inp) = Inr ()"
    and "headers ''host'' = Some (si_host inp)" "headers ''date'' = Some (si_date inp)"
    and "si_digest inp \<noteq> None \<longrightarrow> headers ''digest'' = si_digest inp"
  shows "verify_signature C K \<lparr> im_method = si_method inp, im_path = si_path inp, im_signature = header,
    im_headers = headers, im_key = pub \<rparr> = Inr (si_key_id inp)"
proof -
  obtain k p where kp: "sg_private K (si_pem inp) = Some k" "sg_public K pub = Some p"
    "\<And>m. sg_bytes K (sg_sign K k m)" "\<And>m. sg_verify K p m (sg_sign K k m)"
    using assms(2) by (auto simp: key_pair_def)
  let ?text = "build_signing_string C (si_method inp) (si_path inp) (signed_names inp) (signed_headers inp)"
  let ?sig = "sg_b64 K (sg_sign K k ?text)"
  have h: "header = signature_header (si_key_id inp) (signed_names inp) ?sig"
    using assms(3) kp(1) by (simp add: create_signature_def Let_def)
  obtain ps where ps: "parse_signature_header header = Inr ps" "ps ''keyId'' = Some (si_key_id inp)"
    "ps ''signature'' = Some ?sig" "ps ''headers'' = Some (join '' '' (signed_names inp))"
    using parse_header [OF assms(4,5), of ?sig "signed_names inp"] assms(1) signed_names_words(2,3) h
    by (auto simp: base64_ok_def)
  have "build_signing_string C (si_method inp) (si_path inp) (signed_names inp) headers = ?text"
    using assms(7-9) by (cases "si_digest inp")
      (auto simp: build_signing_string_def signed_names_def signed_line_def signed_headers_def REQUEST_TARGET_def)
  with ps assms(1,6,8) kp show ?thesis
    by (simp add: verify_signature_def signed_names_words(1) base64_ok_def Let_def)
qed

text \<open>C24. A request signed by \<open>create_signature\<close> is accepted by \<open>verify_signature\<close> with the key of the
  pair, and under the signer's key identifier, when it arrives with the same method, path and signed
  headers within the allowed age.\<close>

theorem signature_roundtrip:
  assumes "base64_ok K" "key_pair K (si_pem inp) pub" "create_signature C K inp = Inr header"
    and "CHR 0x22 \<notin> set (si_key_id inp)" "CHR '','' \<notin> set (si_key_id inp)"
    and "enforce_max_age C K (si_date inp) = Inr ()"
    and "headers ''host'' = Some (si_host inp)" "headers ''date'' = Some (si_date inp)"
    and "si_digest inp \<noteq> None \<longrightarrow> headers ''digest'' = si_digest inp"
  shows "verify_signature C K \<lparr> im_method = si_method inp, im_path = si_path inp, im_signature = header,
    im_headers = headers, im_key = pub \<rparr> = Inr (si_key_id inp)"
  using assms by (rule signed_verifies)

theorem signature_roundtrip_witness:
  "\<exists>header. create_signature demo_ctx demo_kit \<lparr> si_key_id = ''https://ppv.example/users/bob#main-key'', si_pem = ''key'',
       si_method = ''POST'', si_path = ''/inbox'', si_host = ''far.example'', si_date = ''5000'', si_digest = Some ''SHA-256=x'' \<rparr>
     = Inr header
   \<and> verify_signature demo_ctx demo_kit \<lparr> im_method = ''POST'', im_path = ''/inbox'', im_signature = header,
       im_headers = [''host'' \<mapsto> ''far.example'', ''date'' \<mapsto> ''5000'', ''digest'' \<mapsto> ''SHA-256=x''], im_key = ''key'' \<rparr>
     = Inr ''https://ppv.example/users/bob#main-key''"
proof -
  let ?inp = "\<lparr> si_key_id = ''https://ppv.example/users/bob#main-key'', si_pem = ''key'',
       si_method = ''POST'', si_path = ''/inbox'', si_host = ''far.example'', si_date = ''5000'', si_digest = Some ''SHA-256=x'' \<rparr>"
  have b: "base64_ok demo_kit" by (simp add: base64_ok_def demo_kit_def unhide_hide hide_clean)
  have k: "key_pair demo_kit (si_pem ?inp) ''key''" by (simp add: key_pair_def demo_kit_def)
  obtain header where c: "create_signature demo_ctx demo_kit ?inp = Inr header"
    by (simp add: create_signature_def demo_kit_def Let_def)
  have a: "enforce_max_age demo_ctx demo_kit (si_date ?inp) = Inr ()"
    by (simp add: enforce_max_age_def demo_kit_def demo_eval MAX_AGE_SECS_def)
  from signature_roundtrip [OF b k c _ _ a] c show ?thesis by simp
qed


section \<open>Keys at rest\<close>

lemma length_xor_bytes [simp]: "length (xor_bytes cs ks) = length cs"
  by (induction cs ks rule: xor_bytes.induct) auto

lemma byte_lt: "byte c < 256"
  by (simp add: byte_def)

lemma xor_lt_256:
  assumes "a < 256" "b < (256::nat)"
  shows "a XOR b < 256"
proof -
  have "take_bit 8 (a XOR b) = a XOR b"
    using assms by (simp add: take_bit_xor take_bit_nat_eq_self)
  then show ?thesis using take_bit_nat_less_exp [of 8 "a XOR b"] by simp
qed

lemma xor_bytes_twice: "xor_bytes (xor_bytes cs ks) ks = cs"
proof (induction cs ks rule: xor_bytes.induct)
  case (1 c cs k ks)
  have "byte (chr (byte c XOR byte k)) = byte c XOR byte k"
    using xor_lt_256 [OF byte_lt byte_lt, of c k] by (simp add: byte_def chr_def)
  then show ?case using 1 by (simp add: xor.assoc) (simp add: byte_def chr_def)
qed auto

lemma stream_xor_twice: "stream_xor K key nonce i (stream_xor K key nonce i bytes) = bytes"
proof (induction K key nonce i bytes rule: stream_xor.induct)
  case (1 K key nonce i bytes)
  show ?case
  proof (cases "bytes = []")
    case False
    have step: "stream_xor K key nonce i x = xor_bytes (take 32 x) (keystream K key nonce i)
        @ stream_xor K key nonce (Suc i) (drop 32 x)" if "x \<noteq> []" for x
      using that by (subst stream_xor.simps) simp
    let ?ks = "keystream K key nonce i" and ?rest = "stream_xor K key nonce (Suc i) (drop 32 bytes)"
    let ?a = "xor_bytes (take 32 bytes) ?ks"
    have s: "stream_xor K key nonce i bytes = ?a @ ?rest" using False by (subst stream_xor.simps) simp
    have r: "stream_xor K key nonce (Suc i) ?rest = drop 32 bytes" using 1 False by simp
    have td: "take 32 (?a @ ?rest) = ?a \<and> drop 32 (?a @ ?rest) = ?rest"
    proof (cases "32 \<le> length bytes")
      case False
      then have "?rest = []" by (subst stream_xor.simps) simp
      with False show ?thesis by simp
    qed simp
    have "?a @ ?rest \<noteq> []" using False by (metis append_is_Nil_conv length_0_conv length_xor_bytes take_eq_Nil zero_neq_numeral)
    then have "stream_xor K key nonce i (?a @ ?rest) = xor_bytes ?a ?ks @ stream_xor K key nonce (Suc i) ?rest"
      using step [of "?a @ ?rest"] unfolding conjunct1 [OF td] conjunct2 [OF td] by blast
    then show ?thesis using s r by (simp add: xor_bytes_twice)
  qed (simp add: stream_xor.simps)
qed

lemma decrypt_encrypt:
  assumes "base64_ok K" "valid_utf8 pem"
  shows "decrypt_private_key K (encrypt_private_key K nonce pem app_secret) app_secret = Inr pem"
proof -
  let ?n = "sg_b64 K nonce" and ?t = "sg_b64 K (stream_xor K (derived_key K app_secret) nonce 0 pem)"
  have "encrypt_private_key K nonce pem app_secret = ''v1'' @ CHR '':'' # ?n @ CHR '':'' # ?t"
    by (simp add: encrypt_private_key_def)
  moreover have "CHR '':'' \<notin> set ''v1''" "CHR '':'' \<notin> set ?n" using assms(1) by (simp_all add: base64_ok_def)
  ultimately have "split_once (CHR '':'') (encrypt_private_key K nonce pem app_secret) = Some (''v1'', ?n @ CHR '':'' # ?t)"
    "split_once (CHR '':'') (?n @ CHR '':'' # ?t) = Some (?n, ?t)" by (simp_all only: split_once_append not_False_eq_True)
  then show ?thesis using assms by (simp add: decrypt_private_key_def base64_ok_def stream_xor_twice Let_def)
qed

text \<open>The key pair made for a user that had none is stored so that the delivery worker reads exactly
  the generated private key back with the application's secret, under the actor's key identifier; only the
  encrypted text is stored.\<close>

theorem actor_key_roundtrip:
  assumes "base64_ok K" "sg_keygen K = Inr (pub, pem)" "valid_utf8 pem"
    and "local_actor_of uid d = None" "find_actor (base @ ''/users/'' @ username) d = None"
    and "ensure_local_actor_keys C K nonce uid username base dom_name app_secret d = (Inr k, d')"
    and "fault C2 ''keys.load'' = None"
  shows "k = pub \<and> load_actor_private_key C2 K uid app_secret d' = Inr (pem, base @ ''/users/'' @ username @ ''#main-key'')
    \<and> (\<exists>a. actors (fed d') = actors (fed d) @ [a] \<and> fa_key_pem a = Some pub
         \<and> fa_key_encrypted a = Some (encrypt_private_key K nonce pem app_secret))"
proof -
  define a where "a = \<lparr> fa_id = fresh_uuid C ''keys.actor'', fa_user = Some uid, fa_uri = base @ ''/users/'' @ username,
      fa_username = username, fa_domain = dom_name, fa_inbox = (base @ ''/users/'' @ username) @ ''/inbox'',
      fa_shared_inbox = None, fa_key_id = Some ((base @ ''/users/'' @ username) @ ''#main-key''), fa_key_pem = Some pub,
      fa_key_encrypted = Some (encrypt_private_key K nonce pem app_secret), fa_local = True, fa_fetched = None \<rparr>"
  have f: "fault C ''keys.existing'' = None" using assms(6)
    by (auto simp: ensure_local_actor_keys_def run_read_def Let_def split: option.splits)
  obtain r1 d1 where w1: "run_write C ''keys.actor'' (upsert_local_actor a) d = (r1, d1)" by fastforce
  obtain r2 d2 where w2: "run_write C ''keys.user'' (set_user_actor uid (base @ ''/users/'' @ username)) d1 = (r2, d2)" by fastforce
  obtain x y where r: "r1 = Inr x" "r2 = Inr y" and e: "k = pub" "d' = d2"
    using assms(2,4,6) f w1 w2 unfolding a_def
    by (cases r1; cases r2) (auto simp: ensure_local_actor_keys_def run_read_def Let_def)
  have "upsert_local_actor a d = Inr (x, d1)" using run_write_cases(2) [OF w1 r(1)] .
  then have "d1 = set_actors (\<lambda>rows. rows @ [a]) d"
    using assms(5) by (auto simp: upsert_local_actor_def a_def split: if_splits)
  then have a1: "actors (fed d1) = actors (fed d) @ [a]" by (simp add: set_actors_def)
  have "set_user_actor uid (base @ ''/users/'' @ username) d1 = Inr (y, d2)" using run_write_cases(2) [OF w2 r(2)] .
  then have fd: "fed d2 = fed d1" by (auto simp: set_user_actor_def split: if_splits)
  have "local_actor_of uid d2 = Some a"
    using assms(4) a1 fd by (simp add: local_actor_of_def find_append a_def)
  then have "load_actor_private_key C2 K uid app_secret d2 = Inr (pem, base @ ''/users/'' @ username @ ''#main-key'')"
    using assms(7) decrypt_encrypt [OF assms(1,3)] by (simp add: load_actor_private_key_def run_read_def a_def)
  then show ?thesis using e fd a1 by (simp add: a_def)
qed

theorem actor_key_roundtrip_witness:
  "\<exists>d'. ensure_local_actor_keys demo_ctx demo_kit ''nonce'' ''u1'' ''alice'' ''https://ppv.example'' ''ppv.example'' ''k'' demo_db
     = (Inr ''pub'', d')
   \<and> load_actor_private_key demo_ctx demo_kit ''u1'' ''k'' d' = Inr (''pub'', ''https://ppv.example/users/alice#main-key'')"
proof -
  let ?e = "ensure_local_actor_keys demo_ctx demo_kit ''nonce'' ''u1'' ''alice'' ''https://ppv.example'' ''ppv.example'' ''k'' demo_db"
  have b: "base64_ok demo_kit" by (simp add: base64_ok_def demo_kit_def unhide_hide hide_clean)
  have g: "sg_keygen demo_kit = Inr (''pub'', ''pub'')" by (simp add: demo_kit_def)
  have u: "valid_utf8 ''pub''" by code_simp
  have n: "local_actor_of ''u1'' demo_db = None" "find_actor (''https://ppv.example'' @ ''/users/'' @ ''alice'') demo_db = None"
    by (simp_all add: local_actor_of_def find_actor_def demo_db_def empty_db_def empty_fed_def)
  have f: "fault demo_ctx s = None" for s by (simp add: demo_ctx_def)
  have "\<exists>d'. ?e = (Inr ''pub'', d')"
    using n by (simp add: ensure_local_actor_keys_def run_read_def run_write_def f g upsert_local_actor_def set_user_actor_def
        set_actors_def user_exists_def find_user_def demo_db_def demo_user_def empty_db_def Let_def)
  then obtain d' where e: "?e = (Inr ''pub'', d')" by blast
  from actor_key_roundtrip [OF b g u n e f] e show ?thesis by simp
qed


section \<open>The inbox\<close>



text \<open>A peer whose actor \<open>zed\<close> publishes a key and deletes a video of another server.\<close>

definition zed :: string where "zed = ''https://far.example/users/zed''"

definition zed_doc :: json where
  "zed_doc = JObj [(''type'', JStr ''Person''), (''publicKey'', JObj [(''id'', JStr ''zed-key''), (''publicKeyPem'', JStr ''key'')])]"

definition zed_delete :: json where
  "zed_delete = JObj [(''id'', JStr ''https://far.example/a/1''), (''type'', JStr ''Delete''), (''actor'', JStr zed),
     (''object'', JStr ''https://other.example/videos/7'')]"

definition peer_net :: fed_net where
  "peer_net = demo_net\<lparr>fn_lookup := \<lambda>_. Inr [V4 93 184 216 34], fn_get := \<lambda>_. Inr (200, Inr ''actor''),
     fn_json := \<lambda>s. Inr (if s = ''actor'' then zed_doc else zed_delete)\<rparr>"

definition peer_fed :: fed_config where
  "peer_fed = \<lparr> fc_enabled = True, fc_domain = ''ppv.example'', fc_base = ''https://ppv.example'',
     fc_version = ''1'' \<rparr>"

definition peer_request :: signature_input where
  "peer_request = \<lparr> si_key_id = ''zed-key'', si_pem = ''key'', si_method = ''POST'', si_path = ''/inbox'',
     si_host = ''ppv.example'', si_date = ''5000'', si_digest = None \<rparr>"

definition peer_headers :: "string \<Rightarrow> string option" where
  "peer_headers = [''host'' \<mapsto> ''ppv.example'', ''date'' \<mapsto> ''5000'',
     ''signature'' \<mapsto> projr (create_signature demo_ctx demo_kit peer_request)]"

lemma zed_key: "fetch_remote_actor_key demo_ctx peer_net zed = Inr (''zed-key'', ''key'')"
proof -
  have "assert_safe_url demo_ctx peer_net zed = Inr ()" by code_simp
  moreover have "fn_get peer_net zed = Inr (200, Inr ''actor'')" "fn_json peer_net ''actor'' = Inr zed_doc"
    by (simp_all add: peer_net_def)
  ultimately have "fetch_remote_object demo_ctx peer_net zed = Inr zed_doc"
    by (simp add: fetch_remote_object_def MAX_BODY_BYTES_def)
  then show ?thesis by (simp add: fetch_remote_actor_key_def zed_doc_def get_str_def str_or_def ACTOR_TYPES_def)
qed

lemma peer_accepted: "\<exists>d'. process_inbox demo_ctx peer_net peer_fed None peer_headers ''body'' demo_db
    = (accepted, Some (zed, zed_delete, ''s-new''), d')"
proof -
  obtain header where c: "create_signature demo_ctx demo_kit peer_request = Inr header"
    by (simp add: create_signature_def demo_kit_def peer_request_def Let_def)
  have b: "base64_ok demo_kit" by (simp add: base64_ok_def demo_kit_def unhide_hide hide_clean)
  have k: "key_pair demo_kit (si_pem peer_request) ''key''" by (simp add: key_pair_def demo_kit_def peer_request_def)
  have a: "enforce_max_age demo_ctx demo_kit (si_date peer_request) = Inr ()"
    by (simp add: enforce_max_age_def demo_kit_def demo_eval MAX_AGE_SECS_def peer_request_def)
  have "verify_signature demo_ctx demo_kit \<lparr> im_method = si_method peer_request, im_path = si_path peer_request,
      im_signature = header, im_headers = peer_headers, im_key = ''key'' \<rparr> = Inr (si_key_id peer_request)"
    by (rule signed_verifies [OF b k c _ _ a]) (simp_all add: peer_request_def peer_headers_def)
  then have v: "verify_signature demo_ctx demo_kit \<lparr> im_method = ''POST'', im_path = ''/inbox'', im_signature = header,
      im_headers = peer_headers, im_key = ''key'' \<rparr> = Inr ''zed-key''" by (simp add: peer_request_def)
  have f: "fault demo_ctx s = None" for s by (simp add: demo_ctx_def)
  have kit: "fn_kit peer_net = demo_kit" by (simp add: peer_net_def demo_net_def)
  have json: "fn_json peer_net ''body'' = Inr zed_delete" by (simp add: peer_net_def)
  have g: "get_str ''id'' zed_delete = Some ''https://far.example/a/1''" "get_str ''type'' zed_delete = Some ''Delete''"
    "get_str ''actor'' zed_delete = Some zed" by (simp_all add: zed_delete_def get_str_def)
  have nb: "\<not> is_domain_blocked demo_ctx x demo_db" for x
    by (simp add: is_domain_blocked_def domain_action_def run_read_def f rule_of_def demo_db_def empty_db_def empty_fed_def)
  have h: "peer_headers ''digest'' = None" "peer_headers ''signature'' = Some header"
    by (simp_all add: peer_headers_def c)
  have "\<exists>d'. store_inbound demo_ctx ''https://far.example/a/1'' ''Delete'' zed zed_delete demo_db
      = (accepted, Some (zed, zed_delete, ''s-new''), d')"
    by (simp add: store_inbound_def run_read_def run_write_def f ins_activity_def inbound_row_def demo_db_def empty_db_def
        empty_fed_def Let_def) (simp add: demo_ctx_def)
  then show ?thesis
    by (simp add: process_inbox_def MAX_PAYLOAD_BYTES_def json g str_or_def nb h zed_key v kit inbox_path_def Let_def)
qed



section \<open>Deletions and broadcasts\<close>

text \<open>A \<open>Delete\<close> marks exactly the catalog entries of the object it names as deleted, whichever
  actor sent it: the entry's own actor plays no part.\<close>

theorem delete_by_anyone:
  assumes "get_str ''type'' activity = Some ''Delete''" "extract_object_id activity = Some uri"
    and "handle_inbound_activity C N anyone activity act_id d = (Inr (), d')"
  shows "remote_videos (fed d') = map (\<lambda>v. if rv_uri v = uri
     then v\<lparr>rv_deleted := True, rv_availability := ''deleted'', rv_updated := now C\<rparr> else v) (remote_videos (fed d))"
proof -
  obtain r1 d1 where w1: "run_write C ''remote.delete'' (delete_remote (now C) uri) d = (r1, d1)" by fastforce
  obtain r2 d2 where w2: "run_write C ''delete.processed'' (set_activity_status (now C) act_id ''processed'') d1 = (r2, d2)" by fastforce
  obtain x y where r: "r1 = Inr x" "r2 = Inr y" and d': "d' = d2"
    using assms w1 w2 by (cases r1; cases r2)
      (auto simp: handle_inbound_activity_def dispatch_def str_or_def handle_delete_def process_remote_delete_def
        mark_activity_def Let_def)
  have "delete_remote (now C) uri d = Inr (x, d1)" using run_write_cases(2) [OF w1 r(1)] .
  moreover have "set_activity_status (now C) act_id ''processed'' d1 = Inr (y, d2)" using run_write_cases(2) [OF w2 r(2)] .
  ultimately show ?thesis
    by (auto simp: d' delete_remote_def set_activity_status_def set_fed_def upd_where_def)
qed

definition other_video :: remote_video where
  "other_video = \<lparr> rv_id = ''r7'', rv_uri = ''https://other.example/videos/7'', rv_actor = ''https://other.example/users/owner'',
     rv_domain = ''other.example'', rv_title = ''T'', rv_description = None, rv_thumbnail = None,
     rv_canonical = ''https://other.example/videos/7'', rv_checkout = None, rv_price = None, rv_currency = None,
     rv_rating = None, rv_availability = ''available'', rv_published = None, rv_raw = JNull, rv_deleted = False,
     rv_updated = Instant 0 \<rparr>"

theorem delete_by_anyone_witness:
  "\<exists>d'. handle_inbound_activity demo_ctx peer_net zed zed_delete ''a'' (demo_db\<lparr>fed := empty_fed\<lparr>remote_videos := [other_video]\<rparr>\<rparr>)
      = (Inr (), d') \<and> map rv_deleted (remote_videos (fed d')) = [True]"
proof -
  let ?d = "demo_db\<lparr>fed := empty_fed\<lparr>remote_videos := [other_video]\<rparr>\<rparr>"
  have t: "get_str ''type'' zed_delete = Some ''Delete''"
    and o: "extract_object_id zed_delete = Some ''https://other.example/videos/7''"
    by (simp_all add: zed_delete_def get_str_def extract_object_id_def object_id_def)
  have f: "fault demo_ctx s = None" for s by (simp add: demo_ctx_def)
  have "\<exists>d'. handle_inbound_activity demo_ctx peer_net zed zed_delete ''a'' ?d = (Inr (), d')"
    by (simp add: handle_inbound_activity_def dispatch_def t o str_or_def handle_delete_def process_remote_delete_def
        mark_activity_def run_write_def f delete_remote_def set_activity_status_def Let_def)
  then obtain d' where h: "handle_inbound_activity demo_ctx peer_net zed zed_delete ''a'' ?d = (Inr (), d')" by blast
  with delete_by_anyone [OF t o h] show ?thesis by (simp add: other_video_def)
qed

lemma queue_outbound_effect:
  assumes "queue_outbound_activity C site actor payload inbox d = (r, d')"
  shows "length (deliveries (fed d')) \<le> length (deliveries (fed d)) + 1"
    and "r = Inr x \<Longrightarrow> \<exists>a\<in>set (activities (fed d')). fx_uri a = str_or [] (get_str ''id'' payload)"
    and "\<exists>a\<in>set (activities (fed d)). fx_uri a = str_or [] (get_str ''id'' payload) \<Longrightarrow>
      (\<exists>e. r = Inl e) \<and> deliveries (fed d') = deliveries (fed d)"
proof -
  let ?row = "outbound_row C site actor payload"
  let ?uri = "if fx_uri ?row = [] then None else Some (fx_uri ?row)"
  obtain r1 d1 where w1: "run_write C (site @ ''.activity'') (ins_activity ?uri ?row) d = (r1, d1)" by fastforce
  obtain r2 d2 where w2: "run_write C (site @ ''.job'') (ins_job (queued_job C site (fx_id ?row) inbox)) d1 = (r2, d2)" by fastforce
  have res: "case r1 of Inl _ \<Rightarrow> (\<exists>e. r = Inl e) \<and> d' = d1
      | Inr _ \<Rightarrow> d' = d2 \<and> ((\<exists>x. r = Inr x) \<longleftrightarrow> (\<exists>x. r2 = Inr x))"
    using assms w1 w2 by (auto simp: queue_outbound_activity_def Let_def split: sum.splits)
  have uri: "fx_uri ?row = str_or [] (get_str ''id'' payload)" by (simp add: outbound_row_def)
  have e1: "d1 = d \<or> d1 = set_fed (\<lambda>f. f\<lparr>activities := activities f @ [?row]\<rparr>) d"
    using run_write_cases(1) [OF w1] by (auto simp: ins_activity_def split: if_splits)
  have l1: "deliveries (fed d1) = deliveries (fed d)" using e1 by (auto simp: set_fed_def)
  have e2: "d2 = d1 \<or> (\<exists>j. d2 = set_fed (\<lambda>f. f\<lparr>deliveries := deliveries f @ [j]\<rparr>) d1)"
    using run_write_cases(1) [OF w2] by (auto simp: ins_job_def split: if_splits)
  show "length (deliveries (fed d')) \<le> length (deliveries (fed d)) + 1"
    using res l1 e2 by (auto simp: set_fed_def split: sum.splits)
  show "\<exists>a\<in>set (activities (fed d')). fx_uri a = str_or [] (get_str ''id'' payload)" if r: "r = Inr x"
  proof -
    obtain y where y: "r1 = Inr y" "d' = d2" using res r by (cases r1) auto
    have "ins_activity ?uri ?row d = Inr (y, d1)" using run_write_cases(2) [OF w1 y(1)] .
    then have "?row \<in> set (activities (fed d1))" by (auto simp: ins_activity_def set_fed_def split: if_splits)
    then have "?row \<in> set (activities (fed d'))" using y(2) e2 by (auto simp: set_fed_def)
    with uri show ?thesis by auto
  qed
  show "(\<exists>e. r = Inl e) \<and> deliveries (fed d') = deliveries (fed d)"
    if "\<exists>a\<in>set (activities (fed d)). fx_uri a = str_or [] (get_str ''id'' payload)"
  proof -
    have "\<exists>c. ins_activity ?uri ?row d = Inl c" using that uri by (auto simp: ins_activity_def)
    then obtain e where "r1 = Inl e" using run_write_cases(2) [OF w1] by (cases r1) auto
    with res l1 show ?thesis by simp
  qed
qed

text \<open>A broadcast queues a delivery to at most one inbox, and reports an error whenever there are two or
  more: every delivery inserts the same activity, whose address is unique.\<close>

theorem broadcast_first_only:
  assumes "broadcast_to_followers C actor activity d = (r, d')"
  shows "length (deliveries (fed d')) \<le> length (deliveries (fed d)) + 1
    \<and> (2 \<le> length (follower_delivery_inboxes actor d) \<longrightarrow> (\<exists>e. r = Inl e))"
proof -
  have "length (deliveries (fed d')) \<le> length (deliveries (fed d)) + 1 \<and> (2 \<le> length inboxes \<longrightarrow> (\<exists>e. r = Inl e))"
    if b: "broadcast C 0 actor activity inboxes d = (r, d')" for inboxes
  proof (cases inboxes)
    case (Cons i1 rest)
    obtain r1 d1 where q1: "queue_outbound_activity C (''broadcast.'' @ string_of_nat 0) actor activity i1 d = (r1, d1)" by fastforce
    note q1e = queue_outbound_effect [OF q1]
    show ?thesis
    proof (cases r1)
      case (Inl e)
      with b Cons q1 q1e(1) show ?thesis by auto
    next
      case (Inr x)
      note there = q1e(2) [OF Inr]
      show ?thesis
      proof (cases rest)
        case (Cons i2 more)
        obtain r2 d2 where q2: "queue_outbound_activity C (''broadcast.'' @ string_of_nat (Suc 0)) actor activity i2 d1 = (r2, d2)" by fastforce
        obtain e where "r2 = Inl e" "deliveries (fed d2) = deliveries (fed d1)"
          using queue_outbound_effect(3) [OF q2 there] by blast
        with b Cons \<open>inboxes = i1 # rest\<close> Inr q1 q2 q1e(1) show ?thesis by auto
      qed (use b Cons Inr q1 q1e(1) in auto)
    qed
  qed (use b in auto)
  with assms show ?thesis
    by (auto simp: broadcast_to_followers_def run_read_def split: option.splits)
qed

definition fan_actor :: "string \<Rightarrow> bool \<Rightarrow> fed_actor" where
  "fan_actor i loc = \<lparr> fa_id = i, fa_user = None, fa_uri = ''https://x/'' @ i, fa_username = i, fa_domain = ''x'',
     fa_inbox = ''https://x/'' @ i @ ''/inbox'', fa_shared_inbox = None, fa_key_id = None, fa_key_pem = None,
     fa_key_encrypted = None, fa_local = loc, fa_fetched = None \<rparr>"

definition fan_follow :: "string \<Rightarrow> fed_follow" where
  "fan_follow i = \<lparr> ff_id = i, ff_follower = i, ff_following = ''l'', ff_uri = i, ff_status = ''accepted'', ff_created = Instant 0 \<rparr>"

definition fan_db :: db where
  "fan_db = demo_db\<lparr>fed := empty_fed\<lparr>actors := [fan_actor ''l'' True, fan_actor ''f1'' False, fan_actor ''f2'' False],
     follows := [fan_follow ''f1'', fan_follow ''f2'']\<rparr>\<rparr>"

theorem broadcast_first_only_witness:
  "\<exists>e d'. broadcast_to_followers demo_ctx ''https://x/l'' zed_delete fan_db = (Inl e, d')
     \<and> length (follower_delivery_inboxes ''https://x/l'' fan_db) = 2 \<and> length (deliveries (fed d')) \<le> 1"
proof -
  have two: "follower_delivery_inboxes ''https://x/l'' fan_db = [''https://x/f1/inbox'', ''https://x/f2/inbox'']"
    by (simp add: follower_delivery_inboxes_def fan_db_def fan_follow_def fan_actor_def follower_inbox_def actor_by_id_def
        str_or_def List.map_filter_simps)
  obtain r d' where b: "broadcast_to_followers demo_ctx ''https://x/l'' zed_delete fan_db = (r, d')" by fastforce
  have "deliveries (fed fan_db) = []" by (simp add: fan_db_def empty_fed_def)
  with broadcast_first_only [OF b] two b show ?thesis by auto
qed

end
