(* ===== verification/RevenueProperties.thy ===== *)
theory RevenueProperties
  imports FedRevenue FedDemo
begin

text \<open>
  The shares a referring instance earns (\<open>src/src/federation/revenue.rs\<close>) against a specification:
  a book with one line for every invoice, and a ledger that adds up to it.
\<close>

section \<open>The specification\<close>

text \<open>For an invoice: who referred it, how many cents that earns and whether it was taken back.\<close>

type_synonym book = "string \<times> string \<rightharpoonup> string \<times> int \<times> bool"

text \<open>What a payment earns under the policies; a policy out of range earns nothing.\<close>

definition due :: "(string \<Rightarrow> share_policy option) \<Rightarrow> string option \<Rightarrow> int \<Rightarrow> int" where
  "due pol referring gross =
     (case referring of
        None \<Rightarrow> 0
      | Some dom_name \<Rightarrow>
          if dom_name = [] then 0
          else
          (case pol dom_name of
             None \<Rightarrow> 0
           | Some p \<Rightarrow>
               if sp_active p \<and> 0 \<le> sp_bp p \<and> sp_bp p \<le> 5000 \<and> 0 < gross then gross * sp_bp p div 10000 else 0))"

text \<open>An invoice, its type, the recorded referral, the referring domain and the gross cents; or what takes
  a share back.\<close>

datatype revenue_op =
    Earn string string "string option" "string option" int
  | Undo string string string

fun spec_op :: "(string \<Rightarrow> share_policy option) \<Rightarrow> revenue_op \<Rightarrow> book \<Rightarrow> book" where
  "spec_op pol (Earn i k r referring gross) m =
     (if m (i, k) = None \<and> 0 < due pol referring gross
      then m((i, k) \<mapsto> (the referring, due pol referring gross, False)) else m)"
| "spec_op pol (Undo i k t) m =
     (case m (i, k) of
        Some (g, c, False) \<Rightarrow> if t \<in> {''refund'', ''chargeback''} then m((i, k) \<mapsto> (g, c, True)) else m
      | _ \<Rightarrow> m)"

fun apply_op :: "ctx \<Rightarrow> revenue_op \<Rightarrow> db \<Rightarrow> db" where
  "apply_op C (Earn i k r referring gross) d = snd (process_revenue_share C i k r referring gross d)"
| "apply_op C (Undo i k t) d = snd (reverse_revenue_share C i k t d)"

text \<open>The book a database holds.\<close>

definition book_of :: "db \<Rightarrow> book" where
  "book_of d = (\<lambda>(i, k). map_option (\<lambda>s. (the (rs_domain s), rs_cents s, rs_status s \<noteq> ''pending'')) (share_of i k d))"

text \<open>What the ledger moved for a share by entries of some types.\<close>

definition moved :: "string set \<Rightarrow> string \<Rightarrow> db \<Rightarrow> int" where
  "moved kinds i d = (\<Sum>e\<leftarrow>filter (\<lambda>e. re_share e = i \<and> re_type e \<in> kinds) (entries (fed d)). re_amount e)"

definition ledger_ok :: "db \<Rightarrow> bool" where
  "ledger_ok d \<longleftrightarrow>
     distinct (map rs_id (shares (fed d))) \<and> distinct (map (\<lambda>s. (rs_invoice s, rs_type s)) (shares (fed d))) \<and>
     (\<forall>e\<in>set (entries (fed d)). \<exists>s\<in>set (shares (fed d)). rs_id s = re_share e) \<and>
     (\<forall>s\<in>set (shares (fed d)). 0 \<le> rs_cents s \<and> rs_status s \<in> {''pending'', ''reversed''} \<and>
        moved {''credit''} (rs_id s) d = rs_cents s \<and>
        moved {''refund'', ''chargeback''} (rs_id s) d = (if rs_status s = ''pending'' then 0 else rs_cents s))"

text \<open>No statement fails, the identifiers are new and the gross amount is no overflow.\<close>

definition ready :: "ctx \<Rightarrow> revenue_op \<Rightarrow> db \<Rightarrow> bool" where
  "ready C w d \<longleftrightarrow>
     (\<forall>site. fault C site = None) \<and> (\<forall>s\<in>set (shares (fed d)). rs_id s \<noteq> fresh_uuid C ''revenue.share'') \<and>
     (\<forall>e\<in>set (entries (fed d)). re_id e \<noteq> fresh_uuid C ''revenue.entry'') \<and>
     (case w of
        Earn i k r referring gross \<Rightarrow> \<bar>gross\<bar> < 2 ^ 50 \<and>
          (case r of None \<Rightarrow> True | Some x \<Rightarrow> \<exists>y\<in>set (referrals (fed d)). rf_id y = x)
      | Undo _ _ _ \<Rightarrow> True)"

inductive revenue_run :: "db \<Rightarrow> revenue_op list \<Rightarrow> db \<Rightarrow> bool" where
  run_none: "revenue_run d [] d"
| run_more: "revenue_run d ws d1 \<Longrightarrow> ready C w d1 \<Longrightarrow> revenue_run d (ws @ [w]) (apply_op C w d1)"


section \<open>One step\<close>

lemma still_there:
  "y \<in> set ss \<Longrightarrow> \<exists>x\<in>set (upd_where (\<lambda>s. rs_id s = i) (\<lambda>s. s\<lparr>rs_status := t\<rparr>) ss). rs_id x = rs_id y"
  by (induction ss) (auto simp: upd_where_Cons)

lemma share_exact:
  assumes "\<bar>gross\<bar> < 2 ^ 50" "validate_basis_points bp = Inr ()"
  shows "calculate_share_cents gross bp = (if 0 < gross then gross * bp div 10000 else 0)" "0 \<le> bp" "bp \<le> 5000"
proof -
  show bp: "0 \<le> bp" "bp \<le> 5000" using assms(2) by (auto simp: validate_basis_points_def split: if_splits)
  show "calculate_share_cents gross bp = (if 0 < gross then gross * bp div 10000 else 0)"
  proof (cases "0 < gross")
    case True
    have "gross * bp \<le> 2 ^ 50 * 5000" using assms(1) True bp by (intro mult_mono) auto
    then have "mul64 gross bp = gross * bp" unfolding mul64_def
      using True bp by (intro wrap64_id fits64_small) auto
    with True bp show ?thesis by (auto simp: calculate_share_cents_def quot_def signed_divide_int_def sgn_if)
  qed (simp add: calculate_share_cents_def)
qed

lemma share_ofD:
  "share_of i k d = Some s \<Longrightarrow> s \<in> set (shares (fed d)) \<and> rs_invoice s = i \<and> rs_type s = k"
  unfolding share_of_def by (drule find_in) simp

lemma share_pending:
  assumes "ledger_ok d"
  shows "find (\<lambda>s. rs_invoice s = i \<and> rs_type s = k \<and> rs_status s = ''pending'') (shares (fed d)) =
    (case share_of i k d of None \<Rightarrow> None | Some s \<Rightarrow> if rs_status s = ''pending'' then Some s else None)"
proof -
  have d: "distinct (map (\<lambda>s. (rs_invoice s, rs_type s)) (shares (fed d)))" using assms by (simp add: ledger_ok_def)
  have "find (\<lambda>s. rs_invoice s = i \<and> rs_type s = k \<and> rs_status s = ''pending'') ss =
      (case find (\<lambda>s. rs_invoice s = i \<and> rs_type s = k) ss of
         None \<Rightarrow> None | Some s \<Rightarrow> if rs_status s = ''pending'' then Some s else None)"
    if "distinct (map (\<lambda>s. (rs_invoice s, rs_type s)) ss)" for ss
    using that by (induction ss) (auto simp: find_None_set image_iff split: option.splits dest!: find_in)
  with d show ?thesis by (simp add: share_of_def)
qed

definition add_share :: "revenue_share \<Rightarrow> revenue_entry \<Rightarrow> db \<Rightarrow> db" where
  "add_share s e d = set_fed (\<lambda>f. f\<lparr>shares := shares f @ [s], entries := entries f @ [e]\<rparr>) d"

definition undo_share :: "string \<Rightarrow> revenue_entry \<Rightarrow> db \<Rightarrow> db" where
  "undo_share i e d = set_fed (\<lambda>f. f\<lparr>shares := upd_where (\<lambda>s. rs_id s = i) (\<lambda>s. s\<lparr>rs_status := ''reversed''\<rparr>) (shares f),
     entries := entries f @ [e]\<rparr>) d"

lemma moved_add: "moved kinds i (add_share s e d) =
    moved kinds i d + (if re_share e = i \<and> re_type e \<in> kinds then re_amount e else 0)"
  by (simp add: moved_def add_share_def set_fed_def)

lemma moved_undo: "moved kinds i (undo_share j e d) =
    moved kinds i d + (if re_share e = i \<and> re_type e \<in> kinds then re_amount e else 0)"
  by (simp add: moved_def undo_share_def set_fed_def)

lemma moved_new:
  assumes "ledger_ok d" "\<forall>s\<in>set (shares (fed d)). rs_id s \<noteq> i"
  shows "moved kinds i d = 0"
proof -
  have "filter (\<lambda>e. re_share e = i \<and> re_type e \<in> kinds) (entries (fed d)) = []"
    using assms by (fastforce simp: ledger_ok_def filter_empty_conv)
  then show ?thesis by (simp add: moved_def)
qed

lemma add_share_ok:
  assumes "ledger_ok d" "share_of (rs_invoice s) (rs_type s) d = None" "\<forall>x\<in>set (shares (fed d)). rs_id x \<noteq> rs_id s"
    and "re_share e = rs_id s" "re_type e = ''credit''" "re_amount e = rs_cents s" "0 \<le> rs_cents s" "rs_status s = ''pending''"
  shows "ledger_ok (add_share s e d)"
    "book_of (add_share s e d) = (book_of d)((rs_invoice s, rs_type s) \<mapsto> (the (rs_domain s), rs_cents s, False))"
proof -
  have f: "fed (add_share s e d) = (fed d)\<lparr>shares := shares (fed d) @ [s], entries := entries (fed d) @ [e]\<rparr>"
    by (simp add: add_share_def set_fed_def)
  have other: "rs_id x \<noteq> rs_id s" if "x \<in> set (shares (fed d))" for x using assms(3) that by blast
  have key: "\<forall>x\<in>set (shares (fed d)). \<not> (rs_invoice x = rs_invoice s \<and> rs_type x = rs_type s)"
    using assms(2) by (simp add: share_of_def find_None_set)
  show "ledger_ok (add_share s e d)"
    using assms(1,3-) moved_new [OF assms(1,3)] key unfolding ledger_ok_def f moved_add
    by (auto simp: image_iff)
  show "book_of (add_share s e d) = (book_of d)((rs_invoice s, rs_type s) \<mapsto> (the (rs_domain s), rs_cents s, False))"
    using assms(2,8) by (auto simp: book_of_def share_of_def f find_append fun_eq_iff split: option.splits)
qed

lemma undo_share_ok:
  assumes "ledger_ok d" "s \<in> set (shares (fed d))" "rs_status s = ''pending''"
    and "re_share e = rs_id s" "re_type e \<in> {''refund'', ''chargeback''}" "re_amount e = rs_cents s"
  shows "ledger_ok (undo_share (rs_id s) e d)"
    "book_of (undo_share (rs_id s) e d) = (book_of d)((rs_invoice s, rs_type s) \<mapsto> (the (rs_domain s), rs_cents s, True))"
proof -
  let ?upd = "upd_where (\<lambda>x. rs_id x = rs_id s) (\<lambda>s. s\<lparr>rs_status := ''reversed''\<rparr>) (shares (fed d))"
  have f: "shares (fed (undo_share (rs_id s) e d)) = ?upd" "entries (fed (undo_share (rs_id s) e d)) = entries (fed d) @ [e]"
    by (simp_all add: undo_share_def set_fed_def)
  have one: "x = s" if "x \<in> set (shares (fed d))" "rs_id x = rs_id s" for x
    using assms(1,2) that by (auto simp: ledger_ok_def distinct_map inj_on_def)
  have maps: "map rs_id ?upd = map rs_id (shares (fed d))"
    "map (\<lambda>s. (rs_invoice s, rs_type s)) ?upd = map (\<lambda>s. (rs_invoice s, rs_type s)) (shares (fed d))"
    by (rule map_upd_where, simp)+
  have rows: "\<forall>x\<in>set ?upd. (x \<in> set (shares (fed d)) \<and> rs_id x \<noteq> rs_id s) \<or> x = s\<lparr>rs_status := ''reversed''\<rparr>"
    using one by (auto simp: set_upd_where)
  have links: "\<forall>x\<in>set (entries (fed d) @ [e]). \<exists>y\<in>set ?upd. rs_id y = re_share x"
  proof
    fix x assume x: "x \<in> set (entries (fed d) @ [e])"
    have "\<exists>y\<in>set (shares (fed d)). rs_id y = re_share x"
    proof (cases "x = e")
      case True
      then show ?thesis using assms(2,4) by auto
    next
      case False
      then show ?thesis using x assms(1) by (simp add: ledger_ok_def)
    qed
    then obtain y where "y \<in> set (shares (fed d))" "rs_id y = re_share x" by blast
    with still_there [OF this(1), of "rs_id s" "''reversed''"] show "\<exists>y\<in>set ?upd. rs_id y = re_share x" by simp
  qed
  show "ledger_ok (undo_share (rs_id s) e d)"
    unfolding ledger_ok_def f moved_undo maps
  proof (intro conjI)
    show "\<forall>x\<in>set ?upd. 0 \<le> rs_cents x \<and> rs_status x \<in> {''pending'', ''reversed''} \<and>
        moved {''credit''} (rs_id x) d + (if re_share e = rs_id x \<and> re_type e \<in> {''credit''} then re_amount e else 0) = rs_cents x \<and>
        moved {''refund'', ''chargeback''} (rs_id x) d
          + (if re_share e = rs_id x \<and> re_type e \<in> {''refund'', ''chargeback''} then re_amount e else 0)
          = (if rs_status x = ''pending'' then 0 else rs_cents x)"
    proof
      fix x assume "x \<in> set ?upd"
      with rows consider "x \<in> set (shares (fed d))" "rs_id x \<noteq> rs_id s" | "x = s\<lparr>rs_status := ''reversed''\<rparr>" by blast
      then show "0 \<le> rs_cents x \<and> rs_status x \<in> {''pending'', ''reversed''} \<and>
        moved {''credit''} (rs_id x) d + (if re_share e = rs_id x \<and> re_type e \<in> {''credit''} then re_amount e else 0) = rs_cents x \<and>
        moved {''refund'', ''chargeback''} (rs_id x) d
          + (if re_share e = rs_id x \<and> re_type e \<in> {''refund'', ''chargeback''} then re_amount e else 0)
          = (if rs_status x = ''pending'' then 0 else rs_cents x)"
        using assms by cases (auto simp: ledger_ok_def)
    qed
  qed (use assms(1) links in \<open>simp_all only: ledger_ok_def\<close>)
  have s: "share_of (rs_invoice s) (rs_type s) d = Some s"
    using assms(1,2) find_unique [of "\<lambda>s. (rs_invoice s, rs_type s)" "shares (fed d)" s]
    by (simp add: ledger_ok_def share_of_def)
  have look: "share_of i k (undo_share (rs_id s) e d) =
      map_option (\<lambda>x. if rs_id x = rs_id s then x\<lparr>rs_status := ''reversed''\<rparr> else x) (share_of i k d)" for i k
    by (simp add: share_of_def f find_upd_where)
  show "book_of (undo_share (rs_id s) e d) = (book_of d)((rs_invoice s, rs_type s) \<mapsto> (the (rs_domain s), rs_cents s, True))"
  proof
    fix p
    show "book_of (undo_share (rs_id s) e d) p = ((book_of d)((rs_invoice s, rs_type s) \<mapsto> (the (rs_domain s), rs_cents s, True))) p"
    proof (cases "p = (rs_invoice s, rs_type s)")
      case True
      with s show ?thesis by (simp add: book_of_def look)
    next
      case False
      then have "rs_id x \<noteq> rs_id s" if "share_of (fst p) (snd p) d = Some x" for x
        using share_ofD [OF that] one [of x] by (cases p) auto
      with False show ?thesis by (cases p; cases "share_of (fst p) (snd p) d") (auto simp: book_of_def look)
    qed
  qed
qed


section \<open>The code does these steps\<close>

lemma earn_cases:
  assumes "ready C (Earn i k r referring gross) d"
  shows "(0 < due (\<lambda>g. policy_of g d) referring gross \<and> share_of i k d = None \<and>
      (\<exists>s e. apply_op C (Earn i k r referring gross) d = add_share s e d \<and> rs_invoice s = i \<and> rs_type s = k
         \<and> rs_id s = fresh_uuid C ''revenue.share'' \<and> rs_domain s = Some (the referring)
         \<and> rs_cents s = due (\<lambda>g. policy_of g d) referring gross \<and> rs_status s = ''pending''
         \<and> re_share e = rs_id s \<and> re_type e = ''credit'' \<and> re_amount e = rs_cents s))
    \<or> ((share_of i k d \<noteq> None \<or> \<not> 0 < due (\<lambda>g. policy_of g d) referring gross)
        \<and> apply_op C (Earn i k r referring gross) d = d)"
proof (cases "share_of i k d = None \<and> 0 < due (\<lambda>g. policy_of g d) referring gross")
  case True
  have f: "\<And>site. fault C site = None" and g: "\<bar>gross\<bar> < 2 ^ 50" using assms by (auto simp: ready_def)
  obtain dom_name p where p: "referring = Some dom_name" "dom_name \<noteq> []" "policy_of dom_name d = Some p" "sp_active p"
    and bp: "0 \<le> sp_bp p" "sp_bp p \<le> 5000" and pos: "0 < gross"
    and c: "due (\<lambda>g. policy_of g d) referring gross = gross * sp_bp p div 10000"
    using True by (auto simp: due_def split: option.splits if_splits)
  have v: "validate_basis_points (sp_bp p) = Inr ()" using bp by (simp add: validate_basis_points_def)
  note sh = share_exact(1) [OF g v]
  let ?c = "gross * sp_bp p div 10000" and ?i = "fresh_uuid C ''revenue.share''"
  let ?s = "\<lparr> rs_id = ?i, rs_invoice = i, rs_type = k, rs_referral = r, rs_domain = Some dom_name, rs_gross = gross,
      rs_bp = sp_bp p, rs_cents = ?c, rs_status = ''pending'' \<rparr>"
  let ?e = "\<lparr> re_id = fresh_uuid C ''revenue.entry'', re_share = ?i, re_type = ''credit'', re_amount = ?c,
      re_description = Some (''traffic referral from '' @ dom_name) \<rparr>"
  have "0 < ?c" using True c by simp
  have ins: "ins_share ?s d = Inr ((), set_fed (\<lambda>f. f\<lparr>shares := shares f @ [?s]\<rparr>) d)"
    using True \<open>0 < ?c\<close> pos assms by (auto simp: ins_share_def ready_def split: option.splits)
  let ?d1 = "set_fed (\<lambda>f. f\<lparr>shares := shares f @ [?s]\<rparr>) d"
  have ent: "ins_entry ?e ?d1 = Inr ((), add_share ?s ?e d)"
    using \<open>0 < ?c\<close> assms by (auto simp: ins_entry_def ENTRY_TYPES_def ready_def set_fed_def add_share_def)
  have st: "store_share C i k r dom_name gross (sp_bp p) ?c d = (Inr (Some ?c), add_share ?s ?e d)"
    by (simp only: store_share_def record_ledger_entry_def run_write_def f Let_def ins ent option.case sum.case prod.case)
  have "calculate_share_cents gross (sp_bp p) = ?c" "?c \<noteq> 0" using sh pos \<open>0 < ?c\<close> by simp_all
  then have "process_revenue_share C i k r referring gross d = store_share C i k r dom_name gross (sp_bp p) ?c d"
    using True p v by (simp add: process_revenue_share_def run_read_def f del: append.simps)
  then have "apply_op C (Earn i k r referring gross) d = add_share ?s ?e d" by (simp only: apply_op.simps st snd_conv)
  then show ?thesis using True c p(1) by (intro disjI1 conjI exI [of _ ?s] exI [of _ ?e]) auto
next
  case False
  have f: "\<And>site. fault C site = None" and g: "\<bar>gross\<bar> < 2 ^ 50" using assms by (auto simp: ready_def)
  have "apply_op C (Earn i k r referring gross) d = d"
  proof (cases "share_of i k d")
    case None
    with False have n: "\<not> 0 < due (\<lambda>g. policy_of g d) referring gross" by simp
    show ?thesis
    proof (cases "\<exists>dom_name p. referring = Some dom_name \<and> dom_name \<noteq> [] \<and> policy_of dom_name d = Some p \<and> sp_active p
        \<and> validate_basis_points (sp_bp p) = Inr ()")
      case True
      then obtain dom_name p where p: "referring = Some dom_name" "dom_name \<noteq> []" "policy_of dom_name d = Some p" "sp_active p"
        "validate_basis_points (sp_bp p) = Inr ()" by blast
      have "calculate_share_cents gross (sp_bp p) = 0"
        using n p share_exact [OF g p(5)] pos_imp_zdiv_nonneg_iff [of 10000 "gross * sp_bp p"]
        by (auto simp: due_def split: if_splits)
      with p None show ?thesis by (simp add: process_revenue_share_def run_read_def f)
    next
      case False
      with None show ?thesis
        by (auto simp: process_revenue_share_def run_read_def f split: option.splits sum.splits)
    qed
  qed (simp add: process_revenue_share_def run_read_def f)
  with False show ?thesis by auto
qed

lemma undo_cases:
  assumes "ready C (Undo i k t) d" "ledger_ok d"
  shows "(\<exists>s e. share_of i k d = Some s \<and> rs_status s = ''pending'' \<and> t \<in> {''refund'', ''chargeback''}
        \<and> apply_op C (Undo i k t) d = undo_share (rs_id s) e d
        \<and> re_share e = rs_id s \<and> re_type e = t \<and> re_amount e = rs_cents s)
    \<or> ((\<forall>s. share_of i k d = Some s \<longrightarrow> rs_status s \<noteq> ''pending'') \<or> t \<notin> {''refund'', ''chargeback''})
        \<and> apply_op C (Undo i k t) d = d"
proof (cases "t \<in> {''refund'', ''chargeback''} \<and> (\<exists>s. share_of i k d = Some s \<and> rs_status s = ''pending'')")
  case True
  then obtain s where s: "share_of i k d = Some s" "rs_status s = ''pending''" and t: "t \<in> {''refund'', ''chargeback''}" by blast
  have f: "\<And>site. fault C site = None" using assms by (auto simp: ready_def)
  have "s \<in> set (shares (fed d))" using share_ofD [OF s(1)] by simp
  then have c: "0 \<le> rs_cents s" using assms(2) by (auto simp: ledger_ok_def)
  let ?e = "\<lparr> re_id = fresh_uuid C ''revenue.entry'', re_share = rs_id s, re_type = t, re_amount = rs_cents s,
      re_description = None \<rparr>"
  let ?d1 = "set_fed (\<lambda>f. f\<lparr>shares := upd_where (\<lambda>x. rs_id x = rs_id s) (\<lambda>s. s\<lparr>rs_status := ''reversed''\<rparr>) (shares f)\<rparr>) d"
  have there: "\<exists>x\<in>set (shares (fed ?d1)). rs_id x = rs_id s"
    using still_there [OF \<open>s \<in> set (shares (fed d))\<close>] by (simp add: set_fed_def)
  have ent: "ins_entry ?e ?d1 = Inr ((), undo_share (rs_id s) ?e d)"
    using c t assms(1) there by (auto simp: ins_entry_def ENTRY_TYPES_def ready_def set_fed_def undo_share_def)
  have "apply_op C (Undo i k t) d = undo_share (rs_id s) ?e d"
    using t s share_pending [OF assms(2), of i k]
    by (auto simp: reverse_revenue_share_def run_read_def f run_write_def reverse_share_def record_ledger_entry_def ent)
  with s t show ?thesis by (intro disjI1 exI [of _ s] exI [of _ ?e]) auto
next
  case False
  have f: "\<And>site. fault C site = None" using assms by (auto simp: ready_def)
  have "apply_op C (Undo i k t) d = d"
    using False share_pending [OF assms(2), of i k]
    by (auto simp: reverse_revenue_share_def run_read_def f split: option.splits)
  with False show ?thesis by auto
qed

lemma step_refines:
  assumes "ledger_ok d" "ready C w d"
  shows "ledger_ok (apply_op C w d) \<and> book_of (apply_op C w d) = spec_op (\<lambda>g. policy_of g d) w (book_of d)
    \<and> (\<forall>g. policy_of g (apply_op C w d) = policy_of g d)"
proof (cases w)
  case (Earn i k r referring gross)
  let ?due = "due (\<lambda>g. policy_of g d) referring gross"
  from earn_cases [OF assms(2) [unfolded Earn]] show ?thesis
  proof (elim disjE conjE exE)
    fix s e
    assume a: "0 < ?due" "share_of i k d = None" "apply_op C (Earn i k r referring gross) d = add_share s e d"
      "rs_invoice s = i" "rs_type s = k" "rs_id s = fresh_uuid C ''revenue.share''" "rs_domain s = Some (the referring)"
      "rs_cents s = ?due" "rs_status s = ''pending''" "re_share e = rs_id s" "re_type e = ''credit''" "re_amount e = rs_cents s"
    have "\<forall>x\<in>set (shares (fed d)). rs_id x \<noteq> rs_id s" using assms(2) a(6) by (simp add: ready_def)
    note ok = add_share_ok [OF assms(1) _ this a(10-12) _ a(9), unfolded a(4,5,7,8), OF a(2)]
    have "book_of d (i, k) = None" using a(2) by (simp add: book_of_def)
    moreover have "policy_of g (add_share s e d) = policy_of g d" for g by (simp add: policy_of_def add_share_def set_fed_def)
    ultimately show ?thesis using ok a(1,3) Earn by simp
  next
    assume "apply_op C (Earn i k r referring gross) d = d" "share_of i k d \<noteq> None"
    moreover from this have "book_of d (i, k) \<noteq> None" by (simp add: book_of_def)
    ultimately show ?thesis using Earn assms(1) by (auto simp del: not_None_eq)
  next
    assume "apply_op C (Earn i k r referring gross) d = d" "\<not> 0 < ?due"
    then show ?thesis using Earn assms(1) by simp
  qed
next
  case (Undo i k t)
  from undo_cases [OF assms(2) [unfolded Undo] assms(1)] show ?thesis
  proof (elim disjE conjE exE)
    fix s e
    assume a: "share_of i k d = Some s" "rs_status s = ''pending''" "t \<in> {''refund'', ''chargeback''}"
      "apply_op C (Undo i k t) d = undo_share (rs_id s) e d" "re_share e = rs_id s" "re_type e = t" "re_amount e = rs_cents s"
    note s = share_ofD [OF a(1)]
    have "re_type e \<in> {''refund'', ''chargeback''}" using a by simp
    note ok = undo_share_ok [OF assms(1) conjunct1 [OF s] a(2,5) this a(7)]
    have "book_of d (i, k) = Some (the (rs_domain s), rs_cents s, False)" using a(1,2) by (simp add: book_of_def)
    moreover have "policy_of g (undo_share (rs_id s) e d) = policy_of g d" for g by (simp add: policy_of_def undo_share_def set_fed_def)
    ultimately show ?thesis using ok a(3,4) s Undo by simp
  next
    assume a: "apply_op C (Undo i k t) d = d" "\<forall>s. share_of i k d = Some s \<longrightarrow> rs_status s \<noteq> ''pending''"
    then have "book_of d (i, k) = None \<or> (\<exists>g c. book_of d (i, k) = Some (g, c, True))"
      by (cases "share_of i k d") (auto simp: book_of_def)
    then show ?thesis using a Undo assms(1) by auto
  next
    assume a: "apply_op C (Undo i k t) d = d" "t \<notin> {''refund'', ''chargeback''}"
    then have "spec_op (\<lambda>g. policy_of g d) w (book_of d) = book_of d"
      using Undo by (auto split: option.splits prod.splits bool.splits)
    then show ?thesis using a(1) Undo assms(1) by simp
  qed
qed


section \<open>Properties\<close>

text \<open>C20. As long as no statement fails, any sequence of payments and reversals leaves the book the
  specification computes: an invoice earns once, what its first payment is due under the policies, and is
  taken back at most once; and the ledger always adds up, every share credited in full and debited in full
  exactly when it is reversed.\<close>

theorem revenue_refines:
  assumes "revenue_run d ws d'" "ledger_ok d"
  shows "ledger_ok d' \<and> book_of d' = fold (spec_op (\<lambda>g. policy_of g d)) ws (book_of d)"
proof -
  have "ledger_ok d' \<and> book_of d' = fold (spec_op (\<lambda>g. policy_of g d)) ws (book_of d) \<and> (\<forall>g. policy_of g d' = policy_of g d)"
    using assms
  proof (induction rule: revenue_run.induct)
    case (run_more d ws d1 C w)
    then have "ledger_ok d1" "\<forall>g. policy_of g d1 = policy_of g d" by simp_all
    with step_refines [OF _ run_more(2)] run_more show ?case by simp
  qed simp
  then show ?thesis by simp
qed

definition referred_db :: db where
  "referred_db = demo_db\<lparr>fed := empty_fed\<lparr>policies :=
     [\<lparr> sp_domain = ''far.example'', sp_bp = 1000, sp_active = True, sp_created_by = None, sp_created = Instant 0 \<rparr>]\<rparr>\<rparr>"

theorem revenue_refines_witness:
  "\<exists>d'. revenue_run referred_db [Earn ''i1'' ''fiat'' None (Some ''far.example'') 5000, Undo ''i1'' ''fiat'' ''refund''] d'
     \<and> ledger_ok d' \<and> book_of d' = [(''i1'', ''fiat'') \<mapsto> (''far.example'', 500, True)]"
proof -
  let ?earn = "Earn ''i1'' ''fiat'' None (Some ''far.example'') 5000" and ?undo = "Undo ''i1'' ''fiat'' ''refund''"
  let ?C2 = "demo_ctx\<lparr>fresh_uuid := \<lambda>_. ''s2''\<rparr>"
  have r: "ready demo_ctx ?earn referred_db" by (simp add: ready_def demo_ctx_def referred_db_def empty_fed_def)
  have ok: "ledger_ok referred_db" by (simp add: ledger_ok_def referred_db_def empty_fed_def)
  let ?d1 = "apply_op demo_ctx ?earn referred_db"
  have due: "due (\<lambda>g. policy_of g referred_db) (Some ''far.example'') 5000 = 500"
    by (simp add: due_def policy_of_def referred_db_def)
  from earn_cases [OF r] due obtain s e where d1: "?d1 = add_share s e referred_db"
    "rs_id s = fresh_uuid demo_ctx ''revenue.share''" "re_share e = rs_id s" by (auto simp: share_of_def referred_db_def empty_fed_def)
  have id: "re_id e = fresh_uuid demo_ctx ''revenue.entry''" if "entries (fed ?d1) = [e]" for e :: revenue_entry
    using that by (simp add: process_revenue_share_def run_read_def demo_ctx_def referred_db_def empty_fed_def share_of_def policy_of_def
        validate_basis_points_def calculate_share_cents_def quot_def mul64_def wrap64_def store_share_def run_write_def ins_share_def
        record_ledger_entry_def ins_entry_def ENTRY_TYPES_def set_fed_def Let_def) auto
  have "entries (fed ?d1) = [e]" "shares (fed ?d1) = [s]"
    unfolding d1(1) by (simp_all add: add_share_def set_fed_def referred_db_def empty_fed_def)
  moreover from this id d1(2) have "re_id e \<noteq> ''s2''" "rs_id s \<noteq> ''s2''" by (simp_all add: demo_ctx_def)
  ultimately have r2: "ready ?C2 ?undo ?d1" by (simp add: ready_def demo_ctx_def del: apply_op.simps)
  have run: "revenue_run referred_db ([] @ [?earn] @ [?undo]) (apply_op ?C2 ?undo ?d1)"
    using run_more [OF run_more [OF run_none r] r2] by simp
  have "book_of referred_db = Map.empty" by (simp add: book_of_def share_of_def referred_db_def empty_fed_def fun_eq_iff)
  with revenue_refines [OF run ok] due run show ?thesis by (intro exI) auto
qed

text \<open>The share and its credit are two statements: when the second one is refused the share stays
  without a credit, and no later call for that invoice writes it.\<close>

theorem credit_lost:
  assumes "process_revenue_share C i k r g gross d = (Inl ''revenue_ledger_entries insert failed'', d')"
    and "fault C ''revenue.entry'' = Some (Refused m)"
  shows "\<exists>s. share_of i k d' = Some s \<and> rs_status s = ''pending'' \<and> entries (fed d') = entries (fed d)
    \<and> (\<forall>C2 r2 g2 gross2. fault C2 ''revenue.existing'' = None \<longrightarrow> process_revenue_share C2 i k r2 g2 gross2 d' = (Inr None, d'))"
proof -
  obtain dom_name bp cents where none: "share_of i k d = None"
    and st: "store_share C i k r dom_name gross bp cents d = (Inl ''revenue_ledger_entries insert failed'', d')"
    using assms(1) by (auto simp: process_revenue_share_def run_read_def validate_basis_points_def Let_def
        split: option.splits if_splits)
  define s where "s = \<lparr> rs_id = fresh_uuid C ''revenue.share'', rs_invoice = i, rs_type = k, rs_referral = r,
      rs_domain = Some dom_name, rs_gross = gross, rs_bp = bp, rs_cents = cents, rs_status = ''pending'' \<rparr>"
  obtain r1 d1 where w: "run_write C ''revenue.share'' (ins_share s) d = (r1, d1)" by fastforce
  obtain x where r1: "r1 = Inr x" and d': "d' = d1"
    using st w assms(2) unfolding s_def by (cases r1) (auto simp: store_share_def record_ledger_entry_def run_write_def Let_def)
  have "ins_share s d = Inr (x, d1)" using run_write_cases(2) [OF w r1] .
  then have "d1 = set_fed (\<lambda>f. f\<lparr>shares := shares f @ [s]\<rparr>) d"
    using none by (auto simp: ins_share_def s_def split: if_splits)
  with d' none have "share_of i k d' = Some s" "entries (fed d') = entries (fed d)"
    by (simp_all add: share_of_def set_fed_def find_append s_def)
  then show ?thesis by (intro exI [of _ s]) (simp add: process_revenue_share_def run_read_def s_def)
qed

theorem credit_lost_witness:
  "\<exists>d'. process_revenue_share (failing ''revenue.entry'' (Refused ''gone'') demo_ctx) ''i1'' ''fiat'' None (Some ''far.example'') 5000
       referred_db = (Inl ''revenue_ledger_entries insert failed'', d')
     \<and> process_revenue_share demo_ctx ''i1'' ''fiat'' None (Some ''far.example'') 5000 d' = (Inr None, d')"
proof -
  let ?C = "failing ''revenue.entry'' (Refused ''gone'') demo_ctx"
  obtain r d' where p: "process_revenue_share ?C ''i1'' ''fiat'' None (Some ''far.example'') 5000 referred_db = (r, d')" by fastforce
  then have "r = Inl ''revenue_ledger_entries insert failed''"
    by (auto simp: process_revenue_share_def run_read_def failing_def demo_ctx_def referred_db_def empty_fed_def share_of_def policy_of_def
        validate_basis_points_def calculate_share_cents_def quot_def mul64_def wrap64_def store_share_def run_write_def ins_share_def
        record_ledger_entry_def ins_entry_def ENTRY_TYPES_def set_fed_def Let_def)
  with p have p: "process_revenue_share ?C ''i1'' ''fiat'' None (Some ''far.example'') 5000 referred_db
      = (Inl ''revenue_ledger_entries insert failed'', d')" by simp
  have f: "fault ?C ''revenue.entry'' = Some (Refused ''gone'')" "fault demo_ctx ''revenue.existing'' = None"
    by (simp_all add: failing_def demo_ctx_def)
  from credit_lost [OF p f(1)] f(2) p show ?thesis by blast
qed

end
