(* ===== verification/Chat.thy ===== *)
theory Chat
  imports Sessions
begin

text \<open>
  \<open>src/src/handlers/chat.rs\<close>: support conversations between a user and the administrators, direct
  conversations between two users, and their messages.
\<close>

section \<open>Conversations\<close>

definition set_media :: "(media_db \<Rightarrow> media_db) \<Rightarrow> db \<Rightarrow> db" where
  "set_media f d = d\<lparr>media := f (media d)\<rparr>"

definition current_actor :: "ctx \<Rightarrow> db \<Rightarrow> (json + string \<times> bool \<times> string) \<times> db" where
  "current_actor C d0 =
     (case current_user_id C d0 of
        (None, d) \<Rightarrow> (Inl (jerr ''not logged in''), d)
      | (Some (uid, adm), d) \<Rightarrow>
          (case run_read C ''chat.actor'' (find_user uid) d of
             Inr (Some u) \<Rightarrow> (Inr (uid, adm, u_username u), d)
           | _ \<Rightarrow> (Inl (jerr ''user not found''), d)))"

definition find_conversation :: "string \<Rightarrow> db \<Rightarrow> conversation option" where
  "find_conversation i d = find (\<lambda>c. cv_id c = i) (conversations (media d))"

definition conversation_open_to :: "string \<Rightarrow> bool \<Rightarrow> conversation \<Rightarrow> bool" where
  "conversation_open_to uid adm c =
     (if cv_type c = ''admin_support'' then adm \<or> cv_support c = Some uid
      else if cv_type c = ''direct'' then cv_user_a c = Some uid \<or> cv_user_b c = Some uid
      else False)"

definition user_can_access_conversation :: "ctx \<Rightarrow> string \<Rightarrow> string \<Rightarrow> bool \<Rightarrow> db \<Rightarrow> string + bool" where
  "user_can_access_conversation C i uid adm d =
     (case run_read C ''chat.access'' (find_conversation i) d of
        Inl e \<Rightarrow> Inl e
      | Inr None \<Rightarrow> Inr False
      | Inr (Some c) \<Rightarrow> Inr (conversation_open_to uid adm c))"

definition support_of :: "string \<Rightarrow> db \<Rightarrow> string option" where
  "support_of uid d = map_option cv_id (find (\<lambda>c. cv_type c = ''admin_support'' \<and> cv_support c = Some uid)
     (conversations (media d)))"

definition direct_of :: "string \<Rightarrow> string \<Rightarrow> db \<Rightarrow> string option" where
  "direct_of a b d = map_option cv_id (find (\<lambda>c. cv_type c = ''direct'' \<and> cv_user_a c = Some a \<and> cv_user_b c = Some b)
     (conversations (media d)))"

text \<open>\<open>INSERT ... ON CONFLICT DO NOTHING\<close> under the primary key and the two unique indexes.\<close>

definition conversation_clash :: "conversation \<Rightarrow> conversation \<Rightarrow> bool" where
  "conversation_clash c x \<longleftrightarrow> cv_id x = cv_id c
     \<or> cv_type x = ''direct'' \<and> cv_type c = ''direct'' \<and> cv_user_a c \<noteq> None \<and> cv_user_b c \<noteq> None
         \<and> cv_user_a x = cv_user_a c \<and> cv_user_b x = cv_user_b c
     \<or> cv_type x = ''admin_support'' \<and> cv_type c = ''admin_support'' \<and> cv_support c \<noteq> None \<and> cv_support x = cv_support c"

definition known_user :: "db \<Rightarrow> string option \<Rightarrow> bool" where
  "known_user d u = (case u of None \<Rightarrow> True | Some i \<Rightarrow> user_exists i d)"

definition ins_conversation :: "conversation \<Rightarrow> unit stmt" where
  "ins_conversation c d =
     (if \<exists>x\<in>set (conversations (media d)). conversation_clash c x then Inr ((), d)
      else if \<not> (known_user d (cv_user_a c) \<and> known_user d (cv_user_b c) \<and> known_user d (cv_support c)
                \<and> known_user d (cv_created_by c))
      then Inl ''chat_conversations_fkey''
      else Inr ((), set_media (\<lambda>m. m\<lparr>conversations := conversations m @ [c]\<rparr>) d))"

definition no_rows_msg :: string where
  "no_rows_msg = ''no rows returned by a query that expected to return at least one row''"

definition fetch_one :: "string + 'a option \<Rightarrow> string + 'a" where
  "fetch_one r = (case r of Inl e \<Rightarrow> Inl e | Inr None \<Rightarrow> Inl no_rows_msg | Inr (Some x) \<Rightarrow> Inr x)"

definition support_row :: "ctx \<Rightarrow> string \<Rightarrow> conversation" where
  "support_row C uid = \<lparr> cv_id = fresh_uuid C ''chat.support'', cv_type = ''admin_support'', cv_user_a = None,
     cv_user_b = None, cv_support = Some uid, cv_created_by = Some uid, cv_created = rfc3339 C (now C),
     cv_updated = rfc3339 C (now C), cv_last = rfc3339 C (now C) \<rparr>"

definition get_or_create_support_conversation :: "ctx \<Rightarrow> string \<Rightarrow> db \<Rightarrow> (string + string) \<times> db" where
  "get_or_create_support_conversation C uid d =
     (case run_read C ''support.existing'' (support_of uid) d of
        Inl e \<Rightarrow> (Inl e, d)
      | Inr (Some i) \<Rightarrow> (Inr i, d)
      | Inr None \<Rightarrow>
          (case run_write C ''support.insert'' (ins_conversation (support_row C uid)) d of
             (Inl e, d1) \<Rightarrow> (Inl e, d1)
           | (Inr _, d1) \<Rightarrow> (fetch_one (run_read C ''support.actual'' (support_of uid) d1), d1)))"

definition chat_user_json :: "bool \<Rightarrow> user \<Rightarrow> json" where
  "chat_user_json adm u = JObj [(''id'', JStr (u_id u)), (''username'', JStr (u_username u)), (''email'', JStr []),
     (''can_start_direct'', JBool (\<not> adm))]"

definition search_chat_users :: "ctx \<Rightarrow> string option \<Rightarrow> db \<Rightarrow> json \<times> db" where
  "search_chat_users C q d0 =
     (case current_actor C d0 of
        (Inl err, d) \<Rightarrow> (err, d)
      | (Inr (uid, adm, _), d) \<Rightarrow>
          let needle = trim (case q of None \<Rightarrow> [] | Some s \<Rightarrow> s) in
          if needle = [] then (jok [(''users'', JArr [])], d)
          else
          let found = (case run_read C ''chat.search'' (\<lambda>d. map (chat_user_json adm) (take 20 (order_by u_username
                 (filter (\<lambda>u. u_is_admin u = 0 \<and> u_id u \<noteq> uid \<and> pg_ilike C (u_username u) (''%'' @ needle @ ''%'')) (users d))))) d of
                 Inr xs \<Rightarrow> xs | Inl _ \<Rightarrow> []) in
          (jok [(''users'', JArr found)], d))"

definition conversation_answer :: "string + string \<Rightarrow> json" where
  "conversation_answer r = (case r of Inr i \<Rightarrow> jok [(''conversation_id'', JStr i)] | Inl e \<Rightarrow> jerr (''db: '' @ e))"

definition ensure_support_conversation :: "ctx \<Rightarrow> db \<Rightarrow> json \<times> db" where
  "ensure_support_conversation C d0 =
     (case current_actor C d0 of
        (Inl err, d) \<Rightarrow> (err, d)
      | (Inr (uid, adm, _), d) \<Rightarrow>
          if adm then (jerr ''admins cannot create support conversations'', d)
          else (case get_or_create_support_conversation C uid d of (r, d') \<Rightarrow> (conversation_answer r, d')))"

definition direct_row :: "ctx \<Rightarrow> string \<Rightarrow> string \<Rightarrow> string \<Rightarrow> conversation" where
  "direct_row C uid a b = \<lparr> cv_id = fresh_uuid C ''chat.direct'', cv_type = ''direct'', cv_user_a = Some a,
     cv_user_b = Some b, cv_support = None, cv_created_by = Some uid, cv_created = rfc3339 C (now C),
     cv_updated = rfc3339 C (now C), cv_last = rfc3339 C (now C) \<rparr>"

text \<open>The pair is stored in the order of the identifiers.\<close>

definition ordered_pair :: "string \<Rightarrow> string \<Rightarrow> string \<times> string" where
  "ordered_pair u v = (if u \<le> v then (u, v) else (v, u))"

definition direct_conversation :: "ctx \<Rightarrow> string \<Rightarrow> string \<Rightarrow> db \<Rightarrow> json \<times> db" where
  "direct_conversation C uid target d =
     (let (a, b) = ordered_pair uid target in
      case (case run_read C ''direct.existing'' (direct_of a b) d of Inr r \<Rightarrow> r | Inl _ \<Rightarrow> None) of
        Some i \<Rightarrow> (jok [(''conversation_id'', JStr i)], d)
      | None \<Rightarrow>
          (case run_write C ''direct.insert'' (ins_conversation (direct_row C uid a b)) d of
             (Inl e, d1) \<Rightarrow> (jerr (''db: '' @ e), d1)
           | (Inr _, d1) \<Rightarrow> (conversation_answer (fetch_one (run_read C ''direct.actual'' (direct_of a b) d1)), d1)))"

definition start_direct_conversation :: "ctx \<Rightarrow> string \<Rightarrow> db \<Rightarrow> json \<times> db" where
  "start_direct_conversation C target_user_id d0 =
     (case current_actor C d0 of
        (Inl err, d) \<Rightarrow> (err, d)
      | (Inr (uid, adm, _), d) \<Rightarrow>
          if adm then (jerr ''admin cannot start direct user chats from this endpoint'', d)
          else
          let target = trim target_user_id in
          if target = [] \<or> target = uid then (jerr ''invalid target user'', d)
          else
          (case run_read C ''direct.target'' (find_user target) d of
             Inr (Some t) \<Rightarrow>
               if u_is_admin t \<noteq> 0 then (jerr ''use support chat to contact admin'', d)
               else direct_conversation C uid target d
           | _ \<Rightarrow> (jerr ''target user not found'', d)))"


section \<open>Lists\<close>

definition conversations_of :: "string \<Rightarrow> bool \<Rightarrow> db \<Rightarrow> conversation list" where
  "conversations_of uid adm d =
     order_by_desc cv_last (order_by_desc cv_created (filter (\<lambda>c.
       if adm then cv_type c = ''admin_support'' \<and> (\<exists>u\<in>set (users d). cv_support c = Some (u_id u))
       else conversation_open_to uid False c) (conversations (media d))))"

definition username_or :: "string \<Rightarrow> string option \<Rightarrow> db \<Rightarrow> string" where
  "username_or dflt uid d = (case Option.bind uid (\<lambda>i. find_user i d) of None \<Rightarrow> dflt | Some u \<Rightarrow> u_username u)"

definition latest_message :: "string \<Rightarrow> db \<Rightarrow> chat_message option" where
  "latest_message i d = (case order_by_desc cm_created (filter (\<lambda>m. cm_conversation m = i) (messages (media d))) of
     [] \<Rightarrow> None | m # _ \<Rightarrow> Some m)"

definition counterpart_json :: "string \<Rightarrow> string \<Rightarrow> json" where
  "counterpart_json i name = JObj [(''id'', JStr i), (''username'', JStr name), (''email'', JStr [])]"

text \<open>The other side of a direct conversation, as the query's \<open>CASE\<close> finds it.\<close>

definition other_side :: "string \<Rightarrow> conversation \<Rightarrow> db \<Rightarrow> user option" where
  "other_side uid c d =
     Option.bind (if cv_type c \<noteq> ''direct'' then None
       else if cv_user_a c = Some uid then cv_user_b c
       else if cv_user_b c = Some uid then cv_user_a c else None) (\<lambda>i. find_user i d)"

definition conversation_title :: "string \<Rightarrow> bool \<Rightarrow> conversation \<Rightarrow> db \<Rightarrow> string \<times> json" where
  "conversation_title uid adm c d =
     (if cv_type c = ''admin_support'' then
        (if adm then
           let name = username_or ''User'' (cv_support c) d in
           (''Support: '' @ name, counterpart_json (case cv_support c of None \<Rightarrow> [] | Some i \<Rightarrow> i) name)
         else (''Chat with Admin'', JNull))
      else
        (case other_side uid c d of
           None \<Rightarrow> (''User'', counterpart_json [] ''User'')
         | Some u \<Rightarrow> (u_username u, counterpart_json (u_id u) (u_username u))))"

definition conversation_json :: "ctx \<Rightarrow> string \<Rightarrow> bool \<Rightarrow> db \<Rightarrow> conversation \<Rightarrow> json" where
  "conversation_json C uid adm d c =
     (let (body, sender, at) = (case run_read C (''chat.latest.'' @ cv_id c) (latest_message (cv_id c)) d of
            Inr (Some m) \<Rightarrow> (cm_body m, username_or ''Unknown'' (Some (cm_sender m)) d, cm_created m)
          | _ \<Rightarrow> ([], [], cv_last c));
          (title, other) = conversation_title uid adm c d in
      JObj [(''id'', JStr (cv_id c)), (''conversation_type'', JStr (cv_type c)), (''title'', JStr title),
        (''counterpart'', other), (''last_message'', JStr body), (''last_message_at'', JStr at),
        (''last_sender_name'', JStr sender), (''created_at'', JStr (cv_created c))])"

definition list_conversations :: "ctx \<Rightarrow> db \<Rightarrow> json \<times> db" where
  "list_conversations C d0 =
     (case current_actor C d0 of
        (Inl err, d) \<Rightarrow> (err, d)
      | (Inr (uid, adm, _), d) \<Rightarrow>
          let d1 = (if adm then d else snd (get_or_create_support_conversation C uid d));
              rows = (case run_read C ''chat.list'' (conversations_of uid adm) d1 of Inr xs \<Rightarrow> xs | Inl _ \<Rightarrow> []) in
          (jok [(''conversations'', JArr (map (conversation_json C uid adm d1) rows))], d1))"

definition message_json :: "string \<Rightarrow> db \<Rightarrow> chat_message \<Rightarrow> json" where
  "message_json uid d m =
     JObj [(''id'', JStr (cm_id m)), (''sender_user_id'', JStr (cm_sender m)),
       (''sender_username'', JStr (username_or ''Unknown'' (Some (cm_sender m)) d)),
       (''sender_is_admin'', JBool (case find_user (cm_sender m) d of None \<Rightarrow> False | Some u \<Rightarrow> u_is_admin u \<noteq> 0)),
       (''body'', JStr (cm_body m)), (''created_at'', JStr (cm_created m)), (''is_self'', JBool (cm_sender m = uid))]"

definition conversation_messages :: "string \<Rightarrow> db \<Rightarrow> chat_message list" where
  "conversation_messages i d = order_by cm_created (filter (\<lambda>m. cm_conversation m = i) (messages (media d)))"

definition list_messages :: "ctx \<Rightarrow> string \<Rightarrow> db \<Rightarrow> json \<times> db" where
  "list_messages C i d0 =
     (case current_actor C d0 of
        (Inl err, d) \<Rightarrow> (err, d)
      | (Inr (uid, adm, _), d) \<Rightarrow>
     (case user_can_access_conversation C i uid adm d of
        Inl e \<Rightarrow> (jerr (''db: '' @ e), d)
      | Inr False \<Rightarrow> (jerr ''forbidden'', d)
      | Inr True \<Rightarrow>
     (case run_read C ''chat.messages'' (\<lambda>d. map (message_json uid d) (conversation_messages i d)) d of
        Inr ms \<Rightarrow> (jok [(''messages'', JArr ms)], d)
      | Inl e \<Rightarrow> (jerr (''db: '' @ e), d))))"


section \<open>Sending\<close>

text \<open>\<open>chars().count()\<close>: the bytes that begin a code point.\<close>

definition char_count :: "string \<Rightarrow> nat" where
  "char_count s = length (filter (\<lambda>c. \<not> cont_byte (byte c)) s)"

definition ins_message :: "chat_message \<Rightarrow> unit stmt" where
  "ins_message m d =
     (if \<exists>x\<in>set (messages (media d)). cm_id x = cm_id m then Inl ''chat_messages_pkey''
      else if find_conversation (cm_conversation m) d = None then Inl ''chat_messages_conversation_id_fkey''
      else if \<not> user_exists (cm_sender m) d then Inl ''chat_messages_sender_user_id_fkey''
      else Inr ((), set_media (\<lambda>s. s\<lparr>messages := messages s @ [m]\<rparr>) d))"

definition touch_conversation :: "string \<Rightarrow> string \<Rightarrow> unit stmt" where
  "touch_conversation i t d =
     Inr ((), set_media (\<lambda>m. m\<lparr>conversations := upd_where (\<lambda>c. cv_id c = i)
       (\<lambda>c. c\<lparr>cv_updated := t, cv_last := t\<rparr>) (conversations m)\<rparr>) d)"

definition send_message_tx :: "ctx \<Rightarrow> chat_message \<Rightarrow> json \<Rightarrow> db \<Rightarrow> json \<times> db" where
  "send_message_tx C m answer d =
     (case tx_begin C ''send.begin'' d of
        Inl e \<Rightarrow> (jerr (''db: '' @ e), d)
      | Inr t0 \<Rightarrow>
     tx_then (tx_write C ''send.insert'' (ins_message m) t0) (\<lambda>e. jerr (''db: '' @ e)) (\<lambda>_ t1.
     tx_then (tx_write C ''send.touch'' (touch_conversation (cm_conversation m) (cm_created m)) t1)
       (\<lambda>e. jerr (''db: '' @ e)) (\<lambda>_ t2.
     tx_end (tx_commit C ''send.commit'' t2) (\<lambda>e. jerr (''commit: '' @ e)) (\<lambda>d'. (answer, d')))))"

definition send_message :: "ctx \<Rightarrow> string \<Rightarrow> string \<Rightarrow> db \<Rightarrow> json \<times> db" where
  "send_message C i p_body d0 =
     (case current_actor C d0 of
        (Inl err, d) \<Rightarrow> (err, d)
      | (Inr (uid, adm, name), d) \<Rightarrow>
     (case user_can_access_conversation C i uid adm d of
        Inl e \<Rightarrow> (jerr (''db: '' @ e), d)
      | Inr False \<Rightarrow> (jerr ''forbidden'', d)
      | Inr True \<Rightarrow>
     let body = trim p_body in
     if body = [] then (jerr ''message cannot be empty'', d)
     else if 4000 < char_count body then (jerr ''message too long'', d)
     else
     let m = \<lparr> cm_id = fresh_uuid C ''chat.message'', cm_conversation = i, cm_sender = uid, cm_body = body,
               cm_created = rfc3339 C (now C) \<rparr> in
     send_message_tx C m (jok [(''message'', JObj [(''id'', JStr (cm_id m)), (''sender_user_id'', JStr uid),
       (''sender_username'', JStr name), (''sender_is_admin'', JBool adm), (''body'', JStr body),
       (''created_at'', JStr (cm_created m)), (''is_self'', JBool True)])]) d))"

end
