(* ===== verification/Streaming.thy ===== *)
theory Streaming
  imports Access Chat
begin

text \<open>
  \<open>src/src/handlers/stream.rs\<close>: playback sessions, the ffmpeg run behind each, their expiry, and the
  delivery of HLS files.  The file system is the record \<open>disk\<close>; what a handler does to it is the
  list of its operations.
\<close>

section \<open>Files\<close>

datatype removal = Removed | NotThere | Kept string

datatype opened = Opened string | Missing | Unreadable

record disk =
  dk_mkdir :: "string \<Rightarrow> string option"
  dk_write :: "string \<Rightarrow> string \<Rightarrow> string option"
  dk_exists :: "string \<Rightarrow> bool"
  dk_remove :: "string \<Rightarrow> removal"
  dk_canon :: "string \<Rightarrow> string option"
  dk_open :: "string \<Rightarrow> opened"
  dk_cpus :: nat

text \<open>\<open>dk_mkdir\<close> and \<open>dk_write\<close> give the error of the operation, if any.\<close>

datatype file_op = Mkdir string | WriteFile string string | RemoveDir string | Ffmpeg string "string list"

definition PLAYBACK_SESSION_TTL_SECONDS :: int where "PLAYBACK_SESSION_TTL_SECONDS = 60 * 60"
definition PLAYLIST_READY_TIMEOUT_SECONDS :: nat where "PLAYLIST_READY_TIMEOUT_SECONDS = 30"
definition PLAYBACK_HLS_LIST_SIZE :: nat where "PLAYBACK_HLS_LIST_SIZE = 8"

definition resolve_input_path :: "ctx \<Rightarrow> disk \<Rightarrow> string \<Rightarrow> string option" where
  "resolve_input_path C D name =
     (let up = path_push (upload_dir (cfg C)) name; media_path = path_push (media_dir (cfg C)) name;
          legacy = path_push ''uploads'' name in
      if starts_with ''/'' name \<and> dk_exists D name then Some name
      else if trim (upload_dir (cfg C)) \<noteq> [] \<and> dk_exists D up then Some up
      else if dk_exists D media_path then Some media_path
      else if dk_exists D legacy then Some legacy
      else if dk_exists D name then Some name
      else None)"

datatype file_type = M3U8 | TS | M4S | MP4 | Unknown

definition ends_with :: "string \<Rightarrow> string \<Rightarrow> bool" where
  "ends_with suffix s \<longleftrightarrow> starts_with (rev suffix) (rev s)"

definition file_type :: "string \<Rightarrow> file_type" where
  "file_type name =
     (let lower = ascii_lower name in
      if ends_with ''.m3u8'' lower then M3U8 else if ends_with ''.ts'' lower then TS
      else if ends_with ''.m4s'' lower then M4S else if ends_with ''.mp4'' lower then MP4 else Unknown)"

definition ascii_alnum :: "char \<Rightarrow> bool" where
  "ascii_alnum c \<longleftrightarrow> (CHR ''0'' \<le> c \<and> c \<le> CHR ''9'') \<or> (CHR ''a'' \<le> c \<and> c \<le> CHR ''z'') \<or> (CHR ''A'' \<le> c \<and> c \<le> CHR ''Z'')"

definition is_safe_token :: "string \<Rightarrow> bool" where
  "is_safe_token v \<longleftrightarrow> v \<noteq> [] \<and> (\<forall>c\<in>set v. ascii_alnum c \<or> c = CHR ''-'' \<or> c = CHR ''_'')"

definition is_safe_file :: "string \<Rightarrow> bool" where
  "is_safe_file v \<longleftrightarrow> v \<noteq> [] \<and> CHR ''/'' \<notin> set v \<and> CHR 0x5C \<notin> set v \<and> find_str ''..'' v = None
     \<and> (let lower = ascii_lower v in ends_with ''.m3u8'' lower \<or> ends_with ''.ts'' lower \<or> ends_with ''.m4s'' lower
           \<or> ends_with ''.mp4'' lower)"


section \<open>Sessions\<close>

definition find_playback :: "string \<Rightarrow> db \<Rightarrow> playback option" where
  "find_playback i d = find (\<lambda>p. pb_id p = i) (playbacks (media d))"

definition ins_playback :: "playback \<Rightarrow> unit stmt" where
  "ins_playback p d =
     (if find_playback (pb_id p) d \<noteq> None then Inl ''playback_sessions_pkey''
      else Inr ((), set_media (\<lambda>m. m\<lparr>playbacks := playbacks m @ [p]\<rparr>) d))"

definition set_playback :: "string \<Rightarrow> string \<Rightarrow> string option \<Rightarrow> unit stmt" where
  "set_playback i status e d =
     Inr ((), set_media (\<lambda>m. m\<lparr>playbacks := upd_where (\<lambda>p. pb_id p = i)
       (\<lambda>p. p\<lparr>pb_status := status, pb_error := e\<rparr>) (playbacks m)\<rparr>) d)"

definition del_playback :: "string \<Rightarrow> unit stmt" where
  "del_playback i d = Inr ((), set_media (\<lambda>m. m\<lparr>playbacks := filter (\<lambda>p. pb_id p \<noteq> i) (playbacks m)\<rparr>) d)"

text \<open>Its callers ignore the result.\<close>

definition mark_session_failed :: "ctx \<Rightarrow> string \<Rightarrow> string \<Rightarrow> db \<Rightarrow> db" where
  "mark_session_failed C i message d = snd (run_write C ''playback.failed'' (set_playback i ''error'' (Some message)) d)"

definition expired_playbacks :: "instant \<Rightarrow> db \<Rightarrow> playback list" where
  "expired_playbacks t d = filter (\<lambda>p. pb_expires p \<le> t) (playbacks (media d))"

definition playback_path :: "string \<Rightarrow> playback \<Rightarrow> string" where
  "playback_path root p = (if trim (pb_dir p) = [] then path_push root (pb_id p) else pb_dir p)"

fun remove_expired :: "ctx \<Rightarrow> disk \<Rightarrow> string \<Rightarrow> int \<Rightarrow> playback list \<Rightarrow> db \<Rightarrow> (string + int) \<times> file_op list \<times> db" where
  "remove_expired C D root n [] d = (Inr n, [], d)"
| "remove_expired C D root n (p # ps) d =
     (case dk_remove D (playback_path root p) of
        Kept _ \<Rightarrow> (case remove_expired C D root n ps d of (r, ops, d') \<Rightarrow> (r, RemoveDir (playback_path root p) # ops, d'))
      | _ \<Rightarrow>
          (case run_write C (''cleanup.delete.'' @ pb_id p) (del_playback (pb_id p)) d of
             (Inl e, d1) \<Rightarrow> (Inl e, [RemoveDir (playback_path root p)], d1)
           | (Inr _, d1) \<Rightarrow> (case remove_expired C D root (n + 1) ps d1 of
               (r, ops, d') \<Rightarrow> (r, RemoveDir (playback_path root p) # ops, d'))))"

definition cleanup_expired_sessions :: "ctx \<Rightarrow> disk \<Rightarrow> string \<Rightarrow> db \<Rightarrow> (string + int) \<times> file_op list \<times> db" where
  "cleanup_expired_sessions C D root d =
     (case run_read C ''cleanup.expired'' (expired_playbacks (now C)) d of
        Inl e \<Rightarrow> (Inl e, [], d)
      | Inr ps \<Rightarrow> remove_expired C D root 0 ps d)"


section \<open>The watermark and the ffmpeg call\<close>

function code_points :: "string \<Rightarrow> string list" where
  "code_points [] = []"
| "code_points (c # cs) =
     (c # takeWhile (\<lambda>x. cont_byte (byte x)) cs) # code_points (dropWhile (\<lambda>x. cont_byte (byte x)) cs)"
  by pat_completeness auto
termination
  by (relation "measure length") (auto simp: le_imp_less_Suc length_dropWhile_le)

fun is_control :: "string \<Rightarrow> bool" where
  "is_control [a] \<longleftrightarrow> byte a < 32 \<or> byte a = 127"
| "is_control [a, b] \<longleftrightarrow> byte a = 194 \<and> 128 \<le> byte b \<and> byte b \<le> 159"
| "is_control _ \<longleftrightarrow> False"

definition safe_username :: "string \<Rightarrow> string" where
  "safe_username name = concat (take 80 (filter (\<lambda>g. \<not> is_control g) (code_points name)))"

definition bullet :: string where "bullet = map chr [226, 128, 162]"

definition watermark_text :: "string \<Rightarrow> string" where
  "watermark_text name = bullet @ '' @'' @ safe_username name @ '' '' @ bullet @ '' %Y-%m-%d %H'' @ [CHR 0x5C]
     @ '':%M'' @ [CHR 0x5C] @ '':%S''"

definition escape_commas :: "string \<Rightarrow> string" where
  "escape_commas s = concat (map (\<lambda>c. if c = CHR '','' then [CHR 0x5C, CHR '',''] else [c]) s)"

definition x_expression :: string where
  "x_expression = escape_commas ''20 + (w-tw-40)*mod(abs(sin(floor(t/5)*12.9898)*43758.5453),1)''"

definition y_expression :: string where
  "y_expression = escape_commas ''20 + (h-th-40)*mod(abs(sin((floor(t/5)+1)*78.233)*12345.6789),1)''"

definition video_filter :: "string \<Rightarrow> string \<Rightarrow> string" where
  "video_filter font textfile =
     ''drawtext=fontfile='' @ font @ '':textfile='' @ textfile @ '':expansion=strftime:x='' @ x_expression @ ''+10:y=''
       @ y_expression @ ''+10:fontsize=20:fontcolor=white@0.15:box=0'' @ '',''
     @ ''drawtext=fontfile='' @ font @ '':textfile='' @ textfile @ '':expansion=strftime:x='' @ x_expression @ '':y=''
       @ y_expression @ '':fontsize=20:fontcolor=white:box=1:boxcolor=black@0.35:boxborderw=8''"

definition segment_seconds :: "ctx \<Rightarrow> int" where
  "segment_seconds C = max 3 (hls_segment_seconds (cfg C))"

definition play_arguments :: "ctx \<Rightarrow> nat \<Rightarrow> string \<Rightarrow> string \<Rightarrow> string list" where
  "play_arguments C cpus input watermark_file =
     [''-hide_banner'', ''-loglevel'', ''error'', ''-y'', ''-i'', input, ''-vf'',
      video_filter (watermark_font (cfg C)) watermark_file, ''-c:v'', ''libx264'', ''-preset'', ''veryfast'', ''-profile:v'', ''main'',
      ''-level'', ''4.0'', ''-c:a'', ''aac'', ''-ac'', ''2'', ''-b:a'', ''128k'', ''-threads'', string_of_nat (max 1 (min cpus 4)),
      ''-start_number'', ''0'', ''-hls_time'', string_of_int (segment_seconds C),
      ''-hls_flags'', ''independent_segments+delete_segments+append_list'', ''-hls_list_size'', string_of_nat PLAYBACK_HLS_LIST_SIZE,
      ''-hls_delete_threshold'', ''2'', ''-hls_segment_filename'', ''segment_%06d.ts'', ''master.m3u8'']"

text \<open>
  What the request observes while it waits: per turn of the loop whether the playlist is there and
  what wakes it.  The task around ffmpeg writes its own outcome first.
\<close>

datatype wake = FfmpegOk bool | FfmpegFailed string | ChannelClosed | StartupTimeout | Slept

type_synonym answer = "nat \<times> json"

definition play_error :: "nat \<Rightarrow> string \<Rightarrow> answer" where
  "play_error st msg = (st, jerr msg)"

fun wait_playlist :: "ctx \<Rightarrow> string \<Rightarrow> string \<Rightarrow> (bool \<times> wake) list \<Rightarrow> db \<Rightarrow> (answer + unit) option \<times> file_op list \<times> db" where
  "wait_playlist C i dir [] d = (None, [], d)"
| "wait_playlist C i dir ((ready, w) # rest) d =
     (if ready then
        (case run_write C ''playback.ready'' (set_playback i ''ready'' None) d of
           (Inr _, d1) \<Rightarrow> (Some (Inr ()), [], d1)
         | (Inl e, d1) \<Rightarrow>
             (Some (Inl (play_error 500 (''mark playlist ready: '' @ e))), [RemoveDir dir],
              mark_session_failed C i (''mark playlist ready: '' @ e) d1))
      else
      (case w of
         FfmpegFailed msg \<Rightarrow>
           (Some (Inl (play_error 500 (''ffmpeg: '' @ msg))), [RemoveDir dir], mark_session_failed C i msg d)
       | FfmpegOk playlist \<Rightarrow>
           let d1 = snd (run_write C ''playback.completed'' (set_playback i ''completed'' None) d);
               msg = ''ffmpeg completed without creating a playlist'' in
           if playlist then wait_playlist C i dir rest d1
           else (Some (Inl (play_error 500 msg)), [RemoveDir dir], mark_session_failed C i msg d1)
       | ChannelClosed \<Rightarrow>
           (Some (Inl (play_error 500 ''ffmpeg status channel closed'')), [RemoveDir dir],
            mark_session_failed C i ''ffmpeg status channel closed'' d)
       | StartupTimeout \<Rightarrow>
           (Some (Inl (play_error 504 ''playlist was not generated within the startup timeout'')), [RemoveDir dir],
            mark_session_failed C i ''playlist startup timeout'' d)
       | Slept \<Rightarrow> wait_playlist C i dir rest d))"


section \<open>Requests\<close>

definition remote_hosted :: "string \<Rightarrow> db \<Rightarrow> remote_video option" where
  "remote_hosted vid d = find (\<lambda>v. rv_uri v = vid \<and> \<not> rv_deleted v) (remote_videos (fed d))"

definition hosted_elsewhere :: "remote_video \<Rightarrow> answer" where
  "hosted_elsewhere v = (422, JObj [(''ok'', JBool False),
     (''error'', JStr ''This video is hosted on a remote instance. Watch it on the origin server.''),
     (''watch_url'', JStr (rv_canonical v))])"

definition play_answer :: "ctx \<Rightarrow> string \<Rightarrow> video \<Rightarrow> answer" where
  "play_answer C i v = (200, jok [(''session'', JStr i), (''playlist'', JStr (''/hls/'' @ i @ ''/master.m3u8'')),
     (''video_id'', JStr (v_id v)), (''title'', JStr (v_title v)), (''price_cents'', JNum (v_price v)),
     (''segment_seconds'', JNum (segment_seconds C)), (''expires_in_seconds'', JNum PLAYBACK_SESSION_TTL_SECONDS)])"

text \<open>From the stored session to the answer: the source file, ffmpeg and the wait.\<close>

definition run_session ::
  "ctx \<Rightarrow> disk \<Rightarrow> string \<Rightarrow> string \<Rightarrow> video \<Rightarrow> (bool \<times> wake) list \<Rightarrow> db \<Rightarrow> answer option \<times> file_op list \<times> db" where
  "run_session C D i dir v waits d =
     (case resolve_input_path C D (v_filename v) of
        None \<Rightarrow> (Some (play_error 500 (''source not found: '' @ v_filename v)), [RemoveDir dir],
                 mark_session_failed C i ''source file not found'' d)
      | Some input \<Rightarrow>
          let call = Ffmpeg dir (play_arguments C (dk_cpus D) input (path_push dir ''wm.txt'')) in
          (case wait_playlist C i dir waits d of
             (None, ops, d1) \<Rightarrow> (None, call # ops, d1)
           | (Some (Inl a), ops, d1) \<Rightarrow> (Some a, call # ops, d1)
           | (Some (Inr _), ops, d1) \<Rightarrow> (Some (play_answer C i v), call # ops, d1)))"

definition open_session ::
  "ctx \<Rightarrow> disk \<Rightarrow> string \<Rightarrow> video \<Rightarrow> string \<Rightarrow> (bool \<times> wake) list \<Rightarrow> db \<Rightarrow> answer option \<times> file_op list \<times> db" where
  "open_session C D uid v username waits d0 =
     (let root = hls_root (cfg C); i = fresh_uuid C ''playback.session''; dir = path_push root i;
          wm = path_push dir ''wm.txt''; text = watermark_text username;
          (_, swept, d) = cleanup_expired_sessions C D root d0 in
      case dk_mkdir D root of
        Some e \<Rightarrow> (Some (play_error 500 (''hls root: '' @ e)), swept @ [Mkdir root], d)
      | None \<Rightarrow>
     (case dk_mkdir D dir of
        Some e \<Rightarrow> (Some (play_error 500 (''mkdir session: '' @ e)), swept @ [Mkdir root, Mkdir dir], d)
      | None \<Rightarrow>
     (case dk_write D wm text of
        Some e \<Rightarrow> (Some (play_error 500 (''write wm file: '' @ e)),
                   swept @ [Mkdir root, Mkdir dir, WriteFile wm text, RemoveDir dir], d)
      | None \<Rightarrow>
     let made = swept @ [Mkdir root, Mkdir dir, WriteFile wm text] in
     (case run_write C ''playback.insert'' (ins_playback \<lparr> pb_id = i, pb_user = uid, pb_video = v_id v, pb_dir = dir,
             pb_status = ''starting'', pb_error = None, pb_expires = plus_secs (now C) PLAYBACK_SESSION_TTL_SECONDS \<rparr>) d of
        (Inl e, d1) \<Rightarrow> (Some (play_error 500 (''create playback session: '' @ e)), made @ [RemoveDir dir], d1)
      | (Inr _, d1) \<Rightarrow> (case run_session C D i dir v waits d1 of (a, ops, d2) \<Rightarrow> (a, made @ ops, d2))))))"

text \<open>No answer: the observations end before the wait does.\<close>

definition request_play ::
  "ctx \<Rightarrow> disk \<Rightarrow> string \<Rightarrow> (bool \<times> wake) list \<Rightarrow> db \<Rightarrow> answer option \<times> file_op list \<times> db" where
  "request_play C D vid waits d0 =
     (case current_user_id C d0 of
        (None, d) \<Rightarrow> (Some (play_error 401 ''not logged in''), [], d)
      | (Some (uid, _), d) \<Rightarrow>
     (case run_read C ''play.remote'' (remote_hosted vid) d of
        Inr (Some v) \<Rightarrow> (Some (hosted_elsewhere v), [], d)
      | _ \<Rightarrow>
     if \<not> user_has_view_access C vid uid d then (Some (play_error 403 ''no access''), [], d)
     else
     (case run_read C ''play.video'' (find_video vid) d of
        Inl e \<Rightarrow> (Some (play_error 500 (''db error: '' @ e)), [], d)
      | Inr None \<Rightarrow> (Some (play_error 404 ''video not found''), [], d)
      | Inr (Some v) \<Rightarrow>
     (case fetch_one (run_read C ''play.user'' (\<lambda>d. map_option u_username (find_user uid d)) d) of
        Inl e \<Rightarrow> (Some (play_error 500 (''user lookup: '' @ e)), [], d)
      | Inr username \<Rightarrow> open_session C D uid v username waits d))))"

text \<open>A component-wise prefix of canonical paths.\<close>

definition path_under :: "string \<Rightarrow> string \<Rightarrow> bool" where
  "path_under root p \<longleftrightarrow> p = root \<or> root = ''/'' \<or> starts_with (root @ ''/'') p"

datatype hls_answer = Text nat string | File string file_type string

definition serve_hls :: "ctx \<Rightarrow> disk \<Rightarrow> string \<Rightarrow> string \<Rightarrow> db \<Rightarrow> hls_answer \<times> file_op list \<times> db" where
  "serve_hls C D session file d0 =
     (if \<not> is_safe_token session \<or> \<not> is_safe_file file then (Text 400 ''invalid path'', [], d0)
      else
      (case current_user_id C d0 of
         (None, d) \<Rightarrow> (Text 401 ''not logged in'', [], d)
       | (Some (uid, _), d) \<Rightarrow>
      (case run_read C ''hls.session'' (find_playback session) d of
         Inl _ \<Rightarrow> (Text 500 ''session lookup failed'', [], d)
       | Inr None \<Rightarrow> (Text 410 ''playback session expired'', [], d)
       | Inr (Some p) \<Rightarrow>
      if \<not> now C < pb_expires p
      then (Text 410 ''playback session expired'', [RemoveDir (pb_dir p)], snd (run_write C ''hls.delete'' (del_playback session) d))
      else if pb_user p \<noteq> uid then (Text 403 ''session does not belong to this user'', [], d)
      else if pb_status p = ''error'' then (Text 410 ''playback session failed'', [], d)
      else
      (case dk_canon D (hls_root (cfg C)) of
         None \<Rightarrow> (Text 500 ''hls root is unavailable'', [], d)
       | Some root \<Rightarrow>
      (case dk_canon D (pb_dir p) of
         None \<Rightarrow> (Text 410 ''playback session files are unavailable'', [], d)
       | Some dir \<Rightarrow>
      if \<not> path_under root dir then (Text 403 ''invalid playback session path'', [], d)
      else
      (case dk_open D (path_push dir file) of
         Opened content \<Rightarrow> (File (path_push dir file) (file_type file) content, [], d)
       | Missing \<Rightarrow> (Text 404 ''segment not found'', [], d)
       | Unreadable \<Rightarrow> (Text 500 ''segment read failed'', [], d)))))))"

end
