(* ===== verification/MediaProperties.thy ===== *)
theory MediaProperties
  imports Streaming FedDemo
begin

text \<open>
  The properties of the chat (who reads and writes a conversation, the atomicity of sending, one
  direct conversation per pair) and of playback (who gets a session, what a session delivers).
\<close>

section \<open>Chat\<close>

lemma current_actor_Inr:
  "current_actor C d0 = (Inr (uid, adm, name), d) \<Longrightarrow> current_user_id C d0 = (Some (uid, adm), d)"
  by (auto simp: current_actor_def split: option.splits sum.splits prod.splits)

lemma current_actor_Inl: "current_actor C d0 = (Inl err, d) \<Longrightarrow> \<not> answer_ok err"
  by (auto simp: current_actor_def split: option.splits sum.splits prod.splits)

lemma can_access_True:
  assumes "user_can_access_conversation C i uid adm d = Inr True"
  obtains c where "find_conversation i d = Some c" "conversation_open_to uid adm c"
  using assms by (auto simp: user_can_access_conversation_def run_read_def split: option.splits sum.splits)


text \<open>What a sent message changes: one row more, and the times of its conversation.\<close>

definition message_sent :: "string \<Rightarrow> string \<Rightarrow> string \<Rightarrow> db \<Rightarrow> db \<Rightarrow> bool" where
  "message_sent i uid body d d' \<longleftrightarrow> (\<exists>m. cm_conversation m = i \<and> cm_sender m = uid \<and> cm_body m = body
     \<and> d' = d\<lparr>media := (media d)\<lparr>messages := messages (media d) @ [m],
          conversations := upd_where (\<lambda>c. cv_id c = i) (\<lambda>c. c\<lparr>cv_updated := cm_created m, cv_last := cm_created m\<rparr>)
            (conversations (media d))\<rparr>\<rparr>)"

definition sent :: "chat_message \<Rightarrow> db \<Rightarrow> db" where
  "sent m d = d\<lparr>media := (media d)\<lparr>messages := messages (media d) @ [m],
     conversations := upd_where (\<lambda>c. cv_id c = cm_conversation m)
       (\<lambda>c. c\<lparr>cv_updated := cm_created m, cv_last := cm_created m\<rparr>) (conversations (media d))\<rparr>\<rparr>"

lemma sent_message: "message_sent (cm_conversation m) (cm_sender m) (cm_body m) d (sent m d)"
  unfolding message_sent_def sent_def by blast

lemma send_message_tx_post:
  assumes "answer_ok answer"
  shows "post (\<lambda>(r, d'). d' = d \<and> \<not> answer_ok r \<or> d' = sent m d) (send_message_tx C m answer d)"
  unfolding send_message_tx_def
proof (intro post_rules, goal_cases)
  case (5 v d2 v' d3)
  then have "d3 = sent m d"
    by (auto simp: ins_message_def touch_conversation_def set_media_def sent_def split: if_splits)
  then show ?case by (simp add: post_def tx_result_def)
next
  case (6 v d2 v' d3)
  then have "d3 = sent m d"
    by (auto simp: ins_message_def touch_conversation_def set_media_def sent_def split: if_splits)
  then show ?case by (simp add: post_def tx_result_def)
qed (simp_all add: post_def)

text \<open>A message of a party that passed the checks: it is sent, or nothing changes.\<close>

lemma checked_message:
  assumes "send_message C i p_body d = (r, d')" "current_actor C d = (Inr (uid, adm, name), d)"
    and "user_can_access_conversation C i uid adm d = Inr True" "trim p_body \<noteq> []" "char_count (trim p_body) \<le> 4000"
  shows "d' = d \<and> \<not> answer_ok r \<or> message_sent i uid (trim p_body) d d'"
proof -
  obtain m answer where m: "cm_conversation m = i" "cm_sender m = uid" "cm_body m = trim p_body" "answer_ok answer"
    and tx: "(r, d') = send_message_tx C m answer d"
  proof
    show "(r, d') = send_message_tx C \<lparr> cm_id = fresh_uuid C ''chat.message'', cm_conversation = i, cm_sender = uid,
         cm_body = trim p_body, cm_created = rfc3339 C (now C) \<rparr> (jok [(''message'', JObj [(''id'', JStr (fresh_uuid C ''chat.message'')),
         (''sender_user_id'', JStr uid), (''sender_username'', JStr name), (''sender_is_admin'', JBool adm),
         (''body'', JStr (trim p_body)), (''created_at'', JStr (rfc3339 C (now C))), (''is_self'', JBool True)])]) d"
      using assms by (simp add: send_message_def Let_def)
  qed simp_all
  have "d' = d \<and> \<not> answer_ok r \<or> d' = sent m d"
    using send_message_tx_post [OF m(4), where C = C and m = m and d = d] unfolding tx [symmetric] by (simp add: post_def)
  with sent_message [of m d] m(1,2,3) show ?thesis by auto
qed

text \<open>C40. A message is stored only for a participant of the conversation, trimmed, not empty and of at
  most 4000 characters; the row and the times of the conversation are stored together or not at all,
  whatever statement fails, and an answer of success means they are.\<close>

theorem send_message_atomic:
  assumes "send_message C i p_body d0 = (r, d')"
  shows "pruned d0 d' \<and> \<not> answer_ok r \<or>
    (\<exists>uid adm c. current_user_id C d0 = (Some (uid, adm), d0) \<and> find_conversation i d0 = Some c
       \<and> conversation_open_to uid adm c \<and> trim p_body \<noteq> [] \<and> char_count (trim p_body) \<le> 4000
       \<and> message_sent i uid (trim p_body) d0 d')"
proof -
  obtain a d where a: "current_actor C d0 = (a, d)" by fastforce
  show ?thesis
  proof (cases a)
    case (Inl err)
    have "pruned d0 d" using a current_user_pruned
      by (auto simp: current_actor_def split: option.splits sum.splits prod.splits)
    then show ?thesis using assms a Inl current_actor_Inl [of C d0 err d] by (simp add: send_message_def)
  next
    case (Inr v)
    obtain uid adm name where v: "v = (uid, adm, name)" by (cases v) auto
    from a have u: "current_user_id C d0 = (Some (uid, adm), d)" unfolding Inr v by (rule current_actor_Inr)
    have d: "d = d0" by (rule current_user_Some [OF u])
    show ?thesis
    proof (cases "user_can_access_conversation C i uid adm d0 = Inr True \<and> trim p_body \<noteq> [] \<and> char_count (trim p_body) \<le> 4000")
      case False
      then have "d' = d0 \<and> \<not> answer_ok r"
        using assms a Inr v d
        by (cases "user_can_access_conversation C i uid adm d0")
          (auto simp: send_message_def Let_def split: if_splits bool.splits)
      then show ?thesis by simp
    next
      case True
      have "d' = d0 \<and> \<not> answer_ok r \<or> message_sent i uid (trim p_body) d0 d'"
        by (rule checked_message [OF assms a [unfolded Inr v d]]) (use True in auto)
      with u d True show ?thesis by (auto elim!: can_access_True)
    qed
  qed
qed


text \<open>Two users have one direct conversation, whoever starts it: after one of them got a conversation
  with the other, the other's request for it gives the same one and changes nothing.\<close>

theorem direct_conversation_shared:
  assumes "direct_conversation C u v d = (r, d1)" "answer_ok r" "fault C' ''direct.existing'' = None"
  shows "direct_conversation C' v u d1 = (r, d1)"
proof -
  obtain a b where ab: "ordered_pair u v = (a, b)" by fastforce
  then have ba: "ordered_pair v u = (a, b)" by (auto simp: ordered_pair_def split: if_splits)
  have "\<exists>i. direct_of a b d1 = Some i \<and> r = jok [(''conversation_id'', JStr i)]"
  proof (cases "run_read C ''direct.existing'' (direct_of a b) d")
    case (Inr x)
    show ?thesis
    proof (cases x)
      case (Some i)
      then show ?thesis using assms(1) ab Inr by (auto simp: direct_conversation_def run_read_def split: option.splits)
    next
      case None
      then show ?thesis using assms(1,2) ab Inr
        by (auto simp: direct_conversation_def conversation_answer_def fetch_one_def run_read_def
            split: sum.splits option.splits prod.splits)
    qed
  next
    case (Inl e)
    then show ?thesis using assms(1,2) ab
      by (auto simp: direct_conversation_def conversation_answer_def fetch_one_def run_read_def
          split: sum.splits option.splits prod.splits)
  qed
  then show ?thesis using ba assms(3) by (auto simp: direct_conversation_def run_read_def)
qed


section \<open>Playback\<close>

text \<open>C34. A file is delivered only to the logged-in user of a stored playback session that has not expired
  and not failed; it is the file of that name directly in the session's directory, which lies under the
  HLS root after all links are followed, and the name has no separator and no dot-dot in it.\<close>

theorem hls_confined:
  assumes "serve_hls C D session file d0 = (File path kind content, ops, d)"
  shows "\<exists>uid adm p root dir. current_user_id C d0 = (Some (uid, adm), d) \<and> find_playback session d = Some p
    \<and> pb_user p = uid \<and> now C < pb_expires p \<and> pb_status p \<noteq> ''error''
    \<and> dk_canon D (hls_root (cfg C)) = Some root \<and> dk_canon D (pb_dir p) = Some dir \<and> path_under root dir
    \<and> path = path_push dir file \<and> CHR ''/'' \<notin> set file \<and> CHR 0x5C \<notin> set file \<and> find_str ''..'' file = None
    \<and> dk_open D path = Opened content \<and> d = d0 \<and> ops = []"
proof -
  have safe: "is_safe_token session" "is_safe_file file"
    using assms by (auto simp: serve_hls_def split: if_splits)
  obtain u d1 where u: "current_user_id C d0 = (u, d1)" by fastforce
  then obtain uid adm where v: "u = Some (uid, adm)"
    using assms safe by (cases u) (auto simp: serve_hls_def split: prod.splits)
  have d1: "d1 = d0" using current_user_Some u v by blast
  obtain p where p: "run_read C ''hls.session'' (find_playback session) d0 = Inr (Some p)"
    using assms safe u v d1 by (auto simp: serve_hls_def split: sum.splits option.splits)
  then have found: "find_playback session d0 = Some p" by (simp add: run_read_Inr)
  have live: "now C < pb_expires p" "pb_user p = uid" "pb_status p \<noteq> ''error''"
    using assms safe u v d1 p by (auto simp: serve_hls_def split: if_splits)
  obtain root dir where dirs: "dk_canon D (hls_root (cfg C)) = Some root" "dk_canon D (pb_dir p) = Some dir" "path_under root dir"
    using assms safe u v d1 p live by (auto simp: serve_hls_def split: if_splits option.splits)
  have "path = path_push dir file" "dk_open D (path_push dir file) = Opened content" "d = d0" "ops = []"
    using assms safe u v d1 p live dirs by (auto simp: serve_hls_def split: opened.splits)
  with safe(2) u v d1 found live dirs show ?thesis
    by (auto simp: is_safe_file_def)
qed

text \<open>The fields of a session that its progress does not change.\<close>

definition playback_keys :: "db \<Rightarrow> (string \<times> string \<times> string \<times> string \<times> instant) set" where
  "playback_keys d = (\<lambda>p. (pb_id p, pb_user p, pb_video p, pb_dir p, pb_expires p)) ` set (playbacks (media d))"

lemma keys_set: "playback_keys (snd (run_write C s (set_playback i st e) d)) = playback_keys d"
proof -
  let ?k = "\<lambda>p. (pb_id p, pb_user p, pb_video p, pb_dir p, pb_expires p)"
  have keys: "playback_keys d = set (map ?k (playbacks (media d)))" for d by (simp add: playback_keys_def)
  have "playback_keys d' = playback_keys d" if "set_playback i st e d = Inr (x, d')" for x d'
  proof -
    from that have "playbacks (media d') = upd_where (\<lambda>p. pb_id p = i) (\<lambda>p. p\<lparr>pb_status := st, pb_error := e\<rparr>) (playbacks (media d))"
      by (auto simp: set_playback_def set_media_def)
    moreover have "map ?k (upd_where (\<lambda>p. pb_id p = i) (\<lambda>p. p\<lparr>pb_status := st, pb_error := e\<rparr>) (playbacks (media d)))
        = map ?k (playbacks (media d))" by (rule map_upd_where) simp
    ultimately show ?thesis by (simp only: keys)
  qed
  then show ?thesis using run_write_cases(1) [of C s "set_playback i st e" d] by (metis prod.collapse)
qed

lemma keys_failed: "playback_keys (mark_session_failed C i msg d) = playback_keys d"
  unfolding mark_session_failed_def by (rule keys_set)

lemma keys_del: "playback_keys (snd (run_write C s (del_playback i) d)) \<subseteq> playback_keys d"
  using run_write_cases(1) [of C s "del_playback i" d]
  by (cases "run_write C s (del_playback i) d") (auto simp: del_playback_def playback_keys_def set_media_def)

lemma keys_wait: "wait_playlist C i dir ws d = (a, ops, d') \<Longrightarrow> playback_keys d' = playback_keys d"
proof (induction C i dir ws d arbitrary: a ops d' rule: wait_playlist.induct)
  case (2 C i dir ready w rest d)
  obtain r1 d1 where w1: "run_write C ''playback.ready'' (set_playback i ''ready'' None) d = (r1, d1)" by fastforce
  obtain r2 d2 where w2: "run_write C ''playback.completed'' (set_playback i ''completed'' None) d = (r2, d2)" by fastforce
  have k: "playback_keys d1 = playback_keys d" "playback_keys d2 = playback_keys d"
    using keys_set [of C "''playback.ready''" i "''ready''" None d] keys_set [of C "''playback.completed''" i "''completed''" None d]
    by (simp_all add: w1 w2)
  show ?case
  proof (cases ready)
    case True
    then show ?thesis using 2(3) w1 k by (auto simp: keys_failed split: sum.splits)
  next
    case False
    show ?thesis
    proof (cases w)
      case (FfmpegOk pl)
      show ?thesis
      proof (cases pl)
        case True
        have r: "wait_playlist C i dir rest d2 = (a, ops, d')" using 2(3) False FfmpegOk True w2 by simp
        have "playback_keys d' = playback_keys (snd (run_write C ''playback.completed'' (set_playback i ''completed'' None) d))"
          by (rule 2(1) [OF False FfmpegOk refl refl True]) (simp add: w2 r)
        then show ?thesis using w2 k by simp
      qed (use 2(3) False FfmpegOk w2 k in \<open>auto simp: keys_failed Let_def\<close>)
    next
      case Slept
      show ?thesis by (rule 2(2) [OF False Slept]) (use 2(3) False Slept in simp)
    qed (use 2(3) False in \<open>auto simp: keys_failed\<close>)
  qed
qed auto

lemma keys_expired: "remove_expired C D root n ps d = (r, ops, d') \<Longrightarrow> playback_keys d' \<subseteq> playback_keys d"
proof (induction C D root n ps d arbitrary: r ops d' rule: remove_expired.induct)
  case (2 C D root n p ps d)
  obtain r1 d1 where w: "run_write C (''cleanup.delete.'' @ pb_id p) (del_playback (pb_id p)) d = (r1, d1)" by fastforce
  have k: "playback_keys d1 \<subseteq> playback_keys d" using keys_del [of C _ "pb_id p" d] by (metis w snd_conv)
  from 2(4) show ?case
    using w k 2(1-3) by (fastforce split: removal.splits prod.splits sum.splits)
qed auto


lemma keys_run:
  "run_session C D i dir v ws d = (a, ops, d') \<Longrightarrow> playback_keys d' = playback_keys d"
  unfolding run_session_def
  by (auto simp: keys_failed Let_def keys_wait split: option.splits prod.splits sum.splits)

lemma keys_open:
  assumes "open_session C D uid v name ws d = (a, ops, d')"
  shows "playback_keys d' \<subseteq> insert (fresh_uuid C ''playback.session'', uid, v_id v,
    path_push (hls_root (cfg C)) (fresh_uuid C ''playback.session''), plus_secs (now C) PLAYBACK_SESSION_TTL_SECONDS)
      (playback_keys d)"
proof -
  let ?i = "fresh_uuid C ''playback.session''" let ?root = "hls_root (cfg C)"
  let ?row = "\<lparr> pb_id = ?i, pb_user = uid, pb_video = v_id v, pb_dir = path_push ?root ?i,
             pb_status = ''starting'', pb_error = None, pb_expires = plus_secs (now C) PLAYBACK_SESSION_TTL_SECONDS \<rparr>"
  obtain r0 swept d1 where c: "cleanup_expired_sessions C D ?root d = (r0, swept, d1)" by (metis prod_cases3)
  then have k1: "playback_keys d1 \<subseteq> playback_keys d"
    using keys_expired by (auto simp: cleanup_expired_sessions_def split: sum.splits)
  obtain r2 d2 where w: "run_write C ''playback.insert'' (ins_playback ?row) d1 = (r2, d2)" by fastforce
  have k2: "playback_keys d2 \<subseteq> insert (?i, uid, v_id v, path_push ?root ?i, plus_secs (now C) PLAYBACK_SESSION_TTL_SECONDS) (playback_keys d1)"
    using run_write_cases(1) [OF w] by (auto simp: ins_playback_def playback_keys_def set_media_def split: if_splits)
  obtain a3 ops3 d3 where s: "run_session C D ?i (path_push ?root ?i) v ws d2 = (a3, ops3, d3)" by (metis prod_cases3)
  have "d' = d1 \<or> d' = d2 \<or> d' = d3"
    using assms c w s by (auto simp: open_session_def Let_def split: option.splits sum.splits)
  with k1 k2 keys_run [OF s] show ?thesis by auto
qed

text \<open>C35. A playback session that was not there before a play request belongs to the logged-in user, is for the
  requested video, ends an hour later, and was opened only because the user may view the video and the
  video is not hosted elsewhere, whatever ffmpeg, the file system and the statements do.\<close>

theorem play_needs_access:
  assumes "request_play C D vid waits d0 = (a, ops, d')" "p \<in> set (playbacks (media d'))"
    and "pb_id p \<notin> pb_id ` set (playbacks (media d0))"
  shows "\<exists>uid adm. current_user_id C d0 = (Some (uid, adm), d0) \<and> pb_user p = uid \<and> pb_video p = vid
    \<and> pb_expires p = plus_secs (now C) 3600 \<and> user_has_view_access C vid uid d0
    \<and> (fault C ''play.remote'' = None \<longrightarrow> remote_hosted vid d0 = None)"
proof -
  obtain u d1 where u: "current_user_id C d0 = (u, d1)" by fastforce
  have m1: "media d1 = media d0" using current_user_pruned [OF u] by (auto simp: pruned_def)
  have changed: "media d' \<noteq> media d0" using assms(2,3) by auto
  obtain uid adm where v: "u = Some (uid, adm)"
    using assms(1) u m1 changed by (cases u) (auto simp: request_play_def)
  have d1: "d1 = d0" using current_user_Some u v by blast
  have remote: "\<not> (\<exists>x. run_read C ''play.remote'' (remote_hosted vid) d0 = Inr (Some x))"
    using assms(1) u v d1 changed by (auto simp: request_play_def)
  then have acc: "user_has_view_access C vid uid d0"
    using assms(1) u v d1 changed by (auto simp: request_play_def split: sum.splits option.splits if_splits)
  obtain x where x: "find_video vid d0 = Some x"
    using assms(1) u v d1 changed remote acc
    by (auto simp: request_play_def run_read_def split: sum.splits option.splits)
  obtain name where "open_session C D uid x name waits d0 = (a, ops, d')"
    using assms(1) u v d1 changed remote acc x
    by (auto simp: request_play_def run_read_def fetch_one_def split: sum.splits option.splits)
  from keys_open [OF this] assms(2,3) find_video_id [OF x]
  have "pb_user p = uid \<and> pb_video p = vid \<and> pb_expires p = plus_secs (now C) 3600"
    by (force simp: playback_keys_def PLAYBACK_SESSION_TTL_SECONDS_def)
  with u v d1 acc remote show ?thesis by (auto simp: run_read_def split: option.splits)
qed

definition put_playback :: "string \<Rightarrow> string \<Rightarrow> string option \<Rightarrow> db \<Rightarrow> db" where
  "put_playback i st e d = set_media (\<lambda>m. m\<lparr>playbacks := upd_where (\<lambda>p. pb_id p = i)
     (\<lambda>p. p\<lparr>pb_status := st, pb_error := e\<rparr>) (playbacks m)\<rparr>) d"

lemma set_playback_put: "set_playback i st e d = Inr ((), put_playback i st e d)"
  by (simp add: set_playback_def put_playback_def)

lemma find_put_playback:
  "find_playback i d = Some p \<Longrightarrow> find_playback i (put_playback i st e d) = Some (p\<lparr>pb_status := st, pb_error := e\<rparr>)"
  using find_in [of "\<lambda>p. pb_id p = i" "playbacks (media d)" p]
  by (simp add: find_playback_def put_playback_def set_media_def find_upd_where)

text \<open>While no statement fails, the start of a playback ends in one of three ways.  The playlist is
  there, and the session is ready.  Or the answer is an error, and the session is marked failed and its
  directory removed.  Or nothing decisive has been observed yet; a run of ffmpeg that failed or ended
  without a playlist, a lost channel and the timeout are all decisive.\<close>

theorem playback_start_outcome:
  assumes "fault C = (\<lambda>_. None)" "find_playback i d = Some p" "wait_playlist C i dir waits d = (out, ops, d')"
  shows "case out of
      None \<Rightarrow> ops = [] \<and> (\<forall>(ready, w)\<in>set waits. \<not> ready \<and> w \<in> {Slept, FfmpegOk True})
    | Some (Inr _) \<Rightarrow> ops = [] \<and> find_playback i d' = Some (p\<lparr>pb_status := ''ready'', pb_error := None\<rparr>)
    | Some (Inl a) \<Rightarrow> fst a \<in> {500, 504} \<and> ops = [RemoveDir dir]
        \<and> (\<exists>msg. find_playback i d' = Some (p\<lparr>pb_status := ''error'', pb_error := Some msg\<rparr>))"
  using assms(2,3)
proof (induction waits arbitrary: d p)
  case (Cons x waits)
  have wr: "run_write C s (set_playback i st e) d = (Inr (), put_playback i st e d)" for s st e d
    using assms(1) by (simp add: run_write_def set_playback_put)
  note found = find_put_playback [of i]
  obtain ready w where x: "x = (ready, w)" by (cases x) auto
  note facts = wr mark_session_failed_def found [OF Cons.prems(1)] play_error_def
  show ?case
  proof (cases ready)
    case True
    then show ?thesis using Cons.prems(2) by (auto simp: x facts)
  next
    case False
    show ?thesis
    proof (cases w)
      case Slept
      then show ?thesis using Cons.IH [OF Cons.prems(1)] Cons.prems(2) False
        by (auto simp: x split: option.splits sum.splits)
    next
      case (FfmpegOk b)
      show ?thesis
      proof (cases b)
        case True
        then show ?thesis using Cons.IH [OF found [OF Cons.prems(1)]] Cons.prems(2) False FfmpegOk
          by (fastforce simp: x wr split: option.splits sum.splits)
      next
        case bad: False
        then show ?thesis using Cons.prems(2) False FfmpegOk found [OF found [OF Cons.prems(1)]]
          by (auto simp: x facts Let_def)
      qed
    qed (use Cons.prems(2) False in \<open>auto simp: x facts\<close>)
  qed
qed auto



section \<open>Witnesses\<close>

definition demo_chat :: db where
  "demo_chat = demo_db\<lparr>media := empty_media\<lparr>conversations := [\<lparr> cv_id = ''c1'', cv_type = ''direct'', cv_user_a = Some ''u1'',
     cv_user_b = Some ''u2'', cv_support = None, cv_created_by = Some ''u1'', cv_created = ''1'', cv_updated = ''1'', cv_last = ''1'' \<rparr>],
     messages := [\<lparr> cm_id = ''m1'', cm_conversation = ''c1'', cm_sender = ''u2'', cm_body = ''hi'', cm_created = ''2'' \<rparr>]\<rparr>\<rparr>"

lemmas chat_eval = demo_chat_def list_messages_def send_message_def current_actor_def user_can_access_conversation_def
  find_conversation_def conversation_open_to_def conversation_messages_def message_json_def username_or_def char_count_def
  send_message_tx_def ins_message_def touch_conversation_def set_media_def direct_conversation_def ordered_pair_def
  direct_of_def ins_conversation_def conversation_answer_def fetch_one_def


theorem send_message_atomic_witness:
  "message_sent ''c1'' ''u1'' ''yo'' demo_chat (snd (send_message alice ''c1'' '' yo '' demo_chat))"
proof -
  have t: "trim '' yo '' = ''yo''" by code_simp
  have "answer_ok (fst (send_message alice ''c1'' '' yo '' demo_chat))"
    "fst (current_user_id alice demo_chat) = Some (''u1'', False)"
    by (simp_all add: demo_eval [unfolded trim_def] chat_eval t)
  then show ?thesis using send_message_atomic [OF prod.collapse [symmetric], where C = alice and i = "''c1''" and p_body = "'' yo ''" and ?d0.0 = demo_chat] t by auto
qed

theorem direct_conversation_shared_witness:
  "fst (direct_conversation demo_ctx ''u3'' ''u1'' (snd (direct_conversation demo_ctx ''u1'' ''u3'' demo_chat)))
   = fst (direct_conversation demo_ctx ''u1'' ''u3'' demo_chat)"
proof -
  have "answer_ok (fst (direct_conversation demo_ctx ''u1'' ''u3'' demo_chat))" "fault demo_ctx ''direct.existing'' = None"
    by (simp_all add: demo_eval chat_eval conversation_clash_def known_user_def direct_row_def)
  from direct_conversation_shared [OF prod.collapse [symmetric] this] show ?thesis by simp
qed

definition demo_disk :: disk where
  "demo_disk = \<lparr> dk_mkdir = (\<lambda>_. None), dk_write = (\<lambda>_ _. None), dk_exists = (\<lambda>_. True), dk_remove = (\<lambda>_. Removed),
     dk_canon = Some, dk_open = (\<lambda>_. Opened ''data''), dk_cpus = 2 \<rparr>"

definition demo_playback :: playback where
  "demo_playback = \<lparr> pb_id = ''pb'', pb_user = ''u1'', pb_video = ''v1'', pb_dir = ''hls/pb'', pb_status = ''starting'',
     pb_error = None, pb_expires = Instant 9000 \<rparr>"

definition demo_stream :: db where
  "demo_stream = demo_db\<lparr>media := empty_media\<lparr>playbacks := [demo_playback]\<rparr>\<rparr>"

lemmas stream_eval = demo_disk_def demo_playback_def demo_stream_def serve_hls_def is_safe_token_def is_safe_file_def ends_with_def
  find_playback_def path_under_def path_push_def file_type_def ascii_alnum_def

theorem hls_confined_witness:
  "path_under ''hls'' ''hls/pb'' \<and> pb_user demo_playback = ''u1''"
proof -
  have "serve_hls alice demo_disk ''pb'' ''a.ts'' demo_stream = (File ''hls/pb/a.ts'' TS ''data'', [], demo_stream)"
    by (simp add: demo_eval stream_eval)
  from hls_confined [OF this] show ?thesis by (auto simp: demo_eval stream_eval)
qed

theorem playback_start_outcome_witness:
  "find_playback ''pb'' (snd (snd (wait_playlist demo_ctx ''pb'' ''hls/pb'' [(False, Slept), (False, StartupTimeout)] demo_stream)))
     = Some (demo_playback\<lparr>pb_status := ''error'', pb_error := Some ''playlist startup timeout''\<rparr>)"
proof -
  have "fault demo_ctx = (\<lambda>_. None)" "find_playback ''pb'' demo_stream = Some demo_playback"
    by (simp_all add: demo_ctx_def stream_eval)
  from playback_start_outcome [OF this, of "''hls/pb''" "[(False, Slept), (False, StartupTimeout)]"]
  show ?thesis by (simp add: demo_eval stream_eval mark_session_failed_def set_playback_def set_media_def)
qed

theorem play_needs_access_witness:
  "user_has_view_access bob ''v1'' ''u2'' demo_stream"
proof -
  let ?r = "request_play bob demo_disk ''v1'' [(True, Slept)] demo_stream"
  have "\<exists>p\<in>set (playbacks (media (snd (snd ?r)))). pb_id p \<notin> pb_id ` set (playbacks (media demo_stream)) \<and> pb_user p = ''u2''"
    by (simp add: demo_eval stream_eval request_play_def remote_hosted_def user_has_view_access_def is_video_owner_def
        fetch_one_def open_session_def cleanup_expired_sessions_def expired_playbacks_def ins_playback_def set_media_def
        run_session_def resolve_input_path_def set_playback_def PLAYBACK_SESSION_TTL_SECONDS_def)
  then obtain p where p: "p \<in> set (playbacks (media (snd (snd ?r))))"
    "pb_id p \<notin> pb_id ` set (playbacks (media demo_stream))" "pb_user p = ''u2''" by blast
  have "?r = (fst ?r, fst (snd ?r), snd (snd ?r))" by simp
  from play_needs_access [OF this p(1,2)] p(3) show ?thesis by auto
qed

end
