(* ===== verification/Mail.thy ===== *)
theory Mail
  imports Chat
begin

text \<open>
  \<open>src/src/email.rs\<close>: the SMTP settings, the templates and the sending of a mail; the mail library is
  the record \<open>mailer\<close>.
\<close>

record mail =
  ml_from :: string
  ml_to :: string
  ml_subject :: string
  ml_html :: string

record mailer =
  mx_mailbox :: "string \<Rightarrow> string + unit"
  mx_build :: "mail \<Rightarrow> string + unit"
  mx_relay :: "bool \<Rightarrow> string \<Rightarrow> string + unit"
  mx_send :: "smtp_row \<Rightarrow> mail \<Rightarrow> string + unit"

definition default_smtp :: smtp_row where
  "default_smtp = \<lparr> sm_host = [], sm_port = 0, sm_username = [], sm_password = [], sm_from_email = [],
     sm_from_name = [], sm_use_tls = False, sm_enabled = False \<rparr>"

text \<open>\<open>port as u16\<close>.\<close>

definition load_smtp :: "ctx \<Rightarrow> db \<Rightarrow> smtp_row" where
  "load_smtp C d =
     (case run_read C ''smtp.load'' (\<lambda>d. smtp (media d)) d of
        Inr (Some r) \<Rightarrow> r\<lparr>sm_port := sm_port r mod 2 ^ 16\<rparr>
      | _ \<Rightarrow> default_smtp)"

definition is_ready :: "smtp_row \<Rightarrow> bool" where
  "is_ready s \<longleftrightarrow> sm_enabled s \<and> sm_host s \<noteq> [] \<and> sm_from_email s \<noteq> []"

definition mailbox_text :: "string \<Rightarrow> string \<Rightarrow> string" where
  "mailbox_text name addr = name @ '' <'' @ addr @ ''>''"

text \<open>The result and the mail handed to the server, if any.\<close>

definition send_mail :: "mailer \<Rightarrow> smtp_row \<Rightarrow> string \<Rightarrow> string \<Rightarrow> string \<Rightarrow> string \<Rightarrow> (string + unit) \<times> mail option" where
  "send_mail X s to_email to_name subject html =
     (if \<not> is_ready s then (Inr (), None)
      else
      let from_box = mailbox_text (sm_from_name s) (sm_from_email s);
          to_box = (if to_name = [] then to_email else mailbox_text to_name to_email);
          m = \<lparr> ml_from = from_box, ml_to = to_box, ml_subject = subject, ml_html = html \<rparr> in
      (case mx_mailbox X from_box of
         Inl e \<Rightarrow> (Inl (''invalid from address: '' @ e), None)
       | Inr _ \<Rightarrow>
      (case mx_mailbox X to_box of
         Inl e \<Rightarrow> (Inl (''invalid to address: '' @ e), None)
       | Inr _ \<Rightarrow>
      (case mx_build X m of
         Inl e \<Rightarrow> (Inl (''build email: '' @ e), None)
       | Inr _ \<Rightarrow>
      (case mx_relay X (sm_use_tls s) (sm_host s) of
         Inl e \<Rightarrow> (Inl ((if sm_use_tls s then ''smtp relay: '' else ''smtp starttls: '') @ e), None)
       | Inr _ \<Rightarrow>
      (case mx_send X s m of
         Inl e \<Rightarrow> (Inl (''smtp send: '' @ e), Some m)
       | Inr _ \<Rightarrow> (Inr (), Some m)))))))"

definition env_template :: "ctx \<Rightarrow> string \<Rightarrow> string \<Rightarrow> string" where
  "env_template C key dflt = (case env_var C key of None \<Rightarrow> dflt | Some v \<Rightarrow> v)"

text \<open>\<open>str::replace\<close> of a non-empty pattern, left to right.\<close>

function replace_all :: "string \<Rightarrow> string \<Rightarrow> string \<Rightarrow> string" where
  "replace_all p r s =
     (if p = [] then s
      else (case s of
          [] \<Rightarrow> []
        | c # cs \<Rightarrow>
            (case strip_prefix p s of
               Some rest \<Rightarrow> r @ replace_all p r rest
             | None \<Rightarrow> c # replace_all p r cs)))"
  by auto
termination
proof (relation "measure (\<lambda>(p, r, s). length s)", simp_all)
  fix p c cs and rest :: string
  assume "strip_prefix p (c # cs) = Some rest" "p \<noteq> []"
  then have "c # cs = p @ rest" by (simp add: strip_prefix_Some)
  then have "length (c # cs) = length p + length rest" by simp
  with \<open>p \<noteq> []\<close> show "length rest < Suc (length cs)" by (cases p) auto
qed

declare replace_all.simps [simp del]

definition render_template :: "string \<Rightarrow> (string \<times> string) list \<Rightarrow> string" where
  "render_template template values =
     foldl (\<lambda>acc (key, v). replace_all (''{{'' @ key @ ''}}'') v acc) template values"

text \<open>The default bodies, their double quotes written as backquotes.\<close>

definition dq :: "string \<Rightarrow> string" where
  "dq s = map (\<lambda>c. if c = CHR 0x60 then CHR 0x22 else c) s"

definition reset_html :: string where
  "reset_html = join [CHR 0x0A] [[],
     ''<p>You are receiving this email because a password reset was requested for your PPV Stream account.</p>'',
     dq ''<p><a href=`{{reset_url}}` style=`background:#dc3545;color:#fff;padding:10px 20px;text-decoration:none;border-radius:5px;display:inline-block;`>Reset Password</a></p>'',
     ''<p>This link is valid for 2 hours. If you did not request this, you can safely ignore this email.</p>'',
     ''<p>You can also copy and paste this link into your browser:<br><code>{{reset_url}}</code></p>'', []]"

definition changed_html :: string where
  "changed_html = join [CHR 0x0A] [[],
     ''<p>Hello <b>{{username}}</b>,</p>'', ''<p>Your PPV Stream account password was changed successfully.</p>'',
     ''<p>If you did not make this change, please contact the administrator immediately or use the forgot-password feature to secure your account.</p>'',
     ''<p>This is an automated email. Please do not reply.</p>'', []]"

text \<open>Both drop the result of the sending.\<close>

definition send_reset :: "ctx \<Rightarrow> mailer \<Rightarrow> string \<Rightarrow> string \<Rightarrow> string \<Rightarrow> db \<Rightarrow> mail option" where
  "send_reset C X to_email token base d =
     snd (send_mail X (load_smtp C d) to_email [] (env_template C ''EMAIL_RESET_PASSWORD_SUBJECT'' ''Reset your PPV Stream password'')
       (render_template (env_template C ''EMAIL_RESET_PASSWORD_HTML'' reset_html)
          [(''reset_url'', base @ ''/public/auth/reset_password.html?token='' @ token)]))"

definition send_password_changed :: "ctx \<Rightarrow> mailer \<Rightarrow> string \<Rightarrow> string \<Rightarrow> db \<Rightarrow> mail option" where
  "send_password_changed C X to_email username d =
     snd (send_mail X (load_smtp C d) to_email username
       (env_template C ''EMAIL_PASSWORD_CHANGED_SUBJECT'' ''Your PPV Stream password was changed'')
       (render_template (env_template C ''EMAIL_PASSWORD_CHANGED_HTML'' changed_html) [(''username'', username)]))"

definition send_test :: "ctx \<Rightarrow> mailer \<Rightarrow> smtp_row \<Rightarrow> string \<Rightarrow> (string + unit) \<times> mail option" where
  "send_test C X s to_email =
     send_mail X s to_email ''Admin'' (env_template C ''EMAIL_TEST_SUBJECT'' ''PPV Stream test email'')
       (env_template C ''EMAIL_TEST_HTML''
          ''<p>This is a test email from <b>PPV Stream</b>. Your SMTP configuration is working successfully.</p>'')"

end
