(* ===== verification/Auth.thy ===== *)
theory Auth
  imports Mail X402
begin

text \<open>
  Registration, login, password reset and change (\<open>src/src/handlers/auth_user.rs\<close>,
  \<open>auth_admin.rs\<close>), the first administrator (\<open>setup.rs\<close>), profiles (\<open>users.rs\<close>, \<open>me.rs\<close>) and
  \<open>src/src/validators.rs\<close>.  Argon2 is the record \<open>argon\<close>; its salt is inside \<open>ar_hash\<close>.
\<close>

record argon =
  ar_hash :: "string \<Rightarrow> string option"
  ar_parses :: "string \<Rightarrow> bool"
  ar_verify :: "string \<Rightarrow> string \<Rightarrow> bool"

section \<open>Validators\<close>

text \<open>The regular expression \<open>^[^@\\s]+@[^@\\s]+\\.[^@\\s]+$\<close>.\<close>

definition inner_dot :: "string \<Rightarrow> bool" where
  "inner_dot s \<longleftrightarrow> (\<exists>i\<in>set [1..<length s - 1]. s ! i = CHR ''.'')"

definition valid_email :: "string \<Rightarrow> bool" where
  "valid_email s \<longleftrightarrow> \<not> has_space s \<and>
     (case split_once (CHR ''@'') s of
        None \<Rightarrow> False
      | Some (a, b) \<Rightarrow> a \<noteq> [] \<and> CHR ''@'' \<notin> set b \<and> inner_dot b)"

definition valid_password :: "string \<Rightarrow> bool" where
  "valid_password s \<longleftrightarrow> 8 \<le> length s"


section \<open>Users\<close>

definition find_email :: "string \<Rightarrow> db \<Rightarrow> user option" where
  "find_email e d = find (\<lambda>u. u_email u = e) (users d)"

definition ins_user :: "user \<Rightarrow> unit stmt" where
  "ins_user u d =
     (if user_exists (u_id u) d then Inl ''users_pkey''
      else if find_email (u_email u) d \<noteq> None then Inl ''users_email_key''
      else if find_username (u_username u) d \<noteq> None then Inl ''users_username_unique''
      else Inr ((), d\<lparr>users := users d @ [u]\<rparr>))"

definition new_user :: "string \<Rightarrow> string \<Rightarrow> string \<Rightarrow> string \<Rightarrow> int \<Rightarrow> string \<Rightarrow> user" where
  "new_user i name email hash adm created =
     \<lparr> u_id = i, u_username = name, u_email = email, u_pwhash = Some hash, u_is_admin = adm, u_created = created,
       u_bank = None, u_wallet = None, u_whatsapp = None, u_profile = [], u_balance = 0, u_chain = None,
       u_actor = None, u_federated = True, u_discoverable = True \<rparr>"

definition set_password :: "string \<Rightarrow> string \<Rightarrow> unit stmt" where
  "set_password uid hash d =
     Inr ((), d\<lparr>users := upd_where (\<lambda>u. u_id u = uid) (\<lambda>u. u\<lparr>u_pwhash := Some hash\<rparr>) (users d)\<rparr>)"


section \<open>Registration and login\<close>

text \<open>The handlers answer with a redirection: its target.\<close>

definition register_fail :: "string \<Rightarrow> string" where
  "register_fail reason = ''/public/auth/register.html?status=fail&reason='' @ reason"

definition login_fail :: "string \<Rightarrow> string" where
  "login_fail reason = ''/public/auth/login.html?status=fail&reason='' @ reason"

text \<open>The check for a taken address asks for the \<open>INTEGER\<close> 1 of \<open>SELECT 1\<close> as an \<open>i64\<close>.\<close>

definition post_register :: "ctx \<Rightarrow> argon \<Rightarrow> string \<Rightarrow> string \<Rightarrow> string \<Rightarrow> db \<Rightarrow> string \<times> db" where
  "post_register C A username email password d =
     (if trim username = [] \<or> trim email = [] \<or> trim password = [] then (register_fail ''missing_field'', d)
      else if \<not> valid_email email then (register_fail ''invalid_email'', d)
      else if \<not> valid_password password then (register_fail ''weak_password'', d)
      else if (case run_read C ''register.email'' (find_email (ascii_lower email)) d of
          Inr (Some _) \<Rightarrow> int4_i64 C 1 \<noteq> None | _ \<Rightarrow> False)
      then (register_fail ''email_taken'', d)
      else
      (case ar_hash A password of
         None \<Rightarrow> (register_fail ''server_error'', d)
       | Some hash \<Rightarrow>
           (case run_write C ''register.insert'' (ins_user (new_user (fresh_uuid C ''register.user'') (trim username)
                   (ascii_lower email) hash 0 (rfc3339 C (now C)))) d of
              (Inl _, d') \<Rightarrow> (register_fail ''server_error'', d')
            | (Inr _, d') \<Rightarrow> (''/public/auth/login.html?status=ok'', d'))))"

text \<open>From the row of the user on; \<open>fail\<close> makes the redirection and \<open>dash\<close> is the page after a login.\<close>

definition login_user ::
  "ctx \<Rightarrow> argon \<Rightarrow> bool \<Rightarrow> (string \<Rightarrow> string) \<Rightarrow> string \<Rightarrow> user \<Rightarrow> string \<Rightarrow> db \<Rightarrow> string \<times> set_cookie option \<times> db" where
  "login_user C A adm fail dash u password d =
     (case u_pwhash u of
        None \<Rightarrow> (fail ''bad_credentials'', None, d)
      | Some hash \<Rightarrow>
          if \<not> ar_parses A hash then (fail ''server_error'', None, d)
          else if \<not> ar_verify A password hash then (fail ''bad_credentials'', None, d)
          else
          (case create_session C (u_id u) adm d of
             (Inl _, d') \<Rightarrow> (fail ''server_error'', None, d')
           | (Inr ck, d') \<Rightarrow> (dash, Some ck, d')))"

definition post_login :: "ctx \<Rightarrow> argon \<Rightarrow> string \<Rightarrow> string \<Rightarrow> db \<Rightarrow> string \<times> set_cookie option \<times> db" where
  "post_login C A email password d =
     (if trim email = [] \<or> trim password = [] then (login_fail ''missing_field'', None, d)
      else if \<not> valid_email email then (login_fail ''invalid_email'', None, d)
      else
      (case run_read C ''login.user'' (find_email (ascii_lower email)) d of
         Inl _ \<Rightarrow> (login_fail ''server_error'', None, d)
       | Inr None \<Rightarrow> (login_fail ''bad_credentials'', None, d)
       | Inr (Some u) \<Rightarrow> login_user C A False login_fail ''/public/dashboard.html?status=ok'' u password d))"

text \<open>The middle result: whether the cookie is removed.\<close>

definition post_logout :: "ctx \<Rightarrow> db \<Rightarrow> string \<times> bool \<times> db" where
  "post_logout C d = (''/public/auth/login.html?status=ok'', destroy_session C d)"

definition admin_login_fail :: "string \<Rightarrow> string" where
  "admin_login_fail reason = ''/public/admin/login.html?status=fail&reason='' @ reason"

definition post_admin_login :: "ctx \<Rightarrow> argon \<Rightarrow> string \<Rightarrow> string \<Rightarrow> db \<Rightarrow> string \<times> set_cookie option \<times> db" where
  "post_admin_login C A email password d =
     (if trim email = [] \<or> trim password = [] then (admin_login_fail ''missing_field'', None, d)
      else
      (case run_read C ''login.admin'' (find_email (ascii_lower email)) d of
         Inl _ \<Rightarrow> (admin_login_fail ''server_error'', None, d)
       | Inr None \<Rightarrow> (admin_login_fail ''bad_credentials'', None, d)
       | Inr (Some u) \<Rightarrow>
           if u_is_admin u = 0 then (admin_login_fail ''not_admin'', None, d)
           else login_user C A True admin_login_fail ''/public/admin/dashboard.html?status=ok'' u password d))"

definition post_admin_logout :: "ctx \<Rightarrow> db \<Rightarrow> string \<times> bool \<times> db" where
  "post_admin_logout C d = (''/public/admin/login.html?status=ok'', destroy_session C d)"


section \<open>Password reset\<close>

definition ins_reset :: "reset_row \<Rightarrow> unit stmt" where
  "ins_reset r d =
     (if \<not> user_exists (pr_user r) d then Inl ''password_resets_user_id_fkey''
      else if \<exists>x\<in>set (resets (media d)). pr_token x = pr_token r then Inl ''password_resets_token_key''
      else Inr ((), set_media (\<lambda>m. m\<lparr>resets := resets m @ [r]\<rparr>) d))"

definition find_reset :: "string \<Rightarrow> db \<Rightarrow> reset_row option" where
  "find_reset token d = find (\<lambda>r. pr_token r = token) (resets (media d))"

definition use_reset :: "string \<Rightarrow> unit stmt" where
  "use_reset token d = Inr ((), set_media (\<lambda>m. m\<lparr>resets := upd_where (\<lambda>r. pr_token r = token)
     (\<lambda>r. r\<lparr>pr_used := 1\<rparr>) (resets m)\<rparr>) d)"

definition post_forgot :: "ctx \<Rightarrow> mailer \<Rightarrow> string \<Rightarrow> db \<Rightarrow> string \<times> mail option \<times> db" where
  "post_forgot C X email d =
     (let fine = ''/public/auth/login.html?status=ok'' in
      if \<not> valid_email email
      then (''/public/auth/forgot_password.html?status=fail&reason=invalid_email'', None, d)
      else
      (case run_read C ''forgot.user'' (find_email (ascii_lower email)) d of
         Inr (Some u) \<Rightarrow>
           let token = fresh_uuid C ''forgot.token'';
               d1 = snd (run_write C ''forgot.insert'' (ins_reset \<lparr> pr_user = u_id u, pr_token = token,
                      pr_expires = rfc3339 C (plus_secs (now C) (2 * 3600)), pr_used = 0, pr_created = rfc3339 C (now C) \<rparr>) d);
               base = (case env_var C ''BASE_URL'' of None \<Rightarrow> ''http://localhost:8080'' | Some v \<Rightarrow> v) in
           (fine, send_reset C X email token base d1, d1)
       | _ \<Rightarrow> (fine, None, d)))"

definition reset_fail :: "string \<Rightarrow> string" where
  "reset_fail reason = ''/public/auth/reset_password.html?status=fail&reason='' @ reason"

definition post_reset :: "ctx \<Rightarrow> argon \<Rightarrow> string \<Rightarrow> string \<Rightarrow> db \<Rightarrow> string \<times> db" where
  "post_reset C A token password d =
     (if \<not> valid_password password then (reset_fail ''weak_password'', d)
      else
      (case run_read C ''reset.token'' (find_reset token) d of
         Inl _ \<Rightarrow> (reset_fail ''server_error'', d)
       | Inr None \<Rightarrow> (reset_fail ''invalid_token'', d)
       | Inr (Some r) \<Rightarrow>
      if pr_used r \<noteq> 0 then (reset_fail ''token_used'', d)
      else
      (case rfc3339_parse C (pr_expires r) of
         None \<Rightarrow> (reset_fail ''invalid_token'', d)
       | Some exp \<Rightarrow>
      if exp < now C then (reset_fail ''token_expired'', d)
      else
      (case ar_hash A password of
         None \<Rightarrow> (reset_fail ''server_error'', d)
       | Some hash \<Rightarrow>
      (case run_write C ''reset.password'' (set_password (pr_user r) hash) d of
         (Inl _, d1) \<Rightarrow> (reset_fail ''server_error'', d1)
       | (Inr _, d1) \<Rightarrow>
           (''/public/auth/login.html?status=ok'', snd (run_write C ''reset.used'' (use_reset token) d1)))))))"


section \<open>Password change\<close>

definition change_password ::
  "ctx \<Rightarrow> argon \<Rightarrow> mailer \<Rightarrow> string \<Rightarrow> string \<Rightarrow> db \<Rightarrow> json \<times> mail option \<times> db" where
  "change_password C A X current_pw new_pw d0 =
     (case current_user_id C d0 of
        (None, d) \<Rightarrow> (jerr ''not logged in'', None, d)
      | (Some (uid, _), d) \<Rightarrow>
     if \<not> valid_password new_pw then (jerr ''new_password too weak (min 8 chars)'', None, d)
     else if current_pw = new_pw then (jerr ''new password must differ from current'', None, d)
     else
     (case run_read C ''change.user'' (find_user uid) d of
        Inr (Some u) \<Rightarrow>
          (case u_pwhash u of
             None \<Rightarrow> (jerr ''server error'', None, d)
           | Some old \<Rightarrow>
          if \<not> ar_parses A old then (jerr ''server error'', None, d)
          else if \<not> ar_verify A current_pw old then (jerr ''current_password salah'', None, d)
          else
          (case ar_hash A new_pw of
             None \<Rightarrow> (jerr ''server error'', None, d)
           | Some hash \<Rightarrow>
          (case run_write C ''change.update'' (set_password uid hash) d of
             (Inl _, d1) \<Rightarrow> (jerr ''db error'', None, d1)
           | (Inr _, d1) \<Rightarrow> (jok [], send_password_changed C X (u_email u) (u_username u) d1, d1))))
      | _ \<Rightarrow> (jerr ''user not found'', None, d)))"

definition admin_change_password ::
  "ctx \<Rightarrow> argon \<Rightarrow> mailer \<Rightarrow> string \<Rightarrow> string \<Rightarrow> db \<Rightarrow> json \<times> mail option \<times> db" where
  "admin_change_password C A X current_pw new_pw d0 =
     (case current_user_id C d0 of
        (None, d) \<Rightarrow> (jerr ''not logged in'', None, d)
      | (Some (uid, adm), d) \<Rightarrow>
     if \<not> adm then (jerr ''not admin'', None, d)
     else if length new_pw < 8 then (jerr ''Password baru terlalu pendek (min 8 karakter)'', None, d)
     else if current_pw = new_pw then (jerr ''Password baru harus berbeda dari password lama'', None, d)
     else
     (case run_read C ''change.admin'' (find_user uid) d of
        Inr (Some u) \<Rightarrow>
          (case u_pwhash u of
             None \<Rightarrow> (jerr ''server error: no password hash'', None, d)
           | Some old \<Rightarrow>
          if \<not> ar_parses A old then (jerr ''server error'', None, d)
          else if \<not> ar_verify A current_pw old then (jerr ''Password lama tidak sesuai'', None, d)
          else
          (case ar_hash A new_pw of
             None \<Rightarrow> (jerr ''server error'', None, d)
           | Some hash \<Rightarrow>
          (case run_write C ''change.update'' (set_password uid hash) d of
             (Inl _, d1) \<Rightarrow> (jerr ''db error'', None, d1)
           | (Inr _, d1) \<Rightarrow> (jok [], send_password_changed C X (u_email u) (u_username u) d1, d1))))
      | _ \<Rightarrow> (jerr ''user not found'', None, d)))"


section \<open>The first administrator\<close>

definition admin_count :: "db \<Rightarrow> int" where
  "admin_count d = count_where (\<lambda>u. u_is_admin u = 1) (users d)"

definition promote :: "string \<Rightarrow> string \<Rightarrow> unit stmt" where
  "promote uid hash d = Inr ((), d\<lparr>users := upd_where (\<lambda>u. u_id u = uid)
     (\<lambda>u. u\<lparr>u_is_admin := 1, u_pwhash := Some hash\<rparr>) (users d)\<rparr>)"

definition setup_admin :: "ctx \<Rightarrow> argon \<Rightarrow> string option \<Rightarrow> string option \<Rightarrow> db \<Rightarrow> string \<times> db" where
  "setup_admin C A configured token d =
     (case configured of
        None \<Rightarrow> (''<h1>Unavailable</h1><p>Admin bootstrap is disabled.</p>'', d)
      | Some required \<Rightarrow>
     if token \<noteq> Some required then (''<h1>Unauthorized</h1><p>Invalid or missing token.</p>'', d)
     else if (case run_read C ''setup.count'' admin_count d of Inr n \<Rightarrow> n | Inl _ \<Rightarrow> 0) > 0
     then (''<h1>Forbidden</h1><p>Admin bootstrap is no longer available after an admin account exists.</p>'', d)
     else
     let email = env_template C ''ADMIN_BOOTSTRAP_EMAIL'' ''admin@example.com'';
         password = env_template C ''ADMIN_BOOTSTRAP_PASSWORD'' ''ChangeMe123!'' in
     (case ar_hash A password of
        None \<Rightarrow> (''<h1>Error</h1><p>Failed to hash password.</p>'', d)
      | Some hash \<Rightarrow>
     (case run_read C ''setup.user'' (find_email (ascii_lower email)) d of
        Inl e \<Rightarrow> (''<h1>Error</h1><pre>SELECT failed: '' @ e @ ''</pre>'', d)
      | Inr (Some u) \<Rightarrow>
          (case run_write C ''setup.promote'' (promote (u_id u) hash) d of
             (Inl e, d') \<Rightarrow> (''<h1>Error</h1><pre>UPDATE failed: '' @ e @ ''</pre>'', d')
           | (Inr _, d') \<Rightarrow> (''<h1>OK</h1><p>Existing user promoted to admin and password reset.</p>'', d'))
      | Inr None \<Rightarrow>
          (case run_write C ''setup.insert'' (ins_user (new_user (fresh_uuid C ''setup.user'')
                  (takeWhile (\<lambda>c. c \<noteq> CHR ''@'') email) email hash 1 (rfc3339 C (now C)))) d of
             (Inl e, d') \<Rightarrow> (''<h1>Error</h1><pre>INSERT failed: '' @ e @ ''</pre>'', d')
           | (Inr _, d') \<Rightarrow> (''<h1>OK</h1><p>Admin user created.</p>'', d')))))"


section \<open>Profiles\<close>

definition me :: "ctx \<Rightarrow> db \<Rightarrow> json \<times> db" where
  "me C d0 =
     (case current_user_id C d0 of
        (None, d) \<Rightarrow> (jerr ''not logged in'', d)
      | (Some (uid, _), d) \<Rightarrow>
          (case run_read C ''me.user'' (find_user uid) d of
             Inl e \<Rightarrow> (jerr (''db: '' @ e), d)
           | Inr None \<Rightarrow> (jerr ''user not found'', d)
           | Inr (Some u) \<Rightarrow> (jok [(''user'', JObj [(''id'', JStr (u_id u)), (''username'', JStr (u_username u)),
               (''email'', JStr (u_email u))])], d)))"

definition or_empty :: "string option \<Rightarrow> string" where
  "or_empty x = (case x of None \<Rightarrow> [] | Some s \<Rightarrow> s)"

definition profile_json :: "user \<Rightarrow> json" where
  "profile_json u = JObj [(''id'', JStr (u_id u)), (''username'', JStr (u_username u)), (''email'', JStr (u_email u)),
     (''bank_account'', JStr (or_empty (u_bank u))), (''wallet_account'', JStr (or_empty (u_wallet u))),
     (''wallet_chain_id'', case u_chain u of None \<Rightarrow> JNull | Some n \<Rightarrow> JNum n), (''whatsapp'', JStr (or_empty (u_whatsapp u))),
     (''profile_desc'', JStr (u_profile u))]"

definition get_my_profile :: "ctx \<Rightarrow> db \<Rightarrow> json \<times> db" where
  "get_my_profile C d0 =
     (case current_user_id C d0 of
        (None, d) \<Rightarrow> (jerr ''not logged in'', d)
      | (Some (uid, _), d) \<Rightarrow>
          (case run_read C ''profile.mine'' (find_user uid) d of
             Inl e \<Rightarrow> (jerr (''db: '' @ e), d)
           | Inr None \<Rightarrow> (jerr ''not found'', d)
           | Inr (Some u) \<Rightarrow> (jok [(''profile'', profile_json u)], d)))"

definition null_if_empty :: "string \<Rightarrow> string option" where
  "null_if_empty s = (if s = [] then None else Some s)"

definition upd_profile :: "string \<Rightarrow> string \<Rightarrow> string \<Rightarrow> string \<Rightarrow> string \<Rightarrow> int option \<Rightarrow> unit stmt" where
  "upd_profile uid bank wallet whatsapp desc chain d =
     Inr ((), d\<lparr>users := upd_where (\<lambda>u. u_id u = uid) (\<lambda>u. u\<lparr>u_bank := null_if_empty bank,
       u_wallet := null_if_empty wallet, u_whatsapp := null_if_empty whatsapp, u_profile := desc,
       u_chain := chain\<rparr>) (users d)\<rparr>)"

definition jerr_at :: "string \<Rightarrow> string \<Rightarrow> json" where
  "jerr_at wh msg = JObj [(''ok'', JBool False), (''where'', JStr wh), (''error'', JStr msg)]"

definition update_my_profile ::
  "ctx \<Rightarrow> evm \<Rightarrow> string \<Rightarrow> string \<Rightarrow> int option \<Rightarrow> string \<Rightarrow> string \<Rightarrow> db \<Rightarrow> json \<times> db" where
  "update_my_profile C E bank wallet chain whatsapp desc d0 =
     (case current_user_id C d0 of
        (None, d) \<Rightarrow> (jerr_at ''auth'' ''not logged in'', d)
      | (Some (uid, _), d) \<Rightarrow>
          let w = trim wallet in
          if w \<noteq> [] \<and> ev_address E w = None
          then (jerr_at ''validation'' ''wallet_account must be a valid EVM address (0x + 40 hex)'', d)
          else
          (case run_write C ''profile.update'' (upd_profile uid (trim bank) (if w = [] then [] else to_lowercase C w)
                  (trim whatsapp) (trim desc) chain) d of
             (Inl e, d') \<Rightarrow> (jerr_at ''db_update'' e, d')
           | (Inr _, d') \<Rightarrow> (jok [], d')))"

definition public_profile :: "ctx \<Rightarrow> string option \<Rightarrow> string option \<Rightarrow> db \<Rightarrow> json" where
  "public_profile C user_id username d =
     (if user_id = None \<and> username = None then jerr ''missing user_id/username''
      else
      (case run_read C ''profile.public'' (\<lambda>d. find (\<lambda>u. user_id = Some (u_id u) \<or> username = Some (u_username u)) (users d)) d of
         Inl e \<Rightarrow> jerr (''db: '' @ e)
       | Inr None \<Rightarrow> jerr ''not found''
       | Inr (Some u) \<Rightarrow> jok [(''profile'', JObj [(''id'', JStr (u_id u)), (''username'', JStr (u_username u)),
           (''profile_desc'', JStr (u_profile u))])]))"

end
