(* ===== verification/AuthProperties.thy ===== *)
theory AuthProperties
  imports Auth Demo
begin

text \<open>
  The properties of registration, login, the reset of a password and the first administrator.
\<close>

lemma find_email_in: "find_email e d = Some u \<Longrightarrow> u \<in> set (users d) \<and> u_email u = e"
  unfolding find_email_def by (drule find_in) simp

lemma create_session_cases:
  assumes "create_session C uid b d = (r, d')"
  shows "r = Inr ck \<Longrightarrow> d' = d\<lparr>sessions := sessions d @ [\<lparr> s_id = fresh_uuid C ''session'', s_user = uid,
      s_is_admin = (if b then 1 else 0), s_created = rfc3339 C (now C),
      s_expires = rfc3339 C (plus_secs (now C) (session_ttl C)) \<rparr>]\<rparr>"
    and "r = Inl e \<Longrightarrow> fault C ''session.insert'' = None \<Longrightarrow> d' = d"
proof -
  let ?s = "\<lparr> s_id = fresh_uuid C ''session'', s_user = uid, s_is_admin = (if b then 1 else 0),
      s_created = rfc3339 C (now C), s_expires = rfc3339 C (plus_secs (now C) (session_ttl C)) \<rparr>"
  obtain r1 d1 where w: "run_write C ''session.insert'' (ins_session ?s) d = (r1, d1)" by fastforce
  have d1: "d' = d1" "(\<exists>ck. r = Inr ck) \<longleftrightarrow> (\<exists>x. r1 = Inr x)"
    using assms w by (auto simp: create_session_def Let_def split: sum.splits)
  show "d' = d\<lparr>sessions := sessions d @ [?s]\<rparr>" if r: "r = Inr ck"
  proof -
    obtain x where "r1 = Inr x" using d1(2) r by blast
    then show ?thesis using run_write_cases(2) [OF w] d1(1) by (auto simp: ins_session_def split: if_splits)
  qed
  show "d' = d" if "r = Inl e" "fault C ''session.insert'' = None"
    using w d1 that by (cases r1) (auto simp: run_write_def split: sum.splits)
qed

text \<open>A password function whose hash is the marked password, for the instances.\<close>

definition demo_argon :: argon where
  "demo_argon = \<lparr> ar_hash = (\<lambda>p. Some (CHR ''#'' # p)), ar_parses = (\<lambda>h. h \<noteq> []), ar_verify = (\<lambda>p h. h = CHR ''#'' # p) \<rparr>"

definition dave :: user where
  "dave = (demo_user ''u4'' ''dave'' 1 0)\<lparr>u_pwhash := Some ''#longsecret''\<rparr>"

definition dave_db :: db where
  "dave_db = demo_db\<lparr>users := users demo_db @ [dave], media := empty_media\<lparr>resets :=
     [\<lparr> pr_user = ''u4'', pr_token = ''tok'', pr_expires = ''9000'', pr_used = 0, pr_created = ''0'' \<rparr>]\<rparr>\<rparr>"

lemma dave_found: "find_email ''dave@x.org'' dave_db = Some dave"
  by (simp add: find_email_def dave_db_def dave_def demo_db_def demo_user_def)

text \<open>What a login leaves: the session of the user, given the password, or nothing.\<close>

definition logged_in :: "ctx \<Rightarrow> argon \<Rightarrow> string \<Rightarrow> int \<Rightarrow> user \<Rightarrow> db \<Rightarrow> db \<Rightarrow> bool" where
  "logged_in C A password adm u d d' \<longleftrightarrow> (\<exists>hash. u_pwhash u = Some hash \<and> ar_verify A password hash
     \<and> d' = d\<lparr>sessions := sessions d @ [\<lparr> s_id = fresh_uuid C ''session'', s_user = u_id u, s_is_admin = adm,
           s_created = rfc3339 C (now C), s_expires = rfc3339 C (plus_secs (now C) (session_ttl C)) \<rparr>]\<rparr>)"

lemma login_user_cases:
  assumes "login_user C A b fail dash u password d = (r, ck, d')"
  shows "(ck = None \<longrightarrow> fault C ''session.insert'' = None \<longrightarrow> sessions d' = sessions d)
    \<and> (ck \<noteq> None \<longrightarrow> logged_in C A password (if b then 1 else 0) u d d')"
proof -
  obtain r1 d1 where c: "create_session C (u_id u) b d = (r1, d1)" by fastforce
  show ?thesis
  proof (cases "\<exists>hash. u_pwhash u = Some hash \<and> ar_parses A hash \<and> ar_verify A password hash")
    case False
    with assms show ?thesis by (auto simp: login_user_def split: option.splits if_splits)
  next
    case True
    then obtain hash where h: "u_pwhash u = Some hash" "ar_parses A hash" "ar_verify A password hash" by blast
    have e: "ck = (case r1 of Inl _ \<Rightarrow> None | Inr x \<Rightarrow> Some x) \<and> d' = d1"
      using assms h c by (auto simp: login_user_def split: sum.splits)
    show ?thesis
    proof (cases r1)
      case (Inl x)
      with e create_session_cases(2) [OF c Inl] show ?thesis by auto
    next
      case (Inr x)
      with e h create_session_cases(1) [OF c Inr] show ?thesis by (auto simp: logged_in_def)
    qed
  qed
qed

lemma post_login_cases:
  assumes "post_login C A email password d = (r, ck, d')" "ck \<noteq> None \<or> d' \<noteq> d"
  shows "\<exists>u. find_email (ascii_lower email) d = Some u \<and>
    login_user C A False login_fail ''/public/dashboard.html?status=ok'' u password d = (r, ck, d')"
  using assms by (auto simp: post_login_def run_read_def split: if_splits sum.splits option.splits)

lemma post_admin_login_cases:
  assumes "post_admin_login C A email password d = (r, ck, d')" "ck \<noteq> None \<or> d' \<noteq> d"
  shows "\<exists>u. find_email (ascii_lower email) d = Some u \<and> u_is_admin u \<noteq> 0 \<and>
    login_user C A True admin_login_fail ''/public/admin/dashboard.html?status=ok'' u password d = (r, ck, d')"
  using assms by (auto simp: post_admin_login_def run_read_def split: if_splits sum.splits option.splits)

text \<open>C37. A session is created only for the account of that address, given a password the stored hash
  accepts, and as an administrator's session only for an administrator's account; it is the one row that
  is added, and a refused login changes nothing.\<close>

theorem login_needs_password:
  assumes "post_login C A email password d = (r, ck, d') \<and> adm = 0
      \<or> post_admin_login C A email password d = (r, ck, d') \<and> adm = 1"
  shows "(ck = None \<longrightarrow> fault C ''session.insert'' = None \<longrightarrow> sessions d' = sessions d) \<and>
    (ck \<noteq> None \<longrightarrow> (\<exists>u hash. find_email (ascii_lower email) d = Some u \<and> u_pwhash u = Some hash
       \<and> ar_verify A password hash \<and> (adm = 1 \<longrightarrow> u_is_admin u \<noteq> 0)
       \<and> d' = d\<lparr>sessions := sessions d @ [\<lparr> s_id = fresh_uuid C ''session'', s_user = u_id u, s_is_admin = adm,
             s_created = rfc3339 C (now C), s_expires = rfc3339 C (plus_secs (now C) (session_ttl C)) \<rparr>]\<rparr>))"
proof (cases "ck = None \<and> d' = d")
  case False
  then have ne: "ck \<noteq> None \<or> d' \<noteq> d" by simp
  from assms show ?thesis
  proof
    assume "post_login C A email password d = (r, ck, d') \<and> adm = 0"
    then have l: "post_login C A email password d = (r, ck, d')" and adm: "adm = 0" by auto
    from post_login_cases [OF l ne] adm show ?thesis by (auto dest: login_user_cases simp: logged_in_def)
  next
    assume "post_admin_login C A email password d = (r, ck, d') \<and> adm = 1"
    then have l: "post_admin_login C A email password d = (r, ck, d')" and adm: "adm = 1" by auto
    from post_admin_login_cases [OF l ne] adm show ?thesis by (auto dest: login_user_cases simp: logged_in_def)
  qed
qed simp

theorem login_needs_password_witness:
  "(\<exists>ck d'. post_login demo_ctx demo_argon ''dave@x.org'' ''longsecret'' dave_db = (''/public/dashboard.html?status=ok'', Some ck, d')
      \<and> length (sessions d') = length (sessions dave_db) + 1)
    \<and> (\<exists>ck d'. post_admin_login demo_ctx demo_argon ''dave@x.org'' ''wrong'' dave_db = (admin_login_fail ''bad_credentials'', ck, d')
      \<and> ck = None \<and> sessions d' = sessions dave_db)"
proof (intro conjI)
  have v: "valid_email ''dave@x.org''" "ascii_lower ''dave@x.org'' = ''dave@x.org''" "trim ''dave@x.org'' \<noteq> []"
    "trim ''longsecret'' \<noteq> []" "trim ''wrong'' \<noteq> []" by code_simp+
  have c: "\<exists>ck d'. create_session demo_ctx ''u4'' False dave_db = (Inr ck, d')"
    by (simp add: create_session_def run_write_def ins_session_def find_session_def user_exists_def dave_db_def
        dave_def demo_eval split: option.splits)
  then obtain ck d' where c: "create_session demo_ctx ''u4'' False dave_db = (Inr ck, d')" by blast
  have l: "post_login demo_ctx demo_argon ''dave@x.org'' ''longsecret'' dave_db = (''/public/dashboard.html?status=ok'', Some ck, d')"
    using v c by (simp add: post_login_def run_read_def demo_ctx_def [THEN arg_cong [of _ _ fault]] dave_found login_user_def demo_argon_def dave_def demo_user_def)
  with login_needs_password [of demo_ctx demo_argon "''dave@x.org''" "''longsecret''" dave_db _ "Some ck" d' 0]
  have "length (sessions d') = length (sessions dave_db) + 1" by auto
  with l show "\<exists>ck d'. post_login demo_ctx demo_argon ''dave@x.org'' ''longsecret'' dave_db = (''/public/dashboard.html?status=ok'', Some ck, d')
      \<and> length (sessions d') = length (sessions dave_db) + 1" by blast
  have "post_admin_login demo_ctx demo_argon ''dave@x.org'' ''wrong'' dave_db = (admin_login_fail ''bad_credentials'', None, dave_db)"
    using v by (simp add: post_admin_login_def run_read_def demo_ctx_def [THEN arg_cong [of _ _ fault]] dave_found login_user_def demo_argon_def dave_def demo_user_def)
  then show "\<exists>ck d'. post_admin_login demo_ctx demo_argon ''dave@x.org'' ''wrong'' dave_db = (admin_login_fail ''bad_credentials'', ck, d')
      \<and> ck = None \<and> sessions d' = sessions dave_db" by blast
qed

text \<open>C39. The setup page makes an administrator only for the configured token, and, when its count of
  administrators can be read, only while there is none; a failing count opens it again.\<close>

theorem setup_admin_guard:
  assumes "setup_admin C A configured token d = (r, d')" "d' \<noteq> d"
  shows "configured \<noteq> None \<and> token = configured \<and> (fault C ''setup.count'' = None \<longrightarrow> admin_count d \<le> 0)
    \<and> (\<exists>u\<in>set (users d'). u_is_admin u = 1)"
proof -
  obtain required where c: "configured = Some required" "token = Some required"
    using assms by (cases configured) (auto simp: setup_admin_def split: if_splits)
  have count: "(case run_read C ''setup.count'' admin_count d of Inr n \<Rightarrow> n | Inl _ \<Rightarrow> 0) \<le> 0"
    using assms c by (auto simp: setup_admin_def split: if_splits)
  obtain hash where hash: "ar_hash A (env_template C ''ADMIN_BOOTSTRAP_PASSWORD'' ''ChangeMe123!'') = Some hash"
    using assms c count by (auto simp: setup_admin_def Let_def split: if_splits option.splits)
  let ?email = "env_template C ''ADMIN_BOOTSTRAP_EMAIL'' ''admin@example.com''"
  have "\<exists>u\<in>set (users d'). u_is_admin u = 1"
  proof (cases "find_email (ascii_lower ?email) d")
    case (Some u)
    obtain r1 d1 where w: "run_write C ''setup.promote'' (promote (u_id u) hash) d = (r1, d1)" by fastforce
    have "d' = d1" using assms c count hash Some w
      by (auto simp: setup_admin_def Let_def run_read_def split: if_splits option.splits sum.splits)
    with run_write_cases(1) [OF w] assms(2)
    have "users d' = upd_where (\<lambda>x. u_id x = u_id u) (\<lambda>u. u\<lparr>u_is_admin := 1, u_pwhash := Some hash\<rparr>) (users d)"
      by (auto simp: promote_def)
    moreover have "u \<in> set (users d)" using find_email_in [OF Some] by simp
    ultimately have "u\<lparr>u_is_admin := 1, u_pwhash := Some hash\<rparr> \<in> set (users d')"
      by (simp add: upd_where_def image_iff) (rule bexI [of _ u]; simp)
    then show ?thesis by (rule rev_bexI) simp
  next
    case None
    let ?u = "new_user (fresh_uuid C ''setup.user'') (takeWhile (\<lambda>c. c \<noteq> CHR ''@'') ?email) ?email hash 1 (rfc3339 C (now C))"
    obtain r1 d1 where w: "run_write C ''setup.insert'' (ins_user ?u) d = (r1, d1)" by fastforce
    have "d' = d1" using assms c count hash None w
      by (auto simp: setup_admin_def Let_def run_read_def split: if_splits option.splits sum.splits)
    with run_write_cases(1) [OF w] assms(2) show ?thesis
      by (auto simp: ins_user_def new_user_def split: if_splits)
  qed
  with c count show ?thesis by (auto simp: run_read_def split: option.splits)
qed

theorem setup_admin_guard_witness:
  "\<exists>r d'. setup_admin demo_ctx demo_argon (Some ''k'') (Some ''k'') empty_db = (r, d')
     \<and> d' \<noteq> empty_db \<and> admin_count empty_db \<le> 0 \<and> (\<exists>u\<in>set (users d'). u_is_admin u = 1)"
proof -
  let ?r = "setup_admin demo_ctx demo_argon (Some ''k'') (Some ''k'') empty_db"
  have "users (snd ?r) \<noteq> []"
    by (simp add: setup_admin_def run_read_def run_write_def ins_user_def new_user_def user_exists_def find_username_def
        find_email_def find_user_def demo_ctx_def demo_argon_def empty_db_def admin_count_def count_where_def Let_def)
  then have n: "snd ?r \<noteq> empty_db" by (auto simp: empty_db_def)
  with setup_admin_guard [of demo_ctx demo_argon "Some ''k''" "Some ''k''" empty_db "fst ?r" "snd ?r"]
  have "\<exists>u\<in>set (users (snd ?r)). u_is_admin u = 1" by simp
  with n show ?thesis by (intro exI [of _ "fst ?r"] exI [of _ "snd ?r"]) (simp add: admin_count_def count_where_def empty_db_def)
qed

text \<open>C38. A password is reset only with a stored, unused token that has not expired, and only for the
  token's user; a token that has been used once is refused afterwards, as long as marking it used does
  not fail.\<close>

theorem reset_token_once:
  assumes "post_reset C A token password d = (r, d')" "users d' \<noteq> users d"
  shows "(\<exists>row expiry. find_reset token d = Some row \<and> pr_used row = 0 \<and> rfc3339_parse C (pr_expires row) = Some expiry
       \<and> \<not> expiry < now C \<and> (\<forall>u\<in>set (users d). u_id u \<noteq> pr_user row \<longrightarrow> u \<in> set (users d')))
    \<and> (r = ''/public/auth/login.html?status=ok'' \<longrightarrow> fault C ''reset.used'' = None \<longrightarrow>
        users (snd (post_reset C2 A2 token password2 d')) = users d')"
proof -
  have pw: "valid_password password" and f: "fault C ''reset.token'' = None"
    using assms by (auto simp: post_reset_def run_read_def split: if_splits option.splits)
  obtain row where row: "find_reset token d = Some row" "pr_used row = 0"
    using assms pw f by (auto simp: post_reset_def run_read_def split: if_splits option.splits)
  obtain expiry where e: "rfc3339_parse C (pr_expires row) = Some expiry" "\<not> expiry < now C"
    using assms pw f row by (auto simp: post_reset_def run_read_def split: if_splits option.splits)
  obtain hash where hash: "ar_hash A password = Some hash"
    using assms pw f row e by (auto simp: post_reset_def run_read_def split: option.splits)
  obtain r1 d1 where w: "run_write C ''reset.password'' (set_password (pr_user row) hash) d = (r1, d1)" by fastforce
  let ?used = "run_write C ''reset.used'' (use_reset token) d1"
  have d': "case r1 of Inl _ \<Rightarrow> r = reset_fail ''server_error'' \<and> d' = d1
      | Inr _ \<Rightarrow> r = ''/public/auth/login.html?status=ok'' \<and> d' = snd ?used"
    using assms(1) pw f row e hash w by (auto simp: post_reset_def run_read_def split: sum.splits)
  have used: "snd ?used = d1 \<or> snd ?used = snd (projr (use_reset token d1))"
    using run_write_cases(1) [of C "''reset.used''" "use_reset token" d1] by (cases ?used) auto
  have u1: "users d' = users d1"
    using d' used by (auto simp: use_reset_def set_media_def split: sum.splits)
  have "d1 = d \<or> users d1 = upd_where (\<lambda>u. u_id u = pr_user row) (\<lambda>u. u\<lparr>u_pwhash := Some hash\<rparr>) (users d) \<and> media d1 = media d"
    using run_write_cases(1) [OF w] by (auto simp: set_password_def)
  with assms(2) u1 have set1: "users d' = upd_where (\<lambda>u. u_id u = pr_user row) (\<lambda>u. u\<lparr>u_pwhash := Some hash\<rparr>) (users d)"
    "media d1 = media d" by auto
  have others: "\<forall>u\<in>set (users d). u_id u \<noteq> pr_user row \<longrightarrow> u \<in> set (users d')"
    unfolding set1 set_upd_where by force
  have "users (snd (post_reset C2 A2 token password2 d')) = users d'"
    if ok: "r = ''/public/auth/login.html?status=ok''" "fault C ''reset.used'' = None"
  proof -
    have "r1 \<noteq> Inl x" for x using d' ok(1) by (auto simp: reset_fail_def)
    then have "d' = snd ?used" using d' by (cases r1) auto
    then have "media d' = (media d1)\<lparr>resets := upd_where (\<lambda>r. pr_token r = token) (\<lambda>r. r\<lparr>pr_used := 1\<rparr>) (resets (media d1))\<rparr>"
      using ok(2) by (simp add: run_write_def use_reset_def set_media_def)
    then have "find_reset token d' = Some (row\<lparr>pr_used := 1\<rparr>)"
      using row(1) set1(2) find_in [OF row(1) [unfolded find_reset_def]]
      by (simp add: find_reset_def find_upd_where)
    then show ?thesis by (simp add: post_reset_def run_read_def split: option.splits)
  qed
  with row e others show ?thesis by blast
qed

theorem reset_token_once_witness:
  "\<exists>d'. post_reset demo_ctx demo_argon ''tok'' ''newsecret'' dave_db = (''/public/auth/login.html?status=ok'', d')
     \<and> users d' \<noteq> users dave_db \<and> users (snd (post_reset demo_ctx demo_argon ''tok'' ''othersecret'' d')) = users d'"
proof -
  let ?d = "snd (post_reset demo_ctx demo_argon ''tok'' ''newsecret'' dave_db)"
  have row: "find_reset ''tok'' dave_db = Some \<lparr> pr_user = ''u4'', pr_token = ''tok'', pr_expires = ''9000'', pr_used = 0, pr_created = ''0'' \<rparr>"
    by (simp add: find_reset_def dave_db_def empty_media_def)
  have e: "rfc3339_parse demo_ctx ''9000'' = Some (Instant 9000)" "\<not> Instant 9000 < now demo_ctx"
    by (simp_all add: demo_eval)
  have f: "fault demo_ctx s = None" for s by (simp add: demo_ctx_def)
  have pw: "valid_password ''newsecret''" by (simp add: valid_password_def)
  have p: "post_reset demo_ctx demo_argon ''tok'' ''newsecret'' dave_db = (''/public/auth/login.html?status=ok'', ?d)"
    using row e pw by (simp add: post_reset_def run_read_def run_write_def f set_password_def demo_argon_def)
  have ud: "users ?d = users demo_db @ [dave\<lparr>u_pwhash := Some ''#newsecret''\<rparr>]"
    using row e pw by (simp add: post_reset_def run_read_def run_write_def f set_password_def demo_argon_def use_reset_def
        set_media_def dave_db_def dave_def demo_db_def demo_user_def upd_where_Cons)
  then have u: "users ?d \<noteq> users dave_db" by (simp add: dave_db_def dave_def demo_user_def)
  with reset_token_once [OF p u, where ?C2.0 = demo_ctx and ?A2.0 = demo_argon and ?password2.0 = "''othersecret''"]
  p show ?thesis by (auto simp: demo_ctx_def)
qed

text \<open>The check for a taken address never answers as long as an \<open>INTEGER\<close> is not read as \<open>i64\<close>:
  a registration with a known address is refused by the unique index as a server error.\<close>

theorem register_duplicate_email:
  assumes "int4_i64 C 1 = None" "find_email (ascii_lower email) d \<noteq> None"
    and "trim username \<noteq> []" "trim email \<noteq> []" "trim password \<noteq> []" "valid_email email" "valid_password password"
  shows "post_register C A username email password d = (register_fail ''server_error'', d)"
proof -
  have no: "\<exists>e. ins_user (new_user i name (ascii_lower email) hash 0 t) d = Inl e" for i name hash t
    using assms(2) by (simp add: ins_user_def new_user_def)
  have "\<exists>e. run_write C s (ins_user (new_user i name (ascii_lower email) hash 0 t)) d = (Inl e, d)" for s i name hash t
    using no [of i name hash t] by (auto simp: run_write_def split: option.splits fault.splits)
  then have "(case run_write C s (ins_user (new_user i name (ascii_lower email) hash 0 t)) d of
      (Inl _, d') \<Rightarrow> (x, d') | (Inr _, d') \<Rightarrow> (y, d')) = (x, d)" for s i name hash t and x y :: string
    by (metis case_prod_conv old.sum.simps(5))
  then show ?thesis
    using assms(1,3-) by (auto simp: post_register_def run_read_def split: option.splits)
qed

theorem register_duplicate_email_witness:
  "find_email ''dave@x.org'' dave_db \<noteq> None
    \<and> post_register demo_ctx demo_argon ''dave2'' ''dave@x.org'' ''longsecret'' dave_db = (register_fail ''server_error'', dave_db)"
proof
  show f: "find_email ''dave@x.org'' dave_db \<noteq> None" by (simp add: dave_found)
  have v: "valid_email ''dave@x.org''" "ascii_lower ''dave@x.org'' = ''dave@x.org''" "trim ''dave@x.org'' \<noteq> []"
    "trim ''longsecret'' \<noteq> []" "trim ''dave2'' \<noteq> []" "valid_password ''longsecret''" by code_simp+
  show "post_register demo_ctx demo_argon ''dave2'' ''dave@x.org'' ''longsecret'' dave_db = (register_fail ''server_error'', dave_db)"
    by (rule register_duplicate_email) (use v f in \<open>simp_all add: demo_ctx_def\<close>)
qed

end
