(* ===== verification/Storage.thy ===== *)
theory Storage
  imports Database
begin

text \<open>
  \<open>src/src/storage_settings.rs\<close> and \<open>src/src/plugins/storage\<close>: the stored settings of the storage
  backend, the two plugins, and the recursive listing of a directory.  The local files are a finite
  tree (\<open>tree\<close>), the answers of the object store the record \<open>bucket\<close>.
\<close>

section \<open>Settings\<close>

text \<open>\<open>StoredStorageSettings\<close> has the columns of the table: it is the record \<^typ>\<open>storage_row\<close>.\<close>

definition normalized_backend :: "storage_row \<Rightarrow> string" where
  "normalized_backend s = ascii_lower (trim (so_backend s))"

definition remote_backends :: "string list" where
  "remote_backends = [''s3'', ''minio'', ''r2'', ''b2'']"

definition validate :: "storage_row \<Rightarrow> string + unit" where
  "validate s =
     (let backend = normalized_backend s in
      if backend = ''local'' then Inr ()
      else if backend \<in> set remote_backends
      then (if trim (so_bucket s) = [] then Inl ''bucket is required for remote storage backends'' else Inr ())
      else Inl ''backend must be one of: local, s3, minio, r2, b2'')"

definition missing_fields :: "storage_row \<Rightarrow> string list" where
  "missing_fields s =
     (if normalized_backend s = ''local'' then []
      else if trim (so_bucket s) = [] then [''bucket''] else [])"

definition has_secret :: "storage_row \<Rightarrow> bool" where
  "has_secret s \<longleftrightarrow> so_secret s \<noteq> []"

definition default_storage :: storage_row where
  "default_storage = \<lparr> so_backend = ''local'', so_bucket = [], so_region = ''us-east-1'', so_access = [],
     so_secret = [], so_endpoint = [], so_public_url = [], so_path_style = False \<rparr>"

definition load_storage_settings :: "ctx \<Rightarrow> db \<Rightarrow> storage_row" where
  "load_storage_settings C d =
     (case run_read C ''storage.load'' (\<lambda>d. storage (media d)) d of
        Inr (Some r) \<Rightarrow> r
      | _ \<Rightarrow> default_storage)"


section \<open>The object store\<close>

text \<open>What \<open>AmazonS3Builder\<close> is given.\<close>

record s3_build =
  sb_bucket :: string
  sb_region :: string
  sb_access :: "string option"
  sb_secret :: "string option"
  sb_endpoint :: "string option"
  sb_path_style :: bool
  sb_allow_http :: bool

record local_plugin =
  lp_base_path :: string
  lp_base_url :: string

record s3_plugin =
  s3_build :: s3_build
  s3_bucket :: string
  s3_region :: string
  s3_endpoint :: string
  s3_public_url :: "string option"

datatype storage_plugin = Local local_plugin | S3 s3_plugin

text \<open>
  The \<open>object_store\<close> crate and the local files: whether a client can be built, how a key becomes an
  object path, the error of a put, get or delete of a path (\<open>bk_put\<close> also depends on how often the
  same file was tried before), the content of objects (or whether it was the body that could not be read) and of local files, and the
  errors of the local writes.
\<close>

record bucket =
  bk_builds :: "s3_build \<Rightarrow> bool"
  bk_path :: "string \<Rightarrow> string"
  bk_put :: "nat \<Rightarrow> string \<Rightarrow> string \<Rightarrow> string option"
  bk_get :: "string \<Rightarrow> bool + string"
  bk_delete :: "string \<Rightarrow> string option"
  fs_read :: "string \<Rightarrow> string + string"
  fs_write :: "string \<Rightarrow> string \<Rightarrow> string option"
  fs_mkdir :: "string \<Rightarrow> string option"
  fs_exists :: "string \<Rightarrow> bool"
  fs_remove :: "string \<Rightarrow> string option"

definition env_or :: "ctx \<Rightarrow> string \<Rightarrow> string \<Rightarrow> string" where
  "env_or C k dflt = (case env_var C k of Some v \<Rightarrow> v | None \<Rightarrow> dflt)"

definition non_empty :: "string \<Rightarrow> string option" where
  "non_empty s = (if s = [] then None else Some s)"

definition local_from_env :: "ctx \<Rightarrow> local_plugin" where
  "local_from_env C = \<lparr> lp_base_path = env_or C ''STORAGE_LOCAL_PATH'' ''storage'',
     lp_base_url = env_or C ''BASE_URL'' ''http://localhost:8080'' \<rparr>"

definition full_path :: "local_plugin \<Rightarrow> string \<Rightarrow> string" where
  "full_path p key = path_push (lp_base_path p) key"

definition s3_builder :: "string \<Rightarrow> string \<Rightarrow> string \<Rightarrow> string \<Rightarrow> string \<Rightarrow> bool \<Rightarrow> s3_build" where
  "s3_builder bkt region access secret endpoint path_style =
     \<lparr> sb_bucket = bkt, sb_region = region, sb_access = non_empty access, sb_secret = non_empty secret,
       sb_endpoint = non_empty endpoint, sb_path_style = (endpoint \<noteq> [] \<and> path_style),
       sb_allow_http = starts_with ''http://'' endpoint \<rparr>"

definition s3_from_env :: "ctx \<Rightarrow> bucket \<Rightarrow> string + s3_plugin" where
  "s3_from_env C B =
     (case env_var C ''S3_BUCKET'' of
        None \<Rightarrow> Inl ''S3_BUCKET is required for s3/minio storage backend''
      | Some bkt \<Rightarrow>
          let region = env_or C ''S3_REGION'' ''us-east-1''; endpoint = env_or C ''S3_ENDPOINT'' [];
              build = s3_builder bkt region (env_or C ''S3_ACCESS_KEY'' []) (env_or C ''S3_SECRET_KEY'' [])
                endpoint (env_var C ''S3_PATH_STYLE'' = Some ''true'')
          in if bk_builds B build
             then Inr \<lparr> s3_build = build, s3_bucket = bkt, s3_region = region, s3_endpoint = endpoint,
                    s3_public_url = env_var C ''S3_PUBLIC_URL'' \<rparr>
             else Inl ''failed to build S3 object store client'')"

definition storage_from_env :: "ctx \<Rightarrow> bucket \<Rightarrow> storage_plugin" where
  "storage_from_env C B =
     (let name = to_lowercase C (env_or C ''STORAGE_BACKEND'' ''local'') in
      if name \<in> set remote_backends
      then (case s3_from_env C B of Inr p \<Rightarrow> S3 p | Inl _ \<Rightarrow> Local (local_from_env C))
      else Local (local_from_env C))"

definition build_plugin :: "ctx \<Rightarrow> bucket \<Rightarrow> storage_row \<Rightarrow> string + storage_plugin" where
  "build_plugin C B s =
     (case validate s of
        Inl e \<Rightarrow> Inl e
      | Inr _ \<Rightarrow>
          if normalized_backend s = ''local'' then Inr (Local (local_from_env C))
          else
          let region = (if trim (so_region s) = [] then ''us-east-1'' else trim (so_region s));
              build = s3_builder (so_bucket s) region (trim (so_access s)) (trim (so_secret s))
                (trim (so_endpoint s)) (so_path_style s)
          in if bk_builds B build
             then Inr (S3 \<lparr> s3_build = build, s3_bucket = trim (so_bucket s), s3_region = region,
                    s3_endpoint = trim (so_endpoint s), s3_public_url = non_empty (trim (so_public_url s)) \<rparr>)
             else Inl ''failed to build S3-compatible object store client'')"

section \<open>Walking a directory\<close>

text \<open>
  \<open>read_dir\<close> on a tree without cycles: the metadata of an entry does not follow links, so a link is a
  \<open>Leaf\<close>.  \<open>ls\<close> is the message of the error when a directory cannot be listed.
\<close>

datatype tree = Leaf | Dir "(string \<times> tree) list"

fun weight :: "tree \<Rightarrow> nat" where
  "weight Leaf = 1"
| "weight (Dir es) = Suc (sum_list (map (\<lambda>e. weight (snd e)) es))"

fun is_dir :: "tree \<Rightarrow> bool" where
  "is_dir (Dir _) = True"
| "is_dir Leaf = False"

definition sub_paths :: "bool \<Rightarrow> string \<Rightarrow> (string \<times> tree) list \<Rightarrow> (string \<times> tree) list" where
  "sub_paths dirs p es = map (\<lambda>e. (path_push p (fst e), snd e)) (filter (\<lambda>e. is_dir (snd e) = dirs) es)"

definition stack_weight :: "(string \<times> tree) list \<Rightarrow> nat" where
  "stack_weight st = sum_list (map (\<lambda>e. weight (snd e)) st)"

lemma stack_weight_simps [simp]:
  "stack_weight [] = 0" "stack_weight (e # st) = weight (snd e) + stack_weight st"
  "stack_weight (xs @ ys) = stack_weight xs + stack_weight ys" "stack_weight (rev xs) = stack_weight xs"
  by (simp_all add: stack_weight_def rev_map [symmetric])

lemma sub_paths_weight: "stack_weight (sub_paths b p es) \<le> sum_list (map (\<lambda>e. weight (snd e)) es)"
  by (induction es) (auto simp: sub_paths_def)

text \<open>The stack's top is the head: \<open>pop\<close> takes the directory that was pushed last.\<close>

function walk :: "(string \<Rightarrow> string option) \<Rightarrow> (string \<times> tree) list \<Rightarrow> string list \<Rightarrow> string + string list" where
  "walk ls [] files = Inr files"
| "walk ls ((p, Leaf) # st) files = Inl (''read_dir '' @ p)"
| "walk ls ((p, Dir es) # st) files =
     (case ls p of
        Some e \<Rightarrow> Inl e
      | None \<Rightarrow> walk ls (rev (sub_paths True p es) @ st) (files @ map fst (sub_paths False p es)))"
  by pat_completeness auto
termination
  by (relation "measure (\<lambda>(ls, st, files). stack_weight st)")
    (auto simp: le_imp_less_Suc sub_paths_weight)

definition walk_dir :: "(string \<Rightarrow> string option) \<Rightarrow> string \<Rightarrow> tree \<Rightarrow> string + string list" where
  "walk_dir ls dir t = walk ls [(dir, t)] []"

text \<open>Paths are ordered by their components; \<open>None\<close> is a root that does not exist.\<close>

definition path_components :: "string \<Rightarrow> string list" where
  "path_components p = split_on (CHR ''/'') p"

definition collect_local_files :: "(string \<Rightarrow> string option) \<Rightarrow> string \<Rightarrow> tree option \<Rightarrow> string + string list" where
  "collect_local_files ls root t =
     (case t of
        None \<Rightarrow> Inr []
      | Some t \<Rightarrow>
          (case walk ls [(root, t)] [] of
             Inl e \<Rightarrow> Inl e
           | Inr files \<Rightarrow> Inr (sort_key path_components files)))"

text \<open>\<open>strip_prefix(dir).unwrap_or(path)\<close>, for the paths \<open>read_dir\<close> gives below \<open>dir\<close>.\<close>

definition strip_dir :: "string \<Rightarrow> string \<Rightarrow> string" where
  "strip_dir dir p =
     (case strip_prefix (if dir = [] \<or> last dir = CHR ''/'' then dir else dir @ ''/'') p of
        Some rel \<Rightarrow> rel
      | None \<Rightarrow> p)"

definition forward_slashes :: "string \<Rightarrow> string" where
  "forward_slashes s = map (\<lambda>c. if c = CHR 0x5C then CHR ''/'' else c) s"


section \<open>The operations of the plugins\<close>

text \<open>
  A put that succeeds is recorded with the path and content of its object; \<open>n\<close> is the number of
  earlier tries of the same file.
\<close>

type_synonym puts = "(string \<times> string) list"

definition is_local :: "storage_plugin \<Rightarrow> bool" where
  "is_local p = (case p of Local _ \<Rightarrow> True | S3 _ \<Rightarrow> False)"

definition backend_name :: "storage_plugin \<Rightarrow> string" where
  "backend_name p = (case p of Local _ \<Rightarrow> ''local'' | S3 _ \<Rightarrow> ''s3'')"

definition endpoint_display :: "s3_plugin \<Rightarrow> string" where
  "endpoint_display p =
     (if s3_endpoint p \<noteq> [] then trim_end_slashes (s3_endpoint p) @ ''/'' @ s3_bucket p
      else ''s3://'' @ s3_bucket p @ ''.s3.'' @ s3_region p @ ''.amazonaws.com'')"

definition put_file :: "bucket \<Rightarrow> storage_plugin \<Rightarrow> nat \<Rightarrow> string \<Rightarrow> string \<Rightarrow> (string + unit) \<times> puts" where
  "put_file B p n key path =
     (case p of
        Local _ \<Rightarrow> (Inr (), [])
      | S3 _ \<Rightarrow>
          (case fs_read B path of
             Inl _ \<Rightarrow> (Inl (''read local file '' @ path), [])
           | Inr content \<Rightarrow>
               (case bk_put B n (bk_path B key) content of
                  Some _ \<Rightarrow> (Inl (''S3 put '' @ key), [])
                | None \<Rightarrow> (Inr (), [(bk_path B key, content)]))))"

text \<open>The plugin is a trait object: its \<open>put_file\<close> is the argument \<open>put\<close>.\<close>

type_synonym put_op = "nat \<Rightarrow> string \<Rightarrow> string \<Rightarrow> (string + unit) \<times> puts"

fun put_files :: "put_op \<Rightarrow> string \<Rightarrow> string \<Rightarrow> string list \<Rightarrow> (string + unit) \<times> puts" where
  "put_files put prefix dir [] = (Inr (), [])"
| "put_files put prefix dir (path # paths) =
     (case put 0 (prefix @ ''/'' @ forward_slashes (strip_dir dir path)) path of
        (Inl e, w) \<Rightarrow> (Inl e, w)
      | (Inr _, w) \<Rightarrow> (case put_files put prefix dir paths of (r, ws) \<Rightarrow> (r, w @ ws)))"

text \<open>
  What the callers of a remote backend rely on: a put that succeeds has stored the content of the file
  under the place of its key, and one that fails has stored nothing.
\<close>

locale storage_backend =
  fixes put :: put_op
    and reads :: "string \<Rightarrow> string + string"
    and place :: "string \<Rightarrow> string"
  assumes put_stored: "put n key path = (Inr u, w) \<Longrightarrow> \<exists>content. reads path = Inr content \<and> w = [(place key, content)]"
    and put_refused: "put n key path = (Inl e, w) \<Longrightarrow> w = []"
begin

lemma puts_stored:
  "put_files put prefix dir paths = (Inr u, w) \<Longrightarrow> path \<in> set paths \<Longrightarrow>
   \<exists>content. reads path = Inr content \<and> (place (prefix @ ''/'' @ forward_slashes (strip_dir dir path)), content) \<in> set w"
proof (induction paths arbitrary: w)
  case (Cons q paths)
  let ?key = "prefix @ ''/'' @ forward_slashes (strip_dir dir q)"
  obtain x w1 where q: "put 0 ?key q = (x, w1)" by fastforce
  obtain y w2 where r: "put_files put prefix dir paths = (y, w2)" by fastforce
  obtain z where x: "x = Inr z" and y: "y = Inr u" and w: "w = w1 @ w2"
    using Cons.prems(1) q r by (auto split: sum.splits)
  from put_stored [OF q [unfolded x]] Cons.IH [OF r [unfolded y]] Cons.prems(2) w show ?case by auto
qed simp

end

interpretation remote: storage_backend "put_file B (S3 p)" "fs_read B" "bk_path B" for B p
  by unfold_locales (auto simp: put_file_def split: sum.splits option.splits)

text \<open>A directory that does not exist cannot be read.\<close>

definition put_dir ::
  "bucket \<Rightarrow> storage_plugin \<Rightarrow> (string \<Rightarrow> string option) \<Rightarrow> string \<Rightarrow> string \<Rightarrow> tree option \<Rightarrow> (string + nat) \<times> puts" where
  "put_dir B p ls key_prefix dir t =
     (case p of
        Local _ \<Rightarrow> (Inr 0, [])
      | S3 _ \<Rightarrow>
          (case (case t of None \<Rightarrow> Inl (''read_dir '' @ dir) | Some t \<Rightarrow> walk_dir ls dir t) of
             Inl e \<Rightarrow> (Inl e, [])
           | Inr files \<Rightarrow>
               (case put_files (put_file B p) key_prefix dir files of
                  (Inl e, w) \<Rightarrow> (Inl e, w)
                | (Inr _, w) \<Rightarrow> (Inr (length files), w))))"

definition get_url :: "storage_plugin \<Rightarrow> string \<Rightarrow> string" where
  "get_url p key =
     (case p of
        Local l \<Rightarrow> trim_end_slashes (lp_base_url l) @ ''/storage/'' @ key
      | S3 s \<Rightarrow>
          (case s3_public_url s of
             Some base \<Rightarrow> trim_end_slashes base @ ''/'' @ key
           | None \<Rightarrow>
               if s3_endpoint s \<noteq> [] then trim_end_slashes (s3_endpoint s) @ ''/'' @ s3_bucket s @ ''/'' @ key
               else ''https://'' @ s3_bucket s @ ''.s3.'' @ s3_region s @ ''.amazonaws.com/'' @ key))"

text \<open>The directory of a path: everything before its last separator.\<close>

definition parent_dir :: "string \<Rightarrow> string option" where
  "parent_dir p =
     (if p = [] \<or> p = ''/'' then None
      else
      (case split_once (CHR ''/'') (rev p) of
         None \<Rightarrow> Some []
       | Some (_, front) \<Rightarrow> Some (if front = [] then ''/'' else rev front)))"

text \<open>The result of a download: an error, or what is written where.\<close>

definition get_to_file :: "bucket \<Rightarrow> storage_plugin \<Rightarrow> string \<Rightarrow> string \<Rightarrow> string + string \<times> string" where
  "get_to_file B p key dest =
     (case p of
        Local l \<Rightarrow>
          (case Option.bind (parent_dir dest) (fs_mkdir B) of
             Some e \<Rightarrow> Inl e
           | None \<Rightarrow>
               (case fs_read B (full_path l key) of
                  Inr content \<Rightarrow>
                    if fs_write B dest content = None then Inr (dest, content)
                    else Inl (''local copy '' @ full_path l key @ map chr [32, 226, 134, 146, 32] @ dest)
                | Inl _ \<Rightarrow> Inl (''local copy '' @ full_path l key @ map chr [32, 226, 134, 146, 32] @ dest)))
      | S3 _ \<Rightarrow>
          (case bk_get B (bk_path B key) of
             Inl body \<Rightarrow> Inl ((if body then ''S3 read bytes for '' else ''S3 get '') @ key)
           | Inr content \<Rightarrow>
          (case Option.bind (parent_dir dest) (fs_mkdir B) of
             Some e \<Rightarrow> Inl e
           | None \<Rightarrow>
               if fs_write B dest content = None then Inr (dest, content) else Inl (''write to '' @ dest))))"

text \<open>The error of a deletion, if any.\<close>

definition delete_object :: "bucket \<Rightarrow> storage_plugin \<Rightarrow> string \<Rightarrow> string option" where
  "delete_object B p key =
     (case p of
        Local l \<Rightarrow>
          if fs_exists B (full_path l key) \<and> fs_remove B (full_path l key) \<noteq> None
          then Some (''local delete '' @ full_path l key)
          else None
      | S3 _ \<Rightarrow> if bk_delete B (bk_path B key) \<noteq> None then Some (''S3 delete '' @ key) else None)"

end
