(* ===== verification/Migration.thy ===== *)
theory Migration
  imports Storage Chat FiatPayments
begin

text \<open>
  The storage part of \<open>src/src/handlers/admin.rs\<close>: the administrators set up the storage backend, test
  it, and copy the local files to it in a background job with retries, resumption and cancellation.
\<close>

definition STORAGE_MIGRATION_MAX_ATTEMPTS :: nat where "STORAGE_MIGRATION_MAX_ATTEMPTS = 3"

definition STORAGE_MIGRATION_MAX_RETRIES :: int where
  "STORAGE_MIGRATION_MAX_RETRIES = int STORAGE_MIGRATION_MAX_ATTEMPTS - 1"

section \<open>Rows of jobs and items\<close>

definition find_mig_job :: "string \<Rightarrow> db \<Rightarrow> mig_job option" where
  "find_mig_job i d = find (\<lambda>j. mj_id j = i) (mig_jobs (media d))"

definition put_mig_job :: "string \<Rightarrow> (mig_job \<Rightarrow> mig_job) \<Rightarrow> unit stmt" where
  "put_mig_job i f d = Inr ((), set_media (\<lambda>m. m\<lparr>mig_jobs := upd_where (\<lambda>j. mj_id j = i) f (mig_jobs m)\<rparr>) d)"

definition ins_mig_job :: "mig_job \<Rightarrow> unit stmt" where
  "ins_mig_job j d =
     (if find_mig_job (mj_id j) d \<noteq> None then Inl ''storage_migration_jobs_pkey''
      else if (case mj_resumed j of None \<Rightarrow> False | Some r \<Rightarrow> find_mig_job r d = None)
      then Inl ''storage_migration_jobs_resumed_from_job_id_fkey''
      else if (case mj_started_by j of None \<Rightarrow> False | Some u \<Rightarrow> \<not> user_exists u d)
      then Inl ''storage_migration_jobs_started_by_user_id_fkey''
      else Inr ((), set_media (\<lambda>m. m\<lparr>mig_jobs := mig_jobs m @ [j]\<rparr>) d))"

definition ins_mig_item :: "mig_item \<Rightarrow> unit stmt" where
  "ins_mig_item i d =
     (if \<exists>x\<in>set (mig_items (media d)). mi_id x = mi_id i then Inl ''storage_migration_job_items_pkey''
      else if find_mig_job (mi_job i) d = None then Inl ''storage_migration_job_items_job_id_fkey''
      else Inr ((), set_media (\<lambda>m. m\<lparr>mig_items := mig_items m @ [i]\<rparr>) d))"


section \<open>One file\<close>

text \<open>The progress of a running job; a file still to do has its scope, \<open>uploads\<close> or \<open>media\<close>.\<close>

record mig_run =
  mr_job :: string
  mr_plugin :: storage_plugin
  mr_keys :: "string set"
  mr_todo :: "(string \<times> string) list"
  mr_copied :: int
  mr_failed :: int
  mr_skipped :: int
  mr_retries :: int
  mr_error :: "string option"

definition counted :: "mig_run \<Rightarrow> mig_job \<Rightarrow> mig_job" where
  "counted r j = j\<lparr>mj_copied := mr_copied r, mj_failed := mr_failed r, mj_skipped := mr_skipped r,
     mj_retries := mr_retries r\<rparr>"

definition keep_error :: "mig_run \<Rightarrow> mig_job \<Rightarrow> mig_job" where
  "keep_error r j = j\<lparr>mj_error := coalesce (mr_error r) (mj_error j)\<rparr>"

definition update_storage_job_progress :: "ctx \<Rightarrow> mig_run \<Rightarrow> db \<Rightarrow> db" where
  "update_storage_job_progress C r d =
     snd (run_write C ''mig.progress'' (put_mig_job (mr_job r) (\<lambda>j. keep_error r (counted r j))) d)"

definition insert_storage_migration_job_item ::
  "ctx \<Rightarrow> string \<Rightarrow> string \<Rightarrow> string \<Rightarrow> string \<Rightarrow> string \<Rightarrow> int \<Rightarrow> string option \<Rightarrow> db \<Rightarrow> db" where
  "insert_storage_migration_job_item C job_id scope source key status retries e d =
     snd (run_write C (''mig.item.'' @ key) (ins_mig_item \<lparr> mi_id = fresh_uuid C (''mig.item.'' @ key), mi_job = job_id,
       mi_scope = scope, mi_source = source, mi_key = key, mi_status = status, mi_retries = retries, mi_error = e,
       mi_created = now C \<rparr>) d)"

definition load_resumable_storage_object_keys :: "ctx \<Rightarrow> string \<Rightarrow> db \<Rightarrow> string set" where
  "load_resumable_storage_object_keys C job_id d =
     (case run_read C ''mig.resumable'' (\<lambda>d. set (map mi_key (filter (\<lambda>i. mi_job i = job_id \<and> mi_status i = ''copied'')
             (mig_items (media d))))) d of
        Inr ks \<Rightarrow> ks
      | Inl _ \<Rightarrow> {})"

text \<open>At most three tries; the result is the number of retries, or the message of the last failure.\<close>

fun upload_tries ::
  "put_op \<Rightarrow> string \<Rightarrow> string \<Rightarrow> string \<Rightarrow> nat \<Rightarrow> nat \<Rightarrow> string \<Rightarrow> (string + nat) \<times> puts" where
  "upload_tries put key path label 0 n e = (Inl e, [])"
| "upload_tries put key path label (Suc k) n e =
     (case put n key path of
        (Inr _, w) \<Rightarrow> (Inr n, w)
      | (Inl m, w) \<Rightarrow>
          (case upload_tries put key path label k (Suc n)
                 (label @ '' '' @ key @ '' attempt '' @ string_of_nat (Suc n) @ ''/''
                    @ string_of_nat STORAGE_MIGRATION_MAX_ATTEMPTS @ '': '' @ m) of
             (r, ws) \<Rightarrow> (r, w @ ws)))"

definition upload_storage_migration_file ::
  "bucket \<Rightarrow> storage_plugin \<Rightarrow> string \<Rightarrow> string \<Rightarrow> string \<Rightarrow> (string + nat) \<times> puts" where
  "upload_storage_migration_file B pl key path label =
     upload_tries (put_file B pl) key path label STORAGE_MIGRATION_MAX_ATTEMPTS 0 []"

context storage_backend
begin

lemma tries_stored:
  "upload_tries put key path label k n e = (Inr m, w) \<Longrightarrow>
   n \<le> m \<and> m < n + k \<and> (\<exists>content. reads path = Inr content \<and> w = [(place key, content)])"
proof (induction k arbitrary: n e w)
  case (Suc k)
  obtain x w1 where p: "put n key path = (x, w1)" by fastforce
  show ?case
  proof (cases x)
    case (Inr u)
    from put_stored [OF p [unfolded Inr]] Suc.prems p Inr show ?thesis by auto
  next
    case (Inl msg)
    let ?e = "label @ '' '' @ key @ '' attempt '' @ string_of_nat (Suc n) @ ''/''
      @ string_of_nat STORAGE_MIGRATION_MAX_ATTEMPTS @ '': '' @ msg"
    obtain r ws where t: "upload_tries put key path label k (Suc n) ?e = (r, ws)" by fastforce
    have "r = Inr m" "w = ws" using Suc.prems p Inl t put_refused [OF p [unfolded Inl]] by auto
    with Suc.IH [OF t [unfolded \<open>r = Inr m\<close>]] show ?thesis by auto
  qed
qed simp

end


text \<open>The code has the body of the loop twice, once for each scope.\<close>

definition scope_dir :: "ctx \<Rightarrow> string \<Rightarrow> string" where
  "scope_dir C scope = (if scope = ''uploads'' then upload_dir (cfg C) else media_dir (cfg C))"

definition scope_key :: "ctx \<Rightarrow> string \<Rightarrow> string \<Rightarrow> string" where
  "scope_key C scope path =
     (if scope = ''uploads'' then ''uploads/'' else ''videos/'') @ forward_slashes (strip_dir (scope_dir C scope) path)"

definition scope_label :: "string \<Rightarrow> string" where
  "scope_label scope = (if scope = ''uploads'' then ''upload'' else ''media'')"

definition skipped_note :: string where
  "skipped_note = ''Skipped because this object was already copied in the source resume job''"

definition migrate_file ::
  "ctx \<Rightarrow> bucket \<Rightarrow> string \<Rightarrow> string \<Rightarrow> mig_run \<Rightarrow> db \<Rightarrow> mig_run \<times> puts \<times> db" where
  "migrate_file C B scope path r d =
     (let key = scope_key C scope path; source = forward_slashes path in
      if key \<in> mr_keys r
      then
        (let r1 = r\<lparr>mr_skipped := mr_skipped r + 1\<rparr>;
             d1 = insert_storage_migration_job_item C (mr_job r) scope source key ''skipped'' 0 (Some skipped_note) d
         in (r1, [], update_storage_job_progress C r1 d1))
      else
      (case upload_storage_migration_file B (mr_plugin r) key path (scope_label scope) of
         (Inr n, w) \<Rightarrow>
           (let r1 = r\<lparr>mr_copied := mr_copied r + 1, mr_retries := mr_retries r + int n\<rparr>;
                d1 = insert_storage_migration_job_item C (mr_job r) scope source key ''copied'' (int n) None d
            in (r1, w, update_storage_job_progress C r1 d1))
       | (Inl e, w) \<Rightarrow>
           (let r1 = r\<lparr>mr_failed := mr_failed r + 1, mr_retries := mr_retries r + STORAGE_MIGRATION_MAX_RETRIES,
                  mr_error := Some e\<rparr>;
                d1 = insert_storage_migration_job_item C (mr_job r) scope source key ''failed''
                  STORAGE_MIGRATION_MAX_RETRIES (Some e) d
            in (r1, w, update_storage_job_progress C r1 d1))))"


section \<open>The job\<close>

text \<open>
  \<open>ls\<close> and \<open>T\<close> are the local directories: the errors of listing them and their trees.  The
  directories are listed and the resumable keys read before the first file.
\<close>

definition listed ::
  "(string \<Rightarrow> string option) \<Rightarrow> (string \<Rightarrow> tree option) \<Rightarrow> bool \<Rightarrow> string \<Rightarrow> string + string list" where
  "listed ls T wanted dir = (if wanted then collect_local_files ls dir (T dir) else Inr [])"

definition job_begin ::
  "ctx \<Rightarrow> bucket \<Rightarrow> (string \<Rightarrow> string option) \<Rightarrow> (string \<Rightarrow> tree option) \<Rightarrow> string \<Rightarrow> storage_row \<Rightarrow> bool \<Rightarrow> bool
     \<Rightarrow> string option \<Rightarrow> db \<Rightarrow> (string + mig_run) \<times> db" where
  "job_begin C B ls T job_id settings include_uploads include_media resume d =
     (case build_plugin C B settings of
        Inl e \<Rightarrow> (Inl e, d)
      | Inr pl \<Rightarrow>
     (case listed ls T include_uploads (upload_dir (cfg C)) of
        Inl e \<Rightarrow> (Inl e, d)
      | Inr ups \<Rightarrow>
     (case listed ls T include_media (media_dir (cfg C)) of
        Inl e \<Rightarrow> (Inl e, d)
      | Inr meds \<Rightarrow>
     (case run_write C ''mig.running'' (put_mig_job job_id (\<lambda>j. j\<lparr>mj_status := ''running'',
             mj_total := int (length ups + length meds), mj_started := Some (now C), mj_error := None\<rparr>)) d of
        (Inl e, d1) \<Rightarrow> (Inl e, d1)
      | (Inr _, d1) \<Rightarrow>
          (Inr \<lparr> mr_job = job_id, mr_plugin = pl,
             mr_keys = (case resume of None \<Rightarrow> {} | Some s \<Rightarrow> load_resumable_storage_object_keys C s d1),
             mr_todo = map (Pair ''uploads'') ups @ map (Pair ''media'') meds,
             mr_copied = 0, mr_failed = 0, mr_skipped = 0, mr_retries = 0, mr_error = None \<rparr>, d1)))))"

definition mark_storage_job_cancelled :: "ctx \<Rightarrow> mig_run \<Rightarrow> db \<Rightarrow> (string + unit) \<times> db" where
  "mark_storage_job_cancelled C r d = run_write C ''mig.cancelled'' (put_mig_job (mr_job r)
     (\<lambda>j. (keep_error r (counted r j))\<lparr>mj_status := ''cancelled'', mj_completed := Some (now C)\<rparr>)) d"

definition final_status :: "mig_run \<Rightarrow> string" where
  "final_status r = (if 0 < mr_failed r then ''completed_with_errors'' else ''completed'')"

definition job_finish :: "ctx \<Rightarrow> mig_run \<Rightarrow> db \<Rightarrow> (string + unit) \<times> db" where
  "job_finish C r d = run_write C ''mig.final'' (put_mig_job (mr_job r)
     (\<lambda>j. (counted r j)\<lparr>mj_status := final_status r, mj_error := mr_error r, mj_completed := Some (now C)\<rparr>)) d"

text \<open>The loop; \<open>stop\<close> says before which path a request for cancellation is seen.\<close>

fun job_loop ::
  "ctx \<Rightarrow> bucket \<Rightarrow> (string \<Rightarrow> bool) \<Rightarrow> (string \<times> string) list \<Rightarrow> mig_run \<Rightarrow> db \<Rightarrow> (string + unit) \<times> puts \<times> db" where
  "job_loop C B stop [] r d = (case job_finish C r d of (x, d1) \<Rightarrow> (x, [], d1))"
| "job_loop C B stop ((scope, path) # todo) r d =
     (if stop path then (case mark_storage_job_cancelled C r d of (x, d1) \<Rightarrow> (x, [], d1))
      else
      (case migrate_file C B scope path r d of
         (r1, w, d1) \<Rightarrow> (case job_loop C B stop todo r1 d1 of (x, ws, d2) \<Rightarrow> (x, w @ ws, d2))))"

definition run_storage_migration_job ::
  "ctx \<Rightarrow> bucket \<Rightarrow> (string \<Rightarrow> string option) \<Rightarrow> (string \<Rightarrow> tree option) \<Rightarrow> (string \<Rightarrow> bool) \<Rightarrow> string \<Rightarrow> storage_row
     \<Rightarrow> bool \<Rightarrow> bool \<Rightarrow> string option \<Rightarrow> db \<Rightarrow> (string + unit) \<times> puts \<times> db" where
  "run_storage_migration_job C B ls T stop job_id settings include_uploads include_media resume d =
     (case job_begin C B ls T job_id settings include_uploads include_media resume d of
        (Inl e, d1) \<Rightarrow> (Inl e, [], d1)
      | (Inr r, d1) \<Rightarrow> job_loop C B stop (mr_todo r) r d1)"

text \<open>What the task around the job does with its error.\<close>

definition job_failed :: "ctx \<Rightarrow> string \<Rightarrow> string \<Rightarrow> db \<Rightarrow> db" where
  "job_failed C job_id e d = snd (run_write C ''mig.failed'' (put_mig_job job_id
     (\<lambda>j. j\<lparr>mj_status := ''failed'', mj_error := Some e, mj_completed := Some (now C)\<rparr>)) d)"


section \<open>Lists for the dashboard\<close>

definition opt_time :: "ctx \<Rightarrow> instant option \<Rightarrow> json" where
  "opt_time C t = jopt (map_option (pg_text C) t)"

definition mig_job_json :: "ctx \<Rightarrow> mig_job \<Rightarrow> json" where
  "mig_job_json C j = JObj
     [(''id'', JStr (mj_id j)), (''status'', JStr (mj_status j)), (''backend'', JStr (mj_backend j)),
      (''bucket'', JStr (mj_bucket j)), (''endpoint'', JStr (mj_endpoint j)),
      (''include_uploads'', JBool (mj_uploads j)), (''include_media'', JBool (mj_media j)),
      (''total_files'', JNum (mj_total j)), (''copied_files'', JNum (mj_copied j)),
      (''failed_files'', JNum (mj_failed j)), (''skipped_files'', JNum (mj_skipped j)),
      (''retry_attempts'', JNum (mj_retries j)), (''last_error'', jopt (mj_error j)),
      (''resumed_from_job_id'', jopt (mj_resumed j)), (''started_by_user_id'', jopt (mj_started_by j)),
      (''created_at'', JStr (pg_text C (mj_created j))), (''started_at'', opt_time C (mj_started j)),
      (''completed_at'', opt_time C (mj_completed j))]"

definition list_storage_migration_jobs_json :: "ctx \<Rightarrow> db \<Rightarrow> json list" where
  "list_storage_migration_jobs_json C d =
     (case run_read C ''mig.jobs'' (\<lambda>d. take 20 (order_by_desc mj_created (mig_jobs (media d)))) d of
        Inr js \<Rightarrow> map (mig_job_json C) js
      | Inl _ \<Rightarrow> [])"

definition mig_item_json :: "ctx \<Rightarrow> mig_item \<Rightarrow> json" where
  "mig_item_json C i = JObj
     [(''id'', JStr (mi_id i)), (''scope'', JStr (mi_scope i)), (''source_path'', JStr (mi_source i)),
      (''object_key'', JStr (mi_key i)), (''status'', JStr (mi_status i)), (''retry_attempts'', JNum (mi_retries i)),
      (''error_message'', jopt (mi_error i)), (''created_at'', JStr (pg_text C (mi_created i)))]"

definition list_storage_migration_job_items_json :: "ctx \<Rightarrow> string \<Rightarrow> db \<Rightarrow> json list" where
  "list_storage_migration_job_items_json C job_id d =
     (case run_read C ''mig.items'' (\<lambda>d. take 200 (order_by_desc mi_created
             (filter (\<lambda>i. mi_job i = job_id) (mig_items (media d))))) d of
        Inr is \<Rightarrow> map (mig_item_json C) is
      | Inl _ \<Rightarrow> [])"


section \<open>Settings\<close>

definition active_storage_summary :: "ctx \<Rightarrow> json" where
  "active_storage_summary C = JObj
     [(''backend'', JStr (env_or C ''STORAGE_BACKEND'' ''local'')), (''bucket'', JStr (env_or C ''S3_BUCKET'' [])),
      (''region'', JStr (env_or C ''S3_REGION'' ''us-east-1'')), (''endpoint'', JStr (env_or C ''S3_ENDPOINT'' [])),
      (''public_url'', JStr (env_or C ''S3_PUBLIC_URL'' [])),
      (''path_style'', JBool (env_var C ''S3_PATH_STYLE'' = Some ''true''))]"

definition active_backend :: "ctx \<Rightarrow> string" where
  "active_backend C = ascii_lower (env_or C ''STORAGE_BACKEND'' ''local'')"

text \<open>
  \<open>running\<close> is the flag of the running job.  The query of the jobs is the third of the handler.
\<close>

definition admin_storage_settings_get :: "ctx \<Rightarrow> bool \<Rightarrow> db \<Rightarrow> json \<times> db" where
  "admin_storage_settings_get C running d0 =
     (case ensure_admin_session C d0 of
        (Inl resp, d) \<Rightarrow> (resp, d)
      | (Inr _, d) \<Rightarrow>
     let s = load_storage_settings C d in
     (jok [(''active'', active_storage_summary C),
        (''desired'', JObj
          [(''backend'', JStr (so_backend s)), (''bucket'', JStr (so_bucket s)), (''region'', JStr (so_region s)),
           (''access_key'', JStr (so_access s)), (''secret_key'', JStr []), (''has_secret_key'', JBool (has_secret s)),
           (''endpoint'', JStr (so_endpoint s)), (''public_url'', JStr (so_public_url s)),
           (''path_style'', JBool (so_path_style s)), (''missing_fields'', JArr (map JStr (missing_fields s))),
           (''configured'', JBool (missing_fields s = []))]),
        (''restart_required'', JBool (normalized_backend s \<noteq> active_backend C)),
        (''running_job'', JBool running), (''jobs'', JArr (list_storage_migration_jobs_json C d))], d))"

text \<open>The payload has the columns of the settings; an empty secret keeps the stored one.\<close>

definition merged_settings :: "storage_row \<Rightarrow> storage_row \<Rightarrow> storage_row" where
  "merged_settings p existing = \<lparr> so_backend = ascii_lower (trim (so_backend p)), so_bucket = trim (so_bucket p),
     so_region = (if trim (so_region p) = [] then ''us-east-1'' else trim (so_region p)),
     so_access = trim (so_access p),
     so_secret = (if so_secret p = [] then so_secret existing else so_secret p),
     so_endpoint = trim (so_endpoint p), so_public_url = trim (so_public_url p), so_path_style = so_path_style p \<rparr>"

definition upsert_storage :: "storage_row \<Rightarrow> unit stmt" where
  "upsert_storage s d = Inr ((), set_media (\<lambda>m. m\<lparr>storage := Some s\<rparr>) d)"

definition saved_message :: string where
  "saved_message = ''Storage settings saved. Restart the application to apply the backend change at runtime.''"

definition admin_storage_settings_save :: "ctx \<Rightarrow> storage_row \<Rightarrow> db \<Rightarrow> json \<times> db" where
  "admin_storage_settings_save C p d0 =
     (case ensure_admin_session C d0 of
        (Inl resp, d) \<Rightarrow> (resp, d)
      | (Inr _, d) \<Rightarrow>
     let s = merged_settings p (load_storage_settings C d) in
     (case validate s of
        Inl e \<Rightarrow> (jerr e, d)
      | Inr _ \<Rightarrow>
     (case run_write C ''storage.save'' (upsert_storage s) d of
        (Inr _, d1) \<Rightarrow> (jok [(''message'', JStr saved_message),
           (''restart_required'', JBool (normalized_backend s \<noteq> active_backend C))], d1)
      | (Inl e, d1) \<Rightarrow> (jerr (''db: '' @ e), d1))))"

text \<open>\<open>test_storage_settings_connection\<close>: the error of the test, and the object it wrote.\<close>

definition test_storage_settings_connection :: "ctx \<Rightarrow> bucket \<Rightarrow> storage_row \<Rightarrow> (string + unit) \<times> puts" where
  "test_storage_settings_connection C B s =
     (case build_plugin C B s of
        Inl e \<Rightarrow> (Inl e, [])
      | Inr pl \<Rightarrow>
          if normalized_backend s = ''local'' then (Inr (), [])
          else
          (let temp_name = ''storage-test-'' @ fresh_uuid C ''storage.test'' @ ''.txt'';
               temp_path = path_push (tmp_dir (cfg C)) temp_name; key = ''healthchecks/'' @ temp_name;
               content = ''ppv-stream storage connection test''
           in case Option.bind (parent_dir temp_path) (fs_mkdir B) of
                Some e \<Rightarrow> (Inl e, [])
              | None \<Rightarrow>
              (case fs_write B temp_path content of
                 Some e \<Rightarrow> (Inl e, [])
               | None \<Rightarrow>
              (case put_file (B\<lparr>fs_read := (fs_read B)(temp_path := Inr content)\<rparr>) pl 0 key temp_path of
                 (Inl e, w) \<Rightarrow> (Inl e, w)
               | (Inr _, w) \<Rightarrow>
                   (case delete_object B pl key of Some e \<Rightarrow> (Inl e, w) | None \<Rightarrow> (Inr (), w))))))"

definition admin_storage_settings_test :: "ctx \<Rightarrow> bucket \<Rightarrow> storage_row \<Rightarrow> db \<Rightarrow> json \<times> puts \<times> db" where
  "admin_storage_settings_test C B p d0 =
     (case ensure_admin_session C d0 of
        (Inl resp, d) \<Rightarrow> (resp, [], d)
      | (Inr _, d) \<Rightarrow>
     let s = merged_settings p (load_storage_settings C d) in
     (case validate s of
        Inl e \<Rightarrow> (jerr e, [], d)
      | Inr _ \<Rightarrow>
     (case test_storage_settings_connection C B s of
        (Inr _, w) \<Rightarrow> (jok [(''message'', JStr (if normalized_backend s = ''local''
            then ''Local storage configuration is valid.'' else ''Remote storage connection test succeeded.''))], w, d)
      | (Inl e, w) \<Rightarrow> (jerr e, w, d))))"


section \<open>Requests on the jobs\<close>

text \<open>
  The process has one flag for the running job and the set of the jobs to be cancelled.  A request to
  start a job claims the flag before it does anything else that waits, so a claimed request
  (\<open>claim\<close>) and the task of a job are separate steps.
\<close>

record start_payload =
  st_uploads :: bool
  st_media :: bool
  st_resume :: "string option"

record claim =
  cl_ctx :: ctx
  cl_admin :: string
  cl_payload :: start_payload

record mig_task =
  tk_job :: string
  tk_settings :: storage_row
  tk_uploads :: bool
  tk_media :: bool
  tk_resume :: "string option"

datatype task = Spawned mig_task | Copying mig_run

record mig_state =
  ms_db :: db
  ms_running :: bool
  ms_cancelled :: "string set"
  ms_claims :: "claim list"
  ms_tasks :: "task list"
  ms_puts :: puts

definition admin_storage_migrations_get :: "ctx \<Rightarrow> mig_state \<Rightarrow> json \<times> mig_state" where
  "admin_storage_migrations_get C s =
     (case ensure_admin_session C (ms_db s) of
        (Inl resp, d) \<Rightarrow> (resp, s\<lparr>ms_db := d\<rparr>)
      | (Inr _, d) \<Rightarrow> (jok [(''running_job'', JBool (ms_running s)),
            (''jobs'', JArr (list_storage_migration_jobs_json C d))], s\<lparr>ms_db := d\<rparr>))"

definition admin_storage_migration_items_get :: "ctx \<Rightarrow> string \<Rightarrow> db \<Rightarrow> json \<times> db" where
  "admin_storage_migration_items_get C job_id d0 =
     (case ensure_admin_session C d0 of
        (Inl resp, d) \<Rightarrow> (resp, d)
      | (Inr _, d) \<Rightarrow> (jok [(''job_id'', JStr job_id),
            (''items'', JArr (list_storage_migration_job_items_json C job_id d))], d))"

text \<open>The first part of the start: up to the \<open>compare_exchange\<close> of the flag.\<close>

definition start_claim :: "ctx \<Rightarrow> start_payload \<Rightarrow> mig_state \<Rightarrow> (json + claim) \<times> mig_state" where
  "start_claim C p s =
     (case ensure_admin_session C (ms_db s) of
        (Inl resp, d) \<Rightarrow> (Inl resp, s\<lparr>ms_db := d\<rparr>)
      | (Inr admin, d) \<Rightarrow>
          if \<not> st_uploads p \<and> \<not> st_media p
          then (Inl (jerr ''select at least one migration scope''), s\<lparr>ms_db := d\<rparr>)
          else if ms_running s
          then (Inl (jerr ''a storage migration job is already running''), s\<lparr>ms_db := d\<rparr>)
          else (Inr \<lparr> cl_ctx = C, cl_admin = admin, cl_payload = p \<rparr>, s\<lparr>ms_db := d, ms_running := True\<rparr>))"

definition resume_source :: "start_payload \<Rightarrow> string option" where
  "resume_source p = Option.bind (map_option trim (st_resume p)) non_empty"

definition check_resume :: "ctx \<Rightarrow> string option \<Rightarrow> storage_row \<Rightarrow> db \<Rightarrow> string + unit" where
  "check_resume C resume settings d =
     (case resume of
        None \<Rightarrow> Inr ()
      | Some source \<Rightarrow>
     (case run_read C ''start.resume'' (find_mig_job source) d of
        Inl e \<Rightarrow> Inl (''db: '' @ e)
      | Inr None \<Rightarrow> Inl ''resume source job not found''
      | Inr (Some j) \<Rightarrow>
          if mj_status j \<notin> {''failed'', ''cancelled'', ''completed_with_errors''}
          then Inl ''resume source job must be failed, cancelled, or completed_with_errors''
          else if mj_backend j \<noteq> so_backend settings
          then Inl ''resume source job must use the same target backend''
          else Inr ()))"

definition new_mig_job :: "claim \<Rightarrow> storage_row \<Rightarrow> mig_job" where
  "new_mig_job c s = (let C = cl_ctx c; p = cl_payload c in
     \<lparr> mj_id = fresh_uuid C ''start.job'', mj_status = ''pending'', mj_backend = so_backend s, mj_bucket = so_bucket s,
       mj_endpoint = so_endpoint s, mj_uploads = st_uploads p, mj_media = st_media p, mj_total = 0, mj_copied = 0,
       mj_failed = 0, mj_retries = 0, mj_skipped = 0, mj_error = None, mj_started_by = Some (cl_admin c),
       mj_resumed = resume_source p, mj_created = now C, mj_started = None, mj_completed = None \<rparr>)"

text \<open>The rest of the start: it releases the flag, or hands it to the task of the job.\<close>

definition prepare_job :: "claim \<Rightarrow> db \<Rightarrow> (string + storage_row) \<times> db" where
  "prepare_job c d =
     (let C = cl_ctx c; p = cl_payload c; settings = load_storage_settings C d in
      case validate settings of
        Inl e \<Rightarrow> (Inl e, d)
      | Inr _ \<Rightarrow>
          if normalized_backend settings = ''local''
          then (Inl ''storage migration requires a remote backend such as s3, minio, r2, or b2'', d)
          else
          (case check_resume C (resume_source p) settings d of
             Inl e \<Rightarrow> (Inl e, d)
           | Inr _ \<Rightarrow>
          (case run_write C ''start.insert'' (ins_mig_job (new_mig_job c settings)) d of
             (Inl e, d1) \<Rightarrow> (Inl (''db: '' @ e), d1)
           | (Inr _, d1) \<Rightarrow> (Inr settings, d1))))"

definition start_claimed :: "claim \<Rightarrow> mig_state \<Rightarrow> json \<times> mig_state" where
  "start_claimed c s =
     (let C = cl_ctx c; p = cl_payload c; job_id = fresh_uuid C ''start.job'' in
      case prepare_job c (ms_db s) of
        (Inl e, d) \<Rightarrow> (jerr e, s\<lparr>ms_db := d, ms_running := False\<rparr>)
      | (Inr settings, d) \<Rightarrow>
          (jok [(''job_id'', JStr job_id), (''resumed_from_job_id'', jopt (resume_source p)),
                (''message'', JStr ''Storage migration started in the background.'')],
           s\<lparr>ms_db := d, ms_tasks := ms_tasks s @ [Spawned \<lparr> tk_job = job_id, tk_settings = settings,
               tk_uploads = st_uploads p, tk_media = st_media p, tk_resume = resume_source p \<rparr>]\<rparr>))"

definition admin_storage_migrations_start :: "ctx \<Rightarrow> start_payload \<Rightarrow> mig_state \<Rightarrow> json \<times> mig_state" where
  "admin_storage_migrations_start C p s =
     (case start_claim C p s of
        (Inl resp, s1) \<Rightarrow> (resp, s1)
      | (Inr c, s1) \<Rightarrow> start_claimed c s1)"

definition admin_storage_migration_cancel :: "ctx \<Rightarrow> string \<Rightarrow> mig_state \<Rightarrow> json \<times> mig_state" where
  "admin_storage_migration_cancel C job_id s =
     (case ensure_admin_session C (ms_db s) of
        (Inl resp, d) \<Rightarrow> (resp, s\<lparr>ms_db := d\<rparr>)
      | (Inr _, d) \<Rightarrow>
     (case run_read C ''cancel.row'' (find_mig_job job_id) d of
        Inl e \<Rightarrow> (jerr (''db: '' @ e), s\<lparr>ms_db := d\<rparr>)
      | Inr None \<Rightarrow> (jerr ''storage migration job not found'', s\<lparr>ms_db := d\<rparr>)
      | Inr (Some j) \<Rightarrow>
          if mj_status j \<notin> {''pending'', ''running'', ''cancel_requested''}
          then (jerr (''cannot cancel a job with status '' @ [CHR 0x27] @ mj_status j @ [CHR 0x27]), s\<lparr>ms_db := d\<rparr>)
          else
          let s1 = s\<lparr>ms_db := d, ms_cancelled := insert job_id (ms_cancelled s)\<rparr> in
          (case run_write C ''cancel.update'' (put_mig_job job_id (\<lambda>j. j\<lparr>mj_status := ''cancel_requested'',
                  mj_error := coalesce (mj_error j) (Some ''Cancellation requested by admin'')\<rparr>)) d of
             (Inr _, d1) \<Rightarrow> (jok [(''message'',
                JStr ''Cancellation requested. The job will stop after the current file finishes uploading.'')],
                s1\<lparr>ms_db := d1\<rparr>)
           | (Inl e, d1) \<Rightarrow> (jerr (''db: '' @ e), s1\<lparr>ms_db := d1\<rparr>))))"


section \<open>The task of a job, one step at a time\<close>

definition task_id :: "task \<Rightarrow> string" where
  "task_id t = (case t of Spawned k \<Rightarrow> tk_job k | Copying r \<Rightarrow> mr_job r)"

text \<open>One step: \<open>Inl\<close> is the outcome of the job, \<open>Inr\<close> the task as it goes on.\<close>

definition task_run ::
  "ctx \<Rightarrow> bucket \<Rightarrow> (string \<Rightarrow> string option) \<Rightarrow> (string \<Rightarrow> tree option) \<Rightarrow> string set \<Rightarrow> task \<Rightarrow> db
     \<Rightarrow> ((string + unit) + task) \<times> puts \<times> db" where
  "task_run C B ls T cancelled t d =
     (case t of
        Spawned k \<Rightarrow>
          (case job_begin C B ls T (tk_job k) (tk_settings k) (tk_uploads k) (tk_media k) (tk_resume k) d of
             (Inl e, d1) \<Rightarrow> (Inl (Inl e), [], d1)
           | (Inr r, d1) \<Rightarrow> (Inr (Copying r), [], d1))
      | Copying r \<Rightarrow>
          (case mr_todo r of
             [] \<Rightarrow> (case job_finish C r d of (x, d1) \<Rightarrow> (Inl x, [], d1))
           | (scope, path) # todo \<Rightarrow>
               if mr_job r \<in> cancelled
               then (case mark_storage_job_cancelled C r d of (x, d1) \<Rightarrow> (Inl x, [], d1))
               else (case migrate_file C B scope path r d of
                       (r1, w, d1) \<Rightarrow> (Inr (Copying (r1\<lparr>mr_todo := todo\<rparr>)), w, d1))))"

text \<open>The end of the task: an error is recorded, the request to cancel and the flag are cleared.\<close>

definition task_end :: "ctx \<Rightarrow> string \<Rightarrow> string + unit \<Rightarrow> mig_state \<Rightarrow> mig_state" where
  "task_end C job_id x s =
     s\<lparr>ms_db := (case x of Inl e \<Rightarrow> job_failed C job_id e (ms_db s) | Inr _ \<Rightarrow> ms_db s),
       ms_cancelled := ms_cancelled s - {job_id}, ms_running := False\<rparr>"

definition task_step ::
  "ctx \<Rightarrow> bucket \<Rightarrow> (string \<Rightarrow> string option) \<Rightarrow> (string \<Rightarrow> tree option) \<Rightarrow> nat \<Rightarrow> mig_state \<Rightarrow> mig_state" where
  "task_step C B ls T i s =
     (let t = ms_tasks s ! i in
      case task_run C B ls T (ms_cancelled s) t (ms_db s) of
        (Inr t1, w, d) \<Rightarrow> s\<lparr>ms_db := d, ms_puts := ms_puts s @ w, ms_tasks := (ms_tasks s)[i := t1]\<rparr>
      | (Inl x, w, d) \<Rightarrow> task_end C (task_id t) x
          (s\<lparr>ms_db := d, ms_puts := ms_puts s @ w, ms_tasks := take i (ms_tasks s) @ drop (Suc i) (ms_tasks s)\<rparr>))"

inductive mig_step :: "bucket \<Rightarrow> (string \<Rightarrow> string option) \<Rightarrow> (string \<Rightarrow> tree option) \<Rightarrow> mig_state \<Rightarrow> mig_state \<Rightarrow> bool"
  for B ls T where
  step_refused: "start_claim C p s = (Inl resp, s') \<Longrightarrow> mig_step B ls T s s'"
| step_claim: "start_claim C p s = (Inr c, s') \<Longrightarrow> mig_step B ls T s (s'\<lparr>ms_claims := ms_claims s' @ [c]\<rparr>)"
| step_claimed: "i < length (ms_claims s) \<Longrightarrow> start_claimed (ms_claims s ! i) s = (resp, s') \<Longrightarrow>
    mig_step B ls T s (s'\<lparr>ms_claims := take i (ms_claims s') @ drop (Suc i) (ms_claims s')\<rparr>)"
| step_cancel: "admin_storage_migration_cancel C job_id s = (resp, s') \<Longrightarrow> mig_step B ls T s s'"
| step_task: "i < length (ms_tasks s) \<Longrightarrow> mig_step B ls T s (task_step C B ls T i s)"

inductive_cases mig_stepE: "mig_step B ls T s s'"

end
