(* ===== verification/MigrationProperties.thy ===== *)
theory MigrationProperties
  imports Migration Demo "HOL-Library.Multiset"
begin

text \<open>
  The storage settings and the migration of the local files: one job at a time, counters that add up,
  and an item marked as copied only when its object was put; the listing of a directory against a
  recursive reference; what a save of the settings keeps.
\<close>

section \<open>What the statements do to the rows\<close>

abbreviation jobs :: "db \<Rightarrow> mig_job list" where "jobs d \<equiv> mig_jobs (media d)"
abbreviation items :: "db \<Rightarrow> mig_item list" where "items d \<equiv> mig_items (media d)"

text \<open>\<open>touched i f d d'\<close>: the rows of job \<open>i\<close> are changed by \<open>f\<close> or nothing happened; the items are the same.\<close>

definition touched :: "string \<Rightarrow> (mig_job \<Rightarrow> mig_job) \<Rightarrow> db \<Rightarrow> db \<Rightarrow> bool" where
  "touched i f d d' \<longleftrightarrow> items d' = items d \<and> (jobs d' = jobs d \<or> jobs d' = upd_where (\<lambda>j. mj_id j = i) f (jobs d))"

lemma put_job_touched:
  assumes "run_write C s (put_mig_job i f) d = (x, d')"
  shows "touched i f d d'"
  using run_write_cases(1) [OF assms] by (auto simp: put_mig_job_def set_media_def touched_def)

lemma put_job_done:
  assumes "run_write C s (put_mig_job i f) d = (Inr u, d')"
  shows "jobs d' = upd_where (\<lambda>j. mj_id j = i) f (jobs d)" "items d' = items d"
  using run_write_cases(2) [OF assms refl] by (auto simp: put_mig_job_def set_media_def)

lemma put_job_snd: "touched i f d (snd (run_write C s (put_mig_job i f) d))"
  by (cases "run_write C s (put_mig_job i f) d") (simp add: put_job_touched)

lemma touched_rows:
  assumes "touched i f d d'" "\<forall>j\<in>set (jobs d). P j" "\<And>j. mj_id j = i \<Longrightarrow> j \<in> set (jobs d) \<Longrightarrow> P j \<Longrightarrow> P (f j)"
  shows "\<forall>j\<in>set (jobs d'). P j"
  using assms by (auto simp: touched_def set_upd_where)

lemma pruned_media: "pruned d d' \<Longrightarrow> media d' = media d"
  by (auto simp: pruned_def)

lemma admin_media: "ensure_admin_session C d = (x, d') \<Longrightarrow> media d' = media d"
  by (rule pruned_media) (rule ensure_admin_pruned)

lemma insert_item_cases:
  "items (insert_storage_migration_job_item C j sc so key st n e d) = items d
   \<or> (\<exists>i. items (insert_storage_migration_job_item C j sc so key st n e d) = items d @ [i] \<and> mi_key i = key \<and> mi_status i = st)"
  "jobs (insert_storage_migration_job_item C j sc so key st n e d) = jobs d"
proof -
  let ?i = "\<lparr> mi_id = fresh_uuid C (''mig.item.'' @ key), mi_job = j, mi_scope = sc, mi_source = so, mi_key = key,
     mi_status = st, mi_retries = n, mi_error = e, mi_created = now C \<rparr>"
  obtain x d' where w: "run_write C (''mig.item.'' @ key) (ins_mig_item ?i) d = (x, d')" by fastforce
  have "d' = d \<or> media d' = (media d)\<lparr>mig_items := items d @ [?i]\<rparr>"
    using run_write_cases(1) [OF w] by (auto simp: ins_mig_item_def set_media_def split: if_splits)
  then show "items (insert_storage_migration_job_item C j sc so key st n e d) = items d
   \<or> (\<exists>i. items (insert_storage_migration_job_item C j sc so key st n e d) = items d @ [i] \<and> mi_key i = key \<and> mi_status i = st)"
    "jobs (insert_storage_migration_job_item C j sc so key st n e d) = jobs d"
    unfolding insert_storage_migration_job_item_def w by auto
qed


section \<open>One file\<close>

lemma uploaded:
  assumes "upload_storage_migration_file B pl key path label = (Inr m, w)" "\<not> is_local pl"
  shows "\<exists>content. fs_read B path = Inr content \<and> (bk_path B key, content) \<in> set w"
proof -
  obtain p where "pl = S3 p" using assms(2) by (cases pl) (auto simp: is_local_def)
  then have "upload_tries (put_file B (S3 p)) key path label STORAGE_MIGRATION_MAX_ATTEMPTS 0 [] = (Inr m, w)"
    using assms(1) by (simp add: upload_storage_migration_file_def)
  from remote.tries_stored [OF this] show ?thesis by auto
qed

definition counted_files :: "mig_run \<Rightarrow> int" where
  "counted_files r = mr_copied r + mr_failed r + mr_skipped r"

text \<open>What one turn of the loop does: a file more is counted, and the item it adds tells what happened.\<close>

definition item_true :: "bucket \<Rightarrow> string set \<Rightarrow> puts \<Rightarrow> mig_item \<Rightarrow> bool" where
  "item_true B keys w i \<longleftrightarrow>
     (mi_status i = ''copied'' \<longrightarrow> bk_path B (mi_key i) \<in> fst ` set w) \<and> (mi_status i = ''skipped'' \<longrightarrow> mi_key i \<in> keys)"

definition run_advances :: "mig_run \<Rightarrow> mig_run \<Rightarrow> bool" where
  "run_advances r r1 \<longleftrightarrow> mr_job r1 = mr_job r \<and> mr_plugin r1 = mr_plugin r \<and> mr_keys r1 = mr_keys r
     \<and> mr_copied r \<le> mr_copied r1 \<and> mr_failed r \<le> mr_failed r1 \<and> mr_skipped r \<le> mr_skipped r1
     \<and> counted_files r1 = counted_files r + 1"

lemma record_file:
  assumes "d2 = update_storage_job_progress C r1 (insert_storage_migration_job_item C (mr_job r1) sc so key st n e d)"
    and "\<And>i. mi_key i = key \<Longrightarrow> mi_status i = st \<Longrightarrow> item_true B keys w i"
  shows "(items d2 = items d \<or> (\<exists>i. items d2 = items d @ [i] \<and> item_true B keys w i))
    \<and> (jobs d2 = jobs d \<or> jobs d2 = upd_where (\<lambda>j. mj_id j = mr_job r1) (\<lambda>j. keep_error r1 (counted r1 j)) (jobs d))"
proof -
  let ?d1 = "insert_storage_migration_job_item C (mr_job r1) sc so key st n e d"
  have "touched (mr_job r1) (\<lambda>j. keep_error r1 (counted r1 j)) ?d1 d2"
    unfolding assms(1) update_storage_job_progress_def by (rule put_job_snd)
  with insert_item_cases [of C "mr_job r1" sc so key st n e d] assms(2) show ?thesis
    unfolding touched_def by metis
qed

lemma migrate_file_effect:
  assumes m: "migrate_file C B sc path r d = (r1, w, d1)" and pl: "\<not> is_local (mr_plugin r)"
  shows "run_advances r r1
    \<and> (items d1 = items d \<or> (\<exists>i. items d1 = items d @ [i] \<and> item_true B (mr_keys r) w i))
    \<and> (jobs d1 = jobs d \<or> jobs d1 = upd_where (\<lambda>j. mj_id j = mr_job r) (\<lambda>j. keep_error r1 (counted r1 j)) (jobs d))"
proof (cases "scope_key C sc path \<in> mr_keys r")
  case True
  with m have r1: "r1 = r\<lparr>mr_skipped := mr_skipped r + 1\<rparr>" and d1: "d1 = update_storage_job_progress C r1
      (insert_storage_migration_job_item C (mr_job r1) sc (forward_slashes path) (scope_key C sc path) ''skipped'' 0
        (Some skipped_note) d)" by (auto simp: migrate_file_def Let_def)
  have adv: "run_advances r r1" and job: "mr_job r1 = mr_job r" unfolding r1 by (simp_all add: run_advances_def counted_files_def)
  show ?thesis using record_file [OF d1, of B "mr_keys r" w] adv True unfolding job by (simp add: item_true_def)
next
  case False
  obtain x ws where u: "upload_storage_migration_file B (mr_plugin r) (scope_key C sc path) path (scope_label sc) = (x, ws)"
    by fastforce
  show ?thesis
  proof (cases x)
    case (Inr n)
    with m False u have r1: "r1 = r\<lparr>mr_copied := mr_copied r + 1, mr_retries := mr_retries r + int n\<rparr>" and w: "w = ws"
      and d1: "d1 = update_storage_job_progress C r1 (insert_storage_migration_job_item C (mr_job r1) sc (forward_slashes path)
        (scope_key C sc path) ''copied'' (int n) None d)" by (auto simp: migrate_file_def Let_def)
    have adv: "run_advances r r1" and job: "mr_job r1 = mr_job r" unfolding r1 by (simp_all add: run_advances_def counted_files_def)
    have "bk_path B (scope_key C sc path) \<in> fst ` set w"
      using uploaded [OF u [unfolded Inr] pl] w by force
    then show ?thesis using record_file [OF d1, of B "mr_keys r" w] adv unfolding job by (simp add: item_true_def)
  next
    case (Inl e)
    with m False u have r1: "r1 = r\<lparr>mr_failed := mr_failed r + 1, mr_retries := mr_retries r + STORAGE_MIGRATION_MAX_RETRIES,
        mr_error := Some e\<rparr>"
      and d1: "d1 = update_storage_job_progress C r1 (insert_storage_migration_job_item C (mr_job r1) sc (forward_slashes path)
        (scope_key C sc path) ''failed'' STORAGE_MIGRATION_MAX_RETRIES (Some e) d)" by (auto simp: migrate_file_def Let_def)
    have adv: "run_advances r r1" and job: "mr_job r1 = mr_job r" unfolding r1 by (simp_all add: run_advances_def counted_files_def)
    show ?thesis using record_file [OF d1, of B "mr_keys r" w] adv unfolding job by (simp add: item_true_def)
  qed
qed


section \<open>The invariant\<close>

definition row_ok :: "mig_job \<Rightarrow> bool" where
  "row_ok j \<longleftrightarrow> 0 \<le> mj_copied j \<and> 0 \<le> mj_failed j \<and> 0 \<le> mj_skipped j
     \<and> mj_copied j + mj_failed j + mj_skipped j \<le> mj_total j
     \<and> (mj_status j = ''completed'' \<longrightarrow> mj_failed j = 0 \<and> mj_copied j + mj_skipped j = mj_total j)
     \<and> (mj_status j = ''completed_with_errors'' \<longrightarrow>
          0 < mj_failed j \<and> mj_copied j + mj_failed j + mj_skipped j = mj_total j)"

definition put_before :: "bucket \<Rightarrow> puts \<Rightarrow> string \<Rightarrow> bool" where
  "put_before B ps key \<longleftrightarrow> bk_path B key \<in> fst ` set ps"

text \<open>The row of a job that is about to start, and of one that has files to do.\<close>

definition row_new :: "mig_job \<Rightarrow> bool" where
  "row_new j \<longleftrightarrow> mj_copied j = 0 \<and> mj_failed j = 0 \<and> mj_skipped j = 0
     \<and> mj_status j \<in> {''pending'', ''cancel_requested''}"

definition row_open :: "mig_run \<Rightarrow> mig_job \<Rightarrow> bool" where
  "row_open r j \<longleftrightarrow> mj_total j = counted_files r + int (length (mr_todo r)) \<and> mj_status j \<in> {''running'', ''cancel_requested''}"

fun task_ok :: "bucket \<Rightarrow> db \<Rightarrow> puts \<Rightarrow> task \<Rightarrow> bool" where
  "task_ok B d ps (Spawned k) \<longleftrightarrow> normalized_backend (tk_settings k) \<noteq> ''local''
     \<and> (\<forall>j\<in>set (jobs d). mj_id j = tk_job k \<longrightarrow> row_new j)"
| "task_ok B d ps (Copying r) \<longleftrightarrow> \<not> is_local (mr_plugin r) \<and> 0 \<le> mr_copied r \<and> 0 \<le> mr_failed r \<and> 0 \<le> mr_skipped r
     \<and> (\<forall>k\<in>mr_keys r. put_before B ps k) \<and> (\<forall>j\<in>set (jobs d). mj_id j = mr_job r \<longrightarrow> row_open r j)"

definition items_ok :: "bucket \<Rightarrow> db \<Rightarrow> puts \<Rightarrow> bool" where
  "items_ok B d ps \<longleftrightarrow> (\<forall>i\<in>set (items d). mi_status i \<in> {''copied'', ''skipped''} \<longrightarrow> put_before B ps (mi_key i))"

definition one_job :: "mig_state \<Rightarrow> bool" where
  "one_job s \<longleftrightarrow> length (ms_claims s) + length (ms_tasks s) = (if ms_running s then 1 else 0)"

definition mig_inv :: "bucket \<Rightarrow> mig_state \<Rightarrow> bool" where
  "mig_inv B s \<longleftrightarrow> one_job s \<and> (\<forall>j\<in>set (jobs (ms_db s)). row_ok j) \<and> items_ok B (ms_db s) (ms_puts s)
     \<and> (\<forall>t\<in>set (ms_tasks s). task_ok B (ms_db s) (ms_puts s) t)"

text \<open>A process that starts on a database without jobs.\<close>

definition mig_init :: "mig_state \<Rightarrow> bool" where
  "mig_init s \<longleftrightarrow> \<not> ms_running s \<and> ms_claims s = [] \<and> ms_tasks s = [] \<and> jobs (ms_db s) = [] \<and> items (ms_db s) = []"

lemma mig_inv_init: "mig_init s \<Longrightarrow> mig_inv B s"
  by (simp add: mig_init_def mig_inv_def one_job_def items_ok_def)

lemma task_ok_rows: "jobs d' = jobs d \<Longrightarrow> task_ok B d ps t \<Longrightarrow> task_ok B d' ps t"
  by (cases t) auto

lemma mig_inv_media:
  "media d = media (ms_db s) \<Longrightarrow> mig_inv B s \<Longrightarrow> mig_inv B (s\<lparr>ms_db := d\<rparr>)"
  by (auto simp: mig_inv_def one_job_def items_ok_def intro: task_ok_rows [of d "ms_db s"])

lemma start_claim_media:
  "start_claim C p s = (x, s') \<Longrightarrow> \<exists>d. media d = media (ms_db s) \<and>
     s' = s\<lparr>ms_db := d, ms_running := (case x of Inl _ \<Rightarrow> ms_running s | Inr _ \<Rightarrow> True)\<rparr>
     \<and> (\<forall>c. x = Inr c \<longrightarrow> \<not> ms_running s)"
  unfolding start_claim_def
  by (cases "ensure_admin_session C (ms_db s)") (fastforce split: sum.splits if_splits dest: admin_media)

lemma prepare_job_rows:
  assumes "prepare_job c d = (x, d')"
  shows "items d' = items d \<and> (case x of
      Inl e \<Rightarrow> jobs d' = jobs d \<or> (\<exists>st. jobs d' = jobs d @ [new_mig_job c st])
    | Inr st \<Rightarrow> normalized_backend st \<noteq> ''local'' \<and> jobs d' = jobs d @ [new_mig_job c st]
        \<and> (\<forall>j\<in>set (jobs d). mj_id j \<noteq> fresh_uuid (cl_ctx c) ''start.job''))"
proof -
  let ?C = "cl_ctx c" let ?st = "load_storage_settings ?C d"
  obtain y d1 where w: "run_write ?C ''start.insert'' (ins_mig_job (new_mig_job c ?st)) d = (y, d1)" by fastforce
  have ins: "ins_mig_job (new_mig_job c ?st) d = Inr (u, d2) \<Longrightarrow> items d2 = items d \<and> jobs d2 = jobs d @ [new_mig_job c ?st]
      \<and> (\<forall>j\<in>set (jobs d). mj_id j \<noteq> fresh_uuid ?C ''start.job'')" for u d2
    by (auto simp: ins_mig_job_def set_media_def find_mig_job_def find_None_set new_mig_job_def Let_def split: if_splits)
  have out: "items d1 = items d \<and> (jobs d1 = jobs d \<or> jobs d1 = jobs d @ [new_mig_job c ?st])"
    using run_write_cases(1) [OF w] ins by metis
  have ok: "y = Inr u \<Longrightarrow> items d1 = items d \<and> jobs d1 = jobs d @ [new_mig_job c ?st]
      \<and> (\<forall>j\<in>set (jobs d). mj_id j \<noteq> fresh_uuid ?C ''start.job'')" for u
    using run_write_cases(2) [OF w] ins by blast
  show ?thesis
    using assms out ok unfolding prepare_job_def Let_def w
    by (cases y) (auto split: sum.splits if_splits)
qed

lemma new_job_row: "row_ok (new_mig_job c st)" "row_new (new_mig_job c st)"
  "mj_id (new_mig_job c st) = fresh_uuid (cl_ctx c) ''start.job''"
  by (simp_all add: row_ok_def row_new_def new_mig_job_def Let_def)

lemma one_claim:
  assumes "one_job s" "i < length (ms_claims s)"
  shows "ms_running s" "i = 0" "length (ms_claims s) = 1" "ms_tasks s = []"
  using assms unfolding one_job_def
  by (cases "ms_claims s"; cases "ms_tasks s"; force split: if_splits)+

lemma one_task:
  assumes "one_job s" "i < length (ms_tasks s)"
  shows "ms_running s" "i = 0" "ms_tasks s = [ms_tasks s ! i]" "ms_claims s = []"
  using assms unfolding one_job_def
  by (cases "ms_claims s"; cases "ms_tasks s"; force split: if_splits)+

lemma claimed_inv:
  assumes inv: "mig_inv B s" and i: "i < length (ms_claims s)"
    and st: "start_claimed (ms_claims s ! i) s = (resp, s')"
  shows "mig_inv B (s'\<lparr>ms_claims := take i (ms_claims s') @ drop (Suc i) (ms_claims s')\<rparr>)"
proof -
  let ?c = "ms_claims s ! i"
  have one: "one_job s" using inv by (simp add: mig_inv_def)
  note single = one_claim [OF one i]
  obtain x d where p: "prepare_job ?c (ms_db s) = (x, d)" by fastforce
  note rows = prepare_job_rows [OF p]
  have good: "\<forall>j\<in>set (jobs d). row_ok j"
    using inv rows new_job_row(1) by (auto simp: mig_inv_def split: sum.splits)
  have it: "items_ok B d (ms_puts s)" using inv rows by (auto simp: mig_inv_def items_ok_def)
  show ?thesis
  proof (cases x)
    case (Inl e)
    with st p have "s' = s\<lparr>ms_db := d, ms_running := False\<rparr>" by (simp add: start_claimed_def Let_def)
    with good it single show ?thesis by (simp add: mig_inv_def one_job_def)
  next
    case (Inr settings)
    let ?t = "Spawned \<lparr> tk_job = fresh_uuid (cl_ctx ?c) ''start.job'', tk_settings = settings,
      tk_uploads = st_uploads (cl_payload ?c), tk_media = st_media (cl_payload ?c), tk_resume = resume_source (cl_payload ?c) \<rparr>"
    from Inr st p have s': "s' = s\<lparr>ms_db := d, ms_tasks := ms_tasks s @ [?t]\<rparr>" by (simp add: start_claimed_def Let_def)
    have "task_ok B d (ms_puts s) ?t" using rows Inr new_job_row by auto
    with good it single show ?thesis unfolding s' by (simp add: mig_inv_def one_job_def)
  qed
qed

lemma cancel_inv:
  assumes inv: "mig_inv B s" and c: "admin_storage_migration_cancel C i s = (resp, s')"
  shows "mig_inv B s'"
proof -
  obtain x d where a: "ensure_admin_session C (ms_db s) = (x, d)" by fastforce
  have "\<exists>d' cs f. s' = s\<lparr>ms_db := d', ms_cancelled := cs\<rparr> \<and> touched i f (ms_db s) d'
      \<and> (\<forall>j. f j = j\<lparr>mj_status := ''cancel_requested'', mj_error := mj_error (f j)\<rparr>)"
  proof (cases "\<exists>j. x = Inr j \<and> (\<exists>row. run_read C ''cancel.row'' (find_mig_job i) d = Inr (Some row)
      \<and> mj_status row \<in> {''pending'', ''running'', ''cancel_requested''})")
    case True
    let ?f = "\<lambda>j. j\<lparr>mj_status := ''cancel_requested'', mj_error := coalesce (mj_error j) (Some ''Cancellation requested by admin'')\<rparr>"
    obtain y d1 where w: "run_write C ''cancel.update'' (put_mig_job i ?f) d = (y, d1)" by fastforce
    have "touched i ?f (ms_db s) d1" using put_job_touched [OF w] admin_media [OF a] by (simp add: touched_def)
    moreover have "s' = s\<lparr>ms_db := d1, ms_cancelled := insert i (ms_cancelled s)\<rparr>"
      using True c a w unfolding admin_storage_migration_cancel_def Let_def by (cases y) auto
    ultimately show ?thesis by (intro exI [of _ d1] exI [of _ "insert i (ms_cancelled s)"] exI [of _ ?f]) simp
  next
    case False
    then have "s' = s\<lparr>ms_db := d\<rparr>"
      using c a unfolding admin_storage_migration_cancel_def
      by (auto split: sum.splits option.splits if_splits)
    then show ?thesis using admin_media [OF a]
      by (intro exI [of _ d] exI [of _ "ms_cancelled s"]
          exI [of _ "\<lambda>j. j\<lparr>mj_status := ''cancel_requested''\<rparr>"]) (simp add: touched_def)
  qed
  then obtain d' cs f where s': "s' = s\<lparr>ms_db := d', ms_cancelled := cs\<rparr>" and t: "touched i f (ms_db s) d'"
    and f: "\<And>j. f j = j\<lparr>mj_status := ''cancel_requested'', mj_error := mj_error (f j)\<rparr>" by blast
  have same: "mj_status (f j) = ''cancel_requested''" "mj_total (f j) = mj_total j" "mj_copied (f j) = mj_copied j"
    "mj_failed (f j) = mj_failed j" "mj_skipped (f j) = mj_skipped j" "mj_id (f j) = mj_id j" for j
    by (subst f, simp)+
  have rows: "\<forall>j\<in>set (jobs d'). row_ok j"
    by (rule touched_rows [OF t]) (use inv in \<open>auto simp: mig_inv_def row_ok_def same\<close>)
  have tasks: "task_ok B d' (ms_puts s) k" if "k \<in> set (ms_tasks s)" for k
  proof -
    have old: "task_ok B (ms_db s) (ms_puts s) k" using inv that by (simp add: mig_inv_def)
    show ?thesis
    proof (cases k)
      case (Spawned x1)
      have "\<forall>j\<in>set (jobs d'). mj_id j = tk_job x1 \<longrightarrow> row_new j"
        by (rule touched_rows [OF t]) (use old Spawned in \<open>auto simp: row_new_def same\<close>)
      with old Spawned show ?thesis by simp
    next
      case (Copying r)
      have "\<forall>j\<in>set (jobs d'). mj_id j = mr_job r \<longrightarrow> row_open r j"
        by (rule touched_rows [OF t]) (use old Copying in \<open>auto simp: row_open_def same\<close>)
      with old Copying show ?thesis by simp
    qed
  qed
  from t inv have "items_ok B d' (ms_puts s)" by (simp add: touched_def mig_inv_def items_ok_def)
  with rows tasks inv show ?thesis unfolding s' by (simp add: mig_inv_def one_job_def)
qed

lemma put_before_append: "put_before B ps k \<Longrightarrow> put_before B (ps @ w) k"
  by (auto simp: put_before_def)

lemma items_ok_append: "items d' = items d \<Longrightarrow> items_ok B d ps \<Longrightarrow> items_ok B d' (ps @ w)"
  by (auto simp: items_ok_def put_before_append)

lemma build_remote:
  "build_plugin C B st = Inr pl \<Longrightarrow> normalized_backend st \<noteq> ''local'' \<Longrightarrow> \<not> is_local pl"
  by (auto simp: build_plugin_def is_local_def Let_def split: sum.splits if_splits)

lemma resumable_put:
  "items_ok B d ps \<Longrightarrow> k \<in> load_resumable_storage_object_keys C j d \<Longrightarrow> put_before B ps k"
  by (auto simp: load_resumable_storage_object_keys_def run_read_def items_ok_def split: option.splits)

definition started_job :: "ctx \<Rightarrow> int \<Rightarrow> mig_job \<Rightarrow> mig_job" where
  "started_job C n j = j\<lparr>mj_status := ''running'', mj_total := n, mj_started := Some (now C), mj_error := None\<rparr>"

lemma begin_cases:
  assumes "job_begin C B ls T i st up me rs d = (x, d1)"
  shows "(\<exists>n\<ge>0. touched i (started_job C n) d d1) \<and>
    (\<forall>r. x = Inr r \<longrightarrow> mr_job r = i \<and> build_plugin C B st = Inr (mr_plugin r)
       \<and> counted_files r = 0 \<and> mr_copied r = 0 \<and> mr_failed r = 0 \<and> mr_skipped r = 0
       \<and> jobs d1 = upd_where (\<lambda>j. mj_id j = i) (started_job C (int (length (mr_todo r)))) (jobs d)
       \<and> mr_keys r \<subseteq> (case rs of None \<Rightarrow> {} | Some k \<Rightarrow> load_resumable_storage_object_keys C k d1))"
proof (cases "\<exists>pl ups meds. build_plugin C B st = Inr pl \<and> listed ls T up (upload_dir (cfg C)) = Inr ups
    \<and> listed ls T me (media_dir (cfg C)) = Inr meds")
  case False
  then have "d1 = d \<and> (\<exists>e. x = Inl e)"
    using assms unfolding job_begin_def by (auto split: sum.splits)
  then show ?thesis by (auto simp: touched_def)
next
  case True
  then obtain pl ups meds where ok: "build_plugin C B st = Inr pl" "listed ls T up (upload_dir (cfg C)) = Inr ups"
    "listed ls T me (media_dir (cfg C)) = Inr meds" by blast
  let ?n = "int (length ups + length meds)"
  obtain y d2 where w: "run_write C ''mig.running'' (put_mig_job i (started_job C ?n)) d = (y, d2)" by fastforce
  have t: "\<exists>n\<ge>0. touched i (started_job C n) d d2" using put_job_touched [OF w] by (intro exI [of _ ?n]) simp
  show ?thesis
    using assms ok t put_job_done(1) [of C "''mig.running''" i "started_job C ?n" d] w
    unfolding job_begin_def started_job_def
    by (cases y) (auto simp: counted_files_def split: option.splits)
qed

lemma spawned_run:
  assumes ok: "task_ok B d ps (Spawned k)" "\<forall>j\<in>set (jobs d). row_ok j" "items_ok B d ps"
    and run: "task_run C B ls T cs (Spawned k) d = (y, w, d1)"
  shows "w = []" "\<forall>j\<in>set (jobs d1). row_ok j" "items_ok B d1 ps" "y = Inr t1 \<Longrightarrow> task_ok B d1 ps t1"
proof -
  obtain x d2 where b: "job_begin C B ls T (tk_job k) (tk_settings k) (tk_uploads k) (tk_media k) (tk_resume k) d = (x, d2)"
    by fastforce
  from run b have w: "w = []" and d1: "d1 = d2" and y: "y = (case x of Inl e \<Rightarrow> Inl (Inl e) | Inr r \<Rightarrow> Inr (Copying r))"
    by (auto simp: task_run_def split: sum.splits)
  show "w = []" by (rule w)
  note c = begin_cases [OF b]
  obtain n where n: "0 \<le> n" and t: "touched (tk_job k) (started_job C n) d d1" using c d1 by auto
  show rows: "\<forall>j\<in>set (jobs d1). row_ok j"
    by (rule touched_rows [OF t ok(2)]) (use ok(1) n in \<open>auto simp: row_ok_def row_new_def started_job_def\<close>)
  show its: "items_ok B d1 ps" using t ok(3) by (simp add: touched_def items_ok_def)
  assume "y = Inr t1"
  then obtain r where x: "x = Inr r" and t1: "t1 = Copying r" using y by (auto split: sum.splits)
  have "\<forall>j\<in>set (jobs d1). mj_id j = mr_job r \<longrightarrow> row_open r j"
    using c x unfolding d1 by (auto simp: set_upd_where row_open_def started_job_def)
  moreover have "\<forall>k\<in>mr_keys r. put_before B ps k"
    using c x d1 resumable_put [OF its] by (auto split: option.splits)
  moreover have "\<not> is_local (mr_plugin r)"
    using c x ok(1) build_remote by auto
  ultimately show "task_ok B d1 ps t1" using c x unfolding t1 by auto
qed

lemma copying_file:
  assumes ok: "task_ok B d ps (Copying r)" "\<forall>j\<in>set (jobs d). row_ok j" "items_ok B d ps"
    and todo: "mr_todo r = (sc, path) # todo" and m: "migrate_file C B sc path r d = (r1, w, d1)"
  shows "(\<forall>j\<in>set (jobs d1). row_ok j) \<and> items_ok B d1 (ps @ w) \<and> task_ok B d1 (ps @ w) (Copying (r1\<lparr>mr_todo := todo\<rparr>))"
proof -
  from ok(1) have rem: "\<not> is_local (mr_plugin r)" and pos: "0 \<le> mr_copied r" "0 \<le> mr_failed r" "0 \<le> mr_skipped r"
    and keys: "\<forall>k\<in>mr_keys r. put_before B ps k" and opn: "\<forall>j\<in>set (jobs d). mj_id j = mr_job r \<longrightarrow> row_open r j" by auto
  note e = migrate_file_effect [OF m rem]
  then have adv: "run_advances r r1" by blast
  let ?f = "\<lambda>j. keep_error r1 (counted r1 j)"
  have f: "mj_status (?f j) = mj_status j" "mj_total (?f j) = mj_total j" "mj_copied (?f j) = mr_copied r1"
    "mj_failed (?f j) = mr_failed r1" "mj_skipped (?f j) = mr_skipped r1" "mj_id (?f j) = mj_id j" for j
    by (simp_all add: keep_error_def counted_def)
  have rows: "\<forall>j\<in>set (jobs d1). row_ok j \<and> (mj_id j = mr_job r \<longrightarrow> row_open (r1\<lparr>mr_todo := todo\<rparr>) j)"
  proof -
    have old: "row_ok j \<and> (mj_id j = mr_job r \<longrightarrow> row_open (r1\<lparr>mr_todo := todo\<rparr>) j)" if "j \<in> set (jobs d)" for j
      using that ok(2) opn todo adv by (auto simp: row_open_def run_advances_def counted_files_def)
    have new: "row_ok (?f j) \<and> row_open (r1\<lparr>mr_todo := todo\<rparr>) (?f j)" if "j \<in> set (jobs d)" "mj_id j = mr_job r" for j
      using that opn todo adv pos by (auto simp: row_ok_def row_open_def run_advances_def counted_files_def f)
    from e old new show ?thesis by (auto simp: set_upd_where f)
  qed
  have its: "items_ok B d1 (ps @ w)"
    unfolding items_ok_def
  proof (intro ballI impI)
    fix i assume i: "i \<in> set (items d1)" and st: "mi_status i \<in> {''copied'', ''skipped''}"
    from e i have "i \<in> set (items d) \<or> item_true B (mr_keys r) w i" by auto
    then show "put_before B (ps @ w) (mi_key i)"
      using st ok(3) keys unfolding items_ok_def item_true_def
      by (auto simp: put_before_append) (force simp: put_before_def)
  qed
  show ?thesis
    using rows its adv rem pos keys by (auto simp: run_advances_def put_before_append)
qed

lemma copying_end:
  assumes ok: "task_ok B d ps (Copying r)" "\<forall>j\<in>set (jobs d). row_ok j"
    and run: "task_run C B ls T cs (Copying r) d = (Inl x, w, d1)"
  shows "w = [] \<and> items d1 = items d \<and> (\<forall>j\<in>set (jobs d1). row_ok j)"
proof (cases "mr_todo r")
  case Nil
  let ?f = "\<lambda>j. (counted r j)\<lparr>mj_status := final_status r, mj_error := mr_error r, mj_completed := Some (now C)\<rparr>"
  obtain y d2 where f: "job_finish C r d = (y, d2)" by fastforce
  with run Nil have d1: "d1 = d2" and w: "w = []" by (auto simp: task_run_def)
  have t: "touched (mr_job r) ?f d d1" using put_job_touched f d1 unfolding job_finish_def by blast
  have "\<forall>j\<in>set (jobs d1). row_ok j"
    by (rule touched_rows [OF t ok(2)])
      (use ok(1) Nil in \<open>auto simp: row_ok_def row_open_def counted_def final_status_def counted_files_def\<close>)
  with t w show ?thesis by (simp add: touched_def)
next
  case (Cons p todo)
  obtain sc path where p: "p = (sc, path)" by fastforce
  let ?f = "\<lambda>j. (keep_error r (counted r j))\<lparr>mj_status := ''cancelled'', mj_completed := Some (now C)\<rparr>"
  obtain y d2 where f: "mark_storage_job_cancelled C r d = (y, d2)" by fastforce
  with run Cons p have d1: "d1 = d2" and w: "w = []" by (auto simp: task_run_def split: if_splits prod.splits)
  have t: "touched (mr_job r) ?f d d1" using put_job_touched f d1 unfolding mark_storage_job_cancelled_def by blast
  have "\<forall>j\<in>set (jobs d1). row_ok j"
    by (rule touched_rows [OF t ok(2)])
      (use ok(1) Cons in \<open>auto simp: row_ok_def row_open_def counted_def keep_error_def counted_files_def\<close>)
  with t w show ?thesis by (simp add: touched_def)
qed

lemma job_failed_rows:
  assumes "\<forall>j\<in>set (jobs d). row_ok j"
  shows "\<forall>j\<in>set (jobs (job_failed C i e d)). row_ok j" "items (job_failed C i e d) = items d"
proof -
  have t: "touched i (\<lambda>j. j\<lparr>mj_status := ''failed'', mj_error := Some e, mj_completed := Some (now C)\<rparr>) d (job_failed C i e d)"
    unfolding job_failed_def by (rule put_job_snd)
  show "\<forall>j\<in>set (jobs (job_failed C i e d)). row_ok j"
    by (rule touched_rows [OF t assms]) (simp add: row_ok_def)
  show "items (job_failed C i e d) = items d" using t by (simp add: touched_def)
qed

lemma task_run_inv:
  assumes ok: "task_ok B d ps t" "\<forall>j\<in>set (jobs d). row_ok j" "items_ok B d ps"
    and run: "task_run C B ls T cs t d = (y, w, d1)"
  shows "(\<forall>j\<in>set (jobs d1). row_ok j) \<and> items_ok B d1 (ps @ w) \<and> (\<forall>t1. y = Inr t1 \<longrightarrow> task_ok B d1 (ps @ w) t1)"
proof (cases t)
  case (Spawned k)
  with spawned_run [OF _ ok(2,3), of k C ls T cs y w d1] ok run show ?thesis by auto
next
  case (Copying r)
  show ?thesis
  proof (cases y)
    case (Inl x)
    with copying_end [of B d ps r C ls T cs x w d1] ok run Copying items_ok_append [of d1 d B ps w] show ?thesis by auto
  next
    case (Inr t1)
    obtain sc path todo where todo: "mr_todo r = (sc, path) # todo"
      using run Inr Copying by (cases "mr_todo r") (auto simp: task_run_def split: prod.splits)
    obtain r1 w1 d2 where m: "migrate_file C B sc path r d = (r1, w1, d2)" by (metis surj_pair)
    have "t1 = Copying (r1\<lparr>mr_todo := todo\<rparr>)" "w = w1" "d1 = d2"
      using run Inr Copying todo m by (auto simp: task_run_def split: if_splits prod.splits)
    with copying_file [OF _ ok(2,3) todo m] ok(1) Copying Inr show ?thesis by auto
  qed
qed

lemma task_step_inv:
  assumes inv: "mig_inv B s" and i: "i < length (ms_tasks s)"
  shows "mig_inv B (task_step C B ls T i s)"
proof -
  have one: "one_job s" using inv by (simp add: mig_inv_def)
  note single = one_task [OF one i]
  let ?t = "ms_tasks s ! i"
  obtain y w d1 where run: "task_run C B ls T (ms_cancelled s) ?t (ms_db s) = (y, w, d1)" by (metis surj_pair)
  have "task_ok B (ms_db s) (ms_puts s) ?t" using inv i by (simp add: mig_inv_def)
  from task_run_inv [OF this _ _ run] inv
  have eff: "\<forall>j\<in>set (jobs d1). row_ok j" "items_ok B d1 (ms_puts s @ w)" "\<And>t1. y = Inr t1 \<Longrightarrow> task_ok B d1 (ms_puts s @ w) t1"
    by (simp_all add: mig_inv_def)
  show ?thesis
  proof (cases y)
    case (Inl x)
    have rest: "take i (ms_tasks s) @ drop (Suc i) (ms_tasks s) = []" using single by (metis append_Nil drop0 drop_Suc_Cons take0)
    show ?thesis
    proof (cases x)
      case e: (Inl e)
      with Inl run single rest eff job_failed_rows [OF eff(1), of C "task_id ?t" e] show ?thesis
        unfolding task_step_def Let_def by (simp add: task_end_def mig_inv_def one_job_def items_ok_def)
    next
      case (Inr u)
      with Inl run single rest eff show ?thesis
        unfolding task_step_def Let_def by (simp add: task_end_def mig_inv_def one_job_def)
    qed
  next
    case (Inr t1)
    have "(ms_tasks s)[i := t1] = [t1]" using single by (metis list_update_code(2))
    with Inr run single eff show ?thesis
      unfolding task_step_def Let_def by (simp add: mig_inv_def one_job_def)
  qed
qed

lemma mig_step_inv: "mig_inv B s \<Longrightarrow> mig_step B ls T s s' \<Longrightarrow> mig_inv B s'"
proof (erule mig_stepE)
  fix C p resp assume inv: "mig_inv B s" and c: "start_claim C p s = (Inl resp, s')"
  then show "mig_inv B s'" using start_claim_media [OF c] mig_inv_media [OF _ inv] by auto
next
  fix C p c s1 assume inv: "mig_inv B s" and s': "s' = s1\<lparr>ms_claims := ms_claims s1 @ [c]\<rparr>" and c: "start_claim C p s = (Inr c, s1)"
  obtain d where d: "media d = media (ms_db s)" "s1 = s\<lparr>ms_db := d, ms_running := True\<rparr>" "\<not> ms_running s"
    using start_claim_media [OF c] by auto
  with mig_inv_media [OF d(1) inv] show "mig_inv B s'" unfolding s' by (auto simp: mig_inv_def one_job_def)
qed (auto intro: claimed_inv cancel_inv task_step_inv)

interpretation migration: inv_system mig_init "mig_step B ls T" "mig_inv B" for B ls T
  by unfold_locales (auto intro: mig_inv_init mig_step_inv)


section \<open>The job as a whole\<close>

lemma job_loop_files:
  assumes "job_loop C B stop todo r d = (Inr u, w, d')" "\<not> is_local (mr_plugin r)" "0 \<le> mr_failed r"
    and "j \<in> set (jobs d')" "mj_id j = mr_job r" "mj_status j = ''completed''"
  shows "mr_failed r = 0 \<and> (\<forall>(sc, path)\<in>set todo. scope_key C sc path \<in> mr_keys r \<or>
    (\<exists>content. fs_read B path = Inr content \<and> (bk_path B (scope_key C sc path), content) \<in> set w))"
  using assms
proof (induction todo arbitrary: r d w)
  case Nil
  obtain x d1 where f: "job_finish C r d = (x, d1)" by fastforce
  with Nil(1) have "x = Inr u" "d' = d1" by auto
  with f put_job_done(1) have "jobs d' = upd_where (\<lambda>j. mj_id j = mr_job r)
      (\<lambda>j. (counted r j)\<lparr>mj_status := final_status r, mj_error := mr_error r, mj_completed := Some (now C)\<rparr>) (jobs d)"
    unfolding job_finish_def by blast
  with Nil(4-6) have "final_status r = ''completed''" by (auto simp: set_upd_where counted_def)
  with Nil(3) show ?case by (auto simp: final_status_def split: if_splits)
next
  case (Cons p todo)
  obtain sc path where p: "p = (sc, path)" by fastforce
  have go: "\<not> stop path"
  proof
    assume "stop path"
    then have "mark_storage_job_cancelled C r d = (Inr u, d')"
      using Cons.prems(1) p by (auto split: prod.splits)
    then have "jobs d' = upd_where (\<lambda>j. mj_id j = mr_job r)
        (\<lambda>j. (keep_error r (counted r j))\<lparr>mj_status := ''cancelled'', mj_completed := Some (now C)\<rparr>) (jobs d)"
      unfolding mark_storage_job_cancelled_def by (rule put_job_done(1))
    with Cons.prems(4-6) show False by (auto simp: set_upd_where counted_def keep_error_def)
  qed
  obtain r1 w1 d1 where m: "migrate_file C B sc path r d = (r1, w1, d1)" by (metis surj_pair)
  obtain x w2 d2 where jl: "job_loop C B stop todo r1 d1 = (x, w2, d2)" by (metis surj_pair)
  with Cons.prems(1) p m go have l: "job_loop C B stop todo r1 d1 = (Inr u, w2, d')" and w: "w = w1 @ w2" by simp_all
  have adv: "run_advances r r1" using migrate_file_effect [OF m Cons.prems(2)] by blast
  then have ih: "mr_failed r1 = 0 \<and> (\<forall>(sc, path)\<in>set todo. scope_key C sc path \<in> mr_keys r1 \<or>
      (\<exists>content. fs_read B path = Inr content \<and> (bk_path B (scope_key C sc path), content) \<in> set w2))"
    by (intro Cons.IH [OF l]) (use Cons.prems in \<open>auto simp: run_advances_def\<close>)
  have failed: "mr_failed r = 0" using adv ih Cons.prems(3) by (auto simp: run_advances_def)
  have "scope_key C sc path \<in> mr_keys r \<or>
      (\<exists>content. fs_read B path = Inr content \<and> (bk_path B (scope_key C sc path), content) \<in> set w1)"
  proof (rule disjCI)
    assume no: "\<not> (\<exists>content. fs_read B path = Inr content \<and> (bk_path B (scope_key C sc path), content) \<in> set w1)"
    show "scope_key C sc path \<in> mr_keys r"
    proof (rule ccontr)
      assume key: "scope_key C sc path \<notin> mr_keys r"
      obtain x ws where t: "upload_storage_migration_file B (mr_plugin r) (scope_key C sc path) path (scope_label sc) = (x, ws)"
        by fastforce
      show False
      proof (cases x)
        case (Inl e)
        with m t key have "mr_failed r1 = mr_failed r + 1" by (auto simp: migrate_file_def Let_def)
        with ih failed show False by simp
      next
        case (Inr n)
        with m t key have "w1 = ws" by (auto simp: migrate_file_def Let_def)
        with uploaded [OF t [unfolded Inr] Cons.prems(2)] no show False by blast
      qed
    qed
  qed
  with ih failed adv show ?case unfolding p w by (auto simp: run_advances_def)
qed

text \<open>
  A job that ends as completed has put every file it listed, with its content, in the object store, but
  for those whose keys the resumed job is recorded to have copied.
\<close>

lemma listed_todo:
  "job_begin C B ls T i st up me rs d = (Inr r, d1) \<Longrightarrow> listed ls T up (upload_dir (cfg C)) = Inr ups \<Longrightarrow>
   listed ls T me (media_dir (cfg C)) = Inr meds \<Longrightarrow> mr_todo r = map (Pair ''uploads'') ups @ map (Pair ''media'') meds"
  by (auto simp: job_begin_def split: sum.splits prod.splits)

lemma begin_lists:
  "job_begin C B ls T i st up me rs d = (Inr r, d1) \<Longrightarrow>
   \<exists>ups meds. listed ls T up (upload_dir (cfg C)) = Inr ups \<and> listed ls T me (media_dir (cfg C)) = Inr meds"
  by (auto simp: job_begin_def split: sum.splits prod.splits)


section \<open>The listing of a directory\<close>

text \<open>The reference: the files below a path by recursion, and whether every directory can be listed.\<close>

fun tree_files :: "string \<Rightarrow> tree \<Rightarrow> string list" where
  "tree_files p Leaf = [p]"
| "tree_files p (Dir es) = concat (map (\<lambda>e. tree_files (path_push p (fst e)) (snd e)) es)"

fun listable :: "(string \<Rightarrow> string option) \<Rightarrow> string \<Rightarrow> tree \<Rightarrow> bool" where
  "listable ls p Leaf \<longleftrightarrow> True"
| "listable ls p (Dir es) \<longleftrightarrow> ls p = None \<and> (\<forall>e\<in>set es. listable ls (path_push p (fst e)) (snd e))"

definition stack_files :: "(string \<times> tree) list \<Rightarrow> string multiset" where
  "stack_files st = sum_list (map (\<lambda>e. mset (tree_files (fst e) (snd e))) st)"

lemma stack_files_simps [simp]:
  "stack_files [] = {#}" "stack_files (e # st) = mset (tree_files (fst e) (snd e)) + stack_files st"
  "stack_files (xs @ ys) = stack_files xs + stack_files ys"
  by (simp_all add: stack_files_def)

lemma stack_files_rev [simp]: "stack_files (rev st) = stack_files st"
  by (induction st) (simp_all add: add.commute)

lemma dir_files: "mset (tree_files p (Dir es)) = mset (map fst (sub_paths False p es)) + stack_files (sub_paths True p es)"
proof (induction es)
  case (Cons e es)
  then show ?case by (cases "snd e") (simp_all add: sub_paths_def)
qed (simp add: sub_paths_def)

lemma walk_complete:
  "\<forall>e\<in>set st. is_dir (snd e) \<and> listable ls (fst e) (snd e) \<Longrightarrow>
   \<exists>fs. walk ls st files = Inr fs \<and> mset fs = mset files + stack_files st"
proof (induction ls st files rule: walk.induct)
  case (3 ls p es st files)
  have open_dir: "ls p = None" using 3(2) by simp
  have "\<forall>e\<in>set (rev (sub_paths True p es) @ st). is_dir (snd e) \<and> listable ls (fst e) (snd e)"
    using 3(2) by (auto simp: sub_paths_def)
  from 3(1) [OF open_dir this] obtain fs where
    "walk ls (rev (sub_paths True p es) @ st) (files @ map fst (sub_paths False p es)) = Inr fs"
    "mset fs = mset (files @ map fst (sub_paths False p es)) + stack_files (rev (sub_paths True p es) @ st)" by blast
  with open_dir show ?case using dir_files [of p es] by (simp del: tree_files.simps add: ac_simps)
qed simp_all

lemma split_on_join: "join [d] (split_on d s) = s"
proof (induction s)
  case (Cons c s)
  have "split_on d s \<noteq> []" by (induction s) (auto split: list.splits)
  then obtain w ws where "split_on d s = w # ws" by (cases "split_on d s") auto
  with Cons show ?case by (cases ws) auto
qed simp

lemma inj_components: "inj path_components"
  by (rule inj_on_inverseI [of _ "join ''/''"]) (simp add: path_components_def split_on_join)

lemma sort_key_inj:
  assumes "inj f" "mset xs = mset ys"
  shows "sort_key f xs = sort_key f ys"
proof (rule properties_for_sort_key)
  show "mset (sort_key f ys) = mset xs" using assms(2) by simp
  fix k
  have one: "(\<lambda>x. f k = f x) = (\<lambda>x. k = x)" using assms(1) by (auto simp: inj_def)
  have "filter (\<lambda>x. k = x) zs = replicate (count (mset zs) k) k" for zs
    by (induction zs) auto
  then show "filter (\<lambda>x. f k = f x) (sort_key f ys) = filter (\<lambda>x. f k = f x) xs"
    unfolding one using assms(2) by (metis mset_sort)
qed simp

lemma collect_sorted:
  assumes "is_dir t" "listable ls root t"
  shows "collect_local_files ls root (Some t) = Inr (sort_key path_components (tree_files root t))"
proof -
  obtain fs where fs: "walk ls [(root, t)] [] = Inr fs" "mset fs = mset (tree_files root t)"
    using walk_complete [of "[(root, t)]" ls "[]"] assms by auto
  with sort_key_inj [OF inj_components fs(2)] show ?thesis by (simp add: collect_local_files_def)
qed


text \<open>The push of a directory to a remote backend, as the worker makes it of the HLS files: when it succeeds
  every file of the directory and of those below it was put with its content.\<close>

theorem put_dir_complete:
  assumes "is_dir t" "listable ls dir t" "put_dir B (S3 p) ls prefix dir (Some t) = (Inr n, w)"
  shows "n = length (tree_files dir t) \<and> (\<forall>path\<in>set (tree_files dir t). \<exists>content. fs_read B path = Inr content
    \<and> (bk_path B (prefix @ ''/'' @ forward_slashes (strip_dir dir path)), content) \<in> set w)"
proof -
  obtain fs where fs: "walk ls [(dir, t)] [] = Inr fs" "mset fs = mset (tree_files dir t)"
    using walk_complete [of "[(dir, t)]" ls "[]"] assms(1,2) by auto
  with assms(3) obtain u where "put_files (put_file B (S3 p)) prefix dir fs = (Inr u, w)" "n = length fs"
    by (auto simp: put_dir_def walk_dir_def split: prod.splits sum.splits)
  with remote.puts_stored [OF this(1)] mset_eq_setD [OF fs(2)] mset_eq_length [OF fs(2)] show ?thesis by auto
qed


section \<open>A concrete migration\<close>

definition demo_bucket :: bucket where
  "demo_bucket = \<lparr> bk_builds = (\<lambda>_. True), bk_path = (\<lambda>k. k), bk_put = (\<lambda>_ _ _. None), bk_get = (\<lambda>_. Inl False),
     bk_delete = (\<lambda>_. None), fs_read = (\<lambda>p. Inr ''film''), fs_write = (\<lambda>_ _. None), fs_mkdir = (\<lambda>_. None),
     fs_exists = (\<lambda>_. True), fs_remove = (\<lambda>_. None) \<rparr>"

definition demo_tree :: "string \<Rightarrow> tree option" where
  "demo_tree d = (if d = ''up'' then Some (Dir [(''b.mp4'', Leaf), (''a.mp4'', Leaf)]) else None)"

definition demo_settings :: storage_row where
  "demo_settings = default_storage\<lparr>so_backend := ''s3'', so_bucket := ''films''\<rparr>"

definition storage_db :: db where
  "storage_db = demo_db\<lparr>media := empty_media\<lparr>storage := Some demo_settings\<rparr>\<rparr>"

definition demo_start_request :: start_payload where
  "demo_start_request = \<lparr> st_uploads = True, st_media = False, st_resume = None \<rparr>"

definition mig_s0 :: mig_state where
  "mig_s0 = \<lparr> ms_db = storage_db, ms_running = False, ms_cancelled = {}, ms_claims = [], ms_tasks = [], ms_puts = [] \<rparr>"

text \<open>The administrator's request, with a fresh identifier for each site.\<close>

definition mig_admin :: ctx where "mig_admin = root_admin\<lparr>fresh_uuid := \<lambda>site. site\<rparr>"

definition demo_claim :: claim where
  "demo_claim = \<lparr> cl_ctx = mig_admin, cl_admin = ''ad'', cl_payload = demo_start_request \<rparr>"

definition mig_s1 :: mig_state where
  "mig_s1 = mig_s0\<lparr>ms_running := True, ms_claims := [demo_claim]\<rparr>"

definition mig_s2 :: mig_state where
  "mig_s2 = (snd (start_claimed demo_claim mig_s1))\<lparr>ms_claims := []\<rparr>"

definition mig_next :: "mig_state \<Rightarrow> mig_state" where
  "mig_next s = task_step mig_admin demo_bucket (\<lambda>_. None) demo_tree 0 s"

definition mig_s5 :: mig_state where
  "mig_s5 = mig_next (mig_next (mig_next (mig_next mig_s2)))"

lemma demo_admin: "ensure_admin_session mig_admin storage_db = (Inr ''ad'', storage_db)"
proof -
  have "case fst (ensure_admin_session mig_admin storage_db) of Inr a \<Rightarrow> a = ''ad'' | Inl _ \<Rightarrow> False" by code_simp
  then obtain d where "ensure_admin_session mig_admin storage_db = (Inr ''ad'', d)"
    by (cases "ensure_admin_session mig_admin storage_db") (auto split: sum.splits)
  with ensure_admin_Inr show ?thesis by metis
qed

lemma mig_reach_s2: "reach mig_init (mig_step demo_bucket (\<lambda>_. None) demo_tree) mig_s2"
proof -
  have s0: "reach mig_init (mig_step demo_bucket (\<lambda>_. None) demo_tree) mig_s0"
    by (rule reach_init) (simp add: mig_init_def mig_s0_def storage_db_def empty_media_def)
  have "start_claim mig_admin demo_start_request mig_s0 = (Inr demo_claim, mig_s0\<lparr>ms_running := True\<rparr>)"
    using demo_admin by (simp add: start_claim_def mig_s0_def demo_start_request_def demo_claim_def)
  from mig_step.step_claim [OF this] have "mig_step demo_bucket (\<lambda>_. None) demo_tree mig_s0 mig_s1"
    by (simp add: mig_s1_def mig_s0_def)
  then have s1: "reach mig_init (mig_step demo_bucket (\<lambda>_. None) demo_tree) mig_s1" by (rule reach_step [OF s0])
  obtain resp s where st: "start_claimed demo_claim mig_s1 = (resp, s)" by fastforce
  have "ms_claims s = [demo_claim]"
    using st unfolding start_claimed_def Let_def
    by (cases "prepare_job demo_claim (ms_db mig_s1)") (auto simp: mig_s1_def split: sum.splits)
  then have "mig_step demo_bucket (\<lambda>_. None) demo_tree mig_s1 mig_s2"
    using mig_step.step_claimed [of 0 mig_s1 resp s] st by (simp add: mig_s1_def mig_s2_def)
  then show ?thesis by (rule reach_step [OF s1])
qed

lemma mig_next_reach:
  assumes "reach mig_init (mig_step demo_bucket (\<lambda>_. None) demo_tree) s" "0 < length (ms_tasks s)"
  shows "reach mig_init (mig_step demo_bucket (\<lambda>_. None) demo_tree) (mig_next s)"
  unfolding mig_next_def using assms by (intro reach_step [OF assms(1)] mig_step.step_task) auto

lemma mig_reach_s5: "reach mig_init (mig_step demo_bucket (\<lambda>_. None) demo_tree) mig_s5"
proof -
  have "0 < length (ms_tasks mig_s2)" "0 < length (ms_tasks (mig_next mig_s2))"
    "0 < length (ms_tasks (mig_next (mig_next mig_s2)))" "0 < length (ms_tasks (mig_next (mig_next (mig_next mig_s2))))"
    by code_simp+
  then show ?thesis unfolding mig_s5_def by (intro mig_next_reach mig_reach_s2)
qed


section \<open>Properties\<close>

text \<open>C25. Whatever requests to start and cancel storage migrations arrive, in whatever order they interleave
  with each other and with the tasks of the jobs, at most one job is being started or run at a time, the
  counters of no job exceed its number of files, a job is marked completed only when every file was
  copied or skipped and none failed, and every item marked copied or skipped has had an object put under
  its key (into the bucket that was configured then).
\<close>

theorem migration_consistent:
  assumes "reach mig_init (mig_step B ls T) s"
  shows "length (ms_claims s) + length (ms_tasks s) \<le> 1
    \<and> (\<forall>j\<in>set (mig_jobs (media (ms_db s))). mj_copied j + mj_failed j + mj_skipped j \<le> mj_total j
         \<and> (mj_status j = ''completed'' \<longrightarrow> mj_failed j = 0 \<and> mj_copied j + mj_skipped j = mj_total j))
    \<and> (\<forall>i\<in>set (mig_items (media (ms_db s))). mi_status i \<in> {''copied'', ''skipped''} \<longrightarrow>
         bk_path B (mi_key i) \<in> fst ` set (ms_puts s))"
  using migration.reach_inv [OF assms]
  by (auto simp: mig_inv_def one_job_def row_ok_def items_ok_def put_before_def split: if_splits)

theorem migration_consistent_witness:
  "map mj_status (mig_jobs (media (ms_db mig_s5))) = [''completed'']
   \<and> length (ms_claims mig_s5) + length (ms_tasks mig_s5) \<le> 1
   \<and> bk_path demo_bucket ''uploads/b.mp4'' \<in> fst ` set (ms_puts mig_s5)"
proof (intro conjI)
  show "map mj_status (mig_jobs (media (ms_db mig_s5))) = [''completed'']" by code_simp
  show "length (ms_claims mig_s5) + length (ms_tasks mig_s5) \<le> 1" using migration_consistent [OF mig_reach_s5] by blast
  have "\<exists>i\<in>set (mig_items (media (ms_db mig_s5))). mi_key i = ''uploads/b.mp4'' \<and> mi_status i = ''copied''" by code_simp
  with migration_consistent [OF mig_reach_s5]
  show "bk_path demo_bucket ''uploads/b.mp4'' \<in> fst ` set (ms_puts mig_s5)" by force
qed


definition demo_run :: "(string + unit) \<times> puts \<times> db" where
  "demo_run = run_storage_migration_job mig_admin demo_bucket (\<lambda>_. None) demo_tree (\<lambda>_. False) ''start.job'' demo_settings
     True False None (ms_db mig_s2)"


text \<open>The loop over a stack that lists the files of a directory gives exactly the files of the recursive
  listing, each once, in the order of their paths, when every directory in it can be read.
\<close>

theorem collect_equals_recursive:
  assumes "is_dir t" "listable ls root t"
  shows "collect_local_files ls root (Some t) = Inr (sort_key path_components (tree_files root t))"
  using assms by (rule collect_sorted)

theorem collect_equals_recursive_witness:
  "collect_local_files (\<lambda>_. None) ''up'' (Some (Dir [(''b'', Dir [(''x'', Leaf)]), (''a'', Leaf)]))
   = Inr (sort_key path_components (tree_files ''up'' (Dir [(''b'', Dir [(''x'', Leaf)]), (''a'', Leaf)])))
   \<and> tree_files ''up'' (Dir [(''b'', Dir [(''x'', Leaf)]), (''a'', Leaf)]) = [''up/b/x'', ''up/a'']"
proof
  show "collect_local_files (\<lambda>_. None) ''up'' (Some (Dir [(''b'', Dir [(''x'', Leaf)]), (''a'', Leaf)]))
    = Inr (sort_key path_components (tree_files ''up'' (Dir [(''b'', Dir [(''x'', Leaf)]), (''a'', Leaf)])))"
    by (rule collect_equals_recursive) simp_all
  show "tree_files ''up'' (Dir [(''b'', Dir [(''x'', Leaf)]), (''a'', Leaf)]) = [''up/b/x'', ''up/a'']" by code_simp
qed

end
