(* ===== verification/Upload.thy ===== *)
theory Upload
  imports Storage Streaming
begin

text \<open>
  \<open>src/src/handlers/upload.rs\<close>, \<open>src/src/worker.rs\<close> and \<open>src/src/ffmpeg.rs\<close>: a video is read from the
  multipart form into a partial file, checked, renamed, stored as a row, and queued; the worker turns
  it into HLS files and records the outcome in the row.  The files of the upload directory are a map
  from paths to contents; what the operating system answers is the record \<open>host\<close>.
\<close>

section \<open>The host\<close>

text \<open>How a child process ends: not started, not waited for, or its exit code and standard error.\<close>

datatype proc = NoSpawn string | NoWait string | Exited "int option" string

text \<open>
  \<open>ho_create\<close>, \<open>ho_write\<close> (by chunk), \<open>ho_flush\<close>, \<open>ho_rename\<close>, \<open>ho_mkdir\<close> and \<open>ho_send\<close> (the worker's
  channel) give their error, if any; \<open>ho_unlink\<close> whether a file is removed; \<open>ho_mime\<close> is
  \<open>infer::get\<close>, \<open>ho_size\<close> the \<open>Display\<close> of \<open>ByteSize\<close>, \<open>ho_probe\<close> the trimmed output of ffprobe.
\<close>

record host =
  ho_mkdir :: "string \<Rightarrow> string option"
  ho_create :: "string \<Rightarrow> string option"
  ho_write :: "nat \<Rightarrow> string option"
  ho_flush :: "string option"
  ho_rename :: "string option"
  ho_unlink :: "string \<Rightarrow> bool"
  ho_mime :: "string \<Rightarrow> string option"
  ho_size :: "int \<Rightarrow> string"
  ho_send :: "string option"
  ho_run :: "string list \<Rightarrow> string \<Rightarrow> proc"
  ho_probe :: "string list \<Rightarrow> string option"
  ho_float :: "string \<Rightarrow> string option"
  ho_cpus :: nat

type_synonym files = "string \<Rightarrow> string option"

definition remove_file :: "host \<Rightarrow> string \<Rightarrow> files \<Rightarrow> files" where
  "remove_file H p fs = (if ho_unlink H p then fs(p := None) else fs)"


section \<open>File names\<close>

text \<open>\<open>Path::file_name\<close> and \<open>Path::extension\<close>: the last component, and what follows its last dot.\<close>

definition file_name :: "string \<Rightarrow> string option" where
  "file_name p =
     (let cs = filter (\<lambda>c. c \<noteq> [] \<and> c \<noteq> ''.'') (split_on (CHR ''/'') p) in
      if cs = [] \<or> last cs = ''..'' then None else Some (last cs))"

definition file_extension :: "string \<Rightarrow> string option" where
  "file_extension p =
     (case file_name p of
        None \<Rightarrow> None
      | Some n \<Rightarrow>
          (case split_once (CHR ''.'') (rev n) of
             None \<Rightarrow> None
           | Some (e, stem) \<Rightarrow> if stem = [] then None else Some (rev e)))"

text \<open>\<open>with_extension\<close> on a path that ends in its file name.\<close>

definition with_extension :: "string \<Rightarrow> string \<Rightarrow> string" where
  "with_extension p e =
     (case file_extension p of
        None \<Rightarrow> p @ ''.'' @ e
      | Some old \<Rightarrow> take (length p - length old) p @ e)"


section \<open>The form\<close>

text \<open>
  A field: its name, its file name, what reading it as text gives (\<open>None\<close> when that fails), and its
  chunks, the last of which may be an error.
\<close>

record form_field =
  ff_name :: "string option"
  ff_file :: "string option"
  ff_text :: "string option"
  ff_chunks :: "(string + string) list"

record progress =
  up_title :: string
  up_price :: int
  up_count :: nat
  up_saved :: "(string \<times> string) option"

definition fresh_progress :: progress where
  "fresh_progress = \<lparr> up_title = ''Untitled'', up_price = 0, up_count = 0, up_saved = None \<rparr>"

definition up_fail :: "nat \<Rightarrow> string \<Rightarrow> string \<Rightarrow> answer" where
  "up_fail st stage msg = (st, JObj [(''ok'', JBool False), (''where'', JStr stage), (''error'', JStr msg)])"

text \<open>The chunks are appended to the partial file; \<open>sniff\<close> is the head of the first one.\<close>

fun read_chunks ::
  "host \<Rightarrow> int \<Rightarrow> string \<Rightarrow> nat \<Rightarrow> (string + string) list \<Rightarrow> int \<Rightarrow> string option \<Rightarrow> files
     \<Rightarrow> (answer + int \<times> string option) \<times> files" where
  "read_chunks H limit tmp n [] got sniff fs = (Inr (got, sniff), fs)"
| "read_chunks H limit tmp n (Inl e # cs) got sniff fs =
     (Inl (up_fail 400 ''read_chunk'' e), remove_file H tmp fs)"
| "read_chunks H limit tmp n (Inr bytes # cs) got sniff fs =
     (let got' = got + int (length bytes) in
      if limit < got'
      then (Inl (up_fail 413 ''validation'' (''file too large: '' @ ho_size H got' @ '' > '' @ ho_size H limit)),
            remove_file H tmp fs)
      else
      (case ho_write H n of
         Some e \<Rightarrow> (Inl (up_fail 500 ''write_file'' e), remove_file H tmp fs)
       | None \<Rightarrow>
           read_chunks H limit tmp (Suc n) cs got' (Some (case sniff of None \<Rightarrow> take 8192 bytes | Some s \<Rightarrow> s))
             (fs(tmp \<mapsto> (case fs tmp of None \<Rightarrow> [] | Some s \<Rightarrow> s) @ bytes))))"

text \<open>From the opened partial file to its final name.\<close>

definition finish_file ::
  "host \<Rightarrow> int \<Rightarrow> string \<Rightarrow> string \<Rightarrow> (string + string) list \<Rightarrow> files \<Rightarrow> (answer + unit) \<times> files" where
  "finish_file H limit tmp full chunks fs =
     (case read_chunks H limit tmp 0 chunks 0 None fs of
        (Inl a, fs1) \<Rightarrow> (Inl a, fs1)
      | (Inr (got, sniff), fs1) \<Rightarrow>
     (case ho_flush H of
        Some e \<Rightarrow> (Inl (up_fail 500 ''flush'' e), remove_file H tmp fs1)
      | None \<Rightarrow>
     (case sniff of
        None \<Rightarrow> (Inl (up_fail 400 ''validation'' ''empty file''), remove_file H tmp fs1)
      | Some head \<Rightarrow>
     (case ho_mime H head of
        None \<Rightarrow> (Inl (up_fail 400 ''validation'' ''unable to detect a supported video MIME type''), remove_file H tmp fs1)
      | Some mime \<Rightarrow>
     if \<not> starts_with ''video/'' mime
     then (Inl (up_fail 400 ''validation'' (''uploaded content is not a video: '' @ mime)), remove_file H tmp fs1)
     else
     (case ho_rename H of
        Some e \<Rightarrow> (Inl (up_fail 500 ''rename'' e), remove_file H tmp fs1)
      | None \<Rightarrow> (Inr (), fs1(full := fs1 tmp, tmp := None)))))))"

definition upload_extension :: "form_field \<Rightarrow> string" where
  "upload_extension f =
     (case map_option ascii_lower (Option.bind (ff_file f) file_extension) of
        Some e \<Rightarrow> if e \<noteq> [] then e else ''mp4''
      | None \<Rightarrow> ''mp4'')"

text \<open>The directory of the partial file: \<open>dir\<close> when the path has none.\<close>

definition save_file ::
  "ctx \<Rightarrow> host \<Rightarrow> string \<Rightarrow> string \<Rightarrow> form_field \<Rightarrow> files \<Rightarrow> (answer + string \<times> string) \<times> files" where
  "save_file C H dir vid f fs =
     (let ext = upload_extension f in
      if ext \<notin> set (map ascii_lower (allow_exts (cfg C)))
      then (Inl (up_fail 400 ''validation'' (''file extension not allowed: .'' @ ext)), fs)
      else
      (let name = vid @ ''.'' @ ext; full = path_push dir name; tmp = with_extension full (ext @ ''.part'');
           tmp_parent = (case parent_dir tmp of None \<Rightarrow> dir | Some p \<Rightarrow> p) in
      (case ho_mkdir H tmp_parent of
         Some e \<Rightarrow> (Inl (up_fail 500 ''mkdir_temp'' e), fs)
       | None \<Rightarrow>
      (case ho_create H tmp of
         Some e \<Rightarrow> (Inl (up_fail 500 ''create_file'' e), fs)
       | None \<Rightarrow>
      (case finish_file H (max_upload_bytes (cfg C)) tmp full (ff_chunks f) (fs(tmp \<mapsto> [])) of
         (Inl a, fs1) \<Rightarrow> (Inl a, fs1)
       | (Inr _, fs1) \<Rightarrow> (Inr (full, name), fs1))))))"

definition remove_saved :: "host \<Rightarrow> progress \<Rightarrow> files \<Rightarrow> files" where
  "remove_saved H p fs = (case up_saved p of None \<Rightarrow> fs | Some (path, _) \<Rightarrow> remove_file H path fs)"

fun read_form ::
  "ctx \<Rightarrow> host \<Rightarrow> string \<Rightarrow> string \<Rightarrow> (string + form_field) list \<Rightarrow> progress \<Rightarrow> files \<Rightarrow> (answer + progress) \<times> files" where
  "read_form C H dir vid [] p fs = (Inr p, fs)"
| "read_form C H dir vid (Inl e # parts) p fs = (Inl (up_fail 400 ''multipart'' e), fs)"
| "read_form C H dir vid (Inr f # parts) p fs =
     (let name = (case ff_name f of None \<Rightarrow> [] | Some n \<Rightarrow> n) in
      if name = ''title''
      then read_form C H dir vid parts
             (p\<lparr>up_title := trim (case ff_text f of None \<Rightarrow> ''Untitled'' | Some t \<Rightarrow> t)\<rparr>) fs
      else if name = ''price_cents''
      then read_form C H dir vid parts
             (p\<lparr>up_price := (case parse_i64 (trim (case ff_text f of None \<Rightarrow> ''0'' | Some t \<Rightarrow> t)) of
                             Some n \<Rightarrow> n | None \<Rightarrow> 0)\<rparr>) fs
      else if name = ''file''
      then
        (let p1 = p\<lparr>up_count := up_count p + 1\<rparr> in
         if 1 < up_count p1
         then (Inl (up_fail 400 ''validation'' ''only one file field is allowed''), remove_saved H p fs)
         else
         (case save_file C H dir vid f fs of
            (Inl a, fs1) \<Rightarrow> (Inl a, fs1)
          | (Inr saved, fs1) \<Rightarrow> read_form C H dir vid parts (p1\<lparr>up_saved := Some saved\<rparr>) fs1))
      else read_form C H dir vid parts p fs)"

section \<open>The request\<close>

record job =
  jb_video :: string
  jb_input :: string
  jb_out :: string

text \<open>What an upload changes: the files, the queue of the worker, the object store, the database.\<close>

record world =
  wo_files :: files
  wo_jobs :: "job list"
  wo_puts :: puts
  wo_db :: db

definition MAX_TITLE_CHARS :: nat where "MAX_TITLE_CHARS = 200"

definition ins_video :: "video \<Rightarrow> unit stmt" where
  "ins_video v d =
     (if video_exists (v_id v) d then Inl ''videos_pkey''
      else if \<not> user_exists (v_owner v) d then Inl ''fk_videos_owner''
      else Inr ((), d\<lparr>videos := videos d @ [v]\<rparr>))"

definition put_video :: "string \<Rightarrow> (video \<Rightarrow> video) \<Rightarrow> unit stmt" where
  "put_video i f d = Inr ((), d\<lparr>videos := upd_where (\<lambda>v. v_id v = i) f (videos d)\<rparr>)"

definition uploaded_video :: "ctx \<Rightarrow> string \<Rightarrow> string \<Rightarrow> string \<Rightarrow> int \<Rightarrow> string \<Rightarrow> video" where
  "uploaded_video C vid uid title price name =
     \<lparr> v_id = vid, v_owner = uid, v_title = title, v_description = [], v_price = price, v_filename = name,
       v_created = rfc3339 C (now C), v_visibility = ''local_only'', v_object = None,
       v_hls_ready = False, v_hls_master = None, v_state = Some ''queued'', v_error = None \<rparr>"

text \<open>The checks after the form is read.\<close>

definition check_form :: "host \<Rightarrow> progress \<Rightarrow> files \<Rightarrow> (answer + string \<times> int \<times> string \<times> string) \<times> files" where
  "check_form H p fs =
     (if up_count p = 0 then (Inl (up_fail 400 ''validation'' ''missing file''), fs)
      else
      (let title = (if up_title p = [] then ''Untitled'' else up_title p) in
       if MAX_TITLE_CHARS < length (code_points title)
       then (Inl (up_fail 400 ''validation'' (''title must not exceed '' @ string_of_nat MAX_TITLE_CHARS @ '' characters'')),
             remove_saved H p fs)
       else if up_price p < 0
       then (Inl (up_fail 400 ''validation'' ''price_cents must be zero or greater''), remove_saved H p fs)
       else
       (case up_saved p of
          None \<Rightarrow> (Inl (up_fail 500 ''upload_state'' ''uploaded file state is incomplete''), fs)
        | Some (path, name) \<Rightarrow> (Inr (title, up_price p, path, name), fs))))"

definition upload_done :: "string \<Rightarrow> string \<Rightarrow> string \<Rightarrow> answer" where
  "upload_done vid uid name = (201, jok [(''video_id'', JStr vid), (''owner_id'', JStr uid), (''filename'', JStr name),
     (''status'', JStr ''queued''), (''message'', JStr ''Upload succeeded. The video is being processed into HLS.'')])"

text \<open>The row, the queue, and the copy of the original in the object store.\<close>

definition store_upload ::
  "ctx \<Rightarrow> host \<Rightarrow> bucket \<Rightarrow> storage_plugin \<Rightarrow> string \<Rightarrow> string \<Rightarrow> string \<Rightarrow> int \<Rightarrow> string \<Rightarrow> string \<Rightarrow> world \<Rightarrow> answer \<times> world" where
  "store_upload C H B pl uid vid title price path name w =
     (case run_write C ''upload.insert'' (ins_video (uploaded_video C vid uid title price name)) (wo_db w) of
        (Inl e, d) \<Rightarrow> (up_fail 500 ''db_insert_videos'' e, w\<lparr>wo_files := remove_file H path (wo_files w), wo_db := d\<rparr>)
      | (Inr _, d) \<Rightarrow>
     (case ho_send H of
        Some e \<Rightarrow>
          (up_fail 500 ''enqueue'' e,
           w\<lparr>wo_db := snd (run_write C ''upload.failed'' (put_video vid
               (\<lambda>v. v\<lparr>v_state := Some ''error'', v_error := Some (''enqueue: '' @ e)\<rparr>)) d)\<rparr>)
      | None \<Rightarrow>
          (upload_done vid uid name,
           w\<lparr>wo_db := d,
             wo_jobs := wo_jobs w @ [\<lparr> jb_video = vid, jb_input = path, jb_out = video_hls_dir (cfg C) vid \<rparr>],
             wo_puts := wo_puts w @ (if is_local pl then [] else snd (put_file B pl 0 (''uploads/'' @ name) path))\<rparr>)))"

definition upload_video ::
  "ctx \<Rightarrow> host \<Rightarrow> bucket \<Rightarrow> storage_plugin \<Rightarrow> (string + form_field) list \<Rightarrow> world \<Rightarrow> answer \<times> world" where
  "upload_video C H B pl parts w0 =
     (case current_user_id C (wo_db w0) of
        (None, d) \<Rightarrow> (up_fail 401 ''auth'' ''not logged in'', w0\<lparr>wo_db := d\<rparr>)
      | (Some (uid, _), d) \<Rightarrow>
     let dir = (if upload_dir (cfg C) \<noteq> [] then upload_dir (cfg C) else storage_dir (cfg C));
         vid = fresh_uuid C ''upload.video'' in
     (case ho_mkdir H dir of
        Some e \<Rightarrow> (up_fail 500 ''mkdir_upload'' e, w0\<lparr>wo_db := d\<rparr>)
      | None \<Rightarrow>
     (case read_form C H dir vid parts fresh_progress (wo_files w0) of
        (Inl a, fs) \<Rightarrow> (a, w0\<lparr>wo_files := fs, wo_db := d\<rparr>)
      | (Inr p, fs) \<Rightarrow>
     (case check_form H p fs of
        (Inl a, fs1) \<Rightarrow> (a, w0\<lparr>wo_files := fs1, wo_db := d\<rparr>)
      | (Inr (title, price, path, name), fs1) \<Rightarrow>
          store_upload C H B pl uid vid title price path name (w0\<lparr>wo_files := fs1, wo_db := d\<rparr>)))))"


section \<open>ffmpeg\<close>

definition code_text :: "int option \<Rightarrow> string" where
  "code_text c = (case c of None \<Rightarrow> ''None'' | Some i \<Rightarrow> ''Some('' @ string_of_int i @ '')'')"

definition newline :: string where "newline = [CHR 0x0A]"

definition run_ffmpeg :: "host \<Rightarrow> string list \<Rightarrow> string \<Rightarrow> string + unit" where
  "run_ffmpeg H args work_dir =
     (case ho_run H args work_dir of
        NoSpawn e \<Rightarrow> Inl (''spawn ffmpeg: '' @ e)
      | NoWait e \<Rightarrow> Inl (''wait ffmpeg: '' @ e)
      | Exited code err \<Rightarrow>
          if code = Some 0 then Inr ()
          else Inl (''ffmpeg exited with code '' @ code_text code @ newline @ ''args: '' @ join '' '' args @ newline
                 @ ''stderr:'' @ newline @ err))"

definition faststart_args :: "string \<Rightarrow> string \<Rightarrow> string list" where
  "faststart_args input target =
     [''-hide_banner'', ''-loglevel'', ''error'', ''-y'', ''-i'', input, ''-map'', ''0'', ''-c'', ''copy'',
      ''-movflags'', ''+faststart'', target]"

definition work_dir_of :: "string \<Rightarrow> string" where
  "work_dir_of output = (case parent_dir output of None \<Rightarrow> ''.'' | Some p \<Rightarrow> p)"

definition faststart_mp4 :: "host \<Rightarrow> string \<Rightarrow> string \<Rightarrow> string + unit" where
  "faststart_mp4 H input output = run_ffmpeg H (faststart_args input output) (work_dir_of output)"

definition filter_complex :: string where
  "filter_complex = ''[0:v]split=3[v0][v1][v2];''
     @ ''[v0]scale=w=426:h=240:force_original_aspect_ratio=decrease:eval=frame[v0o];''
     @ ''[v1]scale=w=640:h=360:force_original_aspect_ratio=decrease:eval=frame[v1o];''
     @ ''[v2]scale=w=854:h=480:force_original_aspect_ratio=decrease:eval=frame[v2o]''"

definition hls_args :: "nat \<Rightarrow> string \<Rightarrow> int \<Rightarrow> string list" where
  "hls_args cpus input seg_secs =
     [''-hide_banner'', ''-loglevel'', ''error'', ''-y'', ''-i'', input, ''-filter_complex'', filter_complex,
      ''-map'', ''[v0o]'', ''-map'', ''a:0?'', ''-map'', ''[v1o]'', ''-map'', ''a:0?'', ''-map'', ''[v2o]'', ''-map'', ''a:0?'',
      ''-c:v'', ''libx264'', ''-preset'', ''veryfast'', ''-profile:v'', ''main'', ''-level'', ''4.0'',
      ''-c:a'', ''aac'', ''-ac'', ''2'',
      ''-b:v:0'', ''400k'', ''-maxrate:v:0'', ''440k'', ''-bufsize:v:0'', ''800k'', ''-b:a:0'', ''96k'',
      ''-b:v:1'', ''800k'', ''-maxrate:v:1'', ''880k'', ''-bufsize:v:1'', ''1600k'', ''-b:a:1'', ''128k'',
      ''-b:v:2'', ''1400k'', ''-maxrate:v:2'', ''1540k'', ''-bufsize:v:2'', ''2800k'', ''-b:a:2'', ''128k'',
      ''-threads'', string_of_nat (max cpus 2), ''-f'', ''hls'', ''-hls_time'', string_of_int seg_secs,
      ''-hls_playlist_type'', ''vod'', ''-hls_flags'', ''independent_segments'',
      ''-hls_segment_filename'', ''v%v/seg_%05d.ts'', ''-master_pl_name'', ''master.m3u8'',
      ''-var_stream_map'', ''v:0,a:0 v:1,a:1 v:2,a:2'', ''v%v/index.m3u8'']"

text \<open>The three directories of the renditions are made before ffmpeg runs.\<close>

fun make_dirs :: "host \<Rightarrow> string \<Rightarrow> string list \<Rightarrow> string + unit" where
  "make_dirs H dir [] = Inr ()"
| "make_dirs H dir (s # ss) =
     (case ho_mkdir H (path_push dir s) of
        Some _ \<Rightarrow> Inl (''create HLS subdirectory '' @ path_push dir s)
      | None \<Rightarrow> make_dirs H dir ss)"

definition encode_hls_abr :: "host \<Rightarrow> string \<Rightarrow> string \<Rightarrow> int \<Rightarrow> string + string" where
  "encode_hls_abr H input out_dir seg_secs =
     (case make_dirs H out_dir [''v0'', ''v1'', ''v2''] of
        Inl e \<Rightarrow> Inl e
      | Inr _ \<Rightarrow>
          (case run_ffmpeg H (hls_args (ho_cpus H) input seg_secs) out_dir of
             Inl e \<Rightarrow> Inl e
           | Inr _ \<Rightarrow> Inr ''master.m3u8''))"


section \<open>The worker\<close>

text \<open>
  \<open>process_job\<close> with the files it removes; the result is the error it returns, which is only logged.
  \<open>out\<close> is what the output directory holds once ffmpeg has run.
\<close>

datatype clean_op = RemoveFile string | RemoveTree string

definition update_video_error :: "ctx \<Rightarrow> string \<Rightarrow> string \<Rightarrow> db \<Rightarrow> db" where
  "update_video_error C vid msg d = snd (run_write C ''worker.error''
     (put_video vid (\<lambda>v. v\<lparr>v_state := Some ''error'', v_error := Some msg\<rparr>)) d)"

definition mark_ready :: "ctx \<Rightarrow> job \<Rightarrow> string \<Rightarrow> db \<Rightarrow> (string + unit) \<times> db" where
  "mark_ready C j master d = run_write C ''worker.ready'' (put_video (jb_video j) (\<lambda>v. v\<lparr>v_hls_ready := True,
     v_hls_master := Some (path_push (jb_out j) master), v_state := Some ''ready'', v_error := None\<rparr>)) d"

definition encode_job ::
  "ctx \<Rightarrow> host \<Rightarrow> bucket \<Rightarrow> storage_plugin \<Rightarrow> (string \<Rightarrow> string option) \<Rightarrow> tree option \<Rightarrow> job \<Rightarrow> string \<Rightarrow> db
     \<Rightarrow> (string + unit) \<times> clean_op list \<times> puts \<times> db" where
  "encode_job C H B pl ls out j tmp d =
     (case encode_hls_abr H tmp (jb_out j) (hls_segment_seconds (cfg C)) of
        Inr master \<Rightarrow>
          (case mark_ready C j master d of
             (Inl _, d1) \<Rightarrow> (Inl (''mark video '' @ jb_video j @ '' as ready''), [RemoveFile tmp], [], d1)
           | (Inr _, d1) \<Rightarrow>
               (Inr (), [RemoveFile tmp],
                if is_local pl then [] else snd (put_dir B pl ls (''videos/'' @ jb_video j) (jb_out j) out), d1))
      | Inl e \<Rightarrow> (Inl e, [RemoveFile tmp, RemoveTree (jb_out j)], [], update_video_error C (jb_video j) e d))"

definition process_job ::
  "ctx \<Rightarrow> host \<Rightarrow> bucket \<Rightarrow> storage_plugin \<Rightarrow> (string \<Rightarrow> string option) \<Rightarrow> tree option \<Rightarrow> job \<Rightarrow> db
     \<Rightarrow> (string + unit) \<times> clean_op list \<times> puts \<times> db" where
  "process_job C H B pl ls out j d0 =
     (case run_write C ''worker.processing'' (put_video (jb_video j)
             (\<lambda>v. v\<lparr>v_state := Some ''processing'', v_error := None\<rparr>)) d0 of
        (Inl _, d) \<Rightarrow> (Inl (''mark video '' @ jb_video j @ '' as processing''), [], [], d)
      | (Inr _, d) \<Rightarrow>
     (case ho_mkdir H (tmp_dir (cfg C)) of
        Some _ \<Rightarrow> (Inl (''create temp directory '' @ tmp_dir (cfg C)), [], [], d)
      | None \<Rightarrow>
     let tmp = path_push (tmp_dir (cfg C)) (jb_video j @ ''.faststart.mp4'') in
     (case faststart_mp4 H (jb_input j) tmp of
        Inl e \<Rightarrow> (Inl e, [RemoveFile tmp], [], update_video_error C (jb_video j) e d)
      | Inr _ \<Rightarrow>
     (case ho_mkdir H (jb_out j) of
        Some e \<Rightarrow> (Inl e, [RemoveFile tmp], [], update_video_error C (jb_video j) e d)
      | None \<Rightarrow> encode_job C H B pl ls out j tmp d))))"

text \<open>The queue in the order it is received; each job runs in a task of its own.\<close>

fun run_jobs ::
  "ctx \<Rightarrow> host \<Rightarrow> bucket \<Rightarrow> storage_plugin \<Rightarrow> (string \<Rightarrow> string option) \<Rightarrow> (string \<Rightarrow> tree option) \<Rightarrow> job list \<Rightarrow> db \<Rightarrow> db" where
  "run_jobs C H B pl ls out [] d = d"
| "run_jobs C H B pl ls out (j # js) d =
     (case process_job C H B pl ls (out (jb_out j)) j d of (_, _, _, d1) \<Rightarrow> run_jobs C H B pl ls out js d1)"


section \<open>Reading the media with ffprobe, and the other ladder\<close>

text \<open>The rest of \<open>ffmpeg.rs\<close>, which the program does not call.\<close>

definition probe_faststart :: "host \<Rightarrow> string \<Rightarrow> string \<Rightarrow> string + unit" where
  "probe_faststart H input output =
     (case file_name output of
        None \<Rightarrow> Inl ''non-utf8 output file name''
      | Some target \<Rightarrow> run_ffmpeg H (faststart_args input target) (work_dir_of output))"

definition ffprobe_duration :: "host \<Rightarrow> string \<Rightarrow> string option" where
  "ffprobe_duration H input =
     Option.bind (ho_probe H [''-v'', ''error'', ''-show_entries'', ''format=duration'', ''-of'',
       ''default=noprint_wrappers=1:nokey=1'', input]) (\<lambda>out. ho_float H (trim out))"

definition ffprobe_dimensions :: "host \<Rightarrow> string \<Rightarrow> (int \<times> int) option" where
  "ffprobe_dimensions H input =
     (case ho_probe H [''-v'', ''error'', ''-select_streams'', ''v:0'', ''-show_entries'', ''stream=width,height'', ''-of'',
         ''csv=p=0:s=x'', input] of
        None \<Rightarrow> None
      | Some out \<Rightarrow>
          (case split_on (CHR ''x'') (trim out) of
             w # h # _ \<Rightarrow>
               (case (parse_uint 32 w, parse_uint 32 h) of (Some a, Some b) \<Rightarrow> Some (a, b) | _ \<Rightarrow> None)
           | _ \<Rightarrow> None))"

definition ffprobe_has_audio :: "host \<Rightarrow> string \<Rightarrow> bool" where
  "ffprobe_has_audio H input =
     (case ho_probe H [''-v'', ''error'', ''-select_streams'', ''a:0'', ''-show_entries'', ''stream=index'', ''-of'',
         ''csv=p=0'', input] of
        None \<Rightarrow> False
      | Some out \<Rightarrow> trim out \<noteq> [])"

definition ladder :: "int \<Rightarrow> int list" where
  "ladder source_h =
     (let hs = filter (\<lambda>h. h \<le> source_h) [1080, 720, 480] in
      if hs = [] then [max (source_h div 2) 1 * 2] else hs)"

definition as_i32 :: "int \<Rightarrow> int" where
  "as_i32 x = (x + 2 ^ 31) mod 2 ^ 32 - 2 ^ 31"

definition idx :: "nat \<Rightarrow> string" where "idx i = string_of_nat i"

definition ladder_filter :: "int list \<Rightarrow> string" where
  "ladder_filter hs =
     ''[0:v]split='' @ string_of_nat (length hs) @ concat (map (\<lambda>i. ''[v'' @ idx i @ '']'') [0..<length hs]) @ '';''
     @ join '';'' (map (\<lambda>(i, h). ''[v'' @ idx i @ '']scale=-2:'' @ string_of_int h
           @ '':force_original_aspect_ratio=decrease:eval=frame[vout'' @ idx i @ '']'') (zip [0..<length hs] hs))"

definition encoder_args :: "string \<Rightarrow> nat \<Rightarrow> string list" where
  "encoder_args accel i =
     (if accel = ''nvidia''
      then [''-c:v:'' @ idx i, ''h264_nvenc'', ''-preset:v:'' @ idx i, ''p1'', ''-rc:v:'' @ idx i, ''vbr'',
            ''-cq:v:'' @ idx i, string_of_nat (22 + i)]
      else if accel = ''intel''
      then [''-c:v:'' @ idx i, ''h264_qsv'', ''-global_quality:v:'' @ idx i, string_of_nat (23 + i)]
      else if accel = ''amd''
      then [''-c:v:'' @ idx i, ''h264_vaapi'', ''-qp:v:'' @ idx i, string_of_nat (23 + i)]
      else [''-c:v:'' @ idx i, ''libx264'', ''-preset:v:'' @ idx i, ''veryfast'',
            ''-crf:v:'' @ idx i, string_of_nat (22 + i)])"

definition keyframe_args :: "int \<Rightarrow> nat \<Rightarrow> string list" where
  "keyframe_args g i =
     [''-g:v:'' @ idx i, string_of_int g, ''-keyint_min:v:'' @ idx i, string_of_int g, ''-sc_threshold:v:'' @ idx i, ''0'']"

definition ladder_args :: "int list \<Rightarrow> bool \<Rightarrow> string \<Rightarrow> string \<Rightarrow> int \<Rightarrow> string list" where
  "ladder_args hs has_audio accel input seg =
     (let n = length hs; g = as_i32 (24 * max seg 1);
          src = (if has_audio then ''0:a:0'' else ''1:a:0'')
      in [''-hide_banner'', ''-loglevel'', ''error'', ''-y'', ''-i'', input, ''-filter_complex'', ladder_filter hs]
         @ (if has_audio then []
            else [''-f'', ''lavfi'', ''-i'', ''anullsrc=channel_layout=stereo:sample_rate=48000''])
         @ concat (map (\<lambda>i. [''-map'', ''[vout'' @ idx i @ '']'', ''-map'', src]) [0..<n])
         @ [''-c:a'', ''aac'', ''-b:a'', ''128k'', ''-ac'', ''2'', ''-ar'', ''48000'']
         @ concat (map (encoder_args accel) [0..<n])
         @ concat (map (keyframe_args g) [0..<n])
         @ (if has_audio then [] else [''-shortest''])
         @ [''-f'', ''hls'', ''-hls_time'', string_of_int seg, ''-hls_playlist_type'', ''vod'',
            ''-hls_flags'', ''independent_segments+temp_file'', ''-master_pl_name'', ''master.m3u8'',
            ''-var_stream_map'', join '' '' (map (\<lambda>i. ''v:'' @ idx i @ '',a:'' @ idx i) [0..<n]),
            ''-hls_segment_filename'', ''stream_%v_%06d.ts'', ''stream_%v.m3u8''])"

definition encode_ladder :: "host \<Rightarrow> string \<Rightarrow> string \<Rightarrow> string \<Rightarrow> int \<Rightarrow> string + string" where
  "encode_ladder H input out_dir accel seg =
     (case ho_mkdir H out_dir of
        Some _ \<Rightarrow> Inl (''create_dir_all('' @ out_dir @ '')'')
      | None \<Rightarrow>
          let source_h = (case ffprobe_dimensions H input of Some (_, h) \<Rightarrow> h | None \<Rightarrow> 1080) in
          (case run_ffmpeg H (ladder_args (ladder source_h) (ffprobe_has_audio H input) accel input seg) out_dir of
             Inl e \<Rightarrow> Inl e
           | Inr _ \<Rightarrow> Inr (path_push out_dir ''master.m3u8'')))"


section \<open>The older watermark arguments\<close>

text \<open>\<open>src/src/hls.rs\<close>, which no module declares.\<close>

definition escape_drawtext :: "string \<Rightarrow> string" where
  "escape_drawtext s = concat (map (\<lambda>c. if c = CHR 0x5C then [CHR 0x5C, CHR 0x5C]
     else if c = CHR '':'' then [CHR 0x5C, CHR '':''] else [c]) s)"

definition ffmpeg_hls_args :: "string \<Rightarrow> string \<Rightarrow> int \<Rightarrow> string \<Rightarrow> string \<Rightarrow> string list" where
  "ffmpeg_hls_args input out_dir seg font text =
     [''-y'', ''-i'', input, ''-vf'',
      ''drawtext=fontfile='' @ font @ '':text='' @ [CHR 0x27] @ escape_drawtext text @ [CHR 0x27]
        @ '':x=w-tw-20:y=20:fontsize=24:fontcolor=white@0.6:borderw=2:bordercolor=black@0.6'',
      ''-c:v'', ''libx264'', ''-preset'', ''veryfast'', ''-crf'', ''23'', ''-c:a'', ''aac'', ''-b:a'', ''128k'',
      ''-hls_time'', string_of_int seg, ''-hls_playlist_type'', ''event'',
      ''-hls_segment_filename'', out_dir @ ''/segment_%04d.ts'', ''-f'', ''hls'', out_dir @ ''/index.m3u8'']"

text \<open>\<open>src/src/handlers/kurs.rs\<close>: the configured rate, a float kept as its canonical text.\<close>

definition get_kurs :: "config \<Rightarrow> (string \<Rightarrow> json) \<Rightarrow> json" where
  "get_kurs c float_json = jok [(''usd_to_idr'', float_json (dollar_usd_to_rupiah c))]"

end
