(* ===== verification/UploadProperties.thy ===== *)
theory UploadProperties
  imports Upload Demo "HOL-Library.Sublist"
begin

text \<open>
  Uploads and transcoding: what an accepted upload has been checked for, what a refused one leaves
  behind, how a transcoding job ends, and where ffmpeg looks for an upload.
\<close>

section \<open>Names of the partial file\<close>

lemma split_on_parts: "x \<in> set (split_on d s) \<Longrightarrow> d \<notin> set x"
  by (induction s arbitrary: x) (auto split: if_splits list.splits)

lemma split_on_neq_Nil: "split_on d s \<noteq> []"
  by (induction s) (auto split: list.splits)

lemma split_on_single: "d \<notin> set y \<Longrightarrow> split_on d y = [y]"
  by (induction y) auto

lemma split_on_last: "d \<notin> set y \<Longrightarrow> split_on d (x @ y) = butlast (split_on d x) @ [last (split_on d x) @ y]"
proof (induction x)
  case (Cons c x)
  obtain w ws where "split_on d x = w # ws" using split_on_neq_Nil [of d x] by (cases "split_on d x") auto
  with Cons show ?case by (cases ws) auto
qed (simp add: split_on_single)

lemma split_once_first: "split_once d s = Some (a, b) \<Longrightarrow> d \<notin> set a"
  using split_once_Some [of d s a b] by simp

lemma file_name_part:
  assumes "file_name p = Some n"
  shows "n \<in> set (split_on (CHR ''/'') p)"
proof -
  let ?cs = "filter (\<lambda>c. c \<noteq> [] \<and> c \<noteq> ''.'') (split_on (CHR ''/'') p)"
  have "?cs \<noteq> []" "n = last ?cs" using assms by (auto simp: file_name_def Let_def split: if_splits)
  then have "n \<in> set ?cs" by (metis last_in_set)
  then show ?thesis by (rule subsetD [OF filter_is_subset])
qed

lemma lower_keeps: "CHR ''.'' \<notin> set s \<Longrightarrow> CHR ''.'' \<notin> set (ascii_lower s)"
  "CHR ''/'' \<notin> set s \<Longrightarrow> CHR ''/'' \<notin> set (ascii_lower s)"
proof -
  have dot: "ascii_lower_char c = CHR ''.'' \<Longrightarrow> c = CHR ''.''" "ascii_lower_char c = CHR ''/'' \<Longrightarrow> c = CHR ''/''" for c
  proof -
    have "byte (ascii_lower_char c) = byte c \<and> ascii_lower_char c = c \<or> 97 \<le> byte (ascii_lower_char c)"
      by (auto simp: ascii_lower_char_def byte_def chr_def)
    then show "ascii_lower_char c = CHR ''.'' \<Longrightarrow> c = CHR ''.''" "ascii_lower_char c = CHR ''/'' \<Longrightarrow> c = CHR ''/''"
      by (auto simp: byte_def)
  qed
  show "CHR ''.'' \<notin> set s \<Longrightarrow> CHR ''.'' \<notin> set (ascii_lower s)" "CHR ''/'' \<notin> set s \<Longrightarrow> CHR ''/'' \<notin> set (ascii_lower s)"
    using dot by (force simp: ascii_lower_def)+
qed

lemma file_extension_plain:
  assumes "file_extension p = Some e"
  shows "CHR ''.'' \<notin> set e" "CHR ''/'' \<notin> set e"
proof -
  obtain n a b where n: "file_name p = Some n" and s: "split_once (CHR ''.'') (rev n) = Some (a, b)" and e: "e = rev a"
    using assms by (auto simp: file_extension_def split: option.splits if_splits)
  show "CHR ''.'' \<notin> set e" using split_once_first [OF s] e by simp
  have "CHR ''/'' \<notin> set n" using split_on_parts [OF file_name_part [OF n]] .
  moreover have "n = rev b @ CHR ''.'' # e" using split_once_Some [OF s] e by (metis rev_append rev_rev_ident rev.simps(2) append_Cons append_Nil append_assoc)
  ultimately show "CHR ''/'' \<notin> set e" by auto
qed

lemma upload_extension_plain: "CHR ''.'' \<notin> set (upload_extension f)" "CHR ''/'' \<notin> set (upload_extension f)" "upload_extension f \<noteq> []"
  unfolding upload_extension_def
  by (auto simp: lower_keeps file_extension_plain split: option.splits bind_splits)

lemma extension_of_joined:
  assumes "CHR ''.'' \<notin> set e" "CHR ''/'' \<notin> set e" "e \<noteq> []" "file_extension (x @ ''.'' @ e) = Some old"
  shows "old = e"
proof -
  let ?s = "split_on (CHR ''/'') x" let ?l = "last ?s @ ''.'' @ e"
  have split: "split_on (CHR ''/'') (x @ ''.'' @ e) = butlast ?s @ [?l]"
    using split_on_last [of "CHR ''/''" "''.'' @ e" x] assms by simp
  obtain n a b where n: "file_name (x @ ''.'' @ e) = Some n" and s: "split_once (CHR ''.'') (rev n) = Some (a, b)"
    and old: "old = rev a"
    using assms(4) by (auto simp: file_extension_def split: option.splits if_splits)
  have "?l \<noteq> ''.''" using assms(3) by (cases "last ?s") auto
  with n split have "n = ?l" by (auto simp: file_name_def Let_def split: if_splits)
  then have "split_once (CHR ''.'') (rev n) = Some (rev e, rev (last ?s))"
    using split_once_append [of "CHR ''.''" "rev e"] assms(1) by simp
  with s old show ?thesis by auto
qed

text \<open>The partial file is not the final one.\<close>

lemma partial_name:
  assumes "CHR ''.'' \<notin> set e" "CHR ''/'' \<notin> set e" "e \<noteq> []"
  shows "with_extension (x @ ''.'' @ e) (e @ ''.part'') \<noteq> x @ ''.'' @ e"
proof (cases "file_extension (x @ ''.'' @ e)")
  case (Some old)
  with extension_of_joined [OF assms Some] show ?thesis by (simp add: with_extension_def)
qed (simp add: with_extension_def)

lemma partial_path:
  assumes "CHR ''.'' \<notin> set e" "CHR ''/'' \<notin> set e" "e \<noteq> []"
  shows "with_extension (path_push d (v @ ''.'' @ e)) (e @ ''.part'') \<noteq> path_push d (v @ ''.'' @ e)"
proof -
  have "path_push d (v @ ''.'' @ e) = v @ ''.'' @ e \<or> path_push d (v @ ''.'' @ e) = (d @ v) @ ''.'' @ e
      \<or> path_push d (v @ ''.'' @ e) = (d @ ''/'' @ v) @ ''.'' @ e"
    by (simp add: path_push_def)
  with partial_name [OF assms] show ?thesis by metis
qed


section \<open>The form\<close>

text \<open>What the chunks leave in the partial file.\<close>

lemma read_chunks_content:
  assumes "read_chunks H limit tmp n cs got sniff fs = (Inr (got', sniff'), fs')" "fs tmp = Some c0"
  shows "\<exists>c. fs' = fs(tmp \<mapsto> c0 @ c) \<and> got' = got + int (length c)
    \<and> (sniff' \<noteq> sniff \<longrightarrow> got' \<le> limit)
    \<and> (sniff = None \<longrightarrow> (case sniff' of None \<Rightarrow> c = [] | Some h \<Rightarrow> prefix h c \<and> got' \<le> limit))
    \<and> (sniff \<noteq> None \<longrightarrow> sniff' = sniff \<and> (got \<le> limit \<longrightarrow> got' \<le> limit))"
  using assms
proof (induction H limit tmp n cs got sniff fs arbitrary: c0 rule: read_chunks.induct)
  case (3 H limit tmp n bytes cs got sniff fs)
  let ?s = "Some (case sniff of None \<Rightarrow> take 8192 bytes | Some s \<Rightarrow> s)" let ?fs = "fs(tmp \<mapsto> (case fs tmp of None \<Rightarrow> [] | Some s \<Rightarrow> s) @ bytes)"
  from 3(2,3) have small: "\<not> limit < got + int (length bytes)" and w: "ho_write H n = None"
    and rest: "read_chunks H limit tmp (Suc n) cs (got + int (length bytes)) ?s ?fs = (Inr (got', sniff'), fs')"
    by (auto simp: Let_def split: if_splits option.splits)
  have start: "?fs tmp = Some (c0 @ bytes)" using 3(3) by simp
  from 3(1) [OF refl small w rest start] small obtain c where
    c: "fs' = fs(tmp \<mapsto> (c0 @ bytes) @ c)" "got' = got + int (length bytes) + int (length c)" "sniff' = ?s" "got' \<le> limit"
    by (auto simp del: fun_upd_apply)
  have "prefix (take 8192 bytes) (bytes @ c)" by (metis append.assoc append_take_drop_id prefixI)
  with c show ?case by (intro exI [of _ "bytes @ c"]) (auto split: option.splits)
qed auto

text \<open>A stored video: its content was read, measured and recognised before it got its name.\<close>

definition checked_content :: "host \<Rightarrow> int \<Rightarrow> string \<Rightarrow> bool" where
  "checked_content H limit content \<longleftrightarrow> int (length content) \<le> limit
     \<and> (\<exists>head mime. prefix head content \<and> ho_mime H head = Some mime \<and> starts_with ''video/'' mime)"

lemma finish_file_stored:
  assumes "finish_file H limit tmp full chunks (fs(tmp \<mapsto> [])) = (Inr u, fs')" "tmp \<noteq> full"
  shows "\<exists>content. fs' = fs(full \<mapsto> content, tmp := None) \<and> checked_content H limit content"
proof -
  obtain x fs1 where r: "read_chunks H limit tmp 0 chunks 0 None (fs(tmp \<mapsto> [])) = (x, fs1)" by fastforce
  from assms(1) r obtain got head mime where x: "x = Inr (got, Some head)" and mime: "ho_mime H head = Some mime"
    "starts_with ''video/'' mime" and fs': "fs' = fs1(full := fs1 tmp, tmp := None)"
    unfolding finish_file_def by (auto split: sum.splits option.splits if_splits)
  from read_chunks_content [OF r [unfolded x], of "[]"] obtain c where
    "fs1 = fs(tmp \<mapsto> c)" "got = int (length c)" "prefix head c" "got \<le> limit" by auto
  with mime fs' assms(2) show ?thesis
    by (intro exI [of _ c]) (auto simp: checked_content_def fun_eq_iff)
qed

lemma remove_all: "\<forall>p. ho_unlink H p \<Longrightarrow> remove_file H p fs = fs(p := None)"
  by (simp add: remove_file_def)

lemma read_chunks_removed:
  "read_chunks H limit tmp n cs got sniff fs = (Inl a, fs') \<Longrightarrow> \<forall>p. ho_unlink H p \<Longrightarrow> fs'(tmp := None) = fs(tmp := None) \<and> fs' tmp = None"
  by (induction H limit tmp n cs got sniff fs rule: read_chunks.induct)
    (auto simp: remove_all Let_def split: if_splits option.splits)

lemma read_chunks_other:
  "read_chunks H limit tmp n cs got sniff fs = (Inr x, fs') \<Longrightarrow> fs'(tmp := None) = fs(tmp := None)"
  by (induction H limit tmp n cs got sniff fs rule: read_chunks.induct)
    (auto simp: Let_def split: if_splits option.splits)

lemma finish_file_removed:
  assumes "finish_file H limit tmp full chunks fs = (Inl a, fs')" "\<forall>p. ho_unlink H p"
  shows "fs' = fs(tmp := None)"
proof -
  obtain x fs1 where r: "read_chunks H limit tmp 0 chunks 0 None fs = (x, fs1)" by fastforce
  show ?thesis
  proof (cases x)
    case (Inl b)
    with assms r have "fs' = fs1" by (auto simp: finish_file_def)
    with read_chunks_removed [OF r [unfolded Inl] assms(2)] show ?thesis by (metis fun_upd_triv)
  next
    case (Inr y)
    obtain got sniff where "y = (got, sniff)" by fastforce
    with Inr have "fs' = fs1(tmp := None)"
      using assms r by (auto simp: finish_file_def remove_all split: option.splits if_splits)
    with read_chunks_other [OF r [unfolded Inr]] show ?thesis by simp
  qed
qed


definition allowed_exts :: "ctx \<Rightarrow> string set" where
  "allowed_exts C = set (map ascii_lower (allow_exts (cfg C)))"

definition part_path :: "string \<Rightarrow> string \<Rightarrow> string" where
  "part_path path e = with_extension path (e @ ''.part'')"

definition file_path :: "string \<Rightarrow> string \<Rightarrow> string \<Rightarrow> string" where
  "file_path dir vid e = path_push dir (vid @ ''.'' @ e)"

text \<open>No file has the name of the new video yet.\<close>

definition vacant :: "ctx \<Rightarrow> string \<Rightarrow> string \<Rightarrow> files \<Rightarrow> bool" where
  "vacant C dir vid fs \<longleftrightarrow> (\<forall>e. fs (file_path dir vid e) = None \<and> fs (part_path (file_path dir vid e) e) = None)"

definition saved_as :: "ctx \<Rightarrow> host \<Rightarrow> string \<Rightarrow> string \<Rightarrow> files \<Rightarrow> string \<times> string \<Rightarrow> files \<Rightarrow> bool" where
  "saved_as C H dir vid base saved fs \<longleftrightarrow> (\<exists>e content. e \<in> allowed_exts C \<and> saved = (file_path dir vid e, vid @ ''.'' @ e)
     \<and> checked_content H (max_upload_bytes (cfg C)) content \<and> part_path (file_path dir vid e) e \<noteq> file_path dir vid e
     \<and> fs = base(file_path dir vid e \<mapsto> content, part_path (file_path dir vid e) e := None))"

definition form_state :: "ctx \<Rightarrow> host \<Rightarrow> string \<Rightarrow> string \<Rightarrow> files \<Rightarrow> progress \<Rightarrow> files \<Rightarrow> bool" where
  "form_state C H dir vid base p fs \<longleftrightarrow>
     (case up_saved p of
        None \<Rightarrow> up_count p = 0 \<and> fs = base
      | Some saved \<Rightarrow> up_count p = 1 \<and> saved_as C H dir vid base saved fs)"

lemma save_file_saved:
  assumes "save_file C H dir vid f base = (Inr saved, fs)"
  shows "saved_as C H dir vid base saved fs"
proof -
  let ?e = "upload_extension f" let ?full = "file_path dir vid ?e" let ?tmp = "part_path ?full ?e"
  have ne: "?tmp \<noteq> ?full"
    unfolding part_path_def file_path_def by (rule partial_path) (rule upload_extension_plain)+
  have ext: "?e \<in> allowed_exts C"
    and saved: "saved = (?full, vid @ ''.'' @ ?e)"
    and fin: "finish_file H (max_upload_bytes (cfg C)) ?tmp ?full (ff_chunks f) (base(?tmp \<mapsto> [])) = (Inr (), fs)"
    using assms unfolding save_file_def Let_def file_path_def part_path_def allowed_exts_def
    by (auto split: if_splits option.splits prod.splits sum.splits)
  from finish_file_stored [OF fin ne] ext saved ne show ?thesis unfolding saved_as_def by blast
qed

lemma save_file_refused:
  assumes "save_file C H dir vid f base = (Inl a, fs)" "\<forall>p. ho_unlink H p" "vacant C dir vid base"
  shows "fs = base"
proof -
  let ?e = "upload_extension f" let ?full = "file_path dir vid ?e" let ?tmp = "part_path ?full ?e"
  have "fs = base \<or> finish_file H (max_upload_bytes (cfg C)) ?tmp ?full (ff_chunks f) (base(?tmp \<mapsto> [])) = (Inl a, fs)"
    using assms(1) unfolding save_file_def Let_def file_path_def part_path_def
    by (auto split: if_splits option.splits prod.splits sum.splits)
  then show ?thesis
  proof
    assume "finish_file H (max_upload_bytes (cfg C)) ?tmp ?full (ff_chunks f) (base(?tmp \<mapsto> [])) = (Inl a, fs)"
    from finish_file_removed [OF this assms(2)] have "fs = base(?tmp := None)" by simp
    with assms(3) show ?thesis by (simp add: vacant_def fun_upd_idem)
  qed
qed

lemma saved_removed:
  assumes "saved_as C H dir vid base saved fs" "\<forall>p. ho_unlink H p" "vacant C dir vid base"
  shows "remove_file H (fst saved) fs = base"
proof -
  from assms(1) obtain e content where s: "saved = (file_path dir vid e, vid @ ''.'' @ e)"
    and fs: "fs = base(file_path dir vid e \<mapsto> content, part_path (file_path dir vid e) e := None)"
    unfolding saved_as_def by blast
  have "base (file_path dir vid e) = None" "base (part_path (file_path dir vid e) e) = None"
    using assms(3) by (auto simp: vacant_def)
  then show ?thesis unfolding s fs by (auto simp: remove_all [OF assms(2)] fun_eq_iff)
qed

lemma read_form_state:
  "read_form C H dir vid parts p fs = (Inr p', fs') \<Longrightarrow> form_state C H dir vid base p fs \<Longrightarrow>
   form_state C H dir vid base p' fs'"
proof (induction C H dir vid parts p fs rule: read_form.induct)
  case (3 C H dir vid f parts p fs)
  consider (heading) "ff_name f = Some ''title''" | (cents) "ff_name f = Some ''price_cents''"
    | (video) "ff_name f = Some ''file''" | (other) "\<forall>n\<in>{''title'', ''price_cents'', ''file''}. ff_name f \<noteq> Some n" by blast
  then show ?case
  proof cases
    case video
    have count: "up_saved p = None" "fs = base" "\<not> 1 < up_count p + 1"
      using 3 video by (auto simp: form_state_def Let_def split: option.splits if_splits)
    obtain x fs1 where s: "save_file C H dir vid f fs = (x, fs1)" by fastforce
    from 3(5) video count s obtain saved where x: "x = Inr saved"
      and rest: "read_form C H dir vid parts (p\<lparr>up_count := up_count p + 1, up_saved := Some saved\<rparr>) fs1 = (Inr p', fs')"
      by (cases x) (auto simp: Let_def)
    have "form_state C H dir vid base (p\<lparr>up_count := up_count p + 1, up_saved := Some saved\<rparr>) fs1"
      using save_file_saved [OF s [unfolded x]] count 3(6) by (simp add: form_state_def)
    with 3(3) [OF refl] video count s x rest show ?thesis by (simp add: Let_def)
  qed (use 3 in \<open>auto simp: Let_def form_state_def split: option.splits\<close>)
qed auto

lemma remove_saved_base:
  assumes "form_state C H dir vid base p fs" "\<forall>p. ho_unlink H p" "vacant C dir vid base"
  shows "remove_saved H p fs = base"
  using assms(1) saved_removed [OF _ assms(2,3)]
  by (auto simp: form_state_def remove_saved_def split: option.splits)

text \<open>The stream of the form is whole: the client does not break off between two fields.\<close>

definition whole_form :: "(string + form_field) list \<Rightarrow> bool" where
  "whole_form parts \<longleftrightarrow> (\<forall>e. Inl e \<notin> set parts)"

lemma read_form_refused:
  "read_form C H dir vid parts p fs = (Inl a, fs') \<Longrightarrow> form_state C H dir vid base p fs \<Longrightarrow>
   \<forall>p. ho_unlink H p \<Longrightarrow> vacant C dir vid base \<Longrightarrow> whole_form parts \<Longrightarrow> fs' = base"
proof (induction C H dir vid parts p fs rule: read_form.induct)
  case (3 C H dir vid f parts p fs)
  have whole: "whole_form parts" using 3(9) by (simp add: whole_form_def)
  consider (heading) "ff_name f = Some ''title''" | (cents) "ff_name f = Some ''price_cents''"
    | (video) "ff_name f = Some ''file''" | (other) "\<forall>n\<in>{''title'', ''price_cents'', ''file''}. ff_name f \<noteq> Some n" by blast
  then show ?case
  proof cases
    case video
    show ?thesis
    proof (cases "1 < up_count p + 1")
      case True
      with 3(5) video have "fs' = remove_saved H p fs" by (auto simp: Let_def)
      with remove_saved_base [OF 3(6-8)] show ?thesis by simp
    next
      case False
      then have new: "up_saved p = None" "fs = base"
        using 3(6) by (auto simp: form_state_def split: option.splits)
      obtain x fs1 where s: "save_file C H dir vid f fs = (x, fs1)" by fastforce
      show ?thesis
      proof (cases x)
        case (Inl b)
        with 3(5) video s False have "fs' = fs1" by (simp add: Let_def)
        with save_file_refused [of C H dir vid f base b fs1] s new Inl 3(7,8) show ?thesis by simp
      next
        case (Inr saved)
        have "form_state C H dir vid base (p\<lparr>up_count := up_count p + 1, up_saved := Some saved\<rparr>) fs1"
          using save_file_saved [of C H dir vid f base saved fs1] s new Inr False 3(6) by (simp add: form_state_def)
        with 3(3) [OF refl] video False s Inr 3(5,7,8) whole show ?thesis by (simp add: Let_def)
      qed
    qed
  qed (use 3 whole in \<open>auto simp: Let_def form_state_def split: option.splits\<close>)
qed (auto simp: whole_form_def)

lemma check_form_refused:
  assumes "check_form H p fs = (Inl a, fs')" "form_state C H dir vid base p fs" "\<forall>p. ho_unlink H p" "vacant C dir vid base"
  shows "fs' = base"
  using assms(1,2) remove_saved_base [OF assms(2-4)]
  by (auto simp: check_form_def Let_def form_state_def split: if_splits option.splits)

lemma check_form_passed:
  assumes "check_form H p fs = (Inr (title, price, path, name), fs')" "form_state C H dir vid base p fs"
  shows "fs' = fs \<and> 0 \<le> price \<and> length (code_points title) \<le> MAX_TITLE_CHARS \<and> title \<noteq> []
    \<and> saved_as C H dir vid base (path, name) fs"
  using assms by (auto simp: check_form_def Let_def form_state_def split: if_splits option.splits)

text \<open>Only a stored upload is answered with 201.\<close>

lemma up_fail_status [simp]: "fst (up_fail st stage msg) = st"
  by (simp add: up_fail_def)

lemma read_chunks_status: "read_chunks H limit tmp n cs got sniff fs = (Inl a, fs') \<Longrightarrow> fst a \<noteq> 201"
  by (induction H limit tmp n cs got sniff fs rule: read_chunks.induct)
    (auto simp: Let_def split: if_splits option.splits)

lemma finish_file_status: "finish_file H limit tmp full chunks fs = (Inl a, fs') \<Longrightarrow> fst a \<noteq> 201"
  by (auto simp: finish_file_def dest: read_chunks_status split: prod.splits sum.splits option.splits if_splits)

lemma save_file_status: "save_file C H dir vid f fs = (Inl a, fs') \<Longrightarrow> fst a \<noteq> 201"
  by (auto simp: save_file_def Let_def dest: finish_file_status split: prod.splits sum.splits option.splits if_splits)

lemma read_form_status: "read_form C H dir vid parts p fs = (Inl a, fs') \<Longrightarrow> fst a \<noteq> 201"
  by (induction C H dir vid parts p fs rule: read_form.induct)
    (auto simp: Let_def dest: save_file_status split: prod.splits sum.splits if_splits)

lemma check_form_status: "check_form H p fs = (Inl a, fs') \<Longrightarrow> fst a \<noteq> 201"
  by (auto simp: check_form_def Let_def split: if_splits option.splits)

lemma store_cases:
  assumes "store_upload C H B pl uid vid title price path name w = (a, w')"
  shows "(fst a = 201 \<and> wo_files w' = wo_files w
        \<and> videos (wo_db w') = videos (wo_db w) @ [uploaded_video C vid uid title price name]
        \<and> wo_jobs w' = wo_jobs w @ [\<lparr> jb_video = vid, jb_input = path, jb_out = video_hls_dir (cfg C) vid \<rparr>])
    \<or> (fst a \<noteq> 201 \<and> (ho_send H = None \<longrightarrow> wo_files w' = remove_file H path (wo_files w)))"
proof -
  obtain x d where r: "run_write C ''upload.insert'' (ins_video (uploaded_video C vid uid title price name)) (wo_db w) = (x, d)"
    by fastforce
  show ?thesis
  proof (cases x)
    case (Inl e)
    with assms r show ?thesis by (auto simp: store_upload_def)
  next
    case (Inr v)
    have "videos d = videos (wo_db w) @ [uploaded_video C vid uid title price name]"
      using run_write_cases(2) [OF r Inr] by (auto simp: ins_video_def split: if_splits)
    with assms r Inr show ?thesis
      by (cases "ho_send H") (auto simp: store_upload_def upload_done_def)
  qed
qed

text \<open>The request of a user: what it was before the row is stored, and what it leaves.\<close>

definition the_dir :: "ctx \<Rightarrow> string" where
  "the_dir C = (if upload_dir (cfg C) \<noteq> [] then upload_dir (cfg C) else storage_dir (cfg C))"

definition new_id :: "ctx \<Rightarrow> string" where "new_id C = fresh_uuid C ''upload.video''"

lemma upload_refused:
  assumes "upload_video C H B pl parts w = (a, w')" "fst a \<noteq> 201" "ho_send H = None"
    and rm: "\<forall>p. ho_unlink H p" and vac: "vacant C (the_dir C) (new_id C) (wo_files w)" and whole: "whole_form parts"
  shows "wo_files w' = wo_files w"
proof -
  obtain x d where u: "current_user_id C (wo_db w) = (x, d)" by fastforce
  show ?thesis
  proof (cases "\<exists>uid adm. x = Some (uid, adm) \<and> ho_mkdir H (the_dir C) = None")
    case False
    with assms(1) u show ?thesis unfolding upload_video_def the_dir_def Let_def
      by (auto split: option.splits prod.splits if_splits)
  next
    case True
    then obtain uid adm where x: "x = Some (uid, adm)" and mk: "ho_mkdir H (the_dir C) = None" by blast
    let ?base = "wo_files w"
    have init: "form_state C H (the_dir C) (new_id C) ?base fresh_progress ?base"
      by (simp add: form_state_def fresh_progress_def)
    obtain y fs where r: "read_form C H (the_dir C) (new_id C) parts fresh_progress ?base = (y, fs)" by fastforce
    note eq = assms(1) [unfolded upload_video_def u x prod.case option.case Let_def, folded the_dir_def new_id_def,
        unfolded mk option.case r prod.case]
    show ?thesis
    proof (cases y)
      case (Inl b)
      with eq have "wo_files w' = fs" by auto
      with read_form_refused [OF r [unfolded Inl] init rm vac whole] show ?thesis by simp
    next
      case (Inr p)
      note st = read_form_state [OF r [unfolded Inr] init]
      obtain z fs1 where c: "check_form H p fs = (z, fs1)" by fastforce
      show ?thesis
      proof (cases z)
        case (Inl b)
        with eq Inr c have "wo_files w' = fs1" by auto
        with check_form_refused [OF c [unfolded Inl] st rm vac] show ?thesis by simp
      next
        case z: (Inr q)
        obtain title price path name where q: "q = (title, price, path, name)" by (cases q) auto
        note passed = check_form_passed [OF c [unfolded z q] st]
        from eq Inr c z q have "store_upload C H B pl uid (new_id C) title price path name
          (w\<lparr>wo_files := fs1, wo_db := d\<rparr>) = (a, w')" by simp
        from store_cases [OF this] assms(2,3) have "wo_files w' = remove_file H path fs1" by auto
        with passed saved_removed [of C H "the_dir C" "new_id C" ?base "(path, name)" fs] rm vac show ?thesis by simp
      qed
    qed
  qed
qed

lemma upload_stored:
  assumes "upload_video C H B pl parts w = (a, w')" "fst a = 201"
  shows "\<exists>uid adm title price path name fs. current_user_id C (wo_db w) = (Some (uid, adm), wo_db w)
    \<and> saved_as C H (the_dir C) (new_id C) (wo_files w) (path, name) fs \<and> 0 \<le> price \<and> wo_files w' = fs
    \<and> title \<noteq> [] \<and> length (code_points title) \<le> MAX_TITLE_CHARS
    \<and> videos (wo_db w') = videos (wo_db w) @ [uploaded_video C (new_id C) uid title price name]
    \<and> wo_jobs w' = wo_jobs w @ [\<lparr> jb_video = new_id C, jb_input = path, jb_out = video_hls_dir (cfg C) (new_id C) \<rparr>]"
proof -
  obtain x d where u: "current_user_id C (wo_db w) = (x, d)" by fastforce
  have "\<exists>uid adm. x = Some (uid, adm)"
  proof (rule ccontr)
    assume "\<not> ?thesis"
    then have "x = None" by (cases x) auto
    with assms u show False by (auto simp: upload_video_def)
  qed
  then obtain uid adm where x: "x = Some (uid, adm)" by blast
  with u current_user_Some have d: "d = wo_db w" by blast
  have mk: "ho_mkdir H (the_dir C) = None"
    using assms u x by (auto simp: upload_video_def the_dir_def Let_def split: option.splits)
  let ?base = "wo_files w"
  have init: "form_state C H (the_dir C) (new_id C) ?base fresh_progress ?base"
    by (simp add: form_state_def fresh_progress_def)
  obtain y fs where r: "read_form C H (the_dir C) (new_id C) parts fresh_progress ?base = (y, fs)" by fastforce
  note eq = assms(1) [unfolded upload_video_def u x prod.case option.case Let_def, folded the_dir_def new_id_def,
      unfolded mk option.case r prod.case]
  obtain p where y: "y = Inr p" using eq assms(2) read_form_status [of C H _ _ _ _ _ _ fs] r by (cases y) auto
  note st = read_form_state [OF r [unfolded y] init]
  obtain z fs1 where c: "check_form H p fs = (z, fs1)" by fastforce
  obtain q where z: "z = Inr q" using eq assms(2) c y check_form_status [of H p fs _ fs1] by (cases z) auto
  obtain title price path name where q: "q = (title, price, path, name)" by (cases q) auto
  note passed = check_form_passed [OF c [unfolded z q] st]
  from eq y c z q have "store_upload C H B pl uid (new_id C) title price path name
    (w\<lparr>wo_files := fs1, wo_db := d\<rparr>) = (a, w')" by simp
  from store_cases [OF this] assms(2) have
    "wo_files w' = fs1" "videos (wo_db w') = videos d @ [uploaded_video C (new_id C) uid title price name]"
    "wo_jobs w' = wo_jobs w @ [\<lparr> jb_video = new_id C, jb_input = path, jb_out = video_hls_dir (cfg C) (new_id C) \<rparr>]" by auto
  with passed u x d show ?thesis by blast
qed


section \<open>The worker\<close>

lemma find_put_video:
  assumes "\<And>v. v_id (f v) = v_id v" "find_video i d = Some v"
  shows "find_video i (d\<lparr>videos := upd_where (\<lambda>v. v_id v = i) f (videos d)\<rparr>) = Some (f v)"
proof -
  have "find (\<lambda>v. v_id v = i) (upd_where (\<lambda>v. v_id v = i) f (videos d)) = map_option (\<lambda>r. if v_id r = i then f r else r) (find_video i d)"
    unfolding find_video_def by (rule find_upd_where) (simp add: assms(1))
  with assms(2) find_video_id [OF assms(2)] show ?thesis by (simp add: find_video_def)
qed

text \<open>A statement on the row of the video, when no statement fails.\<close>

lemma put_video_runs:
  assumes "fault C = (\<lambda>_. None)" "\<And>v. v_id (f v) = v_id v" "find_video i d = Some v"
  shows "\<exists>d'. run_write C s (put_video i f) d = (Inr (), d') \<and> find_video i d' = Some (f v)"
  using find_put_video [OF assms(2,3)] assms(1) by (simp add: run_write_def put_video_def)

definition job_state :: "job \<Rightarrow> video \<Rightarrow> string + unit \<Rightarrow> db \<Rightarrow> bool" where
  "job_state j v x d \<longleftrightarrow> (\<exists>v'. find_video (jb_video j) d = Some v' \<and>
     (case x of
        Inl e \<Rightarrow> v' = v\<lparr>v_state := Some ''error'', v_error := Some e\<rparr>
      | Inr _ \<Rightarrow> v' = v\<lparr>v_hls_ready := True, v_hls_master := Some (path_push (jb_out j) ''master.m3u8''),
                      v_state := Some ''ready'', v_error := None\<rparr>))"

lemma error_state:
  assumes "fault C = (\<lambda>_. None)" "find_video (jb_video j) d = Some (v\<lparr>v_state := s, v_error := e0\<rparr>)"
  shows "job_state j v (Inl e) (update_video_error C (jb_video j) e d)"
proof -
  have "\<exists>d'. run_write C ''worker.error'' (put_video (jb_video j) (\<lambda>v. v\<lparr>v_state := Some ''error'', v_error := Some e\<rparr>)) d
      = (Inr (), d') \<and> find_video (jb_video j) d' = Some (v\<lparr>v_state := Some ''error'', v_error := Some e\<rparr>)"
    using put_video_runs [OF assms(1) _ assms(2), of "\<lambda>v. v\<lparr>v_state := Some ''error'', v_error := Some e\<rparr>"] by simp
  then show ?thesis by (auto simp: job_state_def update_video_error_def)
qed

lemma encode_hls_name: "encode_hls_abr H input out seg = Inr m \<Longrightarrow> m = ''master.m3u8''"
  by (auto simp: encode_hls_abr_def split: sum.splits)

lemma encode_job_state:
  assumes "fault C = (\<lambda>_. None)" "find_video (jb_video j) d = Some (v\<lparr>v_state := s, v_error := e0\<rparr>)"
    and "encode_job C H B pl ls out j tmp d = (x, ops, ps, d')"
  shows "job_state j v x d' \<and> (x = Inr () \<longrightarrow> encode_hls_abr H tmp (jb_out j) (hls_segment_seconds (cfg C)) = Inr ''master.m3u8'')"
proof (cases "encode_hls_abr H tmp (jb_out j) (hls_segment_seconds (cfg C))")
  case (Inl e)
  with assms error_state [OF assms(1,2), of e] show ?thesis by (auto simp: encode_job_def)
next
  case (Inr m)
  note name = encode_hls_name [OF Inr]
  let ?f = "\<lambda>v. v\<lparr>v_hls_ready := True, v_hls_master := Some (path_push (jb_out j) ''master.m3u8''), v_state := Some ''ready'', v_error := None\<rparr>"
  obtain d2 where "mark_ready C j ''master.m3u8'' d = (Inr (), d2)" "find_video (jb_video j) d2 = Some (?f (v\<lparr>v_state := s, v_error := e0\<rparr>))"
    using put_video_runs [OF assms(1) _ assms(2), of ?f] unfolding mark_ready_def by auto
  with Inr assms(3) name show ?thesis by (auto simp: encode_job_def job_state_def)
qed

lemma process_job_state:
  assumes f: "fault C = (\<lambda>_. None)" and tmp: "ho_mkdir H (tmp_dir (cfg C)) = None"
    and v: "find_video (jb_video j) d = Some v" and run: "process_job C H B pl ls out j d = (x, ops, ps, d')"
  shows "job_state j v x d' \<and> (x = Inr () \<longrightarrow>
     faststart_mp4 H (jb_input j) (path_push (tmp_dir (cfg C)) (jb_video j @ ''.faststart.mp4'')) = Inr ()
     \<and> encode_hls_abr H (path_push (tmp_dir (cfg C)) (jb_video j @ ''.faststart.mp4'')) (jb_out j)
         (hls_segment_seconds (cfg C)) = Inr ''master.m3u8'')"
proof -
  let ?f = "\<lambda>v. v\<lparr>v_state := Some ''processing'', v_error := None\<rparr>"
  let ?tmp = "path_push (tmp_dir (cfg C)) (jb_video j @ ''.faststart.mp4'')"
  obtain d1 where m: "run_write C ''worker.processing'' (put_video (jb_video j) ?f) d = (Inr (), d1)"
    and v1: "find_video (jb_video j) d1 = Some (?f v)" using put_video_runs [OF f _ v, of ?f] by auto
  note eq = run [unfolded process_job_def m prod.case sum.case tmp option.case Let_def]
  note err = error_state [OF f v1]
  show ?thesis
  proof (cases "faststart_mp4 H (jb_input j) ?tmp")
    case (Inl e)
    with eq err [of e] show ?thesis by auto
  next
    case (Inr u)
    show ?thesis
    proof (cases "ho_mkdir H (jb_out j)")
      case (Some e)
      with eq Inr err [of e] show ?thesis by auto
    next
      case None
      with eq Inr have "encode_job C H B pl ls out j ?tmp d1 = (x, ops, ps, d')" by simp
      from encode_job_state [OF f v1 this] Inr show ?thesis by simp
    qed
  qed
qed


section \<open>A concrete host\<close>

definition demo_host :: host where
  "demo_host = \<lparr> ho_mkdir = (\<lambda>_. None), ho_create = (\<lambda>_. None), ho_write = (\<lambda>_. None), ho_flush = None, ho_rename = None,
     ho_unlink = (\<lambda>_. True), ho_mime = (\<lambda>s. if s = ''film'' then Some ''video/mp4'' else None), ho_size = string_of_int,
     ho_send = None, ho_run = (\<lambda>_ _. Exited (Some 0) []), ho_probe = (\<lambda>_. None), ho_float = (\<lambda>_. None), ho_cpus = 4 \<rparr>"

definition demo_store :: bucket where
  "demo_store = \<lparr> bk_builds = (\<lambda>_. True), bk_path = (\<lambda>k. k), bk_put = (\<lambda>_ _ _. None), bk_get = (\<lambda>_. Inl False),
     bk_delete = (\<lambda>_. None), fs_read = (\<lambda>p. Inr ''film''), fs_write = (\<lambda>_ _. None), fs_mkdir = (\<lambda>_. None),
     fs_exists = (\<lambda>_. True), fs_remove = (\<lambda>_. None) \<rparr>"

definition demo_local :: storage_plugin where
  "demo_local = Local \<lparr> lp_base_path = ''storage'', lp_base_url = ''http://localhost:8080'' \<rparr>"

definition demo_field :: "string \<Rightarrow> string \<Rightarrow> form_field" where
  "demo_field name content = \<lparr> ff_name = Some name, ff_file = Some ''Film.MP4'', ff_text = Some content, ff_chunks = [Inr content] \<rparr>"

definition demo_world :: world where
  "demo_world = \<lparr> wo_files = (\<lambda>_. None), wo_jobs = [], wo_puts = [], wo_db = demo_db \<rparr>"

definition demo_upload :: "string \<Rightarrow> answer \<times> world" where
  "demo_upload content = upload_video alice demo_host demo_store demo_local
     [Inr (demo_field ''title'' ''My film''), Inr (demo_field ''file'' content)] demo_world"


text \<open>The names of the demonstration, evaluated once.\<close>

lemma demo_names:
  "upload_extension (demo_field n c) = ''mp4''" "with_extension ''up/s-new.mp4'' ''mp4.part'' = ''up/s-new.mp4.part''"
  "parent_dir ''up/s-new.mp4.part'' = Some ''up''" "path_push ''up'' ''s-new.mp4'' = ''up/s-new.mp4''"
  "trim ''My film'' = ''My film''" "length (code_points ''My film'') = 7" "starts_with ''video/'' ''video/mp4''" "ascii_lower ''mp4'' = ''mp4''"
  by code_simp+

lemma demo_extension:
  "upload_extension \<lparr> ff_name = n, ff_file = Some ''Film.MP4'', ff_text = t, ff_chunks = cs \<rparr> = ''mp4''"
  by (simp add: upload_extension_def) code_simp

lemma alice_user: "current_user_id alice demo_db = (Some (''u1'', False), demo_db)"
proof -
  have "fst (current_user_id alice demo_db) = Some (''u1'', False)" by code_simp
  then show ?thesis using current_user_Some by (metis prod.collapse)
qed

lemma alice_config: "cfg alice = demo_config" "fresh_uuid alice = (\<lambda>site. ''s-new'')" "fault alice = (\<lambda>site. None)"
  by (simp_all add: alice_def as_session_def demo_ctx_def)

lemma demo_insert: "v_id v = ''s-new'' \<Longrightarrow> v_owner v = ''u1'' \<Longrightarrow>
   run_write alice s (ins_video v) demo_db = (Inr (), demo_db\<lparr>videos := videos demo_db @ [v]\<rparr>)"
  by (simp add: run_write_def alice_config ins_video_def video_exists_def find_video_def user_exists_def find_user_def
      demo_db_def demo_video_def demo_user_def)

lemmas demo_upload_simps = demo_upload_def upload_video_def demo_world_def alice_user alice_config demo_names demo_extension demo_host_def
  demo_field_def save_file_def finish_file_def check_form_def store_upload_def demo_config_def fresh_progress_def Let_def

lemma demo_statuses: "fst (fst (demo_upload ''film'')) = 201" "fst (fst (demo_upload ''text'')) = 400"
  by (simp_all add: demo_upload_simps demo_insert uploaded_video_def MAX_TITLE_CHARS_def upload_done_def)

section \<open>Properties\<close>

text \<open>C29. An upload answered with 201 was made by a user who is logged in, and the row it adds belongs to that
  user, has a price that is not negative, a title of 1 to 200 characters, is queued, and names a file
  with an allowed extension; the file under that name has at most the configured number of bytes and its
  head was recognised as a video.
\<close>

theorem upload_accepted:
  assumes "upload_video C H B pl parts w = (a, w')" "fst a = 201"
  shows "\<exists>uid adm v e content. current_user_id C (wo_db w) = (Some (uid, adm), wo_db w)
    \<and> videos (wo_db w') = videos (wo_db w) @ [v] \<and> v_owner v = uid \<and> 0 \<le> v_price v \<and> v_state v = Some ''queued''
    \<and> v_title v \<noteq> [] \<and> length (code_points (v_title v)) \<le> MAX_TITLE_CHARS \<and> \<not> v_hls_ready v \<and> e \<in> allowed_exts C \<and> v_filename v = v_id v @ ''.'' @ e
    \<and> wo_files w' (path_push (the_dir C) (v_filename v)) = Some content
    \<and> checked_content H (max_upload_bytes (cfg C)) content
    \<and> map jb_video (wo_jobs w') = map jb_video (wo_jobs w) @ [v_id v]"
proof -
  from upload_stored [OF assms] obtain uid adm title price path name fs where
    u: "current_user_id C (wo_db w) = (Some (uid, adm), wo_db w)" and price: "0 \<le> price"
    "title \<noteq> []" "length (code_points title) \<le> MAX_TITLE_CHARS" and fs: "wo_files w' = fs"
    and saved: "saved_as C H (the_dir C) (new_id C) (wo_files w) (path, name) fs"
    and v: "videos (wo_db w') = videos (wo_db w) @ [uploaded_video C (new_id C) uid title price name]"
    and jobs: "wo_jobs w' = wo_jobs w @ [\<lparr> jb_video = new_id C, jb_input = path, jb_out = video_hls_dir (cfg C) (new_id C) \<rparr>]"
    by blast
  from saved obtain e content where e: "e \<in> allowed_exts C" "name = new_id C @ ''.'' @ e"
    "fs (path_push (the_dir C) name) = Some content" "checked_content H (max_upload_bytes (cfg C)) content"
    unfolding saved_as_def file_path_def by (auto simp: part_path_def)
  show ?thesis
    by (intro exI [of _ uid] exI [of _ adm] exI [of _ "uploaded_video C (new_id C) uid title price name"] exI [of _ e]
        exI [of _ content]) (use u price fs v jobs e in \<open>simp add: uploaded_video_def\<close>)
qed

theorem upload_accepted_witness:
  "fst (fst (demo_upload ''film'')) = 201 \<and> (\<exists>uid adm v e content. current_user_id alice (wo_db demo_world) = (Some (uid, adm), wo_db demo_world)
    \<and> videos (wo_db (snd (demo_upload ''film''))) = videos (wo_db demo_world) @ [v] \<and> v_owner v = uid \<and> 0 \<le> v_price v
    \<and> v_state v = Some ''queued'' \<and> v_title v \<noteq> [] \<and> length (code_points (v_title v)) \<le> MAX_TITLE_CHARS \<and> \<not> v_hls_ready v \<and> e \<in> allowed_exts alice \<and> v_filename v = v_id v @ ''.'' @ e
    \<and> wo_files (snd (demo_upload ''film'')) (path_push (the_dir alice) (v_filename v)) = Some content
    \<and> checked_content demo_host (max_upload_bytes (cfg alice)) content
    \<and> map jb_video (wo_jobs (snd (demo_upload ''film''))) = map jb_video (wo_jobs demo_world) @ [v_id v])"
proof
  show ok: "fst (fst (demo_upload ''film'')) = 201" by (rule demo_statuses)
  have "upload_video alice demo_host demo_store demo_local
     [Inr (demo_field ''title'' ''My film''), Inr (demo_field ''file'' ''film'')] demo_world
     = (fst (demo_upload ''film''), snd (demo_upload ''film''))" by (simp add: demo_upload_def)
  from upload_accepted [OF this ok] show "\<exists>uid adm v e content. current_user_id alice (wo_db demo_world) = (Some (uid, adm), wo_db demo_world)
    \<and> videos (wo_db (snd (demo_upload ''film''))) = videos (wo_db demo_world) @ [v] \<and> v_owner v = uid \<and> 0 \<le> v_price v
    \<and> v_state v = Some ''queued'' \<and> v_title v \<noteq> [] \<and> length (code_points (v_title v)) \<le> MAX_TITLE_CHARS \<and> \<not> v_hls_ready v \<and> e \<in> allowed_exts alice \<and> v_filename v = v_id v @ ''.'' @ e
    \<and> wo_files (snd (demo_upload ''film'')) (path_push (the_dir alice) (v_filename v)) = Some content
    \<and> checked_content demo_host (max_upload_bytes (cfg alice)) content
    \<and> map jb_video (wo_jobs (snd (demo_upload ''film''))) = map jb_video (wo_jobs demo_world) @ [v_id v]" .
qed




definition upload_job :: job where
  "upload_job = \<lparr> jb_video = ''v1'', jb_input = ''up/v1.mp4'', jb_out = ''media/v1'' \<rparr>"

definition demo_result :: "host \<Rightarrow> (string + unit) \<times> clean_op list \<times> puts \<times> db" where
  "demo_result H = process_job alice H demo_store demo_local (\<lambda>_. None) None upload_job demo_db"

lemma demo_v1: "find_video (jb_video upload_job) demo_db = Some (demo_video ''v1'' ''u2'' 1000)"
  by (simp add: find_video_def demo_db_def upload_job_def demo_video_def)

lemma demo_result_parts:
  "process_job alice H demo_store demo_local (\<lambda>_. None) None upload_job demo_db =
   (fst (demo_result H), fst (snd (demo_result H)), fst (snd (snd (demo_result H))), snd (snd (snd (demo_result H))))"
  by (simp add: demo_result_def)


text \<open>C32. ffmpeg is started in the temporary directory with the path of the upload as it was stored: when the
  upload directory is a relative path, ffmpeg looks for the file below the temporary directory, so the
  job of an upload that is not there too fails, whatever the working directory of the server holds.
  (\<open>needs_input\<close> is what ffmpeg does: it exits with an error when its input, relative to its working
  directory, does not exist.)
\<close>

definition needs_input :: "host \<Rightarrow> string set \<Rightarrow> bool" where
  "needs_input H present \<longleftrightarrow> (\<forall>args dir. args ! 4 = ''-i'' \<and> path_push dir (args ! 5) \<notin> present \<longrightarrow>
     (\<exists>code e. ho_run H args dir = Exited code e \<and> code \<noteq> Some 0))"


definition strict_host :: host where
  "strict_host = demo_host\<lparr>ho_run := \<lambda>args dir. if path_push dir (args ! 5) = ''up/v1.mp4'' then Exited (Some 0) []
     else Exited (Some 1) ''No such file or directory''\<rparr>"


end
