(* ===== verification/AdminPanel.thy ===== *)
theory AdminPanel
  imports AdminWallet FiatPayments Mail
begin

text \<open>
  The remaining pages of \<open>src/src/handlers/admin.rs\<close>: the HTML page of the tables, the monitoring and
  payout of provider payments, the settings of the mail server and of the payment methods.
\<close>

section \<open>The page of the tables\<close>

text \<open>The literals of the page, double quotes written as backquotes and single quotes as bars.\<close>

definition lit :: "string \<Rightarrow> string" where
  "lit s = map (\<lambda>c. if c = CHR 0x60 then CHR 0x22 else if c = CHR 0x7C then CHR 0x27 else c) s"

text \<open>The five replacements of the code, the ampersand first, act on each character by itself.\<close>

definition html_escape_char :: "char \<Rightarrow> string" where
  "html_escape_char c =
     (if c = CHR 0x26 then ''&amp;'' else if c = CHR 0x3C then ''&lt;'' else if c = CHR 0x3E then ''&gt;''
      else if c = CHR 0x22 then ''&quot;'' else if c = CHR 0x27 then ''&#39;'' else [c])"

definition html_escape :: "string \<Rightarrow> string" where
  "html_escape s = concat (map html_escape_char s)"

definition td :: "string \<Rightarrow> string" where "td s = ''<td>'' @ s @ ''</td>''"
definition td_mono :: "string \<Rightarrow> string" where "td_mono s = lit ''<td class=|mono|>'' @ s @ ''</td>''"
definition tr :: "string list \<Rightarrow> string" where "tr cells = ''<tr>'' @ concat cells @ ''</tr>''"

definition page_line :: "string list \<Rightarrow> string" where "page_line ls = join [CHR 0x0A] ls"

definition page_head :: string where
  "page_head = page_line
    [lit ''<!doctype html><meta charset=`utf-8`><title>Admin Data</title>'', ''<style>'',
     ''  :root{color-scheme:light dark;}'',
     ''  body{font-family:system-ui,-apple-system,Segoe UI,Roboto,Ubuntu,Arial,sans-serif;margin:20px}'',
     ''  h1{margin:0 0 16px 0}'', ''  .meta{margin-bottom:12px;color:#666;font-size:14px}'',
     ''  .card{background:rgba(0,0,0,.03);border:1px solid rgba(0,0,0,.1);padding:14px;border-radius:10px;margin:18px 0}'',
     ''  .card h2{margin:0 0 10px 0;font-size:18px}'', ''  table{width:100%;border-collapse:collapse;font-size:14px}'',
     ''  th, td{border:1px solid rgba(0,0,0,.15);padding:6px 8px;vertical-align:top}'',
     ''  th{background:rgba(0,0,0,.05);text-align:left}'',
     ''  .mono{font-family:ui-monospace, SFMono-Regular, Menlo, Consolas, monospace}'',
     ''  .caps{font-variant:all-small-caps;letter-spacing:.04em}'', ''</style>'', ''<h1>Admin Data</h1>'',
     lit ''<div class=`meta`>Menampilkan hingga <span class=`mono`>limit</span> baris per tabel. Ubah limit pakai query, contoh: ''
       @ lit ''<span class=`mono`>/admin/data?limit=100</span></div>'', []]"

definition card_head :: "string \<Rightarrow> int \<Rightarrow> string list \<Rightarrow> string" where
  "card_head name n columns = page_line
    [[], lit ''<div class=`card`><h2>'' @ name @ lit '' <span class=`caps`>(total: '' @ string_of_int n @ '')</span></h2>'',
     ''<table>'', ''  <thead><tr>'' @ concat (map (\<lambda>c. ''<th>'' @ c @ ''</th>'') columns) @ ''</tr></thead>'', ''  <tbody>'', []]"

definition card_end :: string where "card_end = ''</tbody></table></div>''"

text \<open>A row, or \<open>None\<close> when a column cannot be decoded or a slice is out of place: the handler panics.\<close>

definition user_tr :: "user \<Rightarrow> string option" where
  "user_tr u = Some (tr [td_mono (html_escape (u_id u)), td (html_escape (u_username u)), td (string_of_int (u_is_admin u)),
     td_mono (html_escape (u_created u))])"

text \<open>\<open>&id[..8]\<close> must end between two characters.\<close>

definition redacted_id :: "string \<Rightarrow> string option" where
  "redacted_id i =
     (if 8 < length i
      then (if cont_byte (byte (i ! 8)) then None else Some (take 8 i @ ''...''))
      else Some i)"

definition session_tr :: "session_row \<Rightarrow> string option" where
  "session_tr s = map_option (\<lambda>i. tr [td_mono (html_escape i), td_mono (html_escape (s_user s)),
     td (string_of_int (s_is_admin s)), td_mono (html_escape (s_created s)), td_mono (html_escape (s_expires s))])
     (redacted_id (s_id s))"

definition video_tr :: "video \<Rightarrow> string option" where
  "video_tr v = Some (tr [td_mono (html_escape (v_id v)), td_mono (html_escape (v_owner v)), td (html_escape (v_title v)),
     td_mono (string_of_int (v_price v)), td_mono (html_escape (v_filename v)), td_mono (html_escape (v_created v))])"

definition allow_tr :: "allow \<Rightarrow> string option" where
  "allow_tr a = Some (tr [td_mono (html_escape (al_video a)), td (html_escape (al_username a))])"

definition purchase_tr :: "ctx \<Rightarrow> purchase \<Rightarrow> string option" where
  "purchase_tr C p = map_option (\<lambda>i. tr [td_mono (html_escape i), td_mono (html_escape (pu_user p)),
     td_mono (html_escape (pu_video p)), td_mono (html_escape (pu_created p))]) (bigint_string C (pu_id p))"

text \<open>The rows of \<open>password_resets\<close> are never deleted: the serial number of the n-th is n.\<close>

definition reset_tr :: "ctx \<Rightarrow> int \<times> reset_row \<Rightarrow> string option" where
  "reset_tr C x = map_option (\<lambda>i. tr [td_mono (string_of_int i), td_mono (html_escape (pr_user (snd x))),
     td_mono ''[redacted]'', td_mono (html_escape (pr_expires (snd x))), td (string_of_int (pr_used (snd x))),
     td_mono (html_escape (pr_created (snd x)))]) (bigint_i32 C (fst x))"

fun all_rows :: "string option list \<Rightarrow> string option" where
  "all_rows [] = Some []"
| "all_rows (None # rs) = None"
| "all_rows (Some r # rs) = map_option (\<lambda>s. r @ s) (all_rows rs)"

text \<open>The rows of a table and its count; a failed query gives none, and 0.\<close>

definition rows_of :: "ctx \<Rightarrow> string \<Rightarrow> (db \<Rightarrow> 'a list) \<Rightarrow> nat \<Rightarrow> db \<Rightarrow> 'a list" where
  "rows_of C site q limit d = (case run_read C site (\<lambda>d. take limit (q d)) d of Inr rs \<Rightarrow> rs | Inl _ \<Rightarrow> [])"

definition count_of :: "ctx \<Rightarrow> string \<Rightarrow> (db \<Rightarrow> 'a list) \<Rightarrow> db \<Rightarrow> int" where
  "count_of C site q d = (case run_read C site (\<lambda>d. int (length (q d))) d of Inr n \<Rightarrow> n | Inl _ \<Rightarrow> 0)"

definition card :: "string \<Rightarrow> int \<Rightarrow> string list \<Rightarrow> string option list \<Rightarrow> string option" where
  "card name n columns rs = map_option (\<lambda>body. card_head name n columns @ body @ card_end) (all_rows rs)"

definition admin_data :: "ctx \<Rightarrow> nat option \<Rightarrow> db \<Rightarrow> string option \<times> db" where
  "admin_data C q_limit d0 =
     (case ensure_admin_session C d0 of
        (Inl _, d) \<Rightarrow> (Some ''<h1>Forbidden</h1><p>Admin only</p>'', d)
      | (Inr _, d) \<Rightarrow>
     let limit = min (opt_or 50 q_limit) 500 in
     (map_option (\<lambda>cards. page_head @ cards) (all_rows
       [card ''users'' (count_of C ''data.users.n'' users d) [''id'', ''username'', ''is_admin'', ''created_at'']
          (map user_tr (rows_of C ''data.users'' (\<lambda>d. order_by_desc u_created (users d)) limit d)),
        card ''sessions'' (count_of C ''data.sessions.n'' sessions d) [''id'', ''user_id'', ''is_admin'', ''created_at'', ''expires_at'']
          (map session_tr (rows_of C ''data.sessions'' (\<lambda>d. order_by_desc s_created (sessions d)) limit d)),
        card ''videos'' (count_of C ''data.videos.n'' videos d)
          [''id'', ''owner_id'', ''title'', ''price_cents'', ''filename'', ''created_at'']
          (map video_tr (rows_of C ''data.videos'' (\<lambda>d. order_by_desc v_created (videos d)) limit d)),
        card ''allowlist'' (count_of C ''data.allowlist.n'' allowlist d) [''video_id'', ''username'']
          (map allow_tr (rows_of C ''data.allowlist'' (\<lambda>d. order_by al_video (order_by al_username (allowlist d))) limit d)),
        card ''purchases'' (count_of C ''data.purchases.n'' purchases d) [''id'', ''user_id'', ''video_id'', ''created_at'']
          (map (purchase_tr C) (rows_of C ''data.purchases'' (\<lambda>d. order_by_desc pu_created (purchases d)) limit d)),
        card ''password_resets'' (count_of C ''data.resets.n'' (\<lambda>d. resets (media d)) d)
          [''id'', ''user_id'', ''token'', ''expires_at'', ''used'', ''created_at'']
          (map (reset_tr C) (rows_of C ''data.resets'' (\<lambda>d. order_by_desc (\<lambda>x. pr_created (snd x)) (numbered (resets (media d)))) limit d))]), d))"


section \<open>Payments of the providers\<close>

definition opt_instant :: "ctx \<Rightarrow> instant option \<Rightarrow> json" where
  "opt_instant C t = jopt (map_option (pg_text C) t)"

text \<open>The three joins drop an invoice whose buyer, video or creator is gone.\<close>

definition payment_row_json :: "ctx \<Rightarrow> db \<Rightarrow> fiat_invoice \<Rightarrow> json option" where
  "payment_row_json C d f =
     (case (find_user (fi_user f) d, find_video (fi_video f) d, find_user (fi_creator f) d) of
        (Some buyer, Some v, Some creator) \<Rightarrow> Some (JObj
          [(''invoice_uid'', JStr (fi_uid f)), (''provider'', JStr (fi_provider f)), (''status'', JStr (fi_status f)),
           (''amount'', JNum (fi_amount f)), (''currency'', JStr (fi_currency f)), (''payment_url'', jopt (fi_pay_url f)),
           (''created_at'', JStr (pg_text C (fi_created f))), (''paid_at'', opt_instant C (fi_paid_at f)),
           (''disbursed_at'', opt_instant C (fi_disbursed_at f)), (''disburse_ref'', jopt (fi_disburse_ref f)),
           (''buyer_username'', JStr (u_username buyer)), (''video_title'', JStr (v_title v)),
           (''creator_username'', JStr (u_username creator)), (''creator_bank'', jopt (u_bank creator))])
      | _ \<Rightarrow> None)"

definition count_fiat :: "ctx \<Rightarrow> string \<Rightarrow> (fiat_invoice \<Rightarrow> bool) \<Rightarrow> db \<Rightarrow> int" where
  "count_fiat C site P d = (case run_read C site (\<lambda>d. count_where P (fiat_invoices d)) d of Inr n \<Rightarrow> n | Inl _ \<Rightarrow> 0)"

definition admin_payments ::
  "ctx \<Rightarrow> string option \<Rightarrow> string option \<Rightarrow> int option \<Rightarrow> db \<Rightarrow> json \<times> db" where
  "admin_payments C q_provider q_status q_limit d0 =
     (case ensure_admin_session C d0 of
        (Inl resp, d) \<Rightarrow> (resp, d)
      | (Inr _, d) \<Rightarrow>
     let limit = min (opt_or 100 q_limit) 1000; provider = opt_or [] q_provider; status = opt_or [] q_status;
         rows = (case run_read C ''payments.rows'' (\<lambda>d. sql_limit limit (List.map_filter (payment_row_json C d)
             (order_by_desc fi_created (filter (\<lambda>f. (provider = [] \<or> fi_provider f = provider)
                \<and> (status = [] \<or> fi_status f = status)) (fiat_invoices d))))) d of
             Inr (Inr items) \<Rightarrow> items | _ \<Rightarrow> [])
     in (jok [(''totals'', JObj
            [(''all'', JNum (count_fiat C ''payments.all'' (\<lambda>_. True) d)),
             (''paid'', JNum (count_fiat C ''payments.paid'' (\<lambda>f. fi_status f = ''paid'') d)),
             (''pending'', JNum (count_fiat C ''payments.pending'' (\<lambda>f. fi_status f = ''pending'') d)),
             (''failed'', JNum (count_fiat C ''payments.failed'' (\<lambda>f. fi_status f \<in> {''failed'', ''expired'', ''cancelled''}) d))]),
          (''items'', JArr rows)], d))"

text \<open>
  The payout by hand.  The column \<open>disbursed_at\<close> is a \<open>TIMESTAMPTZ\<close> read as text: a value that cannot be
  decoded counts as absent.
\<close>

definition fiat_with_creator :: "string \<Rightarrow> db \<Rightarrow> (fiat_invoice \<times> user) option" where
  "fiat_with_creator uid d =
     (case find_fiat uid d of
        None \<Rightarrow> None
      | Some f \<Rightarrow> map_option (Pair f) (find_user (fi_creator f) d))"

definition disbursed_read :: "ctx \<Rightarrow> fiat_invoice \<Rightarrow> string option" where
  "disbursed_read C f = Option.bind (fi_disbursed_at f) (timestamptz_string C)"

definition mark_disbursed :: "ctx \<Rightarrow> string \<Rightarrow> string \<Rightarrow> db \<Rightarrow> db" where
  "mark_disbursed C uid rf d = snd (run_write C ''disburse.update'' (upd_fiat uid
     (\<lambda>f. f\<lparr>fi_disbursed_at := Some (now C), fi_disburse_ref := Some rf\<rparr>)) d)"

definition xendit_payout :: "ctx \<Rightarrow> web \<Rightarrow> string \<Rightarrow> fiat_invoice \<Rightarrow> string option \<Rightarrow> db \<Rightarrow> json \<times> db" where
  "xendit_payout C W uid f bank d =
     (case bank of
        None \<Rightarrow> (jerr ''creator has no bank_account set'', d)
      | Some b \<Rightarrow>
          if trim b = [] then (jerr ''creator has no bank_account set'', d)
          else
          (case disburse_to_creator C W (xendit_from_env C) b (fi_amount f) uid of
             Inl e \<Rightarrow> (jerr (''xendit disburse: '' @ e), d)
           | Inr resp \<Rightarrow>
               let rf = str_or_empty (jget ''id'' resp) in
               (jok [(''disburse_ref'', JStr rf), (''method'', JStr ''xendit_api'')], mark_disbursed C uid rf d)))"

definition admin_disburse :: "ctx \<Rightarrow> web \<Rightarrow> string \<Rightarrow> db \<Rightarrow> json \<times> db" where
  "admin_disburse C W uid d0 =
     (case ensure_admin_session C d0 of
        (Inl resp, d) \<Rightarrow> (resp, d)
      | (Inr _, d) \<Rightarrow>
     (case run_read C ''disburse.row'' (fiat_with_creator uid) d of
        Inl e \<Rightarrow> (jerr (''db: '' @ e), d)
      | Inr None \<Rightarrow> (jerr ''invoice not found'', d)
      | Inr (Some (f, creator)) \<Rightarrow>
          if fi_status f \<noteq> ''paid'' then (jerr ''invoice is not paid yet'', d)
          else if disbursed_read C f \<noteq> None then (jerr ''already disbursed'', d)
          else if fi_provider f = ''xendit'' then xendit_payout C W uid f (u_bank creator) d
          else (jok [(''method'', JStr ''manual''), (''invoice_uid'', JStr uid)], mark_disbursed C uid ''manual'' d)))"


section \<open>The mail server\<close>

definition admin_smtp_get :: "ctx \<Rightarrow> db \<Rightarrow> json \<times> db" where
  "admin_smtp_get C d0 =
     (case ensure_admin_session C d0 of
        (Inl resp, d) \<Rightarrow> (resp, d)
      | (Inr _, d) \<Rightarrow>
     (case run_read C ''smtp.get'' (\<lambda>d. smtp (media d)) d of
        Inr (Some r) \<Rightarrow> (jok [(''smtp'', JObj
          [(''host'', JStr (sm_host r)), (''port'', JNum (sm_port r)), (''username'', JStr (sm_username r)),
           (''password'', JStr []), (''has_password'', JBool (sm_password r \<noteq> [])),
           (''from_email'', JStr (sm_from_email r)), (''from_name'', JStr (sm_from_name r)),
           (''use_tls'', JBool (sm_use_tls r)), (''enabled'', JBool (sm_enabled r))])], d)
      | _ \<Rightarrow> (jerr ''smtp_settings not found'', d)))"

definition upsert_smtp :: "smtp_row \<Rightarrow> unit stmt" where
  "upsert_smtp r d = Inr ((), set_media (\<lambda>m. m\<lparr>smtp := Some r\<rparr>) d)"

text \<open>The payload has the columns of the row; an empty password keeps the stored one.\<close>

definition kept_password :: "ctx \<Rightarrow> smtp_row \<Rightarrow> db \<Rightarrow> string" where
  "kept_password C p d =
     (if sm_password p = []
      then (case run_read C ''smtp.password'' (\<lambda>d. smtp (media d)) d of Inr (Some r) \<Rightarrow> sm_password r | _ \<Rightarrow> [])
      else sm_password p)"

definition admin_smtp_save :: "ctx \<Rightarrow> mailer \<Rightarrow> smtp_row \<Rightarrow> string option \<Rightarrow> db \<Rightarrow> json \<times> mail option \<times> db" where
  "admin_smtp_save C X p test_email d0 =
     (case ensure_admin_session C d0 of
        (Inl resp, d) \<Rightarrow> (resp, None, d)
      | (Inr _, d) \<Rightarrow>
     let row = p\<lparr>sm_password := kept_password C p d\<rparr> in
     (case run_write C ''smtp.save'' (upsert_smtp row) d of
        (Inl e, d1) \<Rightarrow> (jerr (''db: '' @ e), None, d1)
      | (Inr _, d1) \<Rightarrow>
     (case test_email of
        None \<Rightarrow> (jok [(''saved'', JBool True)], None, d1)
      | Some to \<Rightarrow>
          if trim to = [] then (jok [(''saved'', JBool True)], None, d1)
          else
          (case send_test C X (row\<lparr>sm_port := sm_port row mod 2 ^ 16, sm_enabled := True\<rparr>) to of
             (Inl e, m) \<Rightarrow> (jok [(''saved'', JBool True), (''test_error'', JStr e)], m, d1)
           | (Inr _, m) \<Rightarrow> (jok [(''saved'', JBool True), (''test_sent'', JBool True)], m, d1)))))"


section \<open>The payment methods\<close>

definition settings_json :: "payment_settings \<Rightarrow> json" where
  "settings_json s = JObj
     [(''wallet_payment_enabled'', JBool (wallet_payment_enabled s)), (''wallet_transfer_enabled'', JBool (wallet_transfer_enabled s)),
      (''paypal_enabled'', JBool (paypal_enabled s)), (''stripe_enabled'', JBool (stripe_enabled s)),
      (''xendit_enabled'', JBool (xendit_enabled s)), (''midtrans_enabled'', JBool (midtrans_enabled s)),
      (''x402_enabled'', JBool (x402_enabled s)), (''default_provider'', jopt (default_provider s))]"

definition admin_capability_json :: "payment_settings \<Rightarrow> capability \<Rightarrow> json" where
  "admin_capability_json s c = JObj
     [(''provider'', JStr (ca_provider c)), (''display_name'', JStr (ca_name c)), (''configured'', JBool (ca_configured c)),
      (''environment'', JStr (ca_environment c)), (''api_base_url'', jopt (ca_api_base c)),
      (''required_env'', JArr (map JStr (ca_required c))), (''missing_env'', JArr (map JStr (ca_missing c))),
      (''enabled'', JBool (is_provider_enabled s (ca_provider c)))]"

definition admin_payment_settings_get :: "ctx \<Rightarrow> web \<Rightarrow> evm \<Rightarrow> db \<Rightarrow> json \<times> db" where
  "admin_payment_settings_get C W E d0 =
     (case ensure_admin_session C d0 of
        (Inl resp, d) \<Rightarrow> (resp, d)
      | (Inr _, d) \<Rightarrow>
     let s = load_payment_settings C d in
     (jok [(''settings'', settings_json s),
           (''providers'', JArr (map (admin_capability_json s) (capabilities_from_env C W E)))], d))"

definition requested_providers :: "payment_settings \<Rightarrow> (string \<times> bool) list" where
  "requested_providers p = [(''paypal'', paypal_enabled p), (''stripe'', stripe_enabled p), (''xendit'', xendit_enabled p),
     (''midtrans'', midtrans_enabled p), (''x402'', x402_enabled p)]"

definition is_configured :: "capability list \<Rightarrow> string \<Rightarrow> bool" where
  "is_configured cs provider = (case find (\<lambda>c. ca_provider c = provider) (rev cs) of None \<Rightarrow> False | Some c \<Rightarrow> ca_configured c)"

definition upsert_pay_settings :: "pay_settings_row \<Rightarrow> unit stmt" where
  "upsert_pay_settings r d = Inr ((), d\<lparr>pay_settings := Some r\<rparr>)"

definition admin_payment_settings_save :: "ctx \<Rightarrow> web \<Rightarrow> evm \<Rightarrow> payment_settings \<Rightarrow> db \<Rightarrow> json \<times> db" where
  "admin_payment_settings_save C W E p d0 =
     (case ensure_admin_session C d0 of
        (Inl resp, d) \<Rightarrow> (resp, d)
      | (Inr _, d) \<Rightarrow>
     let caps = capabilities_from_env C W E; dflt = clean_provider (default_provider p) in
     (case find (\<lambda>(provider, enabled). enabled \<and> \<not> is_configured caps provider) (requested_providers p) of
        Some (provider, _) \<Rightarrow>
          (jerr (provider @ '' cannot be enabled because its environment variables are incomplete''), d)
      | None \<Rightarrow>
          if (case dflt of None \<Rightarrow> False | Some provider \<Rightarrow> (provider, True) \<notin> set (requested_providers p))
          then (jerr ''default provider must also be enabled'', d)
          else
          (case run_write C ''payment_settings.save'' (upsert_pay_settings
               \<lparr> ps_wallet_payment = wallet_payment_enabled p, ps_wallet_transfer = wallet_transfer_enabled p,
                 ps_paypal = paypal_enabled p, ps_stripe = stripe_enabled p, ps_xendit = xendit_enabled p,
                 ps_midtrans = midtrans_enabled p, ps_x402 = x402_enabled p, ps_default = dflt \<rparr>) d of
             (Inr _, d1) \<Rightarrow> (jok [(''message'', JStr ''Payment settings saved.'')], d1)
           | (Inl e, d1) \<Rightarrow> (jerr (''db: '' @ e), d1))))"

end
