(* ===== verification/AdminProperties.thy ===== *)
theory AdminProperties
  imports AdminPanel FiatProperties
begin

text \<open>
  The administrator's pages: the payout of an invoice that is already paid out, the page of the tables
  on a database with purchases, the escaping of its cells, and the checks on the payment methods.
\<close>

section \<open>The page of the tables\<close>

lemma escaped_clean: "c \<in> set (html_escape s) \<Longrightarrow> c \<notin> {CHR 0x3C, CHR 0x3E, CHR 0x22, CHR 0x27}"
  by (auto simp: html_escape_def html_escape_char_def split: if_splits)

lemma all_rows_None: "None \<in> set rs \<Longrightarrow> all_rows rs = None"
proof (induction rs)
  case (Cons r rs)
  then show ?case by (cases r) auto
qed simp

text \<open>
  \<open>purchases.id\<close> is a \<open>BIGINT\<close> the page reads as text, which sqlx refuses: once there is a purchase the
  page panics.
\<close>

lemma admin_data_panics:
  assumes "ensure_admin_session C d = (Inr a, d)" "fault C = (\<lambda>_. None)" "\<forall>i. bigint_string C i = None"
    and "purchases d \<noteq> []" "opt_or 50 lim \<noteq> 0"
  shows "fst (admin_data C lim d) = None"
proof -
  have "take (min (opt_or 50 lim) 500) (order_by_desc pu_created (purchases d)) \<noteq> []"
    using assms(4,5) by (simp add: order_by_desc_def) (metis length_0_conv length_sort length_rev)
  then obtain p ps where p: "take (min (opt_or 50 lim) 500) (order_by_desc pu_created (purchases d)) = p # ps"
    by (cases "take (min (opt_or 50 lim) 500) (order_by_desc pu_created (purchases d))") auto
  have "card ''purchases'' n cols (map (purchase_tr C) (rows_of C ''data.purchases'' (\<lambda>d. order_by_desc pu_created (purchases d))
      (min (opt_or 50 lim) 500) d)) = None" for n cols
    using assms(2,3) p by (simp add: card_def rows_of_def run_read_def purchase_tr_def)
  then show ?thesis
    unfolding admin_data_def assms(1) Let_def by (simp add: all_rows_None)
qed


section \<open>The payment methods\<close>

text \<open>What is saved is enabled only when it is configured, and the default is one of the enabled.\<close>

lemma payment_settings_saved:
  assumes "admin_payment_settings_save C W E p d = (j, d')" "answer_ok j"
  shows "\<forall>(provider, on)\<in>set (requested_providers p). on \<longrightarrow> is_configured (capabilities_from_env C W E) provider"
    and "clean_provider (default_provider p) = Some q \<Longrightarrow> (q, True) \<in> set (requested_providers p)"
proof -
  obtain x d1 where a: "ensure_admin_session C d = (x, d1)" by fastforce
  then obtain adm where x: "x = Inr adm"
    using assms ensure_admin_Inl unfolding admin_payment_settings_save_def by (cases x) fastforce+
  have none: "find (\<lambda>(provider, enabled). enabled \<and> \<not> is_configured (capabilities_from_env C W E) provider) (requested_providers p) = None"
  proof (rule ccontr)
    assume "\<not> ?thesis"
    with assms a x show False unfolding admin_payment_settings_save_def Let_def
      by (auto split: option.splits prod.splits)
  qed
  then show "\<forall>(provider, on)\<in>set (requested_providers p). on \<longrightarrow> is_configured (capabilities_from_env C W E) provider"
    by (auto simp: find_None_set)
  assume "clean_provider (default_provider p) = Some q"
  with assms a x none show "(q, True) \<in> set (requested_providers p)"
    unfolding admin_payment_settings_save_def Let_def by (auto split: if_splits)
qed


section \<open>Payouts\<close>

text \<open>An invoice that is recorded as paid out is paid out again: \<open>disbursed_at\<close> is a \<open>TIMESTAMPTZ\<close> that
  the handler reads as text, which sqlx refuses (the hypothesis on \<open>timestamptz_string\<close>), and the error
  counts as not yet disbursed, so the guard against a second payout never holds.
\<close>

theorem disburse_repeats:
  assumes "\<forall>t. timestamptz_string C t = None" "fault C = (\<lambda>_. None)" "ensure_admin_session C d = (Inr a, d)"
    and "find_fiat uid d = Some f" "find_user (fi_creator f) d = Some creator" "fi_status f = ''paid''"
    and "fi_disbursed_at f = Some t" "fi_provider f = ''xendit''" "u_bank creator = Some b" "trim b \<noteq> []"
    and "disburse_to_creator C W (xendit_from_env C) b (fi_amount f) uid = Inr resp"
  shows "fst (admin_disburse C W uid d) =
    jok [(''disburse_ref'', JStr (str_or_empty (jget ''id'' resp))), (''method'', JStr ''xendit_api'')]"
  using assms
  by (simp add: admin_disburse_def run_read_def fiat_with_creator_def disbursed_read_def xendit_payout_def Let_def)

definition pay_admin :: ctx where
  "pay_admin = root_admin\<lparr>env_var := [''XENDIT_SECRET_KEY'' \<mapsto> ''s'', ''XENDIT_WEBHOOK_TOKEN'' \<mapsto> ''tok'']\<rparr>"

definition pay_web :: web where
  "pay_web = demo_web\<lparr>w_send := \<lambda>_. Inr (200, Inr (JObj [(''id'', JStr ''d7'')]))\<rparr>"

definition paid_out :: fiat_invoice where
  "paid_out = demo_fiat\<lparr>fi_status := ''paid'', fi_disbursed_at := Some (Instant 1)\<rparr>"

definition bank_user :: user where
  "bank_user = (demo_user ''u2'' ''bob'' 0 300)\<lparr>u_bank := Some ''BCA 123 a/n Bob''\<rparr>"

definition pay_db :: db where
  "pay_db = demo_db\<lparr>users := bank_user # users demo_db, fiat_invoices := [paid_out]\<rparr>"

lemma pay_admin_ok: "ensure_admin_session pay_admin pay_db = (Inr ''ad'', pay_db)"
proof -
  have "case fst (ensure_admin_session pay_admin pay_db) of Inr x \<Rightarrow> x = ''ad'' | Inl _ \<Rightarrow> False" by code_simp
  then obtain d where "ensure_admin_session pay_admin pay_db = (Inr ''ad'', d)"
    by (cases "ensure_admin_session pay_admin pay_db") (auto split: sum.splits)
  with ensure_admin_Inr show ?thesis by metis
qed

theorem disburse_repeats_witness:
  "fi_disbursed_at paid_out = Some (Instant 1) \<and> fst (admin_disburse pay_admin pay_web ''f1'' pay_db) =
    jok [(''disburse_ref'', JStr (str_or_empty (jget ''id'' (JObj [(''id'', JStr ''d7'')])))), (''method'', JStr ''xendit_api'')]"
proof
  show "fi_disbursed_at paid_out = Some (Instant 1)" by (simp add: paid_out_def)
  have bank: "parse_bank_account pay_web ''BCA 123 a/n Bob'' = Some (''BCA'', ''123'', ''Bob'')" by code_simp
  show "fst (admin_disburse pay_admin pay_web ''f1'' pay_db) =
    jok [(''disburse_ref'', JStr (str_or_empty (jget ''id'' (JObj [(''id'', JStr ''d7'')])))), (''method'', JStr ''xendit_api'')]"
  proof (rule disburse_repeats [OF _ _ pay_admin_ok])
    show "find_fiat ''f1'' pay_db = Some paid_out" by (simp add: find_fiat_def pay_db_def paid_out_def demo_fiat_def)
    show "find_user (fi_creator paid_out) pay_db = Some bank_user"
      by (simp add: find_user_def pay_db_def paid_out_def demo_fiat_def bank_user_def demo_user_def)
    show "disburse_to_creator pay_admin pay_web (xendit_from_env pay_admin) ''BCA 123 a/n Bob'' (fi_amount paid_out) ''f1''
      = Inr (JObj [(''id'', JStr ''d7'')])"
    proof -
      have "w_send pay_web r = Inr (200, Inr (JObj [(''id'', JStr ''d7'')]))" for r by (simp add: pay_web_def)
      then show ?thesis by (simp add: disburse_to_creator_def bank http_ok_def)
    qed
  qed (simp_all add: pay_admin_def root_admin_def as_session_def demo_ctx_def paid_out_def demo_fiat_def bank_user_def, code_simp)
qed

end
