(* ===== verification/Server.thy ===== *)
theory Server
  imports FedServer Middleware "HOL-Library.List_Lexorder"
begin

text \<open>
  \<open>src/src/main.rs\<close> and the route table of \<open>src/src/federation/mod.rs\<close>: which handler answers which
  method and path, the layers around the routes, and what the start of the server sets up.  The
  handlers are an argument, a function of the handler's name; so is the file server of \<open>tower-http\<close>.
\<close>

section \<open>Routes\<close>

datatype target = Handler string | Redirect string | Plain string

text \<open>A pattern with the targets of its methods; a segment that begins with a colon is a parameter.\<close>

type_synonym route = "string \<times> (string \<times> target) list"

definition on_get :: "string \<Rightarrow> string \<Rightarrow> route" where
  "on_get path h = (path, [(''GET'', Handler h)])"

definition on_post :: "string \<Rightarrow> string \<Rightarrow> route" where
  "on_post path h = (path, [(''POST'', Handler h)])"

definition on_both :: "string \<Rightarrow> string \<Rightarrow> string \<Rightarrow> route" where
  "on_both path g p = (path, [(''GET'', Handler g), (''POST'', Handler p)])"

definition on_delete :: "string \<Rightarrow> string \<Rightarrow> route" where
  "on_delete path h = (path, [(''DELETE'', Handler h)])"

text \<open>A page to look at, and a handler for its form.\<close>

definition on_page :: "string \<Rightarrow> string \<Rightarrow> string \<Rightarrow> route" where
  "on_page path html h = (path, [(''GET'', Redirect html), (''POST'', Handler h)])"

definition static_routes :: "route list" where
  "static_routes =
     [(''/'', [(''GET'', Redirect ''/public/'')]), (''/browse'', [(''GET'', Redirect ''/public/'')]),
      (''/dashboard'', [(''GET'', Redirect ''/public/dashboard.html'')]), (''/health'', [(''GET'', Plain ''ok'')])]"

definition static_nests :: "config \<Rightarrow> (string \<times> string) list" where
  "static_nests c = [(''/public'', public_dir c), (''/static_hls'', media_dir c)]"

definition admin_routes :: "route list" where
  "admin_routes =
     [on_get ''/admin/data'' ''admin_data'', on_get ''/admin/payments'' ''admin_payments'',
      on_post ''/admin/payments/:uid/disburse'' ''admin_disburse'',
      on_both ''/admin/payment_settings'' ''admin_payment_settings_get'' ''admin_payment_settings_save'',
      on_both ''/admin/storage_settings'' ''admin_storage_settings_get'' ''admin_storage_settings_save'',
      on_post ''/admin/storage_settings/test'' ''admin_storage_settings_test'',
      on_both ''/admin/storage_migrations'' ''admin_storage_migrations_get'' ''admin_storage_migrations_start'',
      on_post ''/admin/storage_migrations/:id/cancel'' ''admin_storage_migration_cancel'',
      on_get ''/admin/storage_migrations/:id/items'' ''admin_storage_migration_items_get'',
      on_both ''/admin/smtp'' ''admin_smtp_get'' ''admin_smtp_save'']"

definition user_auth_routes :: "route list" where
  "user_auth_routes =
     [on_page ''/auth/register'' ''/public/auth/register.html'' ''post_register'',
      on_page ''/auth/login'' ''/public/auth/login.html'' ''post_login'',
      on_post ''/auth/logout'' ''post_logout'',
      (''/auth/forgot'', [(''GET'', Redirect ''/public/auth/forgot_password.html'')]),
      on_post ''/api/change_password'' ''change_password'']"

definition admin_auth_routes :: "route list" where
  "admin_auth_routes =
     [on_page ''/admin/login'' ''/public/admin/login.html'' ''post_admin_login'',
      on_post ''/admin/logout'' ''post_admin_logout'', on_post ''/admin/change_password'' ''admin_change_password'']"

definition setup_routes :: "route list" where
  "setup_routes = [on_get ''/setup_admin'' ''setup_admin'']"

definition upload_routes :: "route list" where
  "upload_routes = [on_post ''/api/upload'' ''upload_video'']"

definition video_routes :: "route list" where
  "video_routes =
     [on_get ''/api/videos'' ''list_videos'', on_get ''/api/my_videos'' ''my_videos'',
      on_get ''/api/user_lookup'' ''user_lookup'', on_post ''/api/allow'' ''add_allow'',
      on_post ''/api/video_update'' ''update_video'', on_get ''/api/pay/options'' ''pay_options'',
      on_post ''/api/pay/x402/start'' ''x402_start'', on_get ''/api/crypto_price'' ''crypto_price'',
      on_post ''/api/pay/x402/confirm'' ''x402_confirm'', on_get ''/api/pay/all_options'' ''all_options'']"

definition payment_plugin_routes :: "route list" where
  "payment_plugin_routes =
     [on_get ''/api/pay/providers'' ''list_payment_plugins'', on_post ''/api/pay/start'' ''create_default_payment_invoice'',
      on_post ''/api/pay/confirm'' ''confirm_default_payment'', on_post ''/api/pay/:provider/start'' ''create_payment_invoice'',
      on_post ''/api/pay/:provider/confirm'' ''confirm_payment'', on_post ''/api/pay/:provider/webhook'' ''handle_webhook'']"

definition users_routes :: "route list" where
  "users_routes =
     [on_get ''/api/profile'' ''get_my_profile'', on_post ''/api/profile_update'' ''update_my_profile'',
      on_get ''/api/user_profile'' ''public_profile'']"

definition streaming_routes :: "route list" where
  "streaming_routes = [on_get ''/api/request_play'' ''request_play'', on_get ''/hls/:session/:file'' ''serve_hls'']"

definition me_routes :: "route list" where "me_routes = [on_get ''/api/me'' ''me'']"

definition kurs_routes :: "route list" where "kurs_routes = [on_get ''/api/kurs'' ''get_kurs'']"

definition wallet_routes :: "route list" where
  "wallet_routes =
     [on_get ''/api/wallet/balance'' ''wallet_balance'', on_get ''/api/wallet/transactions'' ''wallet_transactions'',
      on_post ''/api/wallet/deposit'' ''wallet_deposit'', on_post ''/api/wallet/withdraw'' ''wallet_withdraw'',
      on_post ''/api/wallet/transfer'' ''wallet_transfer'', on_post ''/api/wallet/pay'' ''wallet_pay_video'']"

definition admin_wallet_routes :: "route list" where
  "admin_wallet_routes =
     [on_get ''/admin/wallet/transactions'' ''admin_wallet_transactions'',
      on_post ''/admin/wallet/transactions/:id/approve'' ''admin_wallet_approve'',
      on_post ''/admin/wallet/transactions/:id/complete'' ''admin_wallet_complete'',
      on_post ''/admin/wallet/transactions/:id/reject'' ''admin_wallet_reject'']"

definition affiliate_routes :: "route list" where
  "affiliate_routes =
     [on_both ''/api/affiliate/settings'' ''affiliate_settings_get'' ''affiliate_settings_save'',
      on_get ''/api/affiliate/summary'' ''affiliate_summary'', on_get ''/api/affiliate/link'' ''affiliate_link'',
      on_get ''/api/affiliate/earnings'' ''affiliate_earnings'', on_get ''/api/affiliate/program'' ''affiliate_program_info'',
      on_get ''/admin/affiliate/commissions'' ''admin_affiliate_commissions'']"

definition creator_block_routes :: "route list" where
  "creator_block_routes =
     [on_get ''/api/creator/blocked_users'' ''list_blocked_users'', on_post ''/api/creator/block_user'' ''block_user'',
      on_post ''/api/creator/unblock_user'' ''unblock_user'']"

definition chat_routes :: "route list" where
  "chat_routes =
     [on_get ''/api/chat/users'' ''search_chat_users'', on_get ''/api/chat/conversations'' ''list_conversations'',
      on_post ''/api/chat/conversations/support'' ''ensure_support_conversation'',
      on_post ''/api/chat/conversations/direct'' ''start_direct_conversation'',
      on_both ''/api/chat/conversations/:id/messages'' ''list_messages'' ''send_message'']"

definition federation_routes :: "route list" where
  "federation_routes =
     [on_get ''/.well-known/webfinger'' ''webfinger'', on_get ''/.well-known/nodeinfo'' ''nodeinfo_well_known'',
      on_get ''/nodeinfo/2.1'' ''nodeinfo_21'', on_get ''/users/:username'' ''local_actor'',
      on_get ''/users/:username/followers'' ''actor_followers'', on_get ''/users/:username/following'' ''actor_following'',
      on_get ''/users/:username/outbox'' ''actor_outbox'',
      on_both ''/users/:username/inbox'' ''actor_inbox_get'' ''actor_inbox_post'', on_post ''/inbox'' ''shared_inbox_post'',
      on_get ''/videos/:id'' ''video_ap_object'', on_get ''/api/federation/catalog'' ''catalog'',
      on_post ''/api/federation/admin/inject-inbound'' ''admin_inject_inbound'',
      on_post ''/api/federation/admin/actors/init'' ''admin_init_actor'',
      on_post ''/api/federation/admin/follow'' ''admin_send_follow'',
      on_both ''/api/federation/admin/domain-rules'' ''list_domain_rules'' ''set_domain_rule'',
      on_delete ''/api/federation/admin/domain-rules/:domain'' ''delete_domain_rule'',
      on_post ''/api/federation/follows/:id/reject'' ''admin_reject_follow'',
      on_get ''/api/federation/admin/overview'' ''admin_overview'', on_get ''/api/federation/admin/instances'' ''list_instances'',
      on_get ''/api/federation/admin/activities'' ''list_activities'', on_get ''/api/federation/admin/delivery'' ''list_delivery_jobs'',
      on_post ''/api/federation/admin/delivery/:id/retry'' ''retry_delivery_job'',
      on_delete ''/api/federation/admin/remote-videos/:domain'' ''purge_remote_videos'',
      on_both ''/api/federation/admin/revenue/policies'' ''admin_list_revenue_policies'' ''admin_set_revenue_policy'',
      on_get ''/api/federation/admin/revenue/provider-report'' ''admin_provider_settlement'',
      on_get ''/api/federation/admin/revenue/affiliate-report'' ''admin_affiliate_settlement'',
      on_get ''/api/federation/referral/resolve'' ''resolve_referral_for_split'']"

definition main_routes :: "route list" where
  "main_routes = static_routes @ admin_routes @ user_auth_routes @ admin_auth_routes @ setup_routes @ upload_routes
     @ video_routes @ payment_plugin_routes @ users_routes @ streaming_routes @ me_routes @ kurs_routes @ wallet_routes
     @ admin_wallet_routes @ affiliate_routes @ creator_block_routes @ chat_routes"


section \<open>The start of the server\<close>

record server =
  sv_routes :: "route list"
  sv_nests :: "(string \<times> string) list"
  sv_delivery :: bool
  sv_watcher :: "(string \<times> string) option"

text \<open>
  \<open>feature\<close> is the build's \<open>x402-watcher\<close>, \<open>is_address\<close> whether a text parses as an Ethereum address.
  The connection to the database and the socket are left out: their failures end the program.
\<close>

definition watcher_of :: "ctx \<Rightarrow> bool \<Rightarrow> (string \<Rightarrow> bool) \<Rightarrow> (string \<times> string) option" where
  "watcher_of C feature is_address =
     (if feature \<and> env_var C ''WATCHER_ENABLE'' = Some ''1'' then
        (case (env_var C ''X402_RPC_WSS'', env_var C ''X402_CONTRACT_ADDRESS'') of
           (Some wss, Some addr) \<Rightarrow> if wss \<noteq> [] \<and> addr \<noteq> [] \<and> is_address addr then Some (wss, addr) else None
         | _ \<Rightarrow> None)
      else None)"

definition parse_bool_env :: "ctx \<Rightarrow> string \<Rightarrow> bool" where
  "parse_bool_env C name = (case env_var C name of None \<Rightarrow> False | Some v \<Rightarrow> truthy (ascii_lower (trim v)))"

definition start_http_server :: "ctx \<Rightarrow> bool \<Rightarrow> (string \<Rightarrow> bool) \<Rightarrow> string + server" where
  "start_http_server C feature is_address =
     (case fed_router C (base_url (cfg C)) of
        Inl e \<Rightarrow> Inl e
      | Inr F \<Rightarrow> Inr
          \<lparr> sv_routes = main_routes @ (case F of None \<Rightarrow> [] | Some _ \<Rightarrow> federation_routes),
            sv_nests = static_nests (cfg C), sv_delivery = parse_bool_env C ''FEDERATION_ENABLED'',
            sv_watcher = watcher_of C feature is_address \<rparr>)"


section \<open>Finding the route\<close>

definition segments :: "string \<Rightarrow> string list" where
  "segments path = split_on (CHR ''/'') path"

definition is_param :: "string \<Rightarrow> bool" where
  "is_param seg \<longleftrightarrow> starts_with '':'' seg"

definition seg_match :: "string \<Rightarrow> string \<Rightarrow> bool" where
  "seg_match pat seg \<longleftrightarrow> (if is_param pat then seg \<noteq> [] else pat = seg)"

definition route_match :: "string \<Rightarrow> string \<Rightarrow> bool" where
  "route_match pat path \<longleftrightarrow> list_all2 seg_match (segments pat) (segments path)"

text \<open>Among the patterns that match, the one with a fixed segment where the others have a parameter.\<close>

definition find_route :: "route list \<Rightarrow> string \<Rightarrow> route option" where
  "find_route rs path =
     (case sort_key (\<lambda>r. map is_param (segments (fst r))) (filter (\<lambda>r. route_match (fst r) path) rs) of
        [] \<Rightarrow> None
      | r # _ \<Rightarrow> Some r)"

text \<open>\<open>nest_service\<close>: the prefix itself and everything below it, with the rest of the path.\<close>

definition find_nest :: "(string \<times> string) list \<Rightarrow> string \<Rightarrow> (string \<times> string) option" where
  "find_nest ns path =
     (case find (\<lambda>n. path = fst n \<or> starts_with (fst n @ ''/'') path) ns of
        None \<Rightarrow> None
      | Some n \<Rightarrow> Some (snd n, if path = fst n then ''/'' else drop (length (fst n)) path))"

text \<open>\<open>MethodNotAllowed\<close> has the text of the \<open>Allow\<close> header; a route for GET also answers HEAD.\<close>

datatype outcome = Found target | InDir string string | MethodNotAllowed string | NotFound

definition allow_header :: "(string \<times> target) list \<Rightarrow> string" where
  "allow_header ms = join '','' (concat (map (\<lambda>m. if fst m = ''GET'' then [''GET'', ''HEAD''] else [fst m]) ms))"

definition by_method :: "(string \<times> target) list \<Rightarrow> string \<Rightarrow> outcome" where
  "by_method ms meth =
     (case map_of ms (if meth = ''HEAD'' then ''GET'' else meth) of
        None \<Rightarrow> MethodNotAllowed (allow_header ms)
      | Some t \<Rightarrow> Found t)"

definition dispatch :: "server \<Rightarrow> string \<Rightarrow> string \<Rightarrow> outcome" where
  "dispatch sv meth path =
     (case find_route (sv_routes sv) path of
        Some r \<Rightarrow> by_method (snd r) meth
      | None \<Rightarrow>
          (case find_nest (sv_nests sv) path of
             Some (dir, rest) \<Rightarrow> InDir dir rest
           | None \<Rightarrow> NotFound))"


section \<open>Answering a request\<close>

definition redirect_response :: "string \<Rightarrow> response" where
  "redirect_response to = \<lparr> rp_status = 303, rp_hdr = [''location'' \<mapsto> to], rp_body = [] \<rparr>"

definition status_response :: "nat \<Rightarrow> response" where
  "status_response st = \<lparr> rp_status = st, rp_hdr = (\<lambda>_. None), rp_body = [] \<rparr>"

text \<open>The body of an answer to HEAD is dropped after the handler has run; the model keeps it.\<close>

definition serve ::
  "server \<Rightarrow> (string \<Rightarrow> request \<Rightarrow> 's \<Rightarrow> response \<times> 's) \<Rightarrow> (string \<Rightarrow> string \<Rightarrow> request \<Rightarrow> response)
     \<Rightarrow> request \<Rightarrow> 's \<Rightarrow> response \<times> 's" where
  "serve sv handlers files req s =
     (case dispatch sv (rq_method req) (rq_path req) of
        Found (Handler h) \<Rightarrow> handlers h req s
      | Found (Redirect to) \<Rightarrow> (redirect_response to, s)
      | Found (Plain body) \<Rightarrow> (error_response 200 body, s)
      | InDir dir rest \<Rightarrow> (files dir rest req, s)
      | MethodNotAllowed allow \<Rightarrow> ((status_response 405)\<lparr>rp_hdr := [''allow'' \<mapsto> allow]\<rparr>, s)
      | NotFound \<Rightarrow> (status_response 404, s))"

text \<open>The layer that is added last is the outermost: the guard, the limit, the headers, the routes.\<close>

definition app ::
  "ctx \<Rightarrow> server \<Rightarrow> (string \<Rightarrow> request \<Rightarrow> 's \<Rightarrow> response \<times> 's) \<Rightarrow> (string \<Rightarrow> string \<Rightarrow> request \<Rightarrow> response)
     \<Rightarrow> request \<Rightarrow> rate_store \<times> 's \<Rightarrow> response \<times> rate_store \<times> 's" where
  "app C sv handlers files =
     browser_csrf_guard (base_url (cfg C))
       (basic_rate_limit (trust_proxy_headers (cfg C)) (now C) (security_headers (serve sv handlers files)))"

end
