(* ===== verification/ServerProperties.thy ===== *)
theory ServerProperties
  imports Server MiddlewareProperties UploadProperties
begin

text \<open>
  What the routes and the layers give together: which requests reach a handler, that the routes do
  not conflict, and that the transcoded files are served without any check.
\<close>

section \<open>The routes\<close>

lemma routes_methods:
  "list_all (\<lambda>r. list_all (\<lambda>m. fst m \<in> {''GET'', ''POST'', ''DELETE''}) (snd r)) (main_routes @ federation_routes)"
  by (simp add: main_routes_def static_routes_def admin_routes_def user_auth_routes_def admin_auth_routes_def
      setup_routes_def upload_routes_def video_routes_def payment_plugin_routes_def users_routes_def
      streaming_routes_def me_routes_def kurs_routes_def wallet_routes_def admin_wallet_routes_def
      affiliate_routes_def creator_block_routes_def chat_routes_def federation_routes_def on_get_def on_post_def
      on_both_def on_delete_def on_page_def)

lemma started:
  assumes "start_http_server C feature is_address = Inr sv"
  shows "set (sv_routes sv) \<subseteq> set (main_routes @ federation_routes)" "sv_nests sv = static_nests (cfg C)"
  using assms by (auto simp: start_http_server_def split: sum.splits option.splits)

lemma find_route_in: "find_route rs path = Some r \<Longrightarrow> r \<in> set rs \<and> route_match (fst r) path"
proof -
  assume a: "find_route rs path = Some r"
  then obtain rest where "sort_key (\<lambda>r. map is_param (segments (fst r))) (filter (\<lambda>r. route_match (fst r) path) rs) = r # rest"
    by (auto simp: find_route_def split: list.splits)
  then have "r \<in> set (sort_key (\<lambda>r. map is_param (segments (fst r))) (filter (\<lambda>r. route_match (fst r) path) rs))" by simp
  then show ?thesis by simp
qed

lemma dispatch_method:
  assumes "set (sv_routes sv) \<subseteq> set (main_routes @ federation_routes)" "dispatch sv meth path = Found t"
  shows "meth \<in> {''GET'', ''HEAD'', ''POST'', ''DELETE''}"
proof -
  from assms(2) obtain r where r: "find_route (sv_routes sv) path = Some r" and m: "by_method (snd r) meth = Found t"
    by (auto simp: dispatch_def split: option.splits)
  from find_route_in [OF r] assms(1) have "r \<in> set (main_routes @ federation_routes)" by blast
  with routes_methods have ms: "list_all (\<lambda>m. fst m \<in> {''GET'', ''POST'', ''DELETE''}) (snd r)"
    unfolding list_all_iff by blast
  from m obtain k where k: "map_of (snd r) k = Some t" "k = (if meth = ''HEAD'' then ''GET'' else meth)"
    by (auto simp: by_method_def split: option.splits)
  from map_of_SomeD [OF k(1)] ms have "k \<in> {''GET'', ''POST'', ''DELETE''}" unfolding list_all_iff by force
  with k(2) show ?thesis by (auto split: if_splits)
qed


text \<open>
  The router panics at the start of the server when two patterns conflict: when they are the same, or
  have parameters of different names at the first place where they differ.
\<close>

fun clash :: "string list \<Rightarrow> string list \<Rightarrow> bool" where
  "clash [] [] = True"
| "clash (p # ps) (q # qs) = (if p = q then clash ps qs else is_param p \<and> is_param q)"
| "clash _ _ = False"

fun conflict_free :: "string list list \<Rightarrow> bool" where
  "conflict_free [] = True"
| "conflict_free (p # ps) = ((\<forall>q\<in>set ps. \<not> clash p q) \<and> conflict_free ps)"

theorem routes_conflict_free:
  "conflict_free (map (\<lambda>r. segments (fst r)) (main_routes @ federation_routes))"
  by code_simp

text \<open>The handlers of a password reset have no route, and the bootstrap of the first administrator has one
  for GET only, which the limiter does not count.\<close>

definition only_get :: "string \<Rightarrow> route \<Rightarrow> bool" where
  "only_get h r = list_all (\<lambda>m. snd m = Handler h \<longrightarrow> fst m = ''GET'') (snd r)"

definition answers :: "string \<Rightarrow> route \<Rightarrow> bool" where
  "answers h r = list_ex (\<lambda>m. snd m = Handler h) (snd r)"

lemma dispatch_target:
  assumes "start_http_server C feature is_address = Inr sv" "dispatch sv meth path = Found t"
  shows "\<exists>r\<in>set (main_routes @ federation_routes). (if meth = ''HEAD'' then ''GET'' else meth, t) \<in> set (snd r)"
proof -
  from assms(2) obtain r where r: "find_route (sv_routes sv) path = Some r" and m: "by_method (snd r) meth = Found t"
    by (auto simp: dispatch_def split: option.splits)
  from find_route_in [OF r] started(1) [OF assms(1)] have "r \<in> set (main_routes @ federation_routes)" by blast
  moreover have "map_of (snd r) (if meth = ''HEAD'' then ''GET'' else meth) = Some t"
    using m unfolding by_method_def by (auto simp del: split_paired_All split: option.splits)
  ultimately show ?thesis using map_of_SomeD by fast
qed

theorem reset_has_no_route:
  assumes "start_http_server C feature is_address = Inr sv"
  shows "dispatch sv meth path \<noteq> Found (Handler ''post_forgot'') \<and> dispatch sv meth path \<noteq> Found (Handler ''post_reset'')"
proof -
  have "list_all (\<lambda>r. \<not> answers ''post_forgot'' r \<and> \<not> answers ''post_reset'' r) (main_routes @ federation_routes)"
    by code_simp
  then show ?thesis using dispatch_target [OF assms] by (force simp: list_all_iff answers_def list_ex_iff)
qed

theorem setup_not_limited:
  assumes "start_http_server C feature is_address = Inr sv" "dispatch sv meth path = Found (Handler ''setup_admin'')"
  shows "\<not> should_rate_limit path meth"
proof -
  have "list_all (only_get ''setup_admin'') (main_routes @ federation_routes)" by code_simp
  with dispatch_target [OF assms] have "(if meth = ''HEAD'' then ''GET'' else meth) = ''GET''"
    by (force simp: list_all_iff only_get_def)
  then show ?thesis by (auto simp: should_rate_limit_def split: if_splits)
qed


section \<open>The layers\<close>

lemma serve_state:
  assumes "snd (serve sv handlers files req s) \<noteq> s"
  shows "\<exists>h. dispatch sv (rq_method req) (rq_path req) = Found (Handler h)
    \<and> snd (serve sv handlers files req s) = snd (handlers h req s)"
  using assms by (auto simp: serve_def split: outcome.splits target.splits)

lemma headers_state [simp]: "snd (security_headers next req s) = snd (next req s)"
  by (simp add: security_headers_def Let_def split: prod.splits)

lemma headers_set:
  "rp_hdr (fst (security_headers next req s)) ''x-frame-options'' = Some ''DENY''
   \<and> rp_hdr (fst (security_headers next req s)) ''x-content-type-options'' = Some ''nosniff''"
  by (simp add: security_headers_def Let_def split: prod.splits)

definition limit_key :: "ctx \<Rightarrow> request \<Rightarrow> string" where
  "limit_key C req = rq_path req @ '':'' @ client_fingerprint req (trust_proxy_headers (cfg C))"

lemma limit_cases:
  "(\<exists>store'. basic_rate_limit trust t next req (store, s) = (error_response 429 ''too many requests, please retry later'', store', s))
   \<or> (\<exists>store'. basic_rate_limit trust t next req (store, s) = (fst (next req s), store', snd (next req s))
        \<and> (should_rate_limit (rq_path req) (rq_method req) \<longrightarrow>
             fst (attempt t (store (rq_path req @ '':'' @ client_fingerprint req trust)))))"
  by (auto simp: basic_rate_limit_def Let_def split: prod.splits)

lemma app_cases:
  obtains (foreign) "app C sv handlers files req (store, s)
      = (error_response 403 ''cross-origin state-changing request blocked'', store, s)"
  | (limited) store' where "app C sv handlers files req (store, s)
      = (error_response 429 ''too many requests, please retry later'', store', s)"
  | (served) store' where "app C sv handlers files req (store, s)
      = (fst (security_headers (serve sv handlers files) req s), store', snd (serve sv handlers files req s))"
    and "should_enforce_same_origin req \<longrightarrow> (\<exists>name\<in>{''origin'', ''referer''}. \<exists>v.
       header_str req name = Some v \<and> same_origin v (base_url (cfg C)))"
    and "should_rate_limit (rq_path req) (rq_method req) \<longrightarrow> fst (attempt (now C) (store (limit_key C req)))"
proof -
  let ?next = "basic_rate_limit (trust_proxy_headers (cfg C)) (now C) (security_headers (serve sv handlers files))"
  show thesis
  proof (cases "should_enforce_same_origin req \<longrightarrow> (\<exists>name\<in>{''origin'', ''referer''}. \<exists>v.
       header_str req name = Some v \<and> same_origin v (base_url (cfg C)))")
    case True
    then have a: "app C sv handlers files req (store, s) = ?next req (store, s)"
      by (auto simp: app_def browser_csrf_guard_def Let_def)
    from limit_cases [of "trust_proxy_headers (cfg C)" "now C" "security_headers (serve sv handlers files)" req store s]
    show thesis using a True limited served unfolding limit_key_def headers_state by metis
  next
    case False
    then have "app C sv handlers files req (store, s)
        = (error_response 403 ''cross-origin state-changing request blocked'', store, s)"
      by (auto simp: app_def browser_csrf_guard_def Let_def split: option.splits)
    then show thesis by (rule foreign)
  qed
qed


section \<open>Static files\<close>

definition apart :: "string \<Rightarrow> route \<Rightarrow> bool" where
  "apart seg r = (case segments (fst r) of _ # p # _ \<Rightarrow> \<not> seg_match p seg | _ \<Rightarrow> True)"

lemma static_apart: "list_all (apart ''static_hls'') (main_routes @ federation_routes)"
  by code_simp

lemma split_on_front: "d \<notin> set xs \<Longrightarrow> split_on d (xs @ d # ys) = xs # split_on d ys"
  by (induction xs) (auto split: list.splits)

lemma static_segments: "segments (''/static_hls/'' @ rest) = [] # ''static_hls'' # split_on (CHR ''/'') rest"
  using split_on_front [of "CHR ''/''" "''static_hls''" rest] by (simp add: segments_def)

lemma static_dispatch:
  assumes "start_http_server C feature is_address = Inr sv"
  shows "dispatch sv meth (''/static_hls/'' @ rest) = InDir (media_dir (cfg C)) (''/'' @ rest)"
proof -
  have "\<not> route_match (fst r) (''/static_hls/'' @ rest)" if r: "r \<in> set (sv_routes sv)" for r
  proof
    assume "route_match (fst r) (''/static_hls/'' @ rest)"
    then have m: "list_all2 seg_match (segments (fst r)) ([] # ''static_hls'' # split_on (CHR ''/'') rest)"
      by (unfold route_match_def static_segments)
    then obtain a b rs where "segments (fst r) = a # b # rs" "seg_match b ''static_hls''"
      by (auto simp: list_all2_Cons2)
    then have "\<not> apart ''static_hls'' r" by (simp add: apart_def)
    moreover have "r \<in> set (main_routes @ federation_routes)" using started(1) [OF assms] r by blast
    ultimately show False using static_apart unfolding list_all_iff by blast
  qed
  then have "filter (\<lambda>r. route_match (fst r) (''/static_hls/'' @ rest)) (sv_routes sv) = []"
    by (simp add: filter_empty_conv)
  then have "find_route (sv_routes sv) (''/static_hls/'' @ rest) = None" by (simp add: find_route_def)
  moreover have "find_nest (sv_nests sv) (''/static_hls/'' @ rest) = Some (media_dir (cfg C), ''/'' @ rest)"
    by (simp add: started(2) [OF assms] static_nests_def find_nest_def starts_with_def)
  ultimately show ?thesis by (simp add: dispatch_def)
qed

lemma get_app:
  assumes "rq_method req = ''GET''"
  shows "app C sv handlers files req (store, s)
    = (fst (security_headers (serve sv handlers files) req s), store, snd (serve sv handlers files req s))"
  using assms by (simp add: app_def browser_csrf_guard_def basic_rate_limit_def should_enforce_same_origin_def
      should_rate_limit_def headers_state split: prod.splits) (metis fst_conv headers_state snd_conv)


section \<open>Properties\<close>

text \<open>C27. Whatever the request, the state of the program changes only through the handler of the route
  that the method and path select.  When the request has a session cookie, is not a GET or HEAD and is
  not under \<open>/api/pay/\<close>, its \<open>Origin\<close> or \<open>Referer\<close> names the configured host; on a limited route it
  was admitted by the limiter; and the answer forbids framing.
\<close>

theorem handler_guarded:
  assumes "start_http_server C feature is_address = Inr sv" "after_scheme (normalize_origin (base_url (cfg C))) \<noteq> []"
    and "app C sv handlers files req (store, s) = (resp, store', s')" "s' \<noteq> s"
  shows "\<exists>h. dispatch sv (rq_method req) (rq_path req) = Found (Handler h) \<and> s' = snd (handlers h req s)
    \<and> (has_session_cookie req \<and> rq_method req \<notin> {''GET'', ''HEAD''} \<and> \<not> starts_with ''/api/pay/'' (rq_path req) \<longrightarrow>
        (\<exists>name\<in>{''origin'', ''referer''}. \<exists>v. header_str req name = Some v
           \<and> origin_host (normalize_origin v) = origin_host (normalize_origin (base_url (cfg C)))))
    \<and> (should_rate_limit (rq_path req) (rq_method req) \<longrightarrow> fst (attempt (now C) (store (limit_key C req))))
    \<and> rp_hdr resp ''x-frame-options'' = Some ''DENY''"
proof (cases rule: app_cases [of C sv handlers files req store s])
  case (served st)
  with assms(3,4) have s': "s' = snd (serve sv handlers files req s)" "snd (serve sv handlers files req s) \<noteq> s"
    and r: "resp = fst (security_headers (serve sv handlers files) req s)" by auto
  from serve_state [OF s'(2)] obtain h where h: "dispatch sv (rq_method req) (rq_path req) = Found (Handler h)"
    "s' = snd (handlers h req s)" unfolding s'(1) by blast
  have "rq_method req \<in> {''GET'', ''HEAD'', ''POST'', ''DELETE''}"
    by (rule dispatch_method [OF started(1) [OF assms(1)] h(1)])
  then have "has_session_cookie req \<and> rq_method req \<notin> {''GET'', ''HEAD''} \<and> \<not> starts_with ''/api/pay/'' (rq_path req)
      \<longrightarrow> should_enforce_same_origin req" by (auto simp: should_enforce_same_origin_def)
  moreover have "should_enforce_same_origin req \<longrightarrow> (\<exists>name\<in>{''origin'', ''referer''}. \<exists>v. header_str req name = Some v
      \<and> origin_host (normalize_origin v) = origin_host (normalize_origin (base_url (cfg C))))"
    using served(2) same_origin_host [OF _ assms(2)] by meson
  moreover have "rp_hdr resp ''x-frame-options'' = Some ''DENY''" unfolding r by (rule headers_set [THEN conjunct1])
  ultimately show ?thesis using h served(3) by (intro exI [of _ h] conjI) simp_all
qed (use assms in auto)

definition demo_server :: server where
  "demo_server = \<lparr> sv_routes = main_routes, sv_nests = static_nests (cfg alice), sv_delivery = False, sv_watcher = None \<rparr>"

lemma demo_server: "start_http_server alice False (\<lambda>_. False) = Inr demo_server"
  by (simp add: start_http_server_def demo_server_def fed_router_def fed_validate_def fed_from_env_def parse_bool_def
      parse_bool_env_def watcher_of_def alice_def as_session_def demo_ctx_def Let_def)

definition deposit_request :: request where
  "deposit_request = \<lparr> rq_method = ''POST'', rq_path = ''/api/wallet/deposit'',
     rq_hdr = [''cookie'' \<mapsto> ''ppv_session=x'', ''origin'' \<mapsto> base_url (cfg alice)] \<rparr>"

definition demo_handlers :: "string \<Rightarrow> request \<Rightarrow> string \<Rightarrow> response \<times> string" where
  "demo_handlers h req s = (error_response 200 h, h)"

definition demo_files :: "string \<Rightarrow> string \<Rightarrow> request \<Rightarrow> response" where
  "demo_files dir rest req = error_response 200 (dir @ rest)"

theorem handler_guarded_witness:
  "\<exists>h. dispatch demo_server ''POST'' ''/api/wallet/deposit'' = Found (Handler h) \<and> ''wallet_deposit'' = h"
proof -
  have d: "dispatch demo_server ''POST'' ''/api/wallet/deposit'' = Found (Handler ''wallet_deposit'')"
    unfolding demo_server_def by code_simp
  have h: "after_scheme (normalize_origin (base_url (cfg alice))) \<noteq> []" unfolding alice_config by code_simp
  have n: "snd (snd (app alice demo_server demo_handlers demo_files deposit_request (\<lambda>_. [], []))) = ''wallet_deposit''"
    by code_simp
  obtain resp st where a: "app alice demo_server demo_handlers demo_files deposit_request (\<lambda>_. [], []) = (resp, st, ''wallet_deposit'')"
    using n by (metis prod.collapse)
  from handler_guarded [OF demo_server h a] show ?thesis
    by (auto simp: deposit_request_def demo_handlers_def)
qed

text \<open>C28. The route \<open>/static_hls\<close> serves the directory into which the worker writes the transcoded files: once a
  job has succeeded, a GET of \<open>/static_hls/\<close>, the video's id and \<open>/master.m3u8\<close> is answered with the file
  that the row of the video records as its master playlist, whoever asks and without any session.
\<close>

theorem static_hls_open:
  assumes "start_http_server C feature is_address = Inr sv" "fault C = (\<lambda>_. None)" "ho_mkdir H (tmp_dir (cfg C)) = None"
    and "find_video vid d = Some v"
    and "process_job C H B pl ls out \<lparr> jb_video = vid, jb_input = inp, jb_out = video_hls_dir (cfg C) vid \<rparr> d = (Inr (), ops, ps, d')"
    and "rq_method req = ''GET''" "rq_path req = ''/static_hls/'' @ vid @ ''/master.m3u8''"
  shows "(\<exists>v'. find_video vid d' = Some v'
        \<and> v_hls_master v' = Some (path_push (path_push (media_dir (cfg C)) vid) ''master.m3u8''))
    \<and> (\<exists>h. app C sv handlers files req (store, s)
        = ((files (media_dir (cfg C)) (''/'' @ vid @ ''/master.m3u8'') req)\<lparr>rp_hdr := h\<rparr>, store, s))"
proof
  have "job_state \<lparr> jb_video = vid, jb_input = inp, jb_out = video_hls_dir (cfg C) vid \<rparr> v (Inr ()) d'"
    using process_job_state [OF assms(2,3) _ assms(5)] assms(4) by simp
  then show "\<exists>v'. find_video vid d' = Some v'
      \<and> v_hls_master v' = Some (path_push (path_push (media_dir (cfg C)) vid) ''master.m3u8'')"
    by (auto simp: job_state_def video_hls_dir_def)
  have "serve sv handlers files req s = (files (media_dir (cfg C)) (''/'' @ vid @ ''/master.m3u8'') req, s)"
    using static_dispatch [OF assms(1), of "''GET''" "vid @ ''/master.m3u8''"] assms(6,7) by (simp add: serve_def)
  then show "\<exists>h. app C sv handlers files req (store, s)
      = ((files (media_dir (cfg C)) (''/'' @ vid @ ''/master.m3u8'') req)\<lparr>rp_hdr := h\<rparr>, store, s)"
    unfolding get_app [OF assms(6)] by (auto simp: security_headers_def Let_def)
qed

definition playlist_request :: request where
  "playlist_request = \<lparr> rq_method = ''GET'', rq_path = ''/static_hls/v1/master.m3u8'', rq_hdr = (\<lambda>_. None) \<rparr>"

theorem static_hls_open_witness:
  "\<exists>h. app alice demo_server demo_handlers demo_files playlist_request (\<lambda>_. [], [])
     = ((demo_files (media_dir (cfg alice)) ''/v1/master.m3u8'' playlist_request)\<lparr>rp_hdr := h\<rparr>, \<lambda>_. [], [])"
proof -
  define r where "r = process_job alice demo_host demo_store demo_local (\<lambda>_. None) None
     \<lparr> jb_video = ''v1'', jb_input = ''up/v1.mp4'', jb_out = video_hls_dir (cfg alice) ''v1'' \<rparr> demo_db"
  have "isl (fst (process_job alice demo_host demo_store demo_local (\<lambda>_. None) None
     \<lparr> jb_video = ''v1'', jb_input = ''up/v1.mp4'', jb_out = video_hls_dir (cfg alice) ''v1'' \<rparr> demo_db)) = False" by code_simp
  then have "fst r = Inr ()" unfolding r_def by (cases "fst r") (auto simp: r_def)
  then have r: "process_job alice demo_host demo_store demo_local (\<lambda>_. None) None
     \<lparr> jb_video = ''v1'', jb_input = ''up/v1.mp4'', jb_out = video_hls_dir (cfg alice) ''v1'' \<rparr> demo_db
     = (Inr (), fst (snd r), fst (snd (snd r)), snd (snd (snd r)))" unfolding r_def by (metis prod.collapse)
  have v: "find_video ''v1'' demo_db = Some (demo_video ''v1'' ''u2'' 1000)" using demo_v1 by (simp add: upload_job_def)
  have "ho_mkdir demo_host (tmp_dir (cfg alice)) = None" by (simp add: demo_host_def)
  from static_hls_open [OF demo_server alice_config(3) this v r, of playlist_request demo_handlers demo_files "\<lambda>_. []" "[]"]
  show ?thesis by (simp add: playlist_request_def)
qed

end
