(* ===== verification/Spec2Isabelle.thy ===== *)
theory Spec2Isabelle
  imports WalletProperties SessionProperties AccessProperties AffiliateProperties MiddlewareProperties
    X402Properties FiatProperties FedDeliveryProperties FedProperties RevenueProperties MediaProperties AuthProperties
    MigrationProperties UploadProperties AdminProperties ServerProperties
begin

text \<open>
  A verification library for ppv_stream, a pay-per-view video platform written in Rust: axum handlers
  over a PostgreSQL database, with background workers for transcoding, for the delivery of federation
  messages and for the migration of files.  The sources are under \<open>src/src\<close>, the schema under \<open>src/sql\<close>
  and \<open>src/migrations\<close>.

  \<^bold>\<open>The program.\<close>  A creator uploads a video (\<open>handlers/upload.rs\<close>), the worker turns it into HLS files
  (\<open>worker.rs\<close>, \<open>ffmpeg.rs\<close>) and copies them to an object store (\<open>plugins/storage\<close>).  A viewer pays for it
  from a wallet (\<open>handlers/wallet.rs\<close>), on a chain (\<open>handlers/pay.rs\<close>, \<open>services/x402_watcher.rs\<close>) or through
  a provider (\<open>plugins/payment\<close>, \<open>handlers/payment_plugins.rs\<close>); part of the price goes to an affiliate
  (\<open>commission.rs\<close>) and to a referring instance of the federation (\<open>federation/revenue.rs\<close>).  Access is
  decided by \<open>user_has_view_access\<close> (\<open>handlers/video.rs\<close>) and playback runs in a session of its own
  (\<open>handlers/stream.rs\<close>).  Users log in with a signed cookie (\<open>sessions.rs\<close>, \<open>handlers/auth_user.rs\<close>), chat
  (\<open>handlers/chat.rs\<close>), and administrators approve deposits and payouts and keep the settings
  (\<open>handlers/admin.rs\<close>).  Other servers follow the creators over ActivityPub (\<open>federation/\<close>).  \<open>main.rs\<close> puts
  the routes together behind the layers of \<open>middleware.rs\<close>.

  \<^bold>\<open>How the code is modelled.\<close>  The database is one record \<open>db\<close> of tables, each the list of its rows
  (\<open>Database\<close>, with the federation's tables in \<open>FedTables\<close> and those of chat, playback, mail and storage in
  \<open>MediaTables\<close>).  A statement is a function on it that ends with a value or with the constraint it
  violates; \<open>run_read\<close>, \<open>run_write\<close> and the transactions \<open>tx_begin\<close> to \<open>tx_commit\<close> execute it under the faults
  the context \<open>ctx\<close> prescribes for the statement's name, so that every error branch of the code is a
  branch of the model and a theorem about any \<open>ctx\<close> holds under any failures.  A handler is a function from
  the context (configuration, cookie, clock, fresh identifiers, environment, faults), the request and the
  database to its answer and the database after it.  Where requests interleave, the handlers are the steps
  of a transition system: the wallet (\<open>WalletSystem\<close>), the limiter (\<open>MiddlewareProperties\<close>) and the migration
  (\<open>mig_step\<close> in \<open>Migration\<close>).  Integers are unbounded \<open>int\<close>s where the database has \<open>BIGINT\<close>, with
  \<open>wrap64\<close>, \<open>mod 2 ^ 128\<close> and the like written out where the code computes at a width: a release build
  wraps.  Strings are lists of bytes; JSON is the datatype \<open>json\<close>.

  \<^bold>\<open>Parameters.\<close>  What is not in the repository is an argument: base64, HMAC and RFC 3339 in \<open>ctx\<close>; the HTTP
  client, digests and float printing in \<open>web\<close>; Keccak, the ABI coder and the RPC node in \<open>evm\<close>; RSA in
  \<open>rsa_kit\<close>; DNS and the remote servers in \<open>fed_net\<close>; Argon2 in \<open>argon\<close>; the SMTP client in \<open>mailer\<close>; the
  files of a playback in \<open>disk\<close>; files, processes and MIME detection of an upload in \<open>host\<close>; the object
  store in \<open>bucket\<close>.  The laws a theorem needs of them are its hypotheses, and each witness instantiates
  them with concrete functions (\<open>Demo\<close>, \<open>FedDemo\<close>).

  \<^bold>\<open>The theories and the code.\<close>
  \<^item> \<open>Prelude\<close>: \<open>i64\<close> arithmetic, the string operations of the standard library, JSON answers, instants,
    tables, and the locale \<open>inv_system\<close> of transition systems with an invariant.
  \<^item> \<open>Config\<close>, \<open>Settings\<close>, \<open>Sessions\<close>: \<open>config.rs\<close>, \<open>payment_settings.rs\<close>, \<open>sessions.rs\<close>.
  \<^item> \<open>Ledger\<close>: what the wallet promises, the invariant \<open>books\<close>; its locale \<open>account_store\<close> is the
    interface to the balances, interpreted on the table of users.
  \<^item> \<open>Commission\<close>, \<open>Wallet\<close>, \<open>AdminWallet\<close>: \<open>commission.rs\<close>, \<open>handlers/wallet.rs\<close>, the ledger part of
    \<open>handlers/admin.rs\<close>.
  \<^item> \<open>Access\<close>, \<open>Affiliate\<close>: \<open>creator_block.rs\<close>, \<open>handlers/creator_block.rs\<close>, \<open>handlers/video.rs\<close>,
    \<open>handlers/affiliate.rs\<close>.
  \<^item> \<open>X402\<close>, \<open>Plugins\<close>, \<open>FiatPayments\<close>: \<open>handlers/pay.rs\<close>, \<open>plugins/payment\<close>, \<open>handlers/payment_plugins.rs\<close>
    and \<open>services/x402_watcher.rs\<close>.  The locale \<open>payment_provider\<close> (\<open>FiatProperties\<close>) is the contract
    of a provider towards the webhook, interpreted on all five.
  \<^item> \<open>FedSignatures\<close>, \<open>FedModeration\<close>, \<open>FedResolver\<close>, \<open>FedActivities\<close>, \<open>FedInbound\<close>, \<open>FedDelivery\<close>, \<open>FedRevenue\<close>,
    \<open>FedServer\<close>: the files of \<open>federation/\<close>.
  \<^item> \<open>Chat\<close>, \<open>Streaming\<close>, \<open>Mail\<close>, \<open>Auth\<close>: \<open>handlers/chat.rs\<close>, \<open>handlers/stream.rs\<close>, \<open>email.rs\<close>, and registration,
    login, reset, setup and profiles (\<open>handlers/auth_user.rs\<close>, \<open>auth_admin.rs\<close>, \<open>setup.rs\<close>, \<open>users.rs\<close>, \<open>me.rs\<close>).
  \<^item> \<open>Storage\<close>, \<open>Upload\<close>, \<open>Migration\<close>, \<open>AdminPanel\<close>: \<open>storage_settings.rs\<close> and \<open>plugins/storage\<close>; \<open>handlers/upload.rs\<close>,
    \<open>worker.rs\<close>, \<open>ffmpeg.rs\<close>, \<open>hls.rs\<close>, \<open>handlers/kurs.rs\<close>; the storage handlers and the migration task of
    \<open>handlers/admin.rs\<close>; its remaining pages.  The locale \<open>storage_backend\<close> is what the callers rely on of
    a remote backend, interpreted on the S3 plugin.
  \<^item> \<open>Middleware\<close>, \<open>Server\<close>: \<open>middleware.rs\<close>; \<open>main.rs\<close> with the federation's route table.
\<close>

text \<open>
  \<^bold>\<open>What the theorems show.\<close>
  \<^item> Money: in every reachable state, under any failures and interleavings, the balances are the sums of
    the ledger and none is negative; transfers, purchases, approvals and commissions do what they say or
    nothing; and the places where the code falls short of it (\<open>complete_reject_race\<close>, \<open>double_charge\<close>).
  \<^item> Identity: a cookie identifies its user until it expires and nobody else can make one; a session needs
    the password, a reset its unused token; the pages of the administrators do nothing for anybody else.
  \<^item> Access: \<open>user_has_view_access\<close> decides the access policy; playback starts and segments are delivered only
    accordingly, while the static route serves the transcoded files to anyone (\<open>static_hls_open\<close>).
  \<^item> Payments: the amount asked for on a chain is the price rounded up; a webhook needs the provider's proof,
    and repeating it changes nothing.
  \<^item> Federation: signatures round-trip, an inbox takes only signed activities of hosts that are not blocked,
    every delivery is settled within a number of runs, and the shares refine a specification that is a
    finite map.
  \<^item> Files: what an accepted upload was checked for, what a refused one leaves behind, how a transcoding job
    ends; one migration at a time, counters that add up, and a completed migration that missed no file.
  \<^item> Requests: the limiter against its specification and its bound; a handler runs only behind the guards.

  The handlers' contracts are proved once as \<open>post\<close> lemmas (every branch of the handler satisfies a
  relation between the databases, by the rules in \<open>post_rules\<close>), and the properties follow from them.

  \<^bold>\<open>Bounds and fuel.\<close>  No definition has fuel.  Loops are structural recursions (over the parts of a form, the
  chunks of a file, the jobs of a queue, the observations of the wait for a playlist) or have a measure
  (\<open>walk\<close>: the number of entries still to list; \<open>strip_all\<close>: the length of the text).  An upload to the object
  store is tried at most three times (\<open>STORAGE_MIGRATION_MAX_ATTEMPTS\<close>).  The loops that never end are
  modelled by one round: the delivery worker by \<open>process_due_jobs\<close> (\<open>worker_runs\<close> iterates it as often as a
  theorem says is enough), the expiry of playbacks by \<open>cleanup_expired_sessions\<close>, the queue of the
  transcoder by the list of the jobs it has received.

  \<^bold>\<open>Not modelled.\<close>  Log lines; the SQL text itself (the statements are translated to functions on the tables);
  the connection pool (\<open>db.rs\<close>) and the socket, which are I/O; the seeding tool \<open>bin/seed_dummy.rs\<close>; the files no module declares (\<open>token.rs\<close>, \<open>auth.rs\<close>,
  \<open>bootstrap.rs\<close>, \<open>handlers/pages.rs\<close>, \<open>handlers/password.rs\<close>); the Solidity contract and the HTML pages; the
  unit tests.  The tasks that a handler spawns for a copy to the object store or for an inbound activity run
  right after it, and the jobs of the transcoder one after the other.
\<close>

end
